(* ===== verification/Prelude.thy ===== *)
theory Prelude
  imports Main "HOL-Library.Word" "HOL-Library.AList"
begin

text \<open>
  Shared vocabulary of the StateSpectre development: the fixed-width integer types of the C++
  sources, the lookup tables that stand for \<^verbatim>\<open>std::unordered_map\<close>, the loop over a run of
  consecutive slots, and the word lemmas the components use.
\<close>

unbundle bit_operations_syntax

section \<open>Machine integers\<close>

type_synonym u8 = "8 word"
type_synonym u16 = "16 word"
type_synonym u32 = "32 word"
type_synonym u64 = "64 word"
type_synonym bytes = "u8 list"

abbreviation none32 :: u32 where
  "none32 \<equiv> 0xFFFFFFFF"

named_theorems table_simps \<open>lookup laws of the tables\<close>
named_theorems run_simps \<open>effect of a loop over consecutive slots\<close>
named_theorems handler_defs \<open>definitions of handlers and their helpers\<close>

lemma unat_less_u32 [simp]: "unat (w :: u32) < 4294967296"
  using unsigned_less [of w, where ?'a = nat] by simp

lemma unat_less_u64 [simp]: "unat (w :: u64) < 18446744073709551616"
  using unsigned_less [of w, where ?'a = nat] by simp

lemma unat_mask_and: "unat (w AND mask n :: 'a::len word) = unat w mod 2 ^ n"
  by (metis take_bit_eq_mask take_bit_eq_mod unsigned_take_bit_eq)

lemma unat_ucast_32_64 [simp]: "unat (ucast (w :: u32) :: u64) = unat w"
proof -
  have "unat w < 2 ^ 64" by (rule less_trans [OF unat_less_u32]) simp
  then show ?thesis by (simp add: unsigned_ucast_eq take_bit_nat_eq_self)
qed

lemma unat_succ_word:
  "unat (w :: 'a::len word) + 1 < 2 ^ LENGTH('a) \<Longrightarrow> unat (w + 1) = unat w + 1"
  by (simp add: unat_word_ariths)

lemma unat_add_of_nat:
  "unat (w :: 'a::len word) + k < 2 ^ LENGTH('a) \<Longrightarrow> unat (w + of_nat k) = unat w + k"
  by (simp add: unat_word_ariths unat_of_nat mod_add_right_eq)

lemma unat_add_of_nat_mod:
  "unat (w + of_nat k :: 'a::len word) = (unat w + k) mod 2 ^ LENGTH('a)"
  by (simp add: unat_word_ariths unat_of_nat mod_add_right_eq)

section \<open>Tables\<close>

text \<open>
  An \<^verbatim>\<open>std::unordered_map\<close> is an association list with distinct keys. Its order stands for the
  container's iteration order, which the standard leaves open: every statement about a table
  holds for any order of its entries.
\<close>

type_synonym ('k, 'v) table = "('k \<times> 'v) list"

definition t_find :: "('k, 'v) table \<Rightarrow> 'k \<Rightarrow> 'v option" where
  "t_find t k = map_of t k"

definition t_put :: "'k \<Rightarrow> 'v \<Rightarrow> ('k, 'v) table \<Rightarrow> ('k, 'v) table" where
  "t_put k v t = AList.update k v t"

definition t_erase :: "'k \<Rightarrow> ('k, 'v) table \<Rightarrow> ('k, 'v) table" where
  "t_erase k t = AList.delete k t"

definition t_ok :: "('k, 'v) table \<Rightarrow> bool" where
  "t_ok t \<longleftrightarrow> distinct (map fst t)"

text \<open>Writing through a pointer into the container: nothing happens when the key is absent.\<close>

definition t_modify :: "'k \<Rightarrow> ('v \<Rightarrow> 'v) \<Rightarrow> ('k, 'v) table \<Rightarrow> ('k, 'v) table" where
  "t_modify k f t = (case t_find t k of None \<Rightarrow> t | Some v \<Rightarrow> t_put k (f v) t)"

text \<open>The laws the daemon relies on, for any implementation of a table.\<close>

locale dictionary =
  fixes find :: "'t \<Rightarrow> 'k \<Rightarrow> 'v option"
    and put :: "'k \<Rightarrow> 'v \<Rightarrow> 't \<Rightarrow> 't"
    and erase :: "'k \<Rightarrow> 't \<Rightarrow> 't"
    and ok :: "'t \<Rightarrow> bool"
  assumes find_put: "find (put k v t) k' = (if k' = k then Some v else find t k')"
    and find_erase: "find (erase k t) k' = (if k' = k then None else find t k')"
    and ok_put: "ok t \<Longrightarrow> ok (put k v t)"
    and ok_erase: "ok t \<Longrightarrow> ok (erase k t)"
begin

text \<open>The erase loops of crash recovery and garbage collection.\<close>

lemma find_erase_all:
  "find (fold erase ks t) k = (if k \<in> set ks then None else find t k)"
  by (induction ks arbitrary: t) (auto simp: find_erase)

lemma ok_erase_all: "ok t \<Longrightarrow> ok (fold erase ks t)"
  by (induction ks arbitrary: t) (auto simp: ok_erase)

lemma find_put_other: "k' \<noteq> k \<Longrightarrow> find (put k v t) k' = find t k'"
  by (simp add: find_put)

lemma find_put_same: "find (put k v t) k = Some v"
  by (simp add: find_put)

end

interpretation tab: dictionary t_find t_put t_erase t_ok
  by unfold_locales
    (auto simp: t_find_def t_put_def t_erase_def t_ok_def update_conv' delete_conv'
      distinct_update distinct_delete)

declare tab.find_put [simp, table_simps] tab.find_erase [simp, table_simps]
declare tab.ok_put [simp, intro] tab.ok_erase [simp, intro]
declare tab.find_erase_all [simp, table_simps] tab.ok_erase_all [simp, intro]

lemma t_find_modify [simp, table_simps]:
  "t_find (t_modify k f t) k' = (if k' = k then map_option f (t_find t k) else t_find t k')"
  by (auto simp: t_modify_def split: option.splits)

lemma t_ok_modify [simp, intro]: "t_ok t \<Longrightarrow> t_ok (t_modify k f t)"
  by (simp add: t_modify_def split: option.split)

lemma t_find_Nil [simp, table_simps]: "t_find [] k = None"
  by (simp add: t_find_def)

lemma t_ok_Nil [simp, intro]: "t_ok []"
  by (simp add: t_ok_def)

lemma t_find_in_set: "t_find t k = Some v \<Longrightarrow> (k, v) \<in> set t"
  by (simp add: t_find_def map_of_SomeD)

lemma t_in_set_find: "t_ok t \<Longrightarrow> (k, v) \<in> set t \<Longrightarrow> t_find t k = Some v"
  by (simp add: t_find_def t_ok_def)

lemma t_find_iff: "t_ok t \<Longrightarrow> t_find t k = Some v \<longleftrightarrow> (k, v) \<in> set t"
  using t_find_in_set t_in_set_find by metis

section \<open>Loops over a run of slots\<close>

text \<open>
  \<^verbatim>\<open>for (uint32_t k = 0; k < count; ++k) { T& e = xs[base + k]; ... }\<close>. The index is computed in
  32 bits. An index past the end is undefined behaviour in the source and leaves the list alone
  here; the lemmas carry the side condition that the run lies inside the list.
\<close>

definition for_run :: "u32 \<Rightarrow> u32 \<Rightarrow> (nat \<Rightarrow> 'a \<Rightarrow> 'a) \<Rightarrow> 'a list \<Rightarrow> 'a list" where
  "for_run base count f xs =
     fold (\<lambda>k ys. let i = unat (base + of_nat k) in ys[i := f k (ys ! i)]) [0..<unat count] xs"

definition run_fits :: "u32 \<Rightarrow> u32 \<Rightarrow> 'a list \<Rightarrow> bool" where
  "run_fits base count xs \<longleftrightarrow> unat base + unat count \<le> length xs \<and> length xs < 2 ^ 32"

definition in_run :: "u32 \<Rightarrow> u32 \<Rightarrow> nat \<Rightarrow> bool" where
  "in_run base count i \<longleftrightarrow> unat base \<le> i \<and> i < unat base + unat count"

lemma fold_upd_length:
  "length (fold (\<lambda>k ys. let i = g k in ys[i := f k (ys ! i)]) ks xs) = length xs"
  by (induction ks arbitrary: xs) (auto simp: Let_def)

lemma length_for_run [simp, run_simps]: "length (for_run base count f xs) = length xs"
  unfolding for_run_def by (rule fold_upd_length)

lemma fold_upd_nth:
  "b + n \<le> length xs \<Longrightarrow>
   fold (\<lambda>k ys. ys[b + k := f k (ys ! (b + k))]) [0..<n] xs ! i =
     (if b \<le> i \<and> i < b + n then f (i - b) (xs ! i) else xs ! i)"
proof (induction n arbitrary: i)
  case 0
  then show ?case by auto
next
  case (Suc n)
  let ?ys = "fold (\<lambda>k ys. ys[b + k := f k (ys ! (b + k))]) [0..<n] xs"
  have len: "length ?ys = length xs"
    using fold_upd_length [of "\<lambda>k. b + k" f "[0..<n]" xs] by (simp add: Let_def)
  have IH: "?ys ! j = (if b \<le> j \<and> j < b + n then f (j - b) (xs ! j) else xs ! j)" for j
    using Suc by simp
  show ?case
    using Suc.prems by (auto simp: len IH nth_list_update)
qed

lemma for_run_nth [run_simps]:
  assumes "run_fits base count xs"
  shows "for_run base count f xs ! i =
     (if in_run base count i then f (i - unat base) (xs ! i) else xs ! i)"
proof -
  have "for_run base count f xs =
      fold (\<lambda>k ys. ys[unat base + k := f k (ys ! (unat base + k))]) [0..<unat count] xs"
    unfolding for_run_def Let_def
    by (rule fold_cong) (use assms in \<open>auto simp: run_fits_def unat_add_of_nat\<close>)
  then show ?thesis
    using assms by (simp add: fold_upd_nth in_run_def run_fits_def)
qed

lemma run_fits_length: "length xs = length ys \<Longrightarrow> run_fits b c xs = run_fits b c ys"
  by (simp add: run_fits_def)

lemma run_fits_for_run [simp, run_simps]:
  "run_fits b c (for_run b' c' f xs) = run_fits b c xs"
  by (simp add: run_fits_def)

lemma run_fits_base: "run_fits b c xs \<Longrightarrow> 0 < unat c \<Longrightarrow> unat b < length xs"
  by (simp add: run_fits_def)

lemma in_run_base: "0 < unat c \<Longrightarrow> in_run b c (unat b)"
  by (simp add: in_run_def)

text \<open>The ids a run covers, in address order.\<close>

definition run_ids :: "u32 \<Rightarrow> u32 \<Rightarrow> u32 list" where
  "run_ids base count = map (\<lambda>k. base + of_nat k) [0..<unat count]"

section \<open>Lists\<close>

text \<open>Reading an array element; past the end is undefined behaviour in the source.\<close>

abbreviation at32 :: "'a list \<Rightarrow> u32 \<Rightarrow> 'a" where
  "at32 xs i \<equiv> xs ! unat i"

text \<open>\<^verbatim>\<open>for (x : xs) if (p x) return x;\<close>\<close>

definition first_match :: "('a \<Rightarrow> bool) \<Rightarrow> 'a list \<Rightarrow> 'a option" where
  "first_match p xs = find p xs"

lemma first_match_Some:
  "first_match p xs = Some x \<Longrightarrow> x \<in> set xs \<and> p x"
  by (auto simp: first_match_def find_Some_iff)

lemma first_match_None: "first_match p xs = None \<longleftrightarrow> (\<forall>x \<in> set xs. \<not> p x)"
  by (auto simp: first_match_def find_None_iff)

end
