(* ===== verification/Abi.thy ===== *)
theory Abi
  imports Prelude
begin

text \<open>
  The enumerations of the shared-memory ABI (\<^verbatim>\<open>abi/offload_abi.h\<close>) and of the canonical-object
  extension (\<^verbatim>\<open>abi/offload_canonical_abi.hpp\<close>), with the stable numbers they carry on the wire and
  in the control region. The \<open>_code\<close> functions give the numbers; each is injective, so a number
  that a peer reads identifies one constructor.
\<close>

section \<open>Shared-memory ABI\<close>

datatype slot_state =
    OFLD_SLOT_FREE | OFLD_SLOT_RESERVED_D2H | OFLD_SLOT_D2H_IN_FLIGHT | OFLD_SLOT_PINNED_VALID
  | OFLD_SLOT_DRAIN_IN_FLIGHT | OFLD_SLOT_COLD_VALID | OFLD_SLOT_RESERVED_H2D
  | OFLD_SLOT_READBACK_IN_FLIGHT | OFLD_SLOT_H2D_IN_FLIGHT | OFLD_SLOT_GPU_VALID | OFLD_SLOT_ERROR

fun slot_state_code :: "slot_state \<Rightarrow> u32" where
  "slot_state_code OFLD_SLOT_FREE = 0"
| "slot_state_code OFLD_SLOT_RESERVED_D2H = 1"
| "slot_state_code OFLD_SLOT_D2H_IN_FLIGHT = 2"
| "slot_state_code OFLD_SLOT_PINNED_VALID = 3"
| "slot_state_code OFLD_SLOT_DRAIN_IN_FLIGHT = 4"
| "slot_state_code OFLD_SLOT_COLD_VALID = 5"
| "slot_state_code OFLD_SLOT_RESERVED_H2D = 6"
| "slot_state_code OFLD_SLOT_READBACK_IN_FLIGHT = 7"
| "slot_state_code OFLD_SLOT_H2D_IN_FLIGHT = 8"
| "slot_state_code OFLD_SLOT_GPU_VALID = 9"
| "slot_state_code OFLD_SLOT_ERROR = 255"

datatype location_kind =
    OFLD_LOC_NONE | OFLD_LOC_GPU | OFLD_LOC_PINNED | OFLD_LOC_PAGEABLE | OFLD_LOC_NVME
  | OFLD_LOC_DELETED | OFLD_LOC_ERROR

fun location_kind_code :: "location_kind \<Rightarrow> u32" where
  "location_kind_code OFLD_LOC_NONE = 0"
| "location_kind_code OFLD_LOC_GPU = 1"
| "location_kind_code OFLD_LOC_PINNED = 2"
| "location_kind_code OFLD_LOC_PAGEABLE = 3"
| "location_kind_code OFLD_LOC_NVME = 4"
| "location_kind_code OFLD_LOC_DELETED = 5"
| "location_kind_code OFLD_LOC_ERROR = 255"

definition OFLD_ARENA_DATA_PINNED :: u32 where
  "OFLD_ARENA_DATA_PINNED = 1"

definition OFLD_FLAG_ALLOW_OVERFLOW :: u64 where
  "OFLD_FLAG_ALLOW_OVERFLOW = 1"

definition OFLD_FLAG_ALLOW_REMOTE_NUMA :: u64 where
  "OFLD_FLAG_ALLOW_REMOTE_NUMA = 2"

definition OFLD_FLAG_BORROWABLE :: u64 where
  "OFLD_FLAG_BORROWABLE = 4"

definition OFLD_FLAG_DESTRUCTIVE :: u64 where
  "OFLD_FLAG_DESTRUCTIVE = 8"

text \<open>\<^verbatim>\<open>ofld_slot_entry_t\<close>, without the reserved padding.\<close>

record slot_entry =
  se_state :: slot_state
  se_slot_id :: u32
  se_numa_node :: u32
  se_gpu_preferred :: u32
  se_arena_id :: u64
  se_arena_offset :: u64
  se_capacity :: u64
  se_nbytes :: u64
  se_tensor_id :: u64
  se_version :: u64
  se_lease_id :: u64
  se_owner_rank :: u64
  se_owner_pid :: u64
  se_rank_epoch :: u64
  se_flags :: u64
  se_cold_ref :: u64
  se_checksum :: u64
  se_last_touch_ns :: u64
  se_submit_seq :: u64
  se_complete_seq :: u64

section \<open>Canonical-object ABI\<close>

datatype object_state =
    OBJ_MISSING | OBJ_CREATING | OBJ_VALID_PINNED | OBJ_VALID_PAGEABLE | OBJ_VALID_NVME
  | OBJ_VALID_MULTI_TIER | OBJ_SEALED | OBJ_EXPORT_IN_FLIGHT | OBJ_DELETED | OBJ_ERROR

fun object_state_code :: "object_state \<Rightarrow> u32" where
  "object_state_code OBJ_MISSING = 0"
| "object_state_code OBJ_CREATING = 1"
| "object_state_code OBJ_VALID_PINNED = 2"
| "object_state_code OBJ_VALID_PAGEABLE = 3"
| "object_state_code OBJ_VALID_NVME = 4"
| "object_state_code OBJ_VALID_MULTI_TIER = 5"
| "object_state_code OBJ_SEALED = 6"
| "object_state_code OBJ_EXPORT_IN_FLIGHT = 7"
| "object_state_code OBJ_DELETED = 8"
| "object_state_code OBJ_ERROR = 255"

datatype manifest_state =
    MANIFEST_OPEN | MANIFEST_SEALING | MANIFEST_SEALED | MANIFEST_REVOKED | MANIFEST_ERROR

fun manifest_state_code :: "manifest_state \<Rightarrow> u32" where
  "manifest_state_code MANIFEST_OPEN = 0"
| "manifest_state_code MANIFEST_SEALING = 1"
| "manifest_state_code MANIFEST_SEALED = 2"
| "manifest_state_code MANIFEST_REVOKED = 3"
| "manifest_state_code MANIFEST_ERROR = 255"

definition DEDUP_HASH_VERIFIED :: u32 where
  "DEDUP_HASH_VERIFIED = 2"

definition DEDUP_SAMPLED_HASH :: u32 where
  "DEDUP_SAMPLED_HASH = 3"

datatype attach_action =
    ATTACH_ACTION_ATTACHED_EXISTING | ATTACH_ACTION_NEED_D2H_CREATE
  | ATTACH_ACTION_WAIT_FOR_CREATOR | ATTACH_ACTION_DUPLICATE_CANDIDATE
  | ATTACH_ACTION_REJECTED_STALE_VERSION | ATTACH_ACTION_QUOTA_EXCEEDED | ATTACH_ACTION_ERROR

fun attach_action_code :: "attach_action \<Rightarrow> u32" where
  "attach_action_code ATTACH_ACTION_ATTACHED_EXISTING = 0"
| "attach_action_code ATTACH_ACTION_NEED_D2H_CREATE = 1"
| "attach_action_code ATTACH_ACTION_WAIT_FOR_CREATOR = 2"
| "attach_action_code ATTACH_ACTION_DUPLICATE_CANDIDATE = 3"
| "attach_action_code ATTACH_ACTION_REJECTED_STALE_VERSION = 4"
| "attach_action_code ATTACH_ACTION_QUOTA_EXCEEDED = 5"
| "attach_action_code ATTACH_ACTION_ERROR = 255"

lemma slot_state_code_inj: "slot_state_code a = slot_state_code b \<longleftrightarrow> a = b"
  by (cases a; cases b) auto

lemma location_kind_code_inj: "location_kind_code a = location_kind_code b \<longleftrightarrow> a = b"
  by (cases a; cases b) auto

lemma object_state_code_inj: "object_state_code a = object_state_code b \<longleftrightarrow> a = b"
  by (cases a; cases b) auto

lemma manifest_state_code_inj: "manifest_state_code a = manifest_state_code b \<longleftrightarrow> a = b"
  by (cases a; cases b) auto

lemma attach_action_code_inj: "attach_action_code a = attach_action_code b \<longleftrightarrow> a = b"
  by (cases a; cases b) auto

end
