(* ===== verification/Protocol.thy ===== *)
theory Protocol
  imports Prelude
begin

text \<open>
  The control-plane messages of \<^verbatim>\<open>src/common/protocol.h\<close>: one record per
  struct, in the order of the header, and its default member values (\<open>_init\<close>). Field names carry
  a short prefix of their struct. A signed 32-bit field is a 32-bit word read with \<^const>\<open>sint\<close>.
\<close>

section \<open>Opcodes and event types\<close>

datatype op_code =
    kInvalid | kRegisterRank | kHeartbeat | kRequestOffload | kMarkD2HSubmitted | kMarkD2HComplete
  | kRequestPrefetch | kMarkH2DSubmitted | kMarkH2DComplete | kReleaseLease | kQueryLocation
  | kBatchComplete | kShutdown | kGetStats | kRegisterJob | kRequestCanonicalEvict
  | kCommitCanonicalObject | kSealModelVersion | kGetLatestSealedVersion | kGetManifest
  | kPullTensor | kRequestCanonicalRestore | kReleaseCanonicalRestore | kDropCanonicalVersion
  | kReleaseCanonical

fun op_number :: "op_code \<Rightarrow> u16" where
  "op_number kInvalid = 0"
| "op_number kRegisterRank = 1"
| "op_number kHeartbeat = 2"
| "op_number kRequestOffload = 3"
| "op_number kMarkD2HSubmitted = 4"
| "op_number kMarkD2HComplete = 5"
| "op_number kRequestPrefetch = 6"
| "op_number kMarkH2DSubmitted = 7"
| "op_number kMarkH2DComplete = 8"
| "op_number kReleaseLease = 9"
| "op_number kQueryLocation = 10"
| "op_number kBatchComplete = 11"
| "op_number kShutdown = 12"
| "op_number kGetStats = 13"
| "op_number kRegisterJob = 20"
| "op_number kRequestCanonicalEvict = 21"
| "op_number kCommitCanonicalObject = 22"
| "op_number kSealModelVersion = 23"
| "op_number kGetLatestSealedVersion = 24"
| "op_number kGetManifest = 25"
| "op_number kPullTensor = 26"
| "op_number kRequestCanonicalRestore = 27"
| "op_number kReleaseCanonicalRestore = 28"
| "op_number kDropCanonicalVersion = 29"
| "op_number kReleaseCanonical = 30"

text \<open>\<^verbatim>\<open>static_cast<OpCode>\<close> of the number in a frame; an unlisted number matches no case label.\<close>

definition op_of_number :: "u16 \<Rightarrow> op_code option" where
  "op_of_number n = find (\<lambda>c. op_number c = n)
     [kInvalid, kRegisterRank, kHeartbeat, kRequestOffload, kMarkD2HSubmitted,
      kMarkD2HComplete, kRequestPrefetch, kMarkH2DSubmitted, kMarkH2DComplete, kReleaseLease,
      kQueryLocation, kBatchComplete, kShutdown, kGetStats, kRegisterJob, kRequestCanonicalEvict,
      kCommitCanonicalObject, kSealModelVersion, kGetLatestSealedVersion, kGetManifest, kPullTensor,
      kRequestCanonicalRestore, kReleaseCanonicalRestore, kDropCanonicalVersion, kReleaseCanonical]"

fun op_name :: "op_code \<Rightarrow> string" where
  "op_name kInvalid = ''Invalid''"
| "op_name kRegisterRank = ''RegisterRank''"
| "op_name kHeartbeat = ''Heartbeat''"
| "op_name kRequestOffload = ''RequestOffload''"
| "op_name kMarkD2HSubmitted = ''MarkD2HSubmitted''"
| "op_name kMarkD2HComplete = ''MarkD2HComplete''"
| "op_name kRequestPrefetch = ''RequestPrefetch''"
| "op_name kMarkH2DSubmitted = ''MarkH2DSubmitted''"
| "op_name kMarkH2DComplete = ''MarkH2DComplete''"
| "op_name kReleaseLease = ''ReleaseLease''"
| "op_name kQueryLocation = ''QueryLocation''"
| "op_name kBatchComplete = ''BatchComplete''"
| "op_name kShutdown = ''Shutdown''"
| "op_name kGetStats = ''GetStats''"
| "op_name kRegisterJob = ''RegisterJob''"
| "op_name kRequestCanonicalEvict = ''RequestCanonicalEvict''"
| "op_name kCommitCanonicalObject = ''CommitCanonicalObject''"
| "op_name kSealModelVersion = ''SealModelVersion''"
| "op_name kGetLatestSealedVersion = ''GetLatestSealedVersion''"
| "op_name kGetManifest = ''GetManifest''"
| "op_name kPullTensor = ''PullTensor''"
| "op_name kRequestCanonicalRestore = ''RequestCanonicalRestore''"
| "op_name kReleaseCanonicalRestore = ''ReleaseCanonicalRestore''"
| "op_name kDropCanonicalVersion = ''DropCanonicalVersion''"
| "op_name kReleaseCanonical = ''ReleaseCanonical''"

definition event_kD2HComplete :: u32 where
  "event_kD2HComplete = 1"

definition event_kH2DComplete :: u32 where
  "event_kH2DComplete = 2"

lemma op_of_number_op_number [simp]: "op_of_number (op_number c) = Some c"
  by (cases c) (simp_all add: op_of_number_def)

lemma op_number_inj: "op_number a = op_number b \<longleftrightarrow> a = b"
  by (metis op_of_number_op_number option.inject)

section \<open>Messages of the tiering runtime\<close>

record ArenaFd =
  afd_arena_id :: u64
  afd_numa_node :: u32
  afd_kind :: u32
  afd_size :: u64
  afd_base_offset :: u64
  afd_preferred_gpu :: u32
  afd_flags :: u64
  afd_fd_index :: u32
  afd_registration_granularity :: u32
  afd_allocation_granularity :: u32

definition ArenaFd_init :: ArenaFd where
  "ArenaFd_init = \<lparr>afd_arena_id = 0, afd_numa_node = 0, afd_kind = 0, afd_size = 0,
     afd_base_offset = 0, afd_preferred_gpu = 0, afd_flags = 0, afd_fd_index = 0,
     afd_registration_granularity = 0, afd_allocation_granularity = 0\<rparr>"

record RegisterRankRequest =
  rrq_rank_id :: u32
  rrq_local_rank :: u32
  rrq_world_rank :: u32
  rrq_gpu_id :: u32
  rrq_numa_node :: u32
  rrq_pid :: u64
  rrq_capabilities :: u64

definition RegisterRankRequest_init :: RegisterRankRequest where
  "RegisterRankRequest_init = \<lparr>rrq_rank_id = 0, rrq_local_rank = 0, rrq_world_rank = 0,
     rrq_gpu_id = 0, rrq_numa_node = 0, rrq_pid = 0, rrq_capabilities = 0\<rparr>"

record RegisterRankResponse =
  rrs_ok :: bool
  rrs_message :: string
  rrs_rank_epoch :: u64
  rrs_control_generation :: u64
  rrs_arenas :: "ArenaFd list"
  rrs_control_fd_index :: u32
  rrs_control_size :: u64
  rrs_num_slots :: u32
  rrs_ring_index :: u32

definition RegisterRankResponse_init :: RegisterRankResponse where
  "RegisterRankResponse_init = \<lparr>rrs_ok = False, rrs_message = '''', rrs_rank_epoch = 0,
     rrs_control_generation = 0, rrs_arenas = [], rrs_control_fd_index = 0, rrs_control_size = 0,
     rrs_num_slots = 0, rrs_ring_index = 0xFFFFFFFF\<rparr>"

record HeartbeatRequest =
  hbq_rank_id :: u32
  hbq_rank_epoch :: u64
  hbq_timestamp_ns :: u64

definition HeartbeatRequest_init :: HeartbeatRequest where
  "HeartbeatRequest_init = \<lparr>hbq_rank_id = 0, hbq_rank_epoch = 0,
     hbq_timestamp_ns = 0\<rparr>"

record HeartbeatResponse =
  hbs_ok :: bool
  hbs_message :: string

definition HeartbeatResponse_init :: HeartbeatResponse where
  "HeartbeatResponse_init = \<lparr>hbs_ok = False, hbs_message = ''''\<rparr>"

record RequestOffloadRequest =
  roq_rank_id :: u32
  roq_rank_epoch :: u64
  roq_tensor_id :: u64
  roq_version :: u64
  roq_nbytes :: u64
  roq_gpu_id :: u32
  roq_numa_node :: u32
  roq_alignment :: u32
  roq_priority :: u32
  roq_flags :: u64
  roq_debug_name :: string

definition RequestOffloadRequest_init :: RequestOffloadRequest where
  "RequestOffloadRequest_init = \<lparr>roq_rank_id = 0, roq_rank_epoch = 0, roq_tensor_id = 0,
     roq_version = 0, roq_nbytes = 0, roq_gpu_id = 0, roq_numa_node = 0, roq_alignment = 0,
     roq_priority = 0, roq_flags = 0, roq_debug_name = ''''\<rparr>"

record RequestOffloadResponse =
  ros_ok :: bool
  ros_message :: string
  ros_lease_id :: u64
  ros_slot_id :: u32
  ros_arena_id :: u64
  ros_arena_offset :: u64
  ros_capacity :: u64
  ros_state :: u32
  ros_blocked :: bool

definition RequestOffloadResponse_init :: RequestOffloadResponse where
  "RequestOffloadResponse_init = \<lparr>ros_ok = False, ros_message = '''', ros_lease_id = 0,
     ros_slot_id = 0, ros_arena_id = 0, ros_arena_offset = 0, ros_capacity = 0, ros_state = 0,
     ros_blocked = False\<rparr>"

record MarkD2HSubmittedRequest =
  dsq_rank_id :: u32
  dsq_rank_epoch :: u64
  dsq_lease_id :: u64
  dsq_tensor_id :: u64
  dsq_version :: u64
  dsq_slot_id :: u32
  dsq_submit_seq :: u64
  dsq_timestamp_ns :: u64

definition MarkD2HSubmittedRequest_init :: MarkD2HSubmittedRequest where
  "MarkD2HSubmittedRequest_init = \<lparr>dsq_rank_id = 0, dsq_rank_epoch = 0, dsq_lease_id = 0,
     dsq_tensor_id = 0, dsq_version = 0, dsq_slot_id = 0, dsq_submit_seq = 0,
     dsq_timestamp_ns = 0\<rparr>"

record MarkD2HSubmittedResponse =
  dss_ok :: bool
  dss_message :: string

definition MarkD2HSubmittedResponse_init :: MarkD2HSubmittedResponse where
  "MarkD2HSubmittedResponse_init = \<lparr>dss_ok = False, dss_message = ''''\<rparr>"

record MarkD2HCompleteRequest =
  dcq_rank_id :: u32
  dcq_rank_epoch :: u64
  dcq_lease_id :: u64
  dcq_tensor_id :: u64
  dcq_version :: u64
  dcq_slot_id :: u32
  dcq_complete_seq :: u64
  dcq_timestamp_ns :: u64

definition MarkD2HCompleteRequest_init :: MarkD2HCompleteRequest where
  "MarkD2HCompleteRequest_init = \<lparr>dcq_rank_id = 0, dcq_rank_epoch = 0, dcq_lease_id = 0,
     dcq_tensor_id = 0, dcq_version = 0, dcq_slot_id = 0, dcq_complete_seq = 0,
     dcq_timestamp_ns = 0\<rparr>"

record MarkD2HCompleteResponse =
  dcs_ok :: bool
  dcs_message :: string
  dcs_latest_version :: bool
  dcs_drain_enqueued :: bool

definition MarkD2HCompleteResponse_init :: MarkD2HCompleteResponse where
  "MarkD2HCompleteResponse_init = \<lparr>dcs_ok = False, dcs_message = '''',
     dcs_latest_version = False, dcs_drain_enqueued = False\<rparr>"

record RequestPrefetchRequest =
  pfq_rank_id :: u32
  pfq_rank_epoch :: u64
  pfq_tensor_id :: u64
  pfq_version :: u64
  pfq_nbytes :: u64
  pfq_gpu_id :: u32
  pfq_numa_node :: u32
  pfq_priority :: u32
  pfq_flags :: u64

definition RequestPrefetchRequest_init :: RequestPrefetchRequest where
  "RequestPrefetchRequest_init = \<lparr>pfq_rank_id = 0, pfq_rank_epoch = 0, pfq_tensor_id = 0,
     pfq_version = 0, pfq_nbytes = 0, pfq_gpu_id = 0, pfq_numa_node = 0, pfq_priority = 0,
     pfq_flags = 0\<rparr>"

record RequestPrefetchResponse =
  pfs_ok :: bool
  pfs_message :: string
  pfs_lease_id :: u64
  pfs_slot_id :: u32
  pfs_arena_id :: u64
  pfs_arena_offset :: u64
  pfs_nbytes :: u64
  pfs_state :: u32
  pfs_ready :: bool
  pfs_version :: u64

definition RequestPrefetchResponse_init :: RequestPrefetchResponse where
  "RequestPrefetchResponse_init = \<lparr>pfs_ok = False, pfs_message = '''', pfs_lease_id = 0,
     pfs_slot_id = 0, pfs_arena_id = 0, pfs_arena_offset = 0, pfs_nbytes = 0, pfs_state = 0,
     pfs_ready = False, pfs_version = 0\<rparr>"

record MarkH2DSubmittedRequest =
  hsq_rank_id :: u32
  hsq_rank_epoch :: u64
  hsq_lease_id :: u64
  hsq_tensor_id :: u64
  hsq_version :: u64
  hsq_slot_id :: u32
  hsq_submit_seq :: u64
  hsq_timestamp_ns :: u64

definition MarkH2DSubmittedRequest_init :: MarkH2DSubmittedRequest where
  "MarkH2DSubmittedRequest_init = \<lparr>hsq_rank_id = 0, hsq_rank_epoch = 0, hsq_lease_id = 0,
     hsq_tensor_id = 0, hsq_version = 0, hsq_slot_id = 0, hsq_submit_seq = 0,
     hsq_timestamp_ns = 0\<rparr>"

record MarkH2DSubmittedResponse =
  hss_ok :: bool
  hss_message :: string

definition MarkH2DSubmittedResponse_init :: MarkH2DSubmittedResponse where
  "MarkH2DSubmittedResponse_init = \<lparr>hss_ok = False, hss_message = ''''\<rparr>"

record MarkH2DCompleteRequest =
  hcq_rank_id :: u32
  hcq_rank_epoch :: u64
  hcq_lease_id :: u64
  hcq_tensor_id :: u64
  hcq_version :: u64
  hcq_slot_id :: u32
  hcq_keep_pinned :: bool
  hcq_complete_seq :: u64
  hcq_timestamp_ns :: u64

definition MarkH2DCompleteRequest_init :: MarkH2DCompleteRequest where
  "MarkH2DCompleteRequest_init = \<lparr>hcq_rank_id = 0, hcq_rank_epoch = 0, hcq_lease_id = 0,
     hcq_tensor_id = 0, hcq_version = 0, hcq_slot_id = 0, hcq_keep_pinned = False,
     hcq_complete_seq = 0, hcq_timestamp_ns = 0\<rparr>"

record MarkH2DCompleteResponse =
  hcs_ok :: bool
  hcs_message :: string

definition MarkH2DCompleteResponse_init :: MarkH2DCompleteResponse where
  "MarkH2DCompleteResponse_init = \<lparr>hcs_ok = False, hcs_message = ''''\<rparr>"

record ReleaseLeaseRequest =
  rlq_rank_id :: u32
  rlq_rank_epoch :: u64
  rlq_lease_id :: u64
  rlq_slot_id :: u32
  rlq_reason :: string

definition ReleaseLeaseRequest_init :: ReleaseLeaseRequest where
  "ReleaseLeaseRequest_init = \<lparr>rlq_rank_id = 0, rlq_rank_epoch = 0, rlq_lease_id = 0,
     rlq_slot_id = 0, rlq_reason = ''''\<rparr>"

record ReleaseLeaseResponse =
  rls_ok :: bool
  rls_message :: string

definition ReleaseLeaseResponse_init :: ReleaseLeaseResponse where
  "ReleaseLeaseResponse_init = \<lparr>rls_ok = False, rls_message = ''''\<rparr>"

record LocationQueryRequest =
  lqq_tensor_id :: u64
  lqq_version :: u64

definition LocationQueryRequest_init :: LocationQueryRequest where
  "LocationQueryRequest_init = \<lparr>lqq_tensor_id = 0, lqq_version = 0\<rparr>"

record LocationQueryResponse =
  lqs_ok :: bool
  lqs_message :: string
  lqs_location_kind :: u32
  lqs_slot_id :: u32
  lqs_nbytes :: u64
  lqs_version :: u64

definition LocationQueryResponse_init :: LocationQueryResponse where
  "LocationQueryResponse_init = \<lparr>lqs_ok = False, lqs_message = '''',
     lqs_location_kind = 0, lqs_slot_id = 0, lqs_nbytes = 0, lqs_version = 0\<rparr>"

record BatchCompletion =
  bcn_event_type :: u32
  bcn_lease_id :: u64
  bcn_tensor_id :: u64
  bcn_version :: u64
  bcn_slot_id :: u32
  bcn_seq :: u64
  bcn_timestamp_ns :: u64
  bcn_keep_pinned :: bool

definition BatchCompletion_init :: BatchCompletion where
  "BatchCompletion_init = \<lparr>bcn_event_type = 0, bcn_lease_id = 0, bcn_tensor_id = 0,
     bcn_version = 0, bcn_slot_id = 0, bcn_seq = 0, bcn_timestamp_ns = 0,
     bcn_keep_pinned = False\<rparr>"

record BatchCompleteRequest =
  bcq_rank_id :: u32
  bcq_rank_epoch :: u64
  bcq_completions :: "BatchCompletion list"

definition BatchCompleteRequest_init :: BatchCompleteRequest where
  "BatchCompleteRequest_init = \<lparr>bcq_rank_id = 0, bcq_rank_epoch = 0,
     bcq_completions = []\<rparr>"

record BatchCompleteResponse =
  bcs_ok :: bool
  bcs_message :: string
  bcs_accepted :: u32
  bcs_rejected :: u32

definition BatchCompleteResponse_init :: BatchCompleteResponse where
  "BatchCompleteResponse_init = \<lparr>bcs_ok = False, bcs_message = '''', bcs_accepted = 0,
     bcs_rejected = 0\<rparr>"

record GetStatsRequest =
  gsq_rank_id :: u32

definition GetStatsRequest_init :: GetStatsRequest where
  "GetStatsRequest_init = \<lparr>gsq_rank_id = 0\<rparr>"

record GetStatsResponse =
  gss_ok :: bool
  gss_message :: string
  gss_keys :: "string list"
  gss_values :: "u64 list"

definition GetStatsResponse_init :: GetStatsResponse where
  "GetStatsResponse_init = \<lparr>gss_ok = False, gss_message = '''', gss_keys = [],
     gss_values = []\<rparr>"

record ShutdownRequest =
  sdq_token :: u64

definition ShutdownRequest_init :: ShutdownRequest where
  "ShutdownRequest_init = \<lparr>sdq_token = 0\<rparr>"

record ShutdownResponse =
  sds_ok :: bool
  sds_message :: string

definition ShutdownResponse_init :: ShutdownResponse where
  "ShutdownResponse_init = \<lparr>sds_ok = False, sds_message = ''''\<rparr>"

end
