(* ===== verification/Protocol_V2.thy ===== *)
theory Protocol_V2
  imports Prelude
begin

text \<open>
  The messages of the canonical store, \<^verbatim>\<open>src/common/protocol_v2.h\<close>: one record per struct, in the
  order of the header, and its default member values (\<open>_init\<close>).
\<close>

record JobKeyWire =
  jk_tenant_id :: u64
  jk_job_id :: u64
  jk_launch_epoch :: u64
  jk_job_name :: string

definition JobKeyWire_init :: JobKeyWire where
  "JobKeyWire_init = \<lparr>jk_tenant_id = 0, jk_job_id = 0, jk_launch_epoch = 0,
     jk_job_name = ''''\<rparr>"

record RegisterJobRequest =
  rjq_tenant_id :: u64
  rjq_job_name :: string
  rjq_scheduler_job_id :: u64
  rjq_label_keys :: "string list"
  rjq_label_values :: "string list"

definition RegisterJobRequest_init :: RegisterJobRequest where
  "RegisterJobRequest_init = \<lparr>rjq_tenant_id = 0, rjq_job_name = '''',
     rjq_scheduler_job_id = 0, rjq_label_keys = [], rjq_label_values = []\<rparr>"

record RegisterJobResponse =
  rjs_ok :: bool
  rjs_message :: string
  rjs_job :: JobKeyWire
  rjs_control_generation :: u64

definition RegisterJobResponse_init :: RegisterJobResponse where
  "RegisterJobResponse_init = \<lparr>rjs_ok = False, rjs_message = '''',
     rjs_job = JobKeyWire_init, rjs_control_generation = 0\<rparr>"

record CanonicalTensorKeyWire =
  ck_job :: JobKeyWire
  ck_model_role :: u32
  ck_model_version :: u64
  ck_param_id :: u64
  ck_param_fqn_hash :: u64
  ck_param_fqn_debug :: string
  ck_dtype :: u32
  ck_layout :: u32
  ck_nbytes :: u64
  ck_shape_hash :: u64
  ck_stride_hash :: u64
  ck_pp_rank :: u32
  ck_tp_rank :: u32
  ck_ep_rank :: u32
  ck_etp_rank :: u32
  ck_expert_id :: u32
  ck_shard_offset :: u64
  ck_shard_nbytes :: u64

definition CanonicalTensorKeyWire_init :: CanonicalTensorKeyWire where
  "CanonicalTensorKeyWire_init = \<lparr>ck_job = JobKeyWire_init, ck_model_role = 0,
     ck_model_version = 0, ck_param_id = 0, ck_param_fqn_hash = 0, ck_param_fqn_debug = '''',
     ck_dtype = 0, ck_layout = 0, ck_nbytes = 0, ck_shape_hash = 0, ck_stride_hash = 0,
     ck_pp_rank = 0, ck_tp_rank = 0, ck_ep_rank = 0, ck_etp_rank = 0, ck_expert_id = -1,
     ck_shard_offset = 0, ck_shard_nbytes = 0\<rparr>"

record RequestCanonicalEvictRequest =
  ceq_rank_id :: u32
  ceq_rank_epoch :: u64
  ceq_key :: CanonicalTensorKeyWire
  ceq_local_tensor_id :: u64
  ceq_local_version :: u64
  ceq_destructive :: bool
  ceq_attach_if_exists :: bool
  ceq_create_if_missing :: bool
  ceq_dedup_mode :: u32
  ceq_allow_duplicate_candidate :: bool
  ceq_alignment :: u32
  ceq_priority :: u32
  ceq_gpu_id :: u32
  ceq_numa_node :: u32

definition RequestCanonicalEvictRequest_init :: RequestCanonicalEvictRequest where
  "RequestCanonicalEvictRequest_init = \<lparr>ceq_rank_id = 0, ceq_rank_epoch = 0,
     ceq_key = CanonicalTensorKeyWire_init, ceq_local_tensor_id = 0, ceq_local_version = 0,
     ceq_destructive = True, ceq_attach_if_exists = True, ceq_create_if_missing = True,
     ceq_dedup_mode = 0, ceq_allow_duplicate_candidate = False, ceq_alignment = 0,
     ceq_priority = 0, ceq_gpu_id = 0, ceq_numa_node = 0\<rparr>"

record RequestCanonicalEvictResponse =
  ces_ok :: bool
  ces_message :: string
  ces_action :: u32
  ces_object_id :: u64
  ces_lease_id :: u64
  ces_slot_id :: u32
  ces_arena_id :: u64
  ces_arena_offset :: u64
  ces_capacity :: u64
  ces_synthetic_tid :: u64

definition RequestCanonicalEvictResponse_init :: RequestCanonicalEvictResponse where
  "RequestCanonicalEvictResponse_init = \<lparr>ces_ok = False, ces_message = '''',
     ces_action = 0, ces_object_id = 0, ces_lease_id = 0, ces_slot_id = 0, ces_arena_id = 0,
     ces_arena_offset = 0, ces_capacity = 0, ces_synthetic_tid = 0\<rparr>"

record CommitCanonicalObjectRequest =
  ccq_rank_id :: u32
  ccq_rank_epoch :: u64
  ccq_object_id :: u64
  ccq_lease_id :: u64
  ccq_slot_id :: u32
  ccq_content_hash_lo :: u64
  ccq_content_hash_hi :: u64

definition CommitCanonicalObjectRequest_init :: CommitCanonicalObjectRequest where
  "CommitCanonicalObjectRequest_init = \<lparr>ccq_rank_id = 0, ccq_rank_epoch = 0,
     ccq_object_id = 0, ccq_lease_id = 0, ccq_slot_id = 0, ccq_content_hash_lo = 0,
     ccq_content_hash_hi = 0\<rparr>"

record CommitCanonicalObjectResponse =
  ccs_ok :: bool
  ccs_message :: string
  ccs_object_id :: u64
  ccs_won :: bool

definition CommitCanonicalObjectResponse_init :: CommitCanonicalObjectResponse where
  "CommitCanonicalObjectResponse_init = \<lparr>ccs_ok = False, ccs_message = '''',
     ccs_object_id = 0, ccs_won = True\<rparr>"

record SealModelVersionRequest =
  smq_job :: JobKeyWire
  smq_model_role :: u32
  smq_model_version :: u64
  smq_fail_if_missing :: bool
  smq_expected_param_ids :: "u64 list"
  smq_promote :: bool

definition SealModelVersionRequest_init :: SealModelVersionRequest where
  "SealModelVersionRequest_init = \<lparr>smq_job = JobKeyWire_init, smq_model_role = 0,
     smq_model_version = 0, smq_fail_if_missing = True, smq_expected_param_ids = [],
     smq_promote = False\<rparr>"

record SealModelVersionResponse =
  sms_ok :: bool
  sms_message :: string
  sms_state :: u32
  sms_tensor_count :: u64
  sms_total_nbytes :: u64
  sms_manifest_hash_lo :: u64
  sms_manifest_hash_hi :: u64

definition SealModelVersionResponse_init :: SealModelVersionResponse where
  "SealModelVersionResponse_init = \<lparr>sms_ok = False, sms_message = '''', sms_state = 0,
     sms_tensor_count = 0, sms_total_nbytes = 0, sms_manifest_hash_lo = 0,
     sms_manifest_hash_hi = 0\<rparr>"

record GetLatestSealedVersionRequest =
  glq_job :: JobKeyWire
  glq_model_role :: u32

definition GetLatestSealedVersionRequest_init :: GetLatestSealedVersionRequest where
  "GetLatestSealedVersionRequest_init = \<lparr>glq_job = JobKeyWire_init,
     glq_model_role = 0\<rparr>"

record GetLatestSealedVersionResponse =
  gls_ok :: bool
  gls_message :: string
  gls_found :: bool
  gls_model_version :: u64

definition GetLatestSealedVersionResponse_init :: GetLatestSealedVersionResponse where
  "GetLatestSealedVersionResponse_init = \<lparr>gls_ok = False, gls_message = '''',
     gls_found = False, gls_model_version = 0\<rparr>"

record ManifestFilterWire =
  mfw_pp_present :: bool
  mfw_pp_rank :: u32
  mfw_tp_present :: bool
  mfw_tp_rank :: u32
  mfw_ep_present :: bool
  mfw_ep_rank :: u32
  mfw_etp_present :: bool
  mfw_etp_rank :: u32
  mfw_expert_present :: bool
  mfw_expert_id :: u32

definition ManifestFilterWire_init :: ManifestFilterWire where
  "ManifestFilterWire_init = \<lparr>mfw_pp_present = False, mfw_pp_rank = 0,
     mfw_tp_present = False, mfw_tp_rank = 0, mfw_ep_present = False, mfw_ep_rank = 0,
     mfw_etp_present = False, mfw_etp_rank = 0, mfw_expert_present = False,
     mfw_expert_id = 0\<rparr>"

record GetManifestRequest =
  gmq_job :: JobKeyWire
  gmq_model_role :: u32
  gmq_model_version :: u64
  gmq_filter :: ManifestFilterWire

definition GetManifestRequest_init :: GetManifestRequest where
  "GetManifestRequest_init = \<lparr>gmq_job = JobKeyWire_init, gmq_model_role = 0,
     gmq_model_version = 0, gmq_filter = ManifestFilterWire_init\<rparr>"

record TensorManifestEntryWire =
  tme_key :: CanonicalTensorKeyWire
  tme_object_id :: u64
  tme_nbytes :: u64
  tme_content_hash_lo :: u64
  tme_content_hash_hi :: u64
  tme_location_hint :: string

definition TensorManifestEntryWire_init :: TensorManifestEntryWire where
  "TensorManifestEntryWire_init = \<lparr>tme_key = CanonicalTensorKeyWire_init,
     tme_object_id = 0, tme_nbytes = 0, tme_content_hash_lo = 0, tme_content_hash_hi = 0,
     tme_location_hint = ''''\<rparr>"

record GetManifestResponse =
  gms_ok :: bool
  gms_message :: string
  gms_job :: JobKeyWire
  gms_model_role :: u32
  gms_model_version :: u64
  gms_state :: u32
  gms_tensors :: "TensorManifestEntryWire list"

definition GetManifestResponse_init :: GetManifestResponse where
  "GetManifestResponse_init = \<lparr>gms_ok = False, gms_message = '''',
     gms_job = JobKeyWire_init, gms_model_role = 0, gms_model_version = 0, gms_state = 0,
     gms_tensors = []\<rparr>"

record PullTensorRequest =
  ptq_job :: JobKeyWire
  ptq_model_role :: u32
  ptq_model_version :: u64
  ptq_object_id :: u64
  ptq_transport :: u32
  ptq_target_descriptor :: string

definition PullTensorRequest_init :: PullTensorRequest where
  "PullTensorRequest_init = \<lparr>ptq_job = JobKeyWire_init, ptq_model_role = 0,
     ptq_model_version = 0, ptq_object_id = 0, ptq_transport = 0,
     ptq_target_descriptor = ''''\<rparr>"

record PullTensorResponse =
  pts_ok :: bool
  pts_message :: string
  pts_object_id :: u64
  pts_nbytes :: u64
  pts_transport :: u32
  pts_content_hash_lo :: u64
  pts_content_hash_hi :: u64
  pts_transport_metadata :: string

definition PullTensorResponse_init :: PullTensorResponse where
  "PullTensorResponse_init = \<lparr>pts_ok = False, pts_message = '''', pts_object_id = 0,
     pts_nbytes = 0, pts_transport = 0, pts_content_hash_lo = 0, pts_content_hash_hi = 0,
     pts_transport_metadata = ''''\<rparr>"

record RequestCanonicalRestoreRequest =
  crq_rank_id :: u32
  crq_rank_epoch :: u64
  crq_object_id :: u64
  crq_gpu_id :: u32
  crq_numa_node :: u32

definition RequestCanonicalRestoreRequest_init :: RequestCanonicalRestoreRequest where
  "RequestCanonicalRestoreRequest_init = \<lparr>crq_rank_id = 0, crq_rank_epoch = 0,
     crq_object_id = 0, crq_gpu_id = 0, crq_numa_node = 0\<rparr>"

record RequestCanonicalRestoreResponse =
  crs_ok :: bool
  crs_message :: string
  crs_retriable :: bool
  crs_object_id :: u64
  crs_nbytes :: u64
  crs_arena_id :: u64
  crs_arena_offset :: u64

definition RequestCanonicalRestoreResponse_init :: RequestCanonicalRestoreResponse where
  "RequestCanonicalRestoreResponse_init = \<lparr>crs_ok = False, crs_message = '''',
     crs_retriable = False, crs_object_id = 0, crs_nbytes = 0, crs_arena_id = 0,
     crs_arena_offset = 0\<rparr>"

record ReleaseCanonicalRestoreRequest =
  xrq_rank_id :: u32
  xrq_rank_epoch :: u64
  xrq_object_id :: u64

definition ReleaseCanonicalRestoreRequest_init :: ReleaseCanonicalRestoreRequest where
  "ReleaseCanonicalRestoreRequest_init = \<lparr>xrq_rank_id = 0, xrq_rank_epoch = 0,
     xrq_object_id = 0\<rparr>"

record ReleaseCanonicalRestoreResponse =
  xrs_ok :: bool
  xrs_message :: string

definition ReleaseCanonicalRestoreResponse_init :: ReleaseCanonicalRestoreResponse where
  "ReleaseCanonicalRestoreResponse_init = \<lparr>xrs_ok = False, xrs_message = ''''\<rparr>"

record DropCanonicalVersionRequest =
  dvq_job :: JobKeyWire
  dvq_model_role :: u32
  dvq_model_version :: u64

definition DropCanonicalVersionRequest_init :: DropCanonicalVersionRequest where
  "DropCanonicalVersionRequest_init = \<lparr>dvq_job = JobKeyWire_init, dvq_model_role = 0,
     dvq_model_version = 0\<rparr>"

record DropCanonicalVersionResponse =
  dvs_ok :: bool
  dvs_message :: string
  dvs_dropped_count :: u64
  dvs_skipped_inflight :: u64
  dvs_bytes_freed :: u64

definition DropCanonicalVersionResponse_init :: DropCanonicalVersionResponse where
  "DropCanonicalVersionResponse_init = \<lparr>dvs_ok = False, dvs_message = '''',
     dvs_dropped_count = 0, dvs_skipped_inflight = 0, dvs_bytes_freed = 0\<rparr>"

record ReleaseCanonicalRequest =
  rcq_rank_id :: u32
  rcq_rank_epoch :: u64
  rcq_job :: JobKeyWire
  rcq_model_role :: u32
  rcq_model_version :: u64
  rcq_object_id :: u64

definition ReleaseCanonicalRequest_init :: ReleaseCanonicalRequest where
  "ReleaseCanonicalRequest_init = \<lparr>rcq_rank_id = 0, rcq_rank_epoch = 0,
     rcq_job = JobKeyWire_init, rcq_model_role = 0, rcq_model_version = 0,
     rcq_object_id = 0\<rparr>"

record ReleaseCanonicalResponse =
  rcs_ok :: bool
  rcs_message :: string
  rcs_released_count :: u64
  rcs_freed_count :: u64
  rcs_bytes_freed :: u64

definition ReleaseCanonicalResponse_init :: ReleaseCanonicalResponse where
  "ReleaseCanonicalResponse_init = \<lparr>rcs_ok = False, rcs_message = '''',
     rcs_released_count = 0, rcs_freed_count = 0, rcs_bytes_freed = 0\<rparr>"

end
