(* ===== verification/Completion_Ring.thy ===== *)
theory Completion_Ring
  imports Prelude
begin

text \<open>
  The lock-free completion ring of \<^verbatim>\<open>src/common/completion_ring.h\<close>: one producer (a rank) and one
  consumer (the daemon) over free-running 64-bit indices, with the slot of an index given by the
  capacity mask. The ring is shown to implement a bounded FIFO, across wrap-around of the
  indices, first for whole operations and then for every interleaving of the individual loads
  and stores of \<^verbatim>\<open>ring_push\<close> and \<^verbatim>\<open>ring_pop\<close>.
\<close>

section \<open>The ring\<close>

text \<open>\<^verbatim>\<open>ofld_completion_entry_t\<close> of \<^verbatim>\<open>abi/offload_abi.h\<close>.\<close>

record completion_entry =
  ce_lease_id :: u64
  ce_tensor_id :: u64
  ce_version :: u64
  ce_slot_id :: u32
  ce_event_type :: u32
  ce_timestamp_ns :: u64

text \<open>\<^verbatim>\<open>CompletionRingHeader\<close> together with the entries that follow it in memory.\<close>

record ring =
  rh_capacity :: u32
  rh_owner_rank :: u32
  rh_rank_epoch :: u64
  rh_head :: u64
  rh_tail :: u64
  rh_entries :: "completion_entry list"

abbreviation ring_cacheline :: u64 where
  "ring_cacheline \<equiv> 64"

text \<open>
  \<^verbatim>\<open>sizeof(CompletionRingHeader)\<close> is three cache lines (the two indices are each aligned to their
  own line) and \<^verbatim>\<open>sizeof(ofld_completion_entry_t)\<close> is 40 bytes.
\<close>

definition completion_ring_bytes :: "u32 \<Rightarrow> u64" where
  "completion_ring_bytes capacity =
     (let hdr = 192; ents = ucast capacity * 40; total = hdr + ents
      in (total + ring_cacheline - 1) div ring_cacheline * ring_cacheline)"

definition ring_slot :: "ring \<Rightarrow> u64 \<Rightarrow> nat" where
  "ring_slot h i = unat (i AND ucast (rh_capacity h - 1))"

definition ring_push :: "ring \<Rightarrow> completion_entry \<Rightarrow> bool \<times> ring" where
  "ring_push h e =
     (let tail = rh_tail h; head = rh_head h
      in if tail - head \<ge> ucast (rh_capacity h) then (False, h)
         else (True, h\<lparr>rh_entries := (rh_entries h)[ring_slot h tail := e], rh_tail := tail + 1\<rparr>))"

definition ring_pop :: "ring \<Rightarrow> (completion_entry \<times> ring) option" where
  "ring_pop h =
     (let head = rh_head h; tail = rh_tail h
      in if head = tail then None
         else Some (rh_entries h ! ring_slot h head, h\<lparr>rh_head := head + 1\<rparr>))"

definition ring_pending :: "ring \<Rightarrow> u64" where
  "ring_pending h = rh_tail h - rh_head h"

section \<open>Shape invariant and abstraction\<close>

definition ring_cap :: "ring \<Rightarrow> nat" where
  "ring_cap h = unat (rh_capacity h)"

definition ring_ok :: "ring \<Rightarrow> bool" where
  "ring_ok h \<longleftrightarrow> (\<exists>n. ring_cap h = 2 ^ n) \<and> length (rh_entries h) = ring_cap h \<and>
     unat (ring_pending h) \<le> ring_cap h"

text \<open>The pending entries, oldest first.\<close>

definition ring_abs :: "ring \<Rightarrow> completion_entry list" where
  "ring_abs h = map (\<lambda>k. rh_entries h ! ring_slot h (rh_head h + of_nat k))
     [0..<unat (ring_pending h)]"

lemma ring_cap_cases:
  assumes "ring_ok h"
  obtains n where "n < 32" and "ring_cap h = 2 ^ n" and "rh_capacity h = 2 ^ n"
proof -
  from assms obtain n where n: "ring_cap h = 2 ^ n" by (auto simp: ring_ok_def)
  have "2 ^ n < (2::nat) ^ 32"
    using n unat_less_u32 [of "rh_capacity h"] by (simp add: ring_cap_def)
  then have "n < 32" by (rule power_less_imp_less_exp [rotated]) simp
  have "rh_capacity h = word_of_nat (2 ^ n)"
    using n by (metis ring_cap_def of_nat_unat ucast_id)
  then have "rh_capacity h = 2 ^ n" by simp
  with \<open>n < 32\<close> n show ?thesis using that by blast
qed

lemma ucast_mask_32_64: "n \<le> 32 \<Longrightarrow> (ucast (mask n :: u32) :: u64) = mask n"
  by (rule bit_word_eqI) (auto simp: bit_simps)

lemma ring_slot_mod:
  assumes "ring_ok h"
  shows "ring_slot h i = unat i mod ring_cap h"
proof -
  from ring_cap_cases [OF assms] obtain n
    where n: "n < 32" "ring_cap h = 2 ^ n" "rh_capacity h = 2 ^ n" .
  have "(ucast (rh_capacity h - 1) :: u64) = mask n"
    using n by (simp add: ucast_mask_32_64 flip: mask_eq_exp_minus_1)
  then show ?thesis
    by (simp add: ring_slot_def unat_mask_and n)
qed

lemma ring_cap_dvd:
  assumes "ring_ok h"
  shows "ring_cap h dvd 2 ^ 64"
proof -
  from ring_cap_cases [OF assms] obtain n where "n < 32" "ring_cap h = 2 ^ n" .
  then show ?thesis using le_imp_power_dvd [of n 64 "2::nat"] by (simp only: less_imp_le)
qed

lemma ring_slot_add:
  assumes "ring_ok h"
  shows "ring_slot h (i + of_nat k) = (unat i + k) mod ring_cap h"
  using ring_cap_dvd [OF assms]
  by (simp add: ring_slot_mod [OF assms] unat_add_of_nat_mod mod_mod_cancel)

lemma ring_cap_pos: "ring_ok h \<Longrightarrow> 0 < ring_cap h"
  by (auto simp: ring_ok_def)

text \<open>Slots of different pending positions differ.\<close>

lemma mod_window_inj:
  assumes "(a + i) mod c = (a + j) mod (c::nat)" and "i < c" and "j < c"
  shows "i = j"
proof -
  have *: "i \<le> j \<Longrightarrow> i = j" if "(a + i) mod c = (a + j) mod c" "i < c" "j < c" for i j
  proof -
    assume "i \<le> j"
    with that(1) have "c dvd (a + j) - (a + i)"
      by (metis mod_eq_dvd_iff_nat nat_add_left_cancel_le)
    then have "c dvd j - i" by simp
    with that(3) \<open>i \<le> j\<close> show "i = j"
      by (metis dvd_imp_le less_imp_diff_less not_less zero_less_diff le_neq_implies_less)
  qed
  from *[OF assms] *[OF assms(1) [symmetric] assms(3,2)] show ?thesis by linarith
qed

lemma ring_full_word:
  assumes "ring_ok h"
  shows "rh_tail h - rh_head h \<ge> ucast (rh_capacity h) \<longleftrightarrow> ring_cap h \<le> unat (ring_pending h)"
  by (simp add: word_le_nat_alt ring_cap_def ring_pending_def)

lemma tail_as_offset: "rh_tail h = rh_head h + of_nat (unat (ring_pending h))"
  by (simp add: ring_pending_def)

lemma length_ring_abs: "length (ring_abs h) = unat (ring_pending h)"
  by (simp add: ring_abs_def)

lemma pending_push:
  assumes "ring_ok h" and "unat (ring_pending h) < ring_cap h"
  shows "unat (rh_tail h + 1 - rh_head h) = unat (ring_pending h) + 1"
proof -
  have "ring_cap h < 2 ^ 32" using unat_less_u32 [of "rh_capacity h"] by (simp add: ring_cap_def)
  then have "unat (ring_pending h) + 1 < 2 ^ LENGTH(64)" using assms(2) by simp
  then have "unat (ring_pending h + 1) = unat (ring_pending h) + 1" by (rule unat_succ_word)
  then show ?thesis by (simp add: ring_pending_def algebra_simps)
qed

lemma pending_pop:
  assumes "rh_head h \<noteq> rh_tail h"
  shows "unat (rh_tail h - (rh_head h + 1)) = unat (ring_pending h) - 1"
proof -
  have "ring_pending h \<noteq> 0" using assms by (simp add: ring_pending_def)
  then have "unat (ring_pending h - 1) = unat (ring_pending h) - 1"
    by (simp add: unat_minus_one)
  then show ?thesis by (simp add: ring_pending_def algebra_simps)
qed

text \<open>Writing the entry of the next free index does not disturb the pending ones.\<close>

lemma ring_abs_write:
  assumes ok: "ring_ok h" and room: "unat (ring_pending h) < ring_cap h"
  shows "ring_abs (h\<lparr>rh_entries := (rh_entries h)[ring_slot h (rh_tail h) := e]\<rparr>) = ring_abs h"
proof -
  have ne: "ring_slot h (rh_head h + of_nat k) \<noteq> ring_slot h (rh_tail h)"
    if "k < unat (ring_pending h)" for k
  proof
    assume eq: "ring_slot h (rh_head h + of_nat k) = ring_slot h (rh_tail h)"
    have "(unat (rh_head h) + k) mod ring_cap h =
        (unat (rh_head h) + unat (ring_pending h)) mod ring_cap h"
      using eq by (simp add: tail_as_offset [of h] ring_slot_add [OF ok] del: of_nat_unat)
    then have "k = unat (ring_pending h)"
      by (rule mod_window_inj) (use that room in auto)
    with that show False by simp
  qed
  have slot: "ring_slot (h\<lparr>rh_entries := es\<rparr>) i = ring_slot h i" for es i
    by (simp add: ring_slot_def)
  show ?thesis
    by (auto simp: ring_abs_def slot ring_pending_def dest!: ne [unfolded ring_pending_def])
qed

section \<open>The ring is a bounded FIFO\<close>

text \<open>
  What the two ends of a completion channel rely on: \<open>push\<close> appends or reports a full channel,
  \<open>pop\<close> takes the oldest entry or reports an empty one.
\<close>

locale bounded_fifo =
  fixes push :: "'q \<Rightarrow> 'a \<Rightarrow> bool \<times> 'q"
    and pop :: "'q \<Rightarrow> ('a \<times> 'q) option"
    and items :: "'q \<Rightarrow> 'a list"
    and cap :: "'q \<Rightarrow> nat"
    and ok :: "'q \<Rightarrow> bool"
  assumes push_full: "ok q \<Longrightarrow> cap q \<le> length (items q) \<Longrightarrow> push q x = (False, q)"
    and push_room: "ok q \<Longrightarrow> length (items q) < cap q \<Longrightarrow>
      \<exists>q'. push q x = (True, q') \<and> ok q' \<and> cap q' = cap q \<and> items q' = items q @ [x]"
    and pop_empty: "ok q \<Longrightarrow> items q = [] \<Longrightarrow> pop q = None"
    and pop_item: "ok q \<Longrightarrow> items q = x # xs \<Longrightarrow>
      \<exists>q'. pop q = Some (x, q') \<and> ok q' \<and> cap q' = cap q \<and> items q' = xs"
begin

text \<open>A batch of pushes: the entries accepted are a prefix that fills the free room.\<close>

fun push_all :: "'q \<Rightarrow> 'a list \<Rightarrow> nat \<times> 'q" where
  "push_all q [] = (0, q)"
| "push_all q (x # xs) =
     (case push q x of
        (False, q') \<Rightarrow> (0, q')
      | (True, q') \<Rightarrow> (case push_all q' xs of (n, q'') \<Rightarrow> (Suc n, q'')))"

fun drain :: "nat \<Rightarrow> 'q \<Rightarrow> 'a list \<times> 'q" where
  "drain 0 q = ([], q)"
| "drain (Suc budget) q =
     (case pop q of
        None \<Rightarrow> ([], q)
      | Some (x, q') \<Rightarrow> (case drain budget q' of (xs, q'') \<Rightarrow> (x # xs, q'')))"

lemma push_all_items:
  "ok q \<Longrightarrow> length (items q) + length xs \<le> cap q \<Longrightarrow>
   \<exists>q'. push_all q xs = (length xs, q') \<and> ok q' \<and> cap q' = cap q \<and> items q' = items q @ xs"
proof (induction xs arbitrary: q)
  case Nil
  then show ?case by simp
next
  case (Cons x xs)
  then obtain q1 where q1: "push q x = (True, q1)" "ok q1" "cap q1 = cap q" "items q1 = items q @ [x]"
    using push_room [of q x] by auto
  with Cons.IH [of q1] Cons.prems(2) obtain q2 where
    "push_all q1 xs = (length xs, q2)" "ok q2" "cap q2 = cap q" "items q2 = items q @ x # xs"
    by auto
  with q1 show ?case by auto
qed

lemma drain_items:
  "ok q \<Longrightarrow>
   \<exists>q'. drain budget q = (take budget (items q), q') \<and> ok q' \<and> cap q' = cap q \<and>
     items q' = drop budget (items q)"
proof (induction budget arbitrary: q)
  case 0
  then show ?case by simp
next
  case (Suc budget)
  show ?case
  proof (cases "items q")
    case Nil
    with Suc.prems pop_empty show ?thesis by simp
  next
    case (Cons x xs)
    with pop_item [OF Suc.prems] obtain q1 where
      q1: "pop q = Some (x, q1)" "ok q1" "cap q1 = cap q" "items q1 = xs" by blast
    from Suc.IH [OF q1(2)] q1 Cons show ?thesis by auto
  qed
qed

text \<open>What goes in comes out, in order and once.\<close>

lemma drain_push_all:
  assumes "ok q" and "items q = []" and "length xs \<le> cap q" and "length xs \<le> budget"
  shows "fst (drain budget (snd (push_all q xs))) = xs"
  using push_all_items [OF assms(1), of xs] drain_items [of _ budget] assms by force

end

lemma ring_push_full:
  "ring_ok h \<Longrightarrow> ring_cap h \<le> length (ring_abs h) \<Longrightarrow> ring_push h e = (False, h)"
  by (simp add: ring_push_def ring_full_word length_ring_abs Let_def)

lemma ring_push_room:
  fixes e :: completion_entry
  assumes ok: "ring_ok h" and room: "length (ring_abs h) < ring_cap h"
  defines "h' \<equiv> h\<lparr>rh_entries := (rh_entries h)[ring_slot h (rh_tail h) := e], rh_tail := rh_tail h + 1\<rparr>"
  shows "ring_push h e = (True, h')" and "ring_ok h'" and "ring_cap h' = ring_cap h"
    and "ring_abs h' = ring_abs h @ [e]"
proof -
  let ?w = "h\<lparr>rh_entries := (rh_entries h)[ring_slot h (rh_tail h) := e]\<rparr>"
  have room': "unat (ring_pending h) < ring_cap h" using room by (simp add: length_ring_abs)
  have slot: "ring_slot h' i = ring_slot h i" for i by (simp add: ring_slot_def h'_def)
  have pend: "unat (ring_pending h') = unat (ring_pending h) + 1"
    using pending_push [OF ok room'] by (simp add: ring_pending_def h'_def)
  show "ring_cap h' = ring_cap h" by (simp add: ring_cap_def h'_def)
  then show "ring_ok h'" using ok room' pend by (simp add: ring_ok_def h'_def)
  show "ring_push h e = (True, h')"
    using room' by (auto simp: ring_push_def ring_full_word [OF ok] Let_def h'_def)
  have lt: "ring_slot h (rh_tail h) < length (rh_entries h)"
    using ok ring_cap_pos [OF ok] by (simp add: ring_slot_mod ring_ok_def)
  have "ring_abs h' = ring_abs ?w @ [e]"
    using pend lt
    by (simp add: ring_abs_def slot) (simp add: ring_pending_def h'_def ring_slot_def)
  then show "ring_abs h' = ring_abs h @ [e]"
    using ring_abs_write [OF ok room'] by simp
qed

lemma ring_abs_Cons:
  assumes "ring_abs h = x # xs"
  shows "rh_head h \<noteq> rh_tail h" and "x = rh_entries h ! ring_slot h (rh_head h)"
    and "ring_abs (h\<lparr>rh_head := rh_head h + 1\<rparr>) = xs"
proof -
  let ?n = "unat (ring_pending h)"
  have pos: "0 < ?n" using assms by (metis length_ring_abs length_greater_0_conv list.distinct(1))
  then show ne: "rh_head h \<noteq> rh_tail h" by (auto simp: ring_pending_def)
  have split: "[0..<?n] = 0 # map Suc [0..<?n - 1]"
    using pos by (simp add: upt_conv_Cons map_Suc_upt)
  have "ring_abs h = rh_entries h ! ring_slot h (rh_head h) #
      map (\<lambda>k. rh_entries h ! ring_slot h (rh_head h + 1 + of_nat k)) [0..<?n - 1]"
    unfolding ring_abs_def split by (simp add: algebra_simps)
  with assms show "x = rh_entries h ! ring_slot h (rh_head h)"
    and "ring_abs (h\<lparr>rh_head := rh_head h + 1\<rparr>) = xs"
    using pending_pop [OF ne] by (auto simp: ring_abs_def ring_slot_def ring_pending_def)
qed

lemma ring_pop_item:
  assumes "ring_ok h" and "ring_abs h = x # xs"
  shows "ring_pop h = Some (x, h\<lparr>rh_head := rh_head h + 1\<rparr>)"
    and "ring_ok (h\<lparr>rh_head := rh_head h + 1\<rparr>)"
  using ring_abs_Cons [OF assms(2)] pending_pop [of h] assms(1)
  by (auto simp: ring_pop_def Let_def ring_ok_def ring_cap_def ring_pending_def)

lemma ring_abs_Nil: "ring_abs h = [] \<longleftrightarrow> rh_head h = rh_tail h"
  by (auto simp: ring_abs_def ring_pending_def unat_0_iff)

interpretation rq: bounded_fifo ring_push ring_pop ring_abs ring_cap ring_ok
proof (unfold_locales, goal_cases)
  case (1 q x)
  then show ?case by (rule ring_push_full)
next
  case (2 q x)
  then show ?case using ring_push_room [of q x] by blast
next
  case (3 q)
  then show ?case by (simp add: ring_pop_def ring_abs_Nil)
next
  case (4 q x xs)
  then show ?case
    using ring_pop_item [of q x xs] ring_abs_Cons(3) [of q x xs] by (auto simp: ring_cap_def)
qed

section \<open>Interleaved execution\<close>

text \<open>
  The producer and the consumer run in different processes. Each shared load or store of
  \<^verbatim>\<open>ring_push\<close> and \<^verbatim>\<open>ring_pop\<close> is one step, and the steps of the two sides interleave in any
  order (acquire/release pairs make this sequentially consistent view the one the code relies
  on). \<open>sp_pushed\<close> and \<open>sp_popped\<close> record the entries whose push and pop have returned true.
\<close>

datatype producer_pc =
    PIdle
  | PTail u64 completion_entry        \<comment> \<open>tail loaded\<close>
  | PRoom u64 completion_entry        \<comment> \<open>head loaded, ring not full\<close>
  | PWritten u64 completion_entry     \<comment> \<open>entry stored, tail not yet advanced\<close>

datatype consumer_pc =
    CIdle
  | CHead u64                         \<comment> \<open>head loaded\<close>
  | CReady u64                        \<comment> \<open>tail loaded, ring not empty\<close>
  | CRead u64 completion_entry        \<comment> \<open>entry copied out, head not yet advanced\<close>

record spsc =
  sp_ring :: ring
  sp_prod :: producer_pc
  sp_cons :: consumer_pc
  sp_pushed :: "completion_entry list"
  sp_popped :: "completion_entry list"

inductive spsc_step :: "spsc \<Rightarrow> spsc \<Rightarrow> bool" where
  push_load_tail: "sp_prod s = PIdle \<Longrightarrow>
    spsc_step s (s\<lparr>sp_prod := PTail (rh_tail (sp_ring s)) e\<rparr>)"
| push_full: "sp_prod s = PTail t e \<Longrightarrow>
    t - rh_head (sp_ring s) \<ge> ucast (rh_capacity (sp_ring s)) \<Longrightarrow>
    spsc_step s (s\<lparr>sp_prod := PIdle\<rparr>)"
| push_load_head: "sp_prod s = PTail t e \<Longrightarrow>
    \<not> t - rh_head (sp_ring s) \<ge> ucast (rh_capacity (sp_ring s)) \<Longrightarrow>
    spsc_step s (s\<lparr>sp_prod := PRoom t e\<rparr>)"
| push_store_entry: "sp_prod s = PRoom t e \<Longrightarrow>
    spsc_step s (s\<lparr>sp_prod := PWritten t e, sp_ring := (sp_ring s)\<lparr>rh_entries :=
      (rh_entries (sp_ring s))[ring_slot (sp_ring s) t := e]\<rparr>\<rparr>)"
| push_store_tail: "sp_prod s = PWritten t e \<Longrightarrow>
    spsc_step s (s\<lparr>sp_prod := PIdle, sp_ring := (sp_ring s)\<lparr>rh_tail := t + 1\<rparr>,
      sp_pushed := sp_pushed s @ [e]\<rparr>)"
| pop_load_head: "sp_cons s = CIdle \<Longrightarrow>
    spsc_step s (s\<lparr>sp_cons := CHead (rh_head (sp_ring s))\<rparr>)"
| pop_empty: "sp_cons s = CHead h \<Longrightarrow> h = rh_tail (sp_ring s) \<Longrightarrow>
    spsc_step s (s\<lparr>sp_cons := CIdle\<rparr>)"
| pop_load_tail: "sp_cons s = CHead h \<Longrightarrow> h \<noteq> rh_tail (sp_ring s) \<Longrightarrow>
    spsc_step s (s\<lparr>sp_cons := CReady h\<rparr>)"
| pop_load_entry: "sp_cons s = CReady h \<Longrightarrow>
    spsc_step s (s\<lparr>sp_cons := CRead h (rh_entries (sp_ring s) ! ring_slot (sp_ring s) h)\<rparr>)"
| pop_store_head: "sp_cons s = CRead h e \<Longrightarrow>
    spsc_step s (s\<lparr>sp_cons := CIdle, sp_ring := (sp_ring s)\<lparr>rh_head := h + 1\<rparr>,
      sp_popped := sp_popped s @ [e]\<rparr>)"

inductive spsc_reachable :: "ring \<Rightarrow> spsc \<Rightarrow> bool" for r0 where
  spsc_start: "spsc_reachable r0
    \<lparr>sp_ring = r0, sp_prod = PIdle, sp_cons = CIdle, sp_pushed = ring_abs r0, sp_popped = []\<rparr>"
| spsc_more: "spsc_reachable r0 s \<Longrightarrow> spsc_step s t \<Longrightarrow> spsc_reachable r0 t"

definition prod_ok :: "ring \<Rightarrow> producer_pc \<Rightarrow> bool" where
  "prod_ok r p = (case p of
       PIdle \<Rightarrow> True
     | PTail t e \<Rightarrow> t = rh_tail r
     | PRoom t e \<Rightarrow> t = rh_tail r \<and> length (ring_abs r) < ring_cap r
     | PWritten t e \<Rightarrow> t = rh_tail r \<and> length (ring_abs r) < ring_cap r \<and>
         rh_entries r ! ring_slot r t = e)"

definition cons_ok :: "ring \<Rightarrow> consumer_pc \<Rightarrow> bool" where
  "cons_ok r c = (case c of
       CIdle \<Rightarrow> True
     | CHead h \<Rightarrow> h = rh_head r
     | CReady h \<Rightarrow> h = rh_head r \<and> ring_abs r \<noteq> []
     | CRead h e \<Rightarrow> h = rh_head r \<and> (\<exists>xs. ring_abs r = e # xs))"

definition spsc_inv :: "spsc \<Rightarrow> bool" where
  "spsc_inv s \<longleftrightarrow> ring_ok (sp_ring s) \<and> prod_ok (sp_ring s) (sp_prod s) \<and>
     cons_ok (sp_ring s) (sp_cons s) \<and> sp_popped s @ ring_abs (sp_ring s) = sp_pushed s"

lemma ring_slot_entries [simp]: "ring_slot (r\<lparr>rh_entries := es\<rparr>) i = ring_slot r i"
  and ring_slot_head [simp]: "ring_slot (r\<lparr>rh_head := h\<rparr>) i = ring_slot r i"
  and ring_slot_tail [simp]: "ring_slot (r\<lparr>rh_tail := t\<rparr>) i = ring_slot r i"
  and ring_cap_entries [simp]: "ring_cap (r\<lparr>rh_entries := es\<rparr>) = ring_cap r"
  and ring_cap_head [simp]: "ring_cap (r\<lparr>rh_head := h\<rparr>) = ring_cap r"
  and ring_cap_tail [simp]: "ring_cap (r\<lparr>rh_tail := t\<rparr>) = ring_cap r"
  by (simp_all add: ring_slot_def ring_cap_def)

text \<open>The three stores, each on a ring in the state its program counter promises.\<close>

lemma store_entry_effect:
  fixes e :: completion_entry
  assumes "ring_ok r" and "length (ring_abs r) < ring_cap r"
  defines "r' \<equiv> r\<lparr>rh_entries := (rh_entries r)[ring_slot r (rh_tail r) := e]\<rparr>"
  shows "ring_ok r'" and "ring_abs r' = ring_abs r" and "rh_entries r' ! ring_slot r (rh_tail r) = e"
proof -
  show "ring_abs r' = ring_abs r"
    using ring_abs_write assms by (simp add: length_ring_abs r'_def)
  show "ring_ok r'" using assms by (simp add: ring_ok_def r'_def ring_pending_def)
  show "rh_entries r' ! ring_slot r (rh_tail r) = e"
    using assms ring_cap_pos [OF assms(1)] by (simp add: r'_def ring_slot_mod ring_ok_def)
qed

lemma store_tail_effect:
  assumes ok: "ring_ok r" and room: "length (ring_abs r) < ring_cap r"
    and ent: "rh_entries r ! ring_slot r (rh_tail r) = e"
  shows "ring_ok (r\<lparr>rh_tail := rh_tail r + 1\<rparr>)"
    and "ring_abs (r\<lparr>rh_tail := rh_tail r + 1\<rparr>) = ring_abs r @ [e]"
proof -
  have same: "r\<lparr>rh_entries := (rh_entries r)[ring_slot r (rh_tail r) := e]\<rparr> = r"
    using ent by (metis (full_types) list_update_id ring.surjective ring.update_convs(6))
  have "r\<lparr>rh_entries := (rh_entries r)[ring_slot r (rh_tail r) := e], rh_tail := rh_tail r + 1\<rparr>
      = r\<lparr>rh_tail := rh_tail r + 1\<rparr>"
    by (simp only: same)
  with ring_push_room [OF ok room, of e]
  show "ring_ok (r\<lparr>rh_tail := rh_tail r + 1\<rparr>)"
    and "ring_abs (r\<lparr>rh_tail := rh_tail r + 1\<rparr>) = ring_abs r @ [e]" by simp_all
qed

lemma spsc_step_inv: "spsc_step s t \<Longrightarrow> spsc_inv s \<Longrightarrow> spsc_inv t"
proof (induction rule: spsc_step.induct)
  case (push_load_head s t e)
  then show ?case
    by (auto simp: spsc_inv_def prod_ok_def ring_full_word length_ring_abs)
next
  case (push_store_entry s t e)
  let ?r = "sp_ring s"
  from push_store_entry have t: "t = rh_tail ?r" "length (ring_abs ?r) < ring_cap ?r" "ring_ok ?r"
    by (auto simp: spsc_inv_def prod_ok_def)
  note eff = store_entry_effect [OF t(3,2), of e]
  from push_store_entry.prems show ?case
    using eff t by (auto simp: spsc_inv_def prod_ok_def cons_ok_def split: consumer_pc.splits)
next
  case (push_store_tail s t e)
  let ?r = "sp_ring s"
  from push_store_tail have t: "t = rh_tail ?r" "length (ring_abs ?r) < ring_cap ?r" "ring_ok ?r"
    "rh_entries ?r ! ring_slot ?r (rh_tail ?r) = e"
    by (auto simp: spsc_inv_def prod_ok_def)
  note eff = store_tail_effect [OF t(3,2,4)]
  from push_store_tail.prems show ?case
    using eff t by (auto simp: spsc_inv_def prod_ok_def cons_ok_def split: consumer_pc.splits)
next
  case (pop_load_tail s h)
  then show ?case
    by (auto simp: spsc_inv_def cons_ok_def ring_abs_Nil)
next
  case (pop_load_entry s h)
  then obtain x xs where x: "ring_abs (sp_ring s) = x # xs" "h = rh_head (sp_ring s)"
    by (auto simp: spsc_inv_def cons_ok_def neq_Nil_conv)
  from pop_load_entry.prems show ?case
    using x ring_abs_Cons(2) [OF x(1)] by (simp add: spsc_inv_def cons_ok_def)
next
  case (pop_store_head s h e)
  then obtain xs where x: "ring_abs (sp_ring s) = e # xs" "h = rh_head (sp_ring s)" "ring_ok (sp_ring s)"
    by (auto simp: spsc_inv_def cons_ok_def)
  from pop_store_head.prems show ?case
    using x ring_abs_Cons(3) [OF x(1)] ring_pop_item(2) [OF x(3,1)]
    by (auto simp: spsc_inv_def cons_ok_def prod_ok_def split: producer_pc.splits)
qed (auto simp: spsc_inv_def prod_ok_def cons_ok_def)

lemma spsc_reachable_inv: "spsc_reachable r0 s \<Longrightarrow> ring_ok r0 \<Longrightarrow> spsc_inv s"
  by (induction rule: spsc_reachable.induct)
    (auto simp: spsc_inv_def [of "\<lparr>sp_ring = _, sp_prod = _, sp_cons = _, sp_pushed = _, sp_popped = _\<rparr>"]
      prod_ok_def cons_ok_def dest: spsc_step_inv)

section \<open>Properties\<close>


text \<open>
  C10. Under every interleaving of the producer's and the consumer's individual loads and stores,
  the entries popped so far followed by the entries pending are exactly the entries pushed, in
  push order: nothing is lost, duplicated, reordered or read before it is complete, and the ring
  never holds more than its capacity.
\<close>

theorem spsc_fifo:
  assumes "ring_ok r0" and "spsc_reachable r0 s"
  shows "sp_pushed s = sp_popped s @ ring_abs (sp_ring s) \<and>
         length (ring_abs (sp_ring s)) \<le> ring_cap (sp_ring s)"
  using spsc_reachable_inv [OF assms(2,1)]
  by (simp add: spsc_inv_def ring_ok_def length_ring_abs)

definition sample_ring :: "u64 \<Rightarrow> ring" where
  "sample_ring i = \<lparr>rh_capacity = 2, rh_owner_rank = 7, rh_rank_epoch = 1, rh_head = i, rh_tail = i,
     rh_entries = replicate 2 \<lparr>ce_lease_id = 0, ce_tensor_id = 0, ce_version = 0, ce_slot_id = 0,
       ce_event_type = 0, ce_timestamp_ns = 0\<rparr>\<rparr>"

definition sample_entry :: completion_entry where
  "sample_entry = \<lparr>ce_lease_id = 5, ce_tensor_id = 6, ce_version = 1, ce_slot_id = 3,
     ce_event_type = 1, ce_timestamp_ns = 9\<rparr>"

lemma sample_ring_ok: "ring_ok (sample_ring i)"
  by (auto simp: ring_ok_def sample_ring_def ring_cap_def ring_pending_def intro: exI [of _ 1])


theorem spsc_fifo_witness:
  "\<exists>s. spsc_reachable (sample_ring (-1)) s \<and> sp_pushed s = [sample_entry] \<and>
       sp_popped s @ ring_abs (sp_ring s) = [sample_entry]"
proof -
  let ?r = "sample_ring (-1)"
  let ?w = "?r\<lparr>rh_entries := (rh_entries ?r)[ring_slot ?r (-1) := sample_entry]\<rparr>"
  have abs: "ring_abs ?r = []" by (simp add: ring_abs_Nil sample_ring_def)
  let ?s0 = "\<lparr>sp_ring = ?r, sp_prod = PIdle, sp_cons = CIdle, sp_pushed = [], sp_popped = []\<rparr>"
  have 0: "spsc_reachable ?r ?s0" using spsc_start [of ?r] by (simp add: abs)
  have 1: "spsc_reachable ?r (?s0\<lparr>sp_prod := PTail (-1) sample_entry\<rparr>)"
    using spsc_more [OF 0 push_load_tail [of ?s0 sample_entry]] by (simp add: sample_ring_def)
  have 2: "spsc_reachable ?r (?s0\<lparr>sp_prod := PRoom (-1) sample_entry\<rparr>)"
    using spsc_more [OF 1 push_load_head] by (simp add: sample_ring_def)
  have 3: "spsc_reachable ?r (?s0\<lparr>sp_prod := PWritten (-1) sample_entry, sp_ring := ?w\<rparr>)"
    using spsc_more [OF 2 push_store_entry] by simp
  have 4: "spsc_reachable ?r (?s0\<lparr>sp_ring := ?w\<lparr>rh_tail := 0\<rparr>, sp_pushed := [sample_entry]\<rparr>)"
    using spsc_more [OF 3 push_store_tail] by simp
  show ?thesis
    using spsc_fifo [OF sample_ring_ok 4] 4 by (intro exI conjI) auto
qed

end
