(* ===== verification/Wire_Format.thy ===== *)
theory Wire_Format
  imports Protocol
begin

text \<open>
  The byte-level format of \<^verbatim>\<open>src/common/wire.h\<close> and the framing of \<^verbatim>\<open>src/common/wire.cpp\<close>: the
  primitive writer and reader, the vector loops of the codecs, the frame header, and the contract
  \<open>codec\<close> that every message of the protocol is shown to satisfy.

  A write is \<^typ>\<open>bytes option\<close>: \<^const>\<open>None\<close> is a thrown \<^verbatim>\<open>WireError\<close>. A read consumes a prefix of
  the buffer and returns the value with the bytes that remain; \<^const>\<open>None\<close> is a thrown
  \<^verbatim>\<open>WireError\<close>.
\<close>

section \<open>Little-endian integers\<close>

fun le_bytes :: "nat \<Rightarrow> 'a::len word \<Rightarrow> bytes" where
  "le_bytes 0 v = []"
| "le_bytes (Suc n) v = ucast v # le_bytes n (drop_bit 8 v)"

fun le_word :: "bytes \<Rightarrow> 'a::len word" where
  "le_word [] = 0"
| "le_word (b # bs) = ucast b OR push_bit 8 (le_word bs)"

lemma length_le_bytes [simp]: "length (le_bytes n v) = n"
  by (induction n arbitrary: v) auto

lemma le_word_le_bytes: "le_word (le_bytes n v) = take_bit (8 * n) (v :: 'a::len word)"
proof (induction n arbitrary: v)
  case 0
  then show ?case by simp
next
  case (Suc n)
  have "ucast (ucast v :: u8) OR push_bit 8 (take_bit (8 * n) (drop_bit 8 v)) = take_bit (8 + 8 * n) v"
    by (rule bit_word_eqI) (auto simp: bit_simps)
  with Suc show ?case by simp
qed

lemma le_word_le_bytes_all [simp]:
  "LENGTH('a) \<le> 8 * n \<Longrightarrow> le_word (le_bytes n v) = (v :: 'a::len word)"
  by (simp add: le_word_le_bytes take_bit_word_eq_self)

section \<open>The writer\<close>

type_synonym wfield = "bytes option"

definition w_u8 :: "u8 \<Rightarrow> wfield" where
  "w_u8 v = Some [v]"

definition w_b :: "bool \<Rightarrow> wfield" where
  "w_b v = Some [if v then 1 else 0]"

definition w_u16 :: "u16 \<Rightarrow> wfield" where
  "w_u16 v = Some (le_bytes 2 v)"

definition w_u32 :: "u32 \<Rightarrow> wfield" where
  "w_u32 v = Some (le_bytes 4 v)"

definition w_u64 :: "u64 \<Rightarrow> wfield" where
  "w_u64 v = Some (le_bytes 8 v)"

definition chars_bytes :: "string \<Rightarrow> bytes" where
  "chars_bytes s = map of_char s"

definition bytes_chars :: "bytes \<Rightarrow> string" where
  "bytes_chars bs = map (\<lambda>b. char_of (unat b)) bs"

definition str_bytes :: "string \<Rightarrow> bytes" where
  "str_bytes s = le_bytes 4 (of_nat (length s) :: u32) @ chars_bytes s"

definition w_str :: "string \<Rightarrow> wfield" where
  "w_str s = (if 0xFFFFFFFF < length s then None else Some (str_bytes s))"

text \<open>A sequence of writes to one buffer: the first exception aborts the message.\<close>

definition w_cat :: "wfield list \<Rightarrow> wfield" where
  "w_cat fs = map_option concat (those fs)"

text \<open>\<^verbatim>\<open>w.u32(static_cast<uint32_t>(v.size())); for (const auto& x : v) put(w, x);\<close>\<close>

definition w_vec :: "('a \<Rightarrow> wfield) \<Rightarrow> 'a list \<Rightarrow> wfield" where
  "w_vec put xs = w_cat (w_u32 (of_nat (length xs)) # map put xs)"

section \<open>The reader\<close>

type_synonym 'a reader = "bytes \<Rightarrow> ('a \<times> bytes) option"

definition r_return :: "'a \<Rightarrow> 'a reader" where
  "r_return v bs = Some (v, bs)"

definition r_bind :: "'a reader \<Rightarrow> ('a \<Rightarrow> 'b reader) \<Rightarrow> 'b reader" where
  "r_bind r f bs = (case r bs of None \<Rightarrow> None | Some (v, bs') \<Rightarrow> f v bs')"

text \<open>\<^verbatim>\<open>need(n)\<close> followed by taking \<open>n\<close> bytes.\<close>

definition r_take :: "nat \<Rightarrow> bytes reader" where
  "r_take n bs = (if length bs < n then None else Some (take n bs, drop n bs))"

definition r_u8 :: "u8 reader" where
  "r_u8 bs = (case bs of [] \<Rightarrow> None | b # bs' \<Rightarrow> Some (b, bs'))"

definition r_b :: "bool reader" where
  "r_b = r_bind r_u8 (\<lambda>v. r_return (v \<noteq> 0))"

definition r_u16 :: "u16 reader" where
  "r_u16 = r_bind (r_take 2) (\<lambda>v. r_return (le_word v))"

definition r_u32 :: "u32 reader" where
  "r_u32 = r_bind (r_take 4) (\<lambda>v. r_return (le_word v))"

definition r_u64 :: "u64 reader" where
  "r_u64 = r_bind (r_take 8) (\<lambda>v. r_return (le_word v))"

definition r_str :: "string reader" where
  "r_str = r_bind r_u32 (\<lambda>n. r_bind (r_take (unat n)) (\<lambda>v. r_return (bytes_chars v)))"

fun r_times :: "nat \<Rightarrow> 'a reader \<Rightarrow> 'a list reader" where
  "r_times 0 r = r_return []"
| "r_times (Suc n) r = r_bind r (\<lambda>x. r_bind (r_times n r) (\<lambda>xs. r_return (x # xs)))"

text \<open>\<^verbatim>\<open>uint32_t n = r.u32(); for (i < n) v.push_back(get(r));\<close>\<close>

definition r_vec :: "'a reader \<Rightarrow> 'a list reader" where
  "r_vec r = r_bind r_u32 (\<lambda>n. r_times (unat n) r)"

text \<open>\<^verbatim>\<open>decode_X(d, n)\<close>: bytes after the last field are ignored.\<close>

definition decode_with :: "'a reader \<Rightarrow> bytes \<Rightarrow> 'a option" where
  "decode_with r bs = map_option fst (r bs)"

section \<open>Reading back what was written\<close>

named_theorems wire_write \<open>inversion of successful writes\<close>
named_theorems wire_read \<open>reading a written field\<close>
named_theorems wire_mono \<open>readers do not look past what they consume\<close>

lemma w_cat_Nil [wire_write]: "w_cat [] = Some b \<longleftrightarrow> b = []"
  by (auto simp: w_cat_def)

lemma w_cat_Cons [wire_write]:
  "w_cat (f # fs) = Some b \<longleftrightarrow>
     (\<exists>b1 b2. f = Some b1 \<and> w_cat fs = Some b2 \<and> b = b1 @ b2)"
  by (cases f; cases "those fs") (auto simp: w_cat_def)

lemma w_prim_Some [wire_write]:
  "w_u8 v8 = Some b \<longleftrightarrow> b = [v8]"
  "w_b vb = Some b \<longleftrightarrow> b = [if vb then 1 else 0]"
  "w_u16 v16 = Some b \<longleftrightarrow> b = le_bytes 2 v16"
  "w_u32 v32 = Some b \<longleftrightarrow> b = le_bytes 4 v32"
  "w_u64 v64 = Some b \<longleftrightarrow> b = le_bytes 8 v64"
  "w_str s = Some b \<longleftrightarrow> b = str_bytes s \<and> length s \<le> 0xFFFFFFFF"
  by (auto simp: w_u8_def w_b_def w_u16_def w_u32_def w_u64_def w_str_def)

lemma r_bind_return [wire_read]: "r_bind (r_return v) f = f v"
  by (rule ext) (simp add: r_bind_def r_return_def)

lemma r_bind_assoc [wire_read]: "r_bind (r_bind r f) g = r_bind r (\<lambda>x. r_bind (f x) g)"
  by (rule ext) (simp add: r_bind_def split: option.split)

lemma r_bind_take [wire_read]: "length b = n \<Longrightarrow> r_bind (r_take n) f (b @ rest) = f b rest"
  by (simp add: r_bind_def r_take_def)

lemma unat_of_char [simp]: "unat (of_char c :: u8) = of_char c"
proof -
  have "unat (of_char c :: u8) = unat (of_nat (of_char c) :: u8)"
    by (simp only: of_nat_of_char)
  also have "\<dots> = of_char c mod 256"
    by (simp only: unat_of_nat) simp
  finally show ?thesis by simp
qed

lemma bytes_chars_bytes [simp]: "bytes_chars (chars_bytes s) = s"
  by (simp add: bytes_chars_def chars_bytes_def o_def)

lemma length_chars_bytes [simp]: "length (chars_bytes s) = length s"
  by (simp add: chars_bytes_def)

lemma r_bind_prim [wire_read]:
  "r_bind r_u8 f8 (v8 # rest) = f8 v8 rest"
  "r_bind r_u16 f16 (le_bytes 2 v16 @ rest) = f16 v16 rest"
  "r_bind r_u32 f32 (le_bytes 4 v32 @ rest) = f32 v32 rest"
  "r_bind r_u64 f64 (le_bytes 8 v64 @ rest) = f64 v64 rest"
  by (simp_all add: r_u16_def r_u32_def r_u64_def wire_read)
    (simp add: r_bind_def r_u8_def)

lemma r_bind_b [wire_read]: "r_bind r_b f ((if v then 1 else 0) # rest) = f v rest"
  by (simp add: r_b_def wire_read)

lemma unat_of_nat_u32: "n \<le> 0xFFFFFFFF \<Longrightarrow> unat (of_nat n :: u32) = n"
  by (simp add: unat_of_nat)

lemma r_bind_str [wire_read]:
  "length s \<le> 0xFFFFFFFF \<Longrightarrow> r_bind r_str f (str_bytes s @ rest) = f s rest"
  by (simp add: r_str_def str_bytes_def wire_read unat_of_nat_u32)

section \<open>Readers consume a prefix\<close>

definition r_mono :: "'a reader \<Rightarrow> bool" where
  "r_mono r \<longleftrightarrow> (\<forall>bs v rest ys. r bs = Some (v, rest) \<longrightarrow> r (bs @ ys) = Some (v, rest @ ys))"

lemma r_monoD: "r_mono r \<Longrightarrow> r bs = Some (v, rest) \<Longrightarrow> r (bs @ ys) = Some (v, rest @ ys)"
  unfolding r_mono_def by blast

lemma r_mono_return [wire_mono]: "r_mono (r_return v)"
  by (simp add: r_mono_def r_return_def)

lemma r_mono_bind [wire_mono]: "r_mono r \<Longrightarrow> (\<And>v. r_mono (f v)) \<Longrightarrow> r_mono (r_bind r f)"
  unfolding r_mono_def r_bind_def by (force split: option.splits)

lemma r_mono_take: "r_mono (r_take n)"
  by (auto simp: r_mono_def r_take_def split: if_splits)

lemma r_mono_u8 [wire_mono]: "r_mono r_u8"
  by (auto simp: r_mono_def r_u8_def split: list.splits)

lemma r_mono_prim [wire_mono]:
  "r_mono r_b" "r_mono r_u16" "r_mono r_u32" "r_mono r_u64" "r_mono r_str"
  unfolding r_b_def r_u16_def r_u32_def r_u64_def r_str_def
  by (intro wire_mono r_mono_take)+

lemma r_mono_times [wire_mono]: "r_mono r \<Longrightarrow> r_mono (r_times n r)"
  by (induction n) (auto intro!: wire_mono)

lemma r_mono_vec [wire_mono]: "r_mono r \<Longrightarrow> r_mono (r_vec r)"
  unfolding r_vec_def by (intro wire_mono)

section \<open>The contract of a message codec\<close>

text \<open>
  \<open>wf\<close> holds what the encoder assumes of its message: a vector of at most \<open>2\<^sup>3\<^sup>2 - 1\<close> elements
  (its size is cast to 32 bits), parallel vectors of one size.
\<close>

locale codec =
  fixes enc :: "'m \<Rightarrow> wfield"
    and get :: "'m reader"
    and wf :: "'m \<Rightarrow> bool"
  assumes get_enc: "wf m \<Longrightarrow> enc m = Some b \<Longrightarrow> get (b @ rest) = Some (m, rest)"
    and get_mono: "r_mono get"
begin

lemma round_trip: "wf m \<Longrightarrow> enc m = Some b \<Longrightarrow> decode_with get b = Some m"
  using get_enc [of m b "[]"] by (simp add: decode_with_def)

lemma trailing_ignored: "wf m \<Longrightarrow> enc m = Some b \<Longrightarrow> decode_with get (b @ rest) = Some m"
  using get_enc [of m b rest] by (simp add: decode_with_def)

lemma injective: "wf m \<Longrightarrow> wf m' \<Longrightarrow> enc m = Some b \<Longrightarrow> enc m' = Some b \<Longrightarrow> m = m'"
  using round_trip [of m b] round_trip [of m' b] by simp

lemma truncated:
  assumes "wf m" and "enc m = Some b" and "k < length b"
  shows "decode_with get (take k b) = None"
proof (rule ccontr)
  assume "decode_with get (take k b) \<noteq> None"
  then obtain v rest where "get (take k b) = Some (v, rest)"
    by (auto simp: decode_with_def)
  then have "get (take k b @ drop k b) = Some (v, rest @ drop k b)"
    by (rule r_monoD [OF get_mono])
  moreover have "get b = Some (m, [])"
    using get_enc [of m b "[]"] assms by simp
  ultimately show False
    using assms(3) by simp
qed

lemma in_message: "enc m = Some b \<Longrightarrow> wf m \<Longrightarrow> r_bind get f (b @ rest) = f m rest"
  by (simp add: r_bind_def get_enc)

lemma times_in_message:
  "list_all wf ms \<Longrightarrow> w_cat (map enc ms) = Some b \<Longrightarrow> r_times (length ms) get (b @ rest) = Some (ms, rest)"
proof (induction ms arbitrary: b)
  case Nil
  then show ?case by (simp add: w_cat_Nil r_return_def)
next
  case (Cons m ms)
  then obtain b1 b2 where m: "enc m = Some b1" and ms: "w_cat (map enc ms) = Some b2" and b: "b = b1 @ b2"
    by (auto simp: w_cat_Cons)
  have "r_times (length ms) get (b2 @ rest) = Some (ms, rest)"
    using Cons.IH [OF _ ms] Cons.prems(1) by simp
  moreover have "wf m" using Cons.prems(1) by simp
  ultimately show ?case
    by (simp add: b in_message [OF m]) (simp add: r_bind_def r_return_def)
qed

lemma vec_in_message:
  "w_vec enc ms = Some b \<Longrightarrow> length ms \<le> 0xFFFFFFFF \<Longrightarrow> list_all wf ms \<Longrightarrow>
   r_bind (r_vec get) f (b @ rest) = f ms rest"
proof -
  assume wf: "list_all wf ms" and len: "length ms \<le> 0xFFFFFFFF" and "w_vec enc ms = Some b"
  then obtain b2 where ms: "w_cat (map enc ms) = Some b2"
    and b: "b = le_bytes 4 (of_nat (length ms) :: u32) @ b2"
    by (auto simp: w_vec_def w_cat_Cons w_prim_Some)
  have "r_bind (r_vec get) f (b @ rest) = r_bind (r_times (length ms) get) f (b2 @ rest)"
    by (simp add: b r_vec_def r_bind_assoc r_bind_prim unat_of_nat_u32 len)
  also have "\<dots> = f ms rest"
    by (simp add: r_bind_def times_in_message [OF wf ms])
  finally show ?thesis .
qed

end

text \<open>The primitive fields are themselves codecs.\<close>

lemma list_all_True [wire_read]: "list_all (\<lambda>x. True) xs"
  by (simp add: list_all_iff)

lemma r_bind_return_right: "r_bind r r_return = r"
  by (rule ext) (auto simp: r_bind_def r_return_def split: option.split)

interpretation str_codec: codec w_str r_str "\<lambda>s. True"
proof
  show "r_str (b @ rest) = Some (s, rest)" if "w_str s = Some b" for s b rest
    using r_bind_str [of s r_return rest] that
    by (simp add: w_prim_Some r_bind_return_right r_return_def)
qed (rule wire_mono)

interpretation u64_codec: codec w_u64 r_u64 "\<lambda>v. True"
proof
  show "r_u64 (b @ rest) = Some (v, rest)" if "w_u64 v = Some b" for v b rest
    using r_bind_prim(4) [of r_return v rest] that
    by (simp add: w_prim_Some r_bind_return_right r_return_def)
qed (rule wire_mono)

section \<open>Frames\<close>

definition OFLD_RPC_MAGIC :: u32 where
  "OFLD_RPC_MAGIC = 0x4F465250"

definition kFrameHeaderSize :: nat where
  "kFrameHeaderSize = 12"

record FrameHeader =
  fh_magic :: u32
  fh_opcode :: u16
  fh_flags :: u16
  fh_payload_len :: u32

definition make_frame :: "op_code \<Rightarrow> bytes \<Rightarrow> u16 \<Rightarrow> bytes option" where
  "make_frame op body flags =
     (if 0xFFFFFFFF < length body then None
      else w_cat [w_u32 OFLD_RPC_MAGIC, w_u16 (op_number op), w_u16 flags,
                  w_u32 (of_nat (length body)), Some body])"

definition parse_frame_header :: "bytes \<Rightarrow> FrameHeader option" where
  "parse_frame_header data =
     (if length data < kFrameHeaderSize then None
      else decode_with (r_bind r_u32 (\<lambda>magic.
             if magic \<noteq> OFLD_RPC_MAGIC then (\<lambda>_. None)
             else r_bind r_u16 (\<lambda>opcode. r_bind r_u16 (\<lambda>flags. r_bind r_u32 (\<lambda>payload_len.
               r_return \<lparr>fh_magic = magic, fh_opcode = opcode, fh_flags = flags,
                         fh_payload_len = payload_len\<rparr>))))) data)"

lemma make_frame_bytes:
  "make_frame op body flags = Some frame \<longleftrightarrow> length body \<le> 0xFFFFFFFF \<and>
     frame = le_bytes 4 OFLD_RPC_MAGIC @ le_bytes 2 (op_number op) @ le_bytes 2 flags @
             le_bytes 4 (of_nat (length body) :: u32) @ body"
  by (auto simp: make_frame_def wire_write)

lemma le_word_append_take: "le_word (take 4 (le_bytes 4 (v :: u32) @ rest)) = v"
  by simp

text \<open>Reading the header field by field is reading its bytes at fixed offsets.\<close>

lemma parse_frame_header_eq:
  "parse_frame_header data =
     (if length data < 12 \<or> le_word (take 4 data) \<noteq> OFLD_RPC_MAGIC then None
      else Some \<lparr>fh_magic = OFLD_RPC_MAGIC, fh_opcode = le_word (take 2 (drop 4 data)),
                fh_flags = le_word (take 2 (drop 6 data)),
                fh_payload_len = le_word (take 4 (drop 8 data))\<rparr>)"
  by (auto simp: parse_frame_header_def kFrameHeaderSize_def decode_with_def r_bind_def r_u32_def
      r_u16_def r_take_def r_return_def)

text \<open>
  C22. A frame carries its opcode, flags and body: for every frame that \<^verbatim>\<open>make_frame\<close> builds, parsing the
  header (also with further bytes behind it) gives the magic, the opcode's number, the flags and
  the exact body length, and the bytes after the twelve header bytes are the body.
\<close>

theorem frame_round_trip:
  assumes "make_frame op body flags = Some frame"
  shows "parse_frame_header (frame @ rest) =
           Some \<lparr>fh_magic = OFLD_RPC_MAGIC, fh_opcode = op_number op, fh_flags = flags,
                 fh_payload_len = of_nat (length body)\<rparr> \<and>
         unat (of_nat (length body) :: u32) = length body \<and>
         drop kFrameHeaderSize frame = body"
proof -
  have len: "length body \<le> 0xFFFFFFFF"
    and frame: "frame = le_bytes 4 OFLD_RPC_MAGIC @ le_bytes 2 (op_number op) @ le_bytes 2 flags @
             le_bytes 4 (of_nat (length body) :: u32) @ body"
    using assms by (auto simp: make_frame_bytes)
  show ?thesis
    unfolding parse_frame_header_eq frame kFrameHeaderSize_def
    using unat_of_nat_u32 [OF len] by simp
qed

text \<open>
  C23. Header parsing rejects exactly the inputs that are too short for a header or do not start
  with the magic number; a message body of more than \<open>2\<^sup>3\<^sup>2 - 1\<close> bytes is never framed.
\<close>

theorem frame_rejects:
  "(parse_frame_header data = None \<longleftrightarrow>
      \<not> (kFrameHeaderSize \<le> length data \<and> le_word (take 4 data) = OFLD_RPC_MAGIC)) \<and>
   (make_frame op body flags = None \<longleftrightarrow> 0xFFFFFFFF < length body)"
proof
  show "parse_frame_header data = None \<longleftrightarrow>
      \<not> (kFrameHeaderSize \<le> length data \<and> le_word (take 4 data) = OFLD_RPC_MAGIC)"
    by (auto simp: parse_frame_header_eq kFrameHeaderSize_def)
  show "make_frame op body flags = None \<longleftrightarrow> 0xFFFFFFFF < length body"
  proof (cases "make_frame op body flags")
    case None
    then show ?thesis using make_frame_bytes [of op body flags] by force
  next
    case (Some frame)
    then show ?thesis using make_frame_bytes [of op body flags frame] by simp
  qed
qed

theorem frame_round_trip_witness:
  "parse_frame_header (the (make_frame kHeartbeat [1, 2, 3] 0)) =
     Some \<lparr>fh_magic = OFLD_RPC_MAGIC, fh_opcode = 2, fh_flags = 0, fh_payload_len = 3\<rparr>"
proof -
  obtain frame where f: "make_frame kHeartbeat [1, 2, 3] 0 = Some frame"
    by (simp add: make_frame_bytes)
  show ?thesis using frame_round_trip [OF f, of "[]"] f by simp
qed

end
