(* ===== verification/Wire.thy ===== *)
theory Wire
  imports Wire_Format
begin

text \<open>
  The codecs of \<^verbatim>\<open>src/common/wire.cpp\<close>, in the order of the file: for every message its encoder,
  its reader and decoder, and its interpretation of the \<open>codec\<close> contract.
\<close>

definition encode_RegisterRankRequest :: "RegisterRankRequest \<Rightarrow> wfield" where
  "encode_RegisterRankRequest m = w_cat [w_u32 (rrq_rank_id m), w_u32 (rrq_local_rank m),
     w_u32 (rrq_world_rank m), w_u32 (rrq_gpu_id m), w_u32 (rrq_numa_node m), w_u64 (rrq_pid m),
     w_u64 (rrq_capabilities m)]"

definition get_RegisterRankRequest :: "RegisterRankRequest reader" where
  "get_RegisterRankRequest = r_bind r_u32 (\<lambda>rank_id. r_bind r_u32 (\<lambda>local_rank.
     r_bind r_u32 (\<lambda>world_rank. r_bind r_u32 (\<lambda>gpu_id.
     r_bind r_u32 (\<lambda>numa_node. r_bind r_u64 (\<lambda>pid.
     r_bind r_u64 (\<lambda>capabilities.
     r_return \<lparr>rrq_rank_id = rank_id, rrq_local_rank = local_rank,
       rrq_world_rank = world_rank, rrq_gpu_id = gpu_id, rrq_numa_node = numa_node,
       rrq_pid = pid, rrq_capabilities = capabilities\<rparr>)))))))"

definition decode_RegisterRankRequest :: "bytes \<Rightarrow> RegisterRankRequest option" where
  "decode_RegisterRankRequest = decode_with get_RegisterRankRequest"

interpretation RegisterRankRequest_codec: codec encode_RegisterRankRequest get_RegisterRankRequest "\<lambda>m. True"
proof
  show "get_RegisterRankRequest (b @ rest) = Some (m, rest)" if "encode_RegisterRankRequest m = Some b" for m b rest
    using that by (auto simp: encode_RegisterRankRequest_def get_RegisterRankRequest_def wire_write wire_read r_return_def)
qed (auto simp: get_RegisterRankRequest_def intro!: wire_mono)

definition put_ArenaFd :: "ArenaFd \<Rightarrow> wfield" where
  "put_ArenaFd a = w_cat [w_u64 (afd_arena_id a), w_u32 (afd_numa_node a), w_u32 (afd_kind a),
     w_u64 (afd_size a), w_u64 (afd_base_offset a), w_u32 (afd_preferred_gpu a), w_u64 (afd_flags a),
     w_u32 (afd_fd_index a), w_u32 (afd_registration_granularity a),
     w_u32 (afd_allocation_granularity a)]"

definition get_ArenaFd :: "ArenaFd reader" where
  "get_ArenaFd = r_bind r_u64 (\<lambda>arena_id. r_bind r_u32 (\<lambda>numa_node. r_bind r_u32 (\<lambda>kind.
     r_bind r_u64 (\<lambda>size. r_bind r_u64 (\<lambda>base_offset. r_bind r_u32 (\<lambda>preferred_gpu.
     r_bind r_u64 (\<lambda>flags. r_bind r_u32 (\<lambda>fd_index. r_bind r_u32 (\<lambda>registration_granularity.
     r_bind r_u32 (\<lambda>allocation_granularity.
     r_return \<lparr>afd_arena_id = arena_id, afd_numa_node = numa_node, afd_kind = kind, afd_size = size,
       afd_base_offset = base_offset, afd_preferred_gpu = preferred_gpu, afd_flags = flags,
       afd_fd_index = fd_index, afd_registration_granularity = registration_granularity,
       afd_allocation_granularity = allocation_granularity\<rparr>))))))))))"

interpretation ArenaFd_codec: codec put_ArenaFd get_ArenaFd "\<lambda>m. True"
proof
  show "get_ArenaFd (b @ rest) = Some (m, rest)" if "put_ArenaFd m = Some b" for m b rest
    using that by (auto simp: put_ArenaFd_def get_ArenaFd_def wire_write wire_read r_return_def)
qed (auto simp: get_ArenaFd_def intro!: wire_mono)

definition encode_RegisterRankResponse :: "RegisterRankResponse \<Rightarrow> wfield" where
  "encode_RegisterRankResponse m = w_cat [w_b (rrs_ok m), w_str (rrs_message m),
     w_u64 (rrs_rank_epoch m), w_u64 (rrs_control_generation m),
     w_vec put_ArenaFd (rrs_arenas m), w_u32 (rrs_control_fd_index m),
     w_u64 (rrs_control_size m), w_u32 (rrs_num_slots m), w_u32 (rrs_ring_index m)]"

definition get_RegisterRankResponse :: "RegisterRankResponse reader" where
  "get_RegisterRankResponse = r_bind r_b (\<lambda>ok. r_bind r_str (\<lambda>message.
     r_bind r_u64 (\<lambda>rank_epoch. r_bind r_u64 (\<lambda>control_generation.
     r_bind (r_vec get_ArenaFd) (\<lambda>arenas. r_bind r_u32 (\<lambda>control_fd_index.
     r_bind r_u64 (\<lambda>control_size. r_bind r_u32 (\<lambda>num_slots.
     r_bind r_u32 (\<lambda>ring_index.
     r_return \<lparr>rrs_ok = ok, rrs_message = message, rrs_rank_epoch = rank_epoch,
       rrs_control_generation = control_generation, rrs_arenas = arenas,
       rrs_control_fd_index = control_fd_index, rrs_control_size = control_size,
       rrs_num_slots = num_slots, rrs_ring_index = ring_index\<rparr>)))))))))"

definition decode_RegisterRankResponse :: "bytes \<Rightarrow> RegisterRankResponse option" where
  "decode_RegisterRankResponse = decode_with get_RegisterRankResponse"

interpretation RegisterRankResponse_codec: codec encode_RegisterRankResponse get_RegisterRankResponse "\<lambda>m. length (rrs_arenas m) \<le> 0xFFFFFFFF"
proof
  show "get_RegisterRankResponse (b @ rest) = Some (m, rest)" if "length (rrs_arenas m) \<le> 0xFFFFFFFF" and "encode_RegisterRankResponse m = Some b" for m b rest
    using that by (auto simp: encode_RegisterRankResponse_def get_RegisterRankResponse_def wire_write wire_read r_return_def ArenaFd_codec.vec_in_message)
qed (auto simp: get_RegisterRankResponse_def intro!: wire_mono ArenaFd_codec.get_mono)

definition encode_HeartbeatRequest :: "HeartbeatRequest \<Rightarrow> wfield" where
  "encode_HeartbeatRequest m = w_cat [w_u32 (hbq_rank_id m), w_u64 (hbq_rank_epoch m),
     w_u64 (hbq_timestamp_ns m)]"

definition get_HeartbeatRequest :: "HeartbeatRequest reader" where
  "get_HeartbeatRequest = r_bind r_u32 (\<lambda>rank_id. r_bind r_u64 (\<lambda>rank_epoch.
     r_bind r_u64 (\<lambda>timestamp_ns.
     r_return \<lparr>hbq_rank_id = rank_id, hbq_rank_epoch = rank_epoch,
       hbq_timestamp_ns = timestamp_ns\<rparr>)))"

definition decode_HeartbeatRequest :: "bytes \<Rightarrow> HeartbeatRequest option" where
  "decode_HeartbeatRequest = decode_with get_HeartbeatRequest"

interpretation HeartbeatRequest_codec: codec encode_HeartbeatRequest get_HeartbeatRequest "\<lambda>m. True"
proof
  show "get_HeartbeatRequest (b @ rest) = Some (m, rest)" if "encode_HeartbeatRequest m = Some b" for m b rest
    using that by (auto simp: encode_HeartbeatRequest_def get_HeartbeatRequest_def wire_write wire_read r_return_def)
qed (auto simp: get_HeartbeatRequest_def intro!: wire_mono)

definition encode_HeartbeatResponse :: "HeartbeatResponse \<Rightarrow> wfield" where
  "encode_HeartbeatResponse m = w_cat [w_b (hbs_ok m), w_str (hbs_message m)]"

definition get_HeartbeatResponse :: "HeartbeatResponse reader" where
  "get_HeartbeatResponse = r_bind r_b (\<lambda>ok. r_bind r_str (\<lambda>message.
     r_return \<lparr>hbs_ok = ok, hbs_message = message\<rparr>))"

definition decode_HeartbeatResponse :: "bytes \<Rightarrow> HeartbeatResponse option" where
  "decode_HeartbeatResponse = decode_with get_HeartbeatResponse"

interpretation HeartbeatResponse_codec: codec encode_HeartbeatResponse get_HeartbeatResponse "\<lambda>m. True"
proof
  show "get_HeartbeatResponse (b @ rest) = Some (m, rest)" if "encode_HeartbeatResponse m = Some b" for m b rest
    using that by (auto simp: encode_HeartbeatResponse_def get_HeartbeatResponse_def wire_write wire_read r_return_def)
qed (auto simp: get_HeartbeatResponse_def intro!: wire_mono)

definition encode_RequestOffloadRequest :: "RequestOffloadRequest \<Rightarrow> wfield" where
  "encode_RequestOffloadRequest m = w_cat [w_u32 (roq_rank_id m), w_u64 (roq_rank_epoch m),
     w_u64 (roq_tensor_id m), w_u64 (roq_version m), w_u64 (roq_nbytes m), w_u32 (roq_gpu_id m),
     w_u32 (roq_numa_node m), w_u32 (roq_alignment m), w_u32 (roq_priority m),
     w_u64 (roq_flags m), w_str (roq_debug_name m)]"

definition get_RequestOffloadRequest :: "RequestOffloadRequest reader" where
  "get_RequestOffloadRequest = r_bind r_u32 (\<lambda>rank_id. r_bind r_u64 (\<lambda>rank_epoch.
     r_bind r_u64 (\<lambda>tensor_id. r_bind r_u64 (\<lambda>version.
     r_bind r_u64 (\<lambda>nbytes. r_bind r_u32 (\<lambda>gpu_id.
     r_bind r_u32 (\<lambda>numa_node. r_bind r_u32 (\<lambda>alignment.
     r_bind r_u32 (\<lambda>priority. r_bind r_u64 (\<lambda>flags.
     r_bind r_str (\<lambda>debug_name.
     r_return \<lparr>roq_rank_id = rank_id, roq_rank_epoch = rank_epoch,
       roq_tensor_id = tensor_id, roq_version = version, roq_nbytes = nbytes,
       roq_gpu_id = gpu_id, roq_numa_node = numa_node, roq_alignment = alignment,
       roq_priority = priority, roq_flags = flags, roq_debug_name = debug_name\<rparr>)))))))))))"

definition decode_RequestOffloadRequest :: "bytes \<Rightarrow> RequestOffloadRequest option" where
  "decode_RequestOffloadRequest = decode_with get_RequestOffloadRequest"

interpretation RequestOffloadRequest_codec: codec encode_RequestOffloadRequest get_RequestOffloadRequest "\<lambda>m. True"
proof
  show "get_RequestOffloadRequest (b @ rest) = Some (m, rest)" if "encode_RequestOffloadRequest m = Some b" for m b rest
    using that by (auto simp: encode_RequestOffloadRequest_def get_RequestOffloadRequest_def wire_write wire_read r_return_def)
qed (auto simp: get_RequestOffloadRequest_def intro!: wire_mono)

definition encode_RequestOffloadResponse :: "RequestOffloadResponse \<Rightarrow> wfield" where
  "encode_RequestOffloadResponse m = w_cat [w_b (ros_ok m), w_str (ros_message m),
     w_u64 (ros_lease_id m), w_u32 (ros_slot_id m), w_u64 (ros_arena_id m),
     w_u64 (ros_arena_offset m), w_u64 (ros_capacity m), w_u32 (ros_state m),
     w_b (ros_blocked m)]"

definition get_RequestOffloadResponse :: "RequestOffloadResponse reader" where
  "get_RequestOffloadResponse = r_bind r_b (\<lambda>ok. r_bind r_str (\<lambda>message.
     r_bind r_u64 (\<lambda>lease_id. r_bind r_u32 (\<lambda>slot_id.
     r_bind r_u64 (\<lambda>arena_id. r_bind r_u64 (\<lambda>arena_offset.
     r_bind r_u64 (\<lambda>capacity. r_bind r_u32 (\<lambda>state. r_bind r_b (\<lambda>blocked.
     r_return \<lparr>ros_ok = ok, ros_message = message, ros_lease_id = lease_id,
       ros_slot_id = slot_id, ros_arena_id = arena_id, ros_arena_offset = arena_offset,
       ros_capacity = capacity, ros_state = state, ros_blocked = blocked\<rparr>)))))))))"

definition decode_RequestOffloadResponse :: "bytes \<Rightarrow> RequestOffloadResponse option" where
  "decode_RequestOffloadResponse = decode_with get_RequestOffloadResponse"

interpretation RequestOffloadResponse_codec: codec encode_RequestOffloadResponse get_RequestOffloadResponse "\<lambda>m. True"
proof
  show "get_RequestOffloadResponse (b @ rest) = Some (m, rest)" if "encode_RequestOffloadResponse m = Some b" for m b rest
    using that by (auto simp: encode_RequestOffloadResponse_def get_RequestOffloadResponse_def wire_write wire_read r_return_def)
qed (auto simp: get_RequestOffloadResponse_def intro!: wire_mono)

definition encode_MarkD2HSubmittedRequest :: "MarkD2HSubmittedRequest \<Rightarrow> wfield" where
  "encode_MarkD2HSubmittedRequest m = w_cat [w_u32 (dsq_rank_id m), w_u64 (dsq_rank_epoch m),
     w_u64 (dsq_lease_id m), w_u64 (dsq_tensor_id m), w_u64 (dsq_version m),
     w_u32 (dsq_slot_id m), w_u64 (dsq_submit_seq m), w_u64 (dsq_timestamp_ns m)]"

definition get_MarkD2HSubmittedRequest :: "MarkD2HSubmittedRequest reader" where
  "get_MarkD2HSubmittedRequest = r_bind r_u32 (\<lambda>rank_id.
     r_bind r_u64 (\<lambda>rank_epoch. r_bind r_u64 (\<lambda>lease_id.
     r_bind r_u64 (\<lambda>tensor_id. r_bind r_u64 (\<lambda>version.
     r_bind r_u32 (\<lambda>slot_id. r_bind r_u64 (\<lambda>submit_seq.
     r_bind r_u64 (\<lambda>timestamp_ns.
     r_return \<lparr>dsq_rank_id = rank_id, dsq_rank_epoch = rank_epoch,
       dsq_lease_id = lease_id, dsq_tensor_id = tensor_id, dsq_version = version,
       dsq_slot_id = slot_id, dsq_submit_seq = submit_seq,
       dsq_timestamp_ns = timestamp_ns\<rparr>))))))))"

definition decode_MarkD2HSubmittedRequest :: "bytes \<Rightarrow> MarkD2HSubmittedRequest option" where
  "decode_MarkD2HSubmittedRequest = decode_with get_MarkD2HSubmittedRequest"

interpretation MarkD2HSubmittedRequest_codec: codec encode_MarkD2HSubmittedRequest get_MarkD2HSubmittedRequest "\<lambda>m. True"
proof
  show "get_MarkD2HSubmittedRequest (b @ rest) = Some (m, rest)" if "encode_MarkD2HSubmittedRequest m = Some b" for m b rest
    using that by (auto simp: encode_MarkD2HSubmittedRequest_def get_MarkD2HSubmittedRequest_def wire_write wire_read r_return_def)
qed (auto simp: get_MarkD2HSubmittedRequest_def intro!: wire_mono)

definition encode_MarkD2HSubmittedResponse :: "MarkD2HSubmittedResponse \<Rightarrow> wfield" where
  "encode_MarkD2HSubmittedResponse m = w_cat [w_b (dss_ok m), w_str (dss_message m)]"

definition get_MarkD2HSubmittedResponse :: "MarkD2HSubmittedResponse reader" where
  "get_MarkD2HSubmittedResponse = r_bind r_b (\<lambda>ok. r_bind r_str (\<lambda>message.
     r_return \<lparr>dss_ok = ok, dss_message = message\<rparr>))"

definition decode_MarkD2HSubmittedResponse :: "bytes \<Rightarrow> MarkD2HSubmittedResponse option" where
  "decode_MarkD2HSubmittedResponse = decode_with get_MarkD2HSubmittedResponse"

interpretation MarkD2HSubmittedResponse_codec: codec encode_MarkD2HSubmittedResponse get_MarkD2HSubmittedResponse "\<lambda>m. True"
proof
  show "get_MarkD2HSubmittedResponse (b @ rest) = Some (m, rest)" if "encode_MarkD2HSubmittedResponse m = Some b" for m b rest
    using that by (auto simp: encode_MarkD2HSubmittedResponse_def get_MarkD2HSubmittedResponse_def wire_write wire_read r_return_def)
qed (auto simp: get_MarkD2HSubmittedResponse_def intro!: wire_mono)

definition encode_MarkD2HCompleteRequest :: "MarkD2HCompleteRequest \<Rightarrow> wfield" where
  "encode_MarkD2HCompleteRequest m = w_cat [w_u32 (dcq_rank_id m), w_u64 (dcq_rank_epoch m),
     w_u64 (dcq_lease_id m), w_u64 (dcq_tensor_id m), w_u64 (dcq_version m),
     w_u32 (dcq_slot_id m), w_u64 (dcq_complete_seq m), w_u64 (dcq_timestamp_ns m)]"

definition get_MarkD2HCompleteRequest :: "MarkD2HCompleteRequest reader" where
  "get_MarkD2HCompleteRequest = r_bind r_u32 (\<lambda>rank_id. r_bind r_u64 (\<lambda>rank_epoch.
     r_bind r_u64 (\<lambda>lease_id. r_bind r_u64 (\<lambda>tensor_id.
     r_bind r_u64 (\<lambda>version. r_bind r_u32 (\<lambda>slot_id.
     r_bind r_u64 (\<lambda>complete_seq. r_bind r_u64 (\<lambda>timestamp_ns.
     r_return \<lparr>dcq_rank_id = rank_id, dcq_rank_epoch = rank_epoch,
       dcq_lease_id = lease_id, dcq_tensor_id = tensor_id, dcq_version = version,
       dcq_slot_id = slot_id, dcq_complete_seq = complete_seq,
       dcq_timestamp_ns = timestamp_ns\<rparr>))))))))"

definition decode_MarkD2HCompleteRequest :: "bytes \<Rightarrow> MarkD2HCompleteRequest option" where
  "decode_MarkD2HCompleteRequest = decode_with get_MarkD2HCompleteRequest"

interpretation MarkD2HCompleteRequest_codec: codec encode_MarkD2HCompleteRequest get_MarkD2HCompleteRequest "\<lambda>m. True"
proof
  show "get_MarkD2HCompleteRequest (b @ rest) = Some (m, rest)" if "encode_MarkD2HCompleteRequest m = Some b" for m b rest
    using that by (auto simp: encode_MarkD2HCompleteRequest_def get_MarkD2HCompleteRequest_def wire_write wire_read r_return_def)
qed (auto simp: get_MarkD2HCompleteRequest_def intro!: wire_mono)

definition encode_MarkD2HCompleteResponse :: "MarkD2HCompleteResponse \<Rightarrow> wfield" where
  "encode_MarkD2HCompleteResponse m = w_cat [w_b (dcs_ok m), w_str (dcs_message m),
     w_b (dcs_latest_version m), w_b (dcs_drain_enqueued m)]"

definition get_MarkD2HCompleteResponse :: "MarkD2HCompleteResponse reader" where
  "get_MarkD2HCompleteResponse = r_bind r_b (\<lambda>ok. r_bind r_str (\<lambda>message.
     r_bind r_b (\<lambda>latest_version. r_bind r_b (\<lambda>drain_enqueued.
     r_return \<lparr>dcs_ok = ok, dcs_message = message, dcs_latest_version = latest_version,
       dcs_drain_enqueued = drain_enqueued\<rparr>))))"

definition decode_MarkD2HCompleteResponse :: "bytes \<Rightarrow> MarkD2HCompleteResponse option" where
  "decode_MarkD2HCompleteResponse = decode_with get_MarkD2HCompleteResponse"

interpretation MarkD2HCompleteResponse_codec: codec encode_MarkD2HCompleteResponse get_MarkD2HCompleteResponse "\<lambda>m. True"
proof
  show "get_MarkD2HCompleteResponse (b @ rest) = Some (m, rest)" if "encode_MarkD2HCompleteResponse m = Some b" for m b rest
    using that by (auto simp: encode_MarkD2HCompleteResponse_def get_MarkD2HCompleteResponse_def wire_write wire_read r_return_def)
qed (auto simp: get_MarkD2HCompleteResponse_def intro!: wire_mono)

definition encode_RequestPrefetchRequest :: "RequestPrefetchRequest \<Rightarrow> wfield" where
  "encode_RequestPrefetchRequest m = w_cat [w_u32 (pfq_rank_id m), w_u64 (pfq_rank_epoch m),
     w_u64 (pfq_tensor_id m), w_u64 (pfq_version m), w_u64 (pfq_nbytes m), w_u32 (pfq_gpu_id m),
     w_u32 (pfq_numa_node m), w_u32 (pfq_priority m), w_u64 (pfq_flags m)]"

definition get_RequestPrefetchRequest :: "RequestPrefetchRequest reader" where
  "get_RequestPrefetchRequest = r_bind r_u32 (\<lambda>rank_id. r_bind r_u64 (\<lambda>rank_epoch.
     r_bind r_u64 (\<lambda>tensor_id. r_bind r_u64 (\<lambda>version.
     r_bind r_u64 (\<lambda>nbytes. r_bind r_u32 (\<lambda>gpu_id.
     r_bind r_u32 (\<lambda>numa_node. r_bind r_u32 (\<lambda>priority.
     r_bind r_u64 (\<lambda>flags.
     r_return \<lparr>pfq_rank_id = rank_id, pfq_rank_epoch = rank_epoch,
       pfq_tensor_id = tensor_id, pfq_version = version, pfq_nbytes = nbytes,
       pfq_gpu_id = gpu_id, pfq_numa_node = numa_node, pfq_priority = priority,
       pfq_flags = flags\<rparr>)))))))))"

definition decode_RequestPrefetchRequest :: "bytes \<Rightarrow> RequestPrefetchRequest option" where
  "decode_RequestPrefetchRequest = decode_with get_RequestPrefetchRequest"

interpretation RequestPrefetchRequest_codec: codec encode_RequestPrefetchRequest get_RequestPrefetchRequest "\<lambda>m. True"
proof
  show "get_RequestPrefetchRequest (b @ rest) = Some (m, rest)" if "encode_RequestPrefetchRequest m = Some b" for m b rest
    using that by (auto simp: encode_RequestPrefetchRequest_def get_RequestPrefetchRequest_def wire_write wire_read r_return_def)
qed (auto simp: get_RequestPrefetchRequest_def intro!: wire_mono)

definition encode_RequestPrefetchResponse :: "RequestPrefetchResponse \<Rightarrow> wfield" where
  "encode_RequestPrefetchResponse m = w_cat [w_b (pfs_ok m), w_str (pfs_message m),
     w_u64 (pfs_lease_id m), w_u32 (pfs_slot_id m), w_u64 (pfs_arena_id m),
     w_u64 (pfs_arena_offset m), w_u64 (pfs_nbytes m), w_u32 (pfs_state m), w_b (pfs_ready m),
     w_u64 (pfs_version m)]"

definition get_RequestPrefetchResponse :: "RequestPrefetchResponse reader" where
  "get_RequestPrefetchResponse = r_bind r_b (\<lambda>ok. r_bind r_str (\<lambda>message.
     r_bind r_u64 (\<lambda>lease_id. r_bind r_u32 (\<lambda>slot_id.
     r_bind r_u64 (\<lambda>arena_id. r_bind r_u64 (\<lambda>arena_offset.
     r_bind r_u64 (\<lambda>nbytes. r_bind r_u32 (\<lambda>state. r_bind r_b (\<lambda>ready.
     r_bind r_u64 (\<lambda>version.
     r_return \<lparr>pfs_ok = ok, pfs_message = message, pfs_lease_id = lease_id,
       pfs_slot_id = slot_id, pfs_arena_id = arena_id, pfs_arena_offset = arena_offset,
       pfs_nbytes = nbytes, pfs_state = state, pfs_ready = ready,
       pfs_version = version\<rparr>))))))))))"

definition decode_RequestPrefetchResponse :: "bytes \<Rightarrow> RequestPrefetchResponse option" where
  "decode_RequestPrefetchResponse = decode_with get_RequestPrefetchResponse"

interpretation RequestPrefetchResponse_codec: codec encode_RequestPrefetchResponse get_RequestPrefetchResponse "\<lambda>m. True"
proof
  show "get_RequestPrefetchResponse (b @ rest) = Some (m, rest)" if "encode_RequestPrefetchResponse m = Some b" for m b rest
    using that by (auto simp: encode_RequestPrefetchResponse_def get_RequestPrefetchResponse_def wire_write wire_read r_return_def)
qed (auto simp: get_RequestPrefetchResponse_def intro!: wire_mono)

definition encode_MarkH2DSubmittedRequest :: "MarkH2DSubmittedRequest \<Rightarrow> wfield" where
  "encode_MarkH2DSubmittedRequest m = w_cat [w_u32 (hsq_rank_id m), w_u64 (hsq_rank_epoch m),
     w_u64 (hsq_lease_id m), w_u64 (hsq_tensor_id m), w_u64 (hsq_version m),
     w_u32 (hsq_slot_id m), w_u64 (hsq_submit_seq m), w_u64 (hsq_timestamp_ns m)]"

definition get_MarkH2DSubmittedRequest :: "MarkH2DSubmittedRequest reader" where
  "get_MarkH2DSubmittedRequest = r_bind r_u32 (\<lambda>rank_id.
     r_bind r_u64 (\<lambda>rank_epoch. r_bind r_u64 (\<lambda>lease_id.
     r_bind r_u64 (\<lambda>tensor_id. r_bind r_u64 (\<lambda>version.
     r_bind r_u32 (\<lambda>slot_id. r_bind r_u64 (\<lambda>submit_seq.
     r_bind r_u64 (\<lambda>timestamp_ns.
     r_return \<lparr>hsq_rank_id = rank_id, hsq_rank_epoch = rank_epoch,
       hsq_lease_id = lease_id, hsq_tensor_id = tensor_id, hsq_version = version,
       hsq_slot_id = slot_id, hsq_submit_seq = submit_seq,
       hsq_timestamp_ns = timestamp_ns\<rparr>))))))))"

definition decode_MarkH2DSubmittedRequest :: "bytes \<Rightarrow> MarkH2DSubmittedRequest option" where
  "decode_MarkH2DSubmittedRequest = decode_with get_MarkH2DSubmittedRequest"

interpretation MarkH2DSubmittedRequest_codec: codec encode_MarkH2DSubmittedRequest get_MarkH2DSubmittedRequest "\<lambda>m. True"
proof
  show "get_MarkH2DSubmittedRequest (b @ rest) = Some (m, rest)" if "encode_MarkH2DSubmittedRequest m = Some b" for m b rest
    using that by (auto simp: encode_MarkH2DSubmittedRequest_def get_MarkH2DSubmittedRequest_def wire_write wire_read r_return_def)
qed (auto simp: get_MarkH2DSubmittedRequest_def intro!: wire_mono)

definition encode_MarkH2DSubmittedResponse :: "MarkH2DSubmittedResponse \<Rightarrow> wfield" where
  "encode_MarkH2DSubmittedResponse m = w_cat [w_b (hss_ok m), w_str (hss_message m)]"

definition get_MarkH2DSubmittedResponse :: "MarkH2DSubmittedResponse reader" where
  "get_MarkH2DSubmittedResponse = r_bind r_b (\<lambda>ok. r_bind r_str (\<lambda>message.
     r_return \<lparr>hss_ok = ok, hss_message = message\<rparr>))"

definition decode_MarkH2DSubmittedResponse :: "bytes \<Rightarrow> MarkH2DSubmittedResponse option" where
  "decode_MarkH2DSubmittedResponse = decode_with get_MarkH2DSubmittedResponse"

interpretation MarkH2DSubmittedResponse_codec: codec encode_MarkH2DSubmittedResponse get_MarkH2DSubmittedResponse "\<lambda>m. True"
proof
  show "get_MarkH2DSubmittedResponse (b @ rest) = Some (m, rest)" if "encode_MarkH2DSubmittedResponse m = Some b" for m b rest
    using that by (auto simp: encode_MarkH2DSubmittedResponse_def get_MarkH2DSubmittedResponse_def wire_write wire_read r_return_def)
qed (auto simp: get_MarkH2DSubmittedResponse_def intro!: wire_mono)

definition encode_MarkH2DCompleteRequest :: "MarkH2DCompleteRequest \<Rightarrow> wfield" where
  "encode_MarkH2DCompleteRequest m = w_cat [w_u32 (hcq_rank_id m), w_u64 (hcq_rank_epoch m),
     w_u64 (hcq_lease_id m), w_u64 (hcq_tensor_id m), w_u64 (hcq_version m),
     w_u32 (hcq_slot_id m), w_b (hcq_keep_pinned m), w_u64 (hcq_complete_seq m),
     w_u64 (hcq_timestamp_ns m)]"

definition get_MarkH2DCompleteRequest :: "MarkH2DCompleteRequest reader" where
  "get_MarkH2DCompleteRequest = r_bind r_u32 (\<lambda>rank_id. r_bind r_u64 (\<lambda>rank_epoch.
     r_bind r_u64 (\<lambda>lease_id. r_bind r_u64 (\<lambda>tensor_id.
     r_bind r_u64 (\<lambda>version. r_bind r_u32 (\<lambda>slot_id.
     r_bind r_b (\<lambda>keep_pinned. r_bind r_u64 (\<lambda>complete_seq.
     r_bind r_u64 (\<lambda>timestamp_ns.
     r_return \<lparr>hcq_rank_id = rank_id, hcq_rank_epoch = rank_epoch,
       hcq_lease_id = lease_id, hcq_tensor_id = tensor_id, hcq_version = version,
       hcq_slot_id = slot_id, hcq_keep_pinned = keep_pinned, hcq_complete_seq = complete_seq,
       hcq_timestamp_ns = timestamp_ns\<rparr>)))))))))"

definition decode_MarkH2DCompleteRequest :: "bytes \<Rightarrow> MarkH2DCompleteRequest option" where
  "decode_MarkH2DCompleteRequest = decode_with get_MarkH2DCompleteRequest"

interpretation MarkH2DCompleteRequest_codec: codec encode_MarkH2DCompleteRequest get_MarkH2DCompleteRequest "\<lambda>m. True"
proof
  show "get_MarkH2DCompleteRequest (b @ rest) = Some (m, rest)" if "encode_MarkH2DCompleteRequest m = Some b" for m b rest
    using that by (auto simp: encode_MarkH2DCompleteRequest_def get_MarkH2DCompleteRequest_def wire_write wire_read r_return_def)
qed (auto simp: get_MarkH2DCompleteRequest_def intro!: wire_mono)

definition encode_MarkH2DCompleteResponse :: "MarkH2DCompleteResponse \<Rightarrow> wfield" where
  "encode_MarkH2DCompleteResponse m = w_cat [w_b (hcs_ok m), w_str (hcs_message m)]"

definition get_MarkH2DCompleteResponse :: "MarkH2DCompleteResponse reader" where
  "get_MarkH2DCompleteResponse = r_bind r_b (\<lambda>ok. r_bind r_str (\<lambda>message.
     r_return \<lparr>hcs_ok = ok, hcs_message = message\<rparr>))"

definition decode_MarkH2DCompleteResponse :: "bytes \<Rightarrow> MarkH2DCompleteResponse option" where
  "decode_MarkH2DCompleteResponse = decode_with get_MarkH2DCompleteResponse"

interpretation MarkH2DCompleteResponse_codec: codec encode_MarkH2DCompleteResponse get_MarkH2DCompleteResponse "\<lambda>m. True"
proof
  show "get_MarkH2DCompleteResponse (b @ rest) = Some (m, rest)" if "encode_MarkH2DCompleteResponse m = Some b" for m b rest
    using that by (auto simp: encode_MarkH2DCompleteResponse_def get_MarkH2DCompleteResponse_def wire_write wire_read r_return_def)
qed (auto simp: get_MarkH2DCompleteResponse_def intro!: wire_mono)

definition encode_ReleaseLeaseRequest :: "ReleaseLeaseRequest \<Rightarrow> wfield" where
  "encode_ReleaseLeaseRequest m = w_cat [w_u32 (rlq_rank_id m), w_u64 (rlq_rank_epoch m),
     w_u64 (rlq_lease_id m), w_u32 (rlq_slot_id m), w_str (rlq_reason m)]"

definition get_ReleaseLeaseRequest :: "ReleaseLeaseRequest reader" where
  "get_ReleaseLeaseRequest = r_bind r_u32 (\<lambda>rank_id. r_bind r_u64 (\<lambda>rank_epoch.
     r_bind r_u64 (\<lambda>lease_id. r_bind r_u32 (\<lambda>slot_id.
     r_bind r_str (\<lambda>reason.
     r_return \<lparr>rlq_rank_id = rank_id, rlq_rank_epoch = rank_epoch,
       rlq_lease_id = lease_id, rlq_slot_id = slot_id, rlq_reason = reason\<rparr>)))))"

definition decode_ReleaseLeaseRequest :: "bytes \<Rightarrow> ReleaseLeaseRequest option" where
  "decode_ReleaseLeaseRequest = decode_with get_ReleaseLeaseRequest"

interpretation ReleaseLeaseRequest_codec: codec encode_ReleaseLeaseRequest get_ReleaseLeaseRequest "\<lambda>m. True"
proof
  show "get_ReleaseLeaseRequest (b @ rest) = Some (m, rest)" if "encode_ReleaseLeaseRequest m = Some b" for m b rest
    using that by (auto simp: encode_ReleaseLeaseRequest_def get_ReleaseLeaseRequest_def wire_write wire_read r_return_def)
qed (auto simp: get_ReleaseLeaseRequest_def intro!: wire_mono)

definition encode_ReleaseLeaseResponse :: "ReleaseLeaseResponse \<Rightarrow> wfield" where
  "encode_ReleaseLeaseResponse m = w_cat [w_b (rls_ok m), w_str (rls_message m)]"

definition get_ReleaseLeaseResponse :: "ReleaseLeaseResponse reader" where
  "get_ReleaseLeaseResponse = r_bind r_b (\<lambda>ok. r_bind r_str (\<lambda>message.
     r_return \<lparr>rls_ok = ok, rls_message = message\<rparr>))"

definition decode_ReleaseLeaseResponse :: "bytes \<Rightarrow> ReleaseLeaseResponse option" where
  "decode_ReleaseLeaseResponse = decode_with get_ReleaseLeaseResponse"

interpretation ReleaseLeaseResponse_codec: codec encode_ReleaseLeaseResponse get_ReleaseLeaseResponse "\<lambda>m. True"
proof
  show "get_ReleaseLeaseResponse (b @ rest) = Some (m, rest)" if "encode_ReleaseLeaseResponse m = Some b" for m b rest
    using that by (auto simp: encode_ReleaseLeaseResponse_def get_ReleaseLeaseResponse_def wire_write wire_read r_return_def)
qed (auto simp: get_ReleaseLeaseResponse_def intro!: wire_mono)

definition encode_LocationQueryRequest :: "LocationQueryRequest \<Rightarrow> wfield" where
  "encode_LocationQueryRequest m = w_cat [w_u64 (lqq_tensor_id m), w_u64 (lqq_version m)]"

definition get_LocationQueryRequest :: "LocationQueryRequest reader" where
  "get_LocationQueryRequest = r_bind r_u64 (\<lambda>tensor_id. r_bind r_u64 (\<lambda>version.
     r_return \<lparr>lqq_tensor_id = tensor_id, lqq_version = version\<rparr>))"

definition decode_LocationQueryRequest :: "bytes \<Rightarrow> LocationQueryRequest option" where
  "decode_LocationQueryRequest = decode_with get_LocationQueryRequest"

interpretation LocationQueryRequest_codec: codec encode_LocationQueryRequest get_LocationQueryRequest "\<lambda>m. True"
proof
  show "get_LocationQueryRequest (b @ rest) = Some (m, rest)" if "encode_LocationQueryRequest m = Some b" for m b rest
    using that by (auto simp: encode_LocationQueryRequest_def get_LocationQueryRequest_def wire_write wire_read r_return_def)
qed (auto simp: get_LocationQueryRequest_def intro!: wire_mono)

definition encode_LocationQueryResponse :: "LocationQueryResponse \<Rightarrow> wfield" where
  "encode_LocationQueryResponse m = w_cat [w_b (lqs_ok m), w_str (lqs_message m),
     w_u32 (lqs_location_kind m), w_u32 (lqs_slot_id m), w_u64 (lqs_nbytes m),
     w_u64 (lqs_version m)]"

definition get_LocationQueryResponse :: "LocationQueryResponse reader" where
  "get_LocationQueryResponse = r_bind r_b (\<lambda>ok. r_bind r_str (\<lambda>message.
     r_bind r_u32 (\<lambda>location_kind. r_bind r_u32 (\<lambda>slot_id.
     r_bind r_u64 (\<lambda>nbytes. r_bind r_u64 (\<lambda>version.
     r_return \<lparr>lqs_ok = ok, lqs_message = message, lqs_location_kind = location_kind,
       lqs_slot_id = slot_id, lqs_nbytes = nbytes, lqs_version = version\<rparr>))))))"

definition decode_LocationQueryResponse :: "bytes \<Rightarrow> LocationQueryResponse option" where
  "decode_LocationQueryResponse = decode_with get_LocationQueryResponse"

interpretation LocationQueryResponse_codec: codec encode_LocationQueryResponse get_LocationQueryResponse "\<lambda>m. True"
proof
  show "get_LocationQueryResponse (b @ rest) = Some (m, rest)" if "encode_LocationQueryResponse m = Some b" for m b rest
    using that by (auto simp: encode_LocationQueryResponse_def get_LocationQueryResponse_def wire_write wire_read r_return_def)
qed (auto simp: get_LocationQueryResponse_def intro!: wire_mono)

definition put_BatchCompletion :: "BatchCompletion \<Rightarrow> wfield" where
  "put_BatchCompletion c = w_cat [w_u32 (bcn_event_type c), w_u64 (bcn_lease_id c),
     w_u64 (bcn_tensor_id c), w_u64 (bcn_version c), w_u32 (bcn_slot_id c), w_u64 (bcn_seq c),
     w_u64 (bcn_timestamp_ns c), w_b (bcn_keep_pinned c)]"

definition get_BatchCompletion :: "BatchCompletion reader" where
  "get_BatchCompletion = r_bind r_u32 (\<lambda>event_type. r_bind r_u64 (\<lambda>lease_id.
     r_bind r_u64 (\<lambda>tensor_id. r_bind r_u64 (\<lambda>version. r_bind r_u32 (\<lambda>slot_id.
     r_bind r_u64 (\<lambda>seq. r_bind r_u64 (\<lambda>timestamp_ns. r_bind r_b (\<lambda>keep_pinned.
     r_return \<lparr>bcn_event_type = event_type, bcn_lease_id = lease_id, bcn_tensor_id = tensor_id,
       bcn_version = version, bcn_slot_id = slot_id, bcn_seq = seq, bcn_timestamp_ns = timestamp_ns,
       bcn_keep_pinned = keep_pinned\<rparr>))))))))"

interpretation BatchCompletion_codec: codec put_BatchCompletion get_BatchCompletion "\<lambda>m. True"
proof
  show "get_BatchCompletion (b @ rest) = Some (m, rest)" if "put_BatchCompletion m = Some b" for m b rest
    using that by (auto simp: put_BatchCompletion_def get_BatchCompletion_def wire_write wire_read r_return_def)
qed (auto simp: get_BatchCompletion_def intro!: wire_mono)

definition encode_BatchCompleteRequest :: "BatchCompleteRequest \<Rightarrow> wfield" where
  "encode_BatchCompleteRequest m = w_cat [w_u32 (bcq_rank_id m), w_u64 (bcq_rank_epoch m),
     w_vec put_BatchCompletion (bcq_completions m)]"

definition get_BatchCompleteRequest :: "BatchCompleteRequest reader" where
  "get_BatchCompleteRequest = r_bind r_u32 (\<lambda>rank_id. r_bind r_u64 (\<lambda>rank_epoch.
     r_bind (r_vec get_BatchCompletion) (\<lambda>completions.
     r_return \<lparr>bcq_rank_id = rank_id, bcq_rank_epoch = rank_epoch,
       bcq_completions = completions\<rparr>)))"

definition decode_BatchCompleteRequest :: "bytes \<Rightarrow> BatchCompleteRequest option" where
  "decode_BatchCompleteRequest = decode_with get_BatchCompleteRequest"

interpretation BatchCompleteRequest_codec: codec encode_BatchCompleteRequest get_BatchCompleteRequest "\<lambda>m. length (bcq_completions m) \<le> 0xFFFFFFFF"
proof
  show "get_BatchCompleteRequest (b @ rest) = Some (m, rest)" if "length (bcq_completions m) \<le> 0xFFFFFFFF" and "encode_BatchCompleteRequest m = Some b" for m b rest
    using that by (auto simp: encode_BatchCompleteRequest_def get_BatchCompleteRequest_def wire_write wire_read r_return_def BatchCompletion_codec.vec_in_message)
qed (auto simp: get_BatchCompleteRequest_def intro!: wire_mono BatchCompletion_codec.get_mono)

definition encode_BatchCompleteResponse :: "BatchCompleteResponse \<Rightarrow> wfield" where
  "encode_BatchCompleteResponse m = w_cat [w_b (bcs_ok m), w_str (bcs_message m),
     w_u32 (bcs_accepted m), w_u32 (bcs_rejected m)]"

definition get_BatchCompleteResponse :: "BatchCompleteResponse reader" where
  "get_BatchCompleteResponse = r_bind r_b (\<lambda>ok. r_bind r_str (\<lambda>message.
     r_bind r_u32 (\<lambda>accepted. r_bind r_u32 (\<lambda>rejected.
     r_return \<lparr>bcs_ok = ok, bcs_message = message, bcs_accepted = accepted,
       bcs_rejected = rejected\<rparr>))))"

definition decode_BatchCompleteResponse :: "bytes \<Rightarrow> BatchCompleteResponse option" where
  "decode_BatchCompleteResponse = decode_with get_BatchCompleteResponse"

interpretation BatchCompleteResponse_codec: codec encode_BatchCompleteResponse get_BatchCompleteResponse "\<lambda>m. True"
proof
  show "get_BatchCompleteResponse (b @ rest) = Some (m, rest)" if "encode_BatchCompleteResponse m = Some b" for m b rest
    using that by (auto simp: encode_BatchCompleteResponse_def get_BatchCompleteResponse_def wire_write wire_read r_return_def)
qed (auto simp: get_BatchCompleteResponse_def intro!: wire_mono)

definition encode_GetStatsRequest :: "GetStatsRequest \<Rightarrow> wfield" where
  "encode_GetStatsRequest m = w_cat [w_u32 (gsq_rank_id m)]"

definition get_GetStatsRequest :: "GetStatsRequest reader" where
  "get_GetStatsRequest = r_bind r_u32 (\<lambda>rank_id.
     r_return \<lparr>gsq_rank_id = rank_id\<rparr>)"

definition decode_GetStatsRequest :: "bytes \<Rightarrow> GetStatsRequest option" where
  "decode_GetStatsRequest = decode_with get_GetStatsRequest"

interpretation GetStatsRequest_codec: codec encode_GetStatsRequest get_GetStatsRequest "\<lambda>m. True"
proof
  show "get_GetStatsRequest (b @ rest) = Some (m, rest)" if "encode_GetStatsRequest m = Some b" for m b rest
    using that by (auto simp: encode_GetStatsRequest_def get_GetStatsRequest_def wire_write wire_read r_return_def)
qed (auto simp: get_GetStatsRequest_def intro!: wire_mono)

definition put_stat :: "string \<times> u64 \<Rightarrow> wfield" where
  "put_stat kv = w_cat [w_str (fst kv), w_u64 (snd kv)]"

definition get_stat :: "(string \<times> u64) reader" where
  "get_stat = r_bind r_str (\<lambda>k. r_bind r_u64 (\<lambda>v. r_return (k, v)))"

interpretation stat_codec: codec put_stat get_stat "\<lambda>m. True"
proof
  show "get_stat (b @ rest) = Some (m, rest)" if "put_stat m = Some b" for m b rest
    using that by (auto simp: put_stat_def get_stat_def wire_write wire_read r_return_def)
qed (auto simp: get_stat_def intro!: wire_mono)

definition encode_GetStatsResponse :: "GetStatsResponse \<Rightarrow> wfield" where
  "encode_GetStatsResponse m = w_cat [w_b (gss_ok m), w_str (gss_message m),
     w_vec put_stat (zip (gss_keys m) (gss_values m))]"

definition get_GetStatsResponse :: "GetStatsResponse reader" where
  "get_GetStatsResponse = r_bind r_b (\<lambda>ok. r_bind r_str (\<lambda>message.
     r_bind (r_vec get_stat) (\<lambda>kvs.
     r_return \<lparr>gss_ok = ok, gss_message = message, gss_keys = map fst kvs,
       gss_values = map snd kvs\<rparr>)))"

definition decode_GetStatsResponse :: "bytes \<Rightarrow> GetStatsResponse option" where
  "decode_GetStatsResponse = decode_with get_GetStatsResponse"

interpretation GetStatsResponse_codec: codec encode_GetStatsResponse get_GetStatsResponse "\<lambda>m. length (gss_keys m) = length (gss_values m) \<and> length (gss_keys m) \<le> 0xFFFFFFFF"
proof
  show "get_GetStatsResponse (b @ rest) = Some (m, rest)" if "length (gss_keys m) = length (gss_values m) \<and> length (gss_keys m) \<le> 0xFFFFFFFF" and "encode_GetStatsResponse m = Some b" for m b rest
    using that by (auto simp: encode_GetStatsResponse_def get_GetStatsResponse_def wire_write wire_read r_return_def stat_codec.vec_in_message)
qed (auto simp: get_GetStatsResponse_def intro!: wire_mono stat_codec.get_mono)

definition encode_ShutdownRequest :: "ShutdownRequest \<Rightarrow> wfield" where
  "encode_ShutdownRequest m = w_cat [w_u64 (sdq_token m)]"

definition get_ShutdownRequest :: "ShutdownRequest reader" where
  "get_ShutdownRequest = r_bind r_u64 (\<lambda>token.
     r_return \<lparr>sdq_token = token\<rparr>)"

definition decode_ShutdownRequest :: "bytes \<Rightarrow> ShutdownRequest option" where
  "decode_ShutdownRequest = decode_with get_ShutdownRequest"

interpretation ShutdownRequest_codec: codec encode_ShutdownRequest get_ShutdownRequest "\<lambda>m. True"
proof
  show "get_ShutdownRequest (b @ rest) = Some (m, rest)" if "encode_ShutdownRequest m = Some b" for m b rest
    using that by (auto simp: encode_ShutdownRequest_def get_ShutdownRequest_def wire_write wire_read r_return_def)
qed (auto simp: get_ShutdownRequest_def intro!: wire_mono)

definition encode_ShutdownResponse :: "ShutdownResponse \<Rightarrow> wfield" where
  "encode_ShutdownResponse m = w_cat [w_b (sds_ok m), w_str (sds_message m)]"

definition get_ShutdownResponse :: "ShutdownResponse reader" where
  "get_ShutdownResponse = r_bind r_b (\<lambda>ok. r_bind r_str (\<lambda>message.
     r_return \<lparr>sds_ok = ok, sds_message = message\<rparr>))"

definition decode_ShutdownResponse :: "bytes \<Rightarrow> ShutdownResponse option" where
  "decode_ShutdownResponse = decode_with get_ShutdownResponse"

interpretation ShutdownResponse_codec: codec encode_ShutdownResponse get_ShutdownResponse "\<lambda>m. True"
proof
  show "get_ShutdownResponse (b @ rest) = Some (m, rest)" if "encode_ShutdownResponse m = Some b" for m b rest
    using that by (auto simp: encode_ShutdownResponse_def get_ShutdownResponse_def wire_write wire_read r_return_def)
qed (auto simp: get_ShutdownResponse_def intro!: wire_mono)

end
