(* ===== verification/Wire_V2.thy ===== *)
theory Wire_V2
  imports Wire_Format Protocol_V2
begin

text \<open>
  The codecs of \<^verbatim>\<open>src/common/wire_v2.cpp\<close>: the shared sub-messages (job key, tensor key, manifest
  filter), then every message of the canonical store with its interpretation of the \<open>codec\<close>
  contract.
\<close>

definition put_jobkey :: "JobKeyWire \<Rightarrow> wfield" where
  "put_jobkey j = w_cat [w_u64 (jk_tenant_id j), w_u64 (jk_job_id j), w_u64 (jk_launch_epoch j),
     w_str (jk_job_name j)]"

definition get_jobkey :: "JobKeyWire reader" where
  "get_jobkey = r_bind r_u64 (\<lambda>tenant_id. r_bind r_u64 (\<lambda>job_id.
     r_bind r_u64 (\<lambda>launch_epoch. r_bind r_str (\<lambda>job_name.
     r_return \<lparr>jk_tenant_id = tenant_id, jk_job_id = job_id,
       jk_launch_epoch = launch_epoch, jk_job_name = job_name\<rparr>))))"

interpretation jobkey_codec: codec put_jobkey get_jobkey "\<lambda>m. True"
proof
  show "get_jobkey (b @ rest) = Some (m, rest)" if "put_jobkey m = Some b" for m b rest
    using that by (auto simp: put_jobkey_def get_jobkey_def wire_write wire_read r_return_def)
qed (auto simp: get_jobkey_def intro!: wire_mono)

definition put_key :: "CanonicalTensorKeyWire \<Rightarrow> wfield" where
  "put_key k = w_cat [put_jobkey (ck_job k), w_u32 (ck_model_role k), w_u64 (ck_model_version k),
     w_u64 (ck_param_id k), w_u64 (ck_param_fqn_hash k), w_str (ck_param_fqn_debug k),
     w_u32 (ck_dtype k), w_u32 (ck_layout k), w_u64 (ck_nbytes k), w_u64 (ck_shape_hash k),
     w_u64 (ck_stride_hash k), w_u32 (ck_pp_rank k), w_u32 (ck_tp_rank k), w_u32 (ck_ep_rank k),
     w_u32 (ck_etp_rank k), w_u32 (ck_expert_id k), w_u64 (ck_shard_offset k),
     w_u64 (ck_shard_nbytes k)]"

definition get_key :: "CanonicalTensorKeyWire reader" where
  "get_key = r_bind get_jobkey (\<lambda>job. r_bind r_u32 (\<lambda>model_role.
     r_bind r_u64 (\<lambda>model_version. r_bind r_u64 (\<lambda>param_id.
     r_bind r_u64 (\<lambda>param_fqn_hash. r_bind r_str (\<lambda>param_fqn_debug.
     r_bind r_u32 (\<lambda>dtype. r_bind r_u32 (\<lambda>layout. r_bind r_u64 (\<lambda>nbytes.
     r_bind r_u64 (\<lambda>shape_hash. r_bind r_u64 (\<lambda>stride_hash.
     r_bind r_u32 (\<lambda>pp_rank. r_bind r_u32 (\<lambda>tp_rank.
     r_bind r_u32 (\<lambda>ep_rank. r_bind r_u32 (\<lambda>etp_rank.
     r_bind r_u32 (\<lambda>expert_id. r_bind r_u64 (\<lambda>shard_offset.
     r_bind r_u64 (\<lambda>shard_nbytes.
     r_return \<lparr>ck_job = job, ck_model_role = model_role, ck_model_version = model_version,
       ck_param_id = param_id, ck_param_fqn_hash = param_fqn_hash,
       ck_param_fqn_debug = param_fqn_debug, ck_dtype = dtype, ck_layout = layout,
       ck_nbytes = nbytes, ck_shape_hash = shape_hash, ck_stride_hash = stride_hash,
       ck_pp_rank = pp_rank, ck_tp_rank = tp_rank, ck_ep_rank = ep_rank, ck_etp_rank = etp_rank,
       ck_expert_id = expert_id, ck_shard_offset = shard_offset,
       ck_shard_nbytes = shard_nbytes\<rparr>))))))))))))))))))"

interpretation key_codec: codec put_key get_key "\<lambda>m. True"
proof
  show "get_key (b @ rest) = Some (m, rest)" if "put_key m = Some b" for m b rest
    using that by (auto simp: put_key_def get_key_def wire_write wire_read r_return_def jobkey_codec.in_message)
qed (auto simp: get_key_def intro!: wire_mono jobkey_codec.get_mono)

definition put_filter :: "ManifestFilterWire \<Rightarrow> wfield" where
  "put_filter f = w_cat [w_b (mfw_pp_present f), w_u32 (mfw_pp_rank f), w_b (mfw_tp_present f),
     w_u32 (mfw_tp_rank f), w_b (mfw_ep_present f), w_u32 (mfw_ep_rank f),
     w_b (mfw_etp_present f), w_u32 (mfw_etp_rank f), w_b (mfw_expert_present f),
     w_u32 (mfw_expert_id f)]"

definition get_filter :: "ManifestFilterWire reader" where
  "get_filter = r_bind r_b (\<lambda>pp_present. r_bind r_u32 (\<lambda>pp_rank.
     r_bind r_b (\<lambda>tp_present. r_bind r_u32 (\<lambda>tp_rank.
     r_bind r_b (\<lambda>ep_present. r_bind r_u32 (\<lambda>ep_rank.
     r_bind r_b (\<lambda>etp_present. r_bind r_u32 (\<lambda>etp_rank.
     r_bind r_b (\<lambda>expert_present. r_bind r_u32 (\<lambda>expert_id.
     r_return \<lparr>mfw_pp_present = pp_present, mfw_pp_rank = pp_rank,
       mfw_tp_present = tp_present, mfw_tp_rank = tp_rank, mfw_ep_present = ep_present,
       mfw_ep_rank = ep_rank, mfw_etp_present = etp_present, mfw_etp_rank = etp_rank,
       mfw_expert_present = expert_present, mfw_expert_id = expert_id\<rparr>))))))))))"

interpretation filter_codec: codec put_filter get_filter "\<lambda>m. True"
proof
  show "get_filter (b @ rest) = Some (m, rest)" if "put_filter m = Some b" for m b rest
    using that by (auto simp: put_filter_def get_filter_def wire_write wire_read r_return_def)
qed (auto simp: get_filter_def intro!: wire_mono)

definition encode_RegisterJobRequest :: "RegisterJobRequest \<Rightarrow> wfield" where
  "encode_RegisterJobRequest m = w_cat [w_u64 (rjq_tenant_id m), w_str (rjq_job_name m),
     w_u64 (rjq_scheduler_job_id m), w_vec w_str (rjq_label_keys m),
     w_vec w_str (rjq_label_values m)]"

definition get_RegisterJobRequest :: "RegisterJobRequest reader" where
  "get_RegisterJobRequest = r_bind r_u64 (\<lambda>tenant_id. r_bind r_str (\<lambda>job_name.
     r_bind r_u64 (\<lambda>scheduler_job_id. r_bind (r_vec r_str) (\<lambda>label_keys.
     r_bind (r_vec r_str) (\<lambda>label_values.
     r_return \<lparr>rjq_tenant_id = tenant_id, rjq_job_name = job_name,
       rjq_scheduler_job_id = scheduler_job_id, rjq_label_keys = label_keys,
       rjq_label_values = label_values\<rparr>)))))"

definition decode_RegisterJobRequest :: "bytes \<Rightarrow> RegisterJobRequest option" where
  "decode_RegisterJobRequest = decode_with get_RegisterJobRequest"

interpretation RegisterJobRequest_codec: codec encode_RegisterJobRequest get_RegisterJobRequest "\<lambda>m. length (rjq_label_keys m) \<le> 0xFFFFFFFF \<and> length (rjq_label_values m) \<le> 0xFFFFFFFF"
proof
  show "get_RegisterJobRequest (b @ rest) = Some (m, rest)" if "length (rjq_label_keys m) \<le> 0xFFFFFFFF \<and> length (rjq_label_values m) \<le> 0xFFFFFFFF" and "encode_RegisterJobRequest m = Some b" for m b rest
    using that by (auto simp: encode_RegisterJobRequest_def get_RegisterJobRequest_def wire_write wire_read r_return_def str_codec.vec_in_message)
qed (auto simp: get_RegisterJobRequest_def intro!: wire_mono str_codec.get_mono)

definition encode_RegisterJobResponse :: "RegisterJobResponse \<Rightarrow> wfield" where
  "encode_RegisterJobResponse m = w_cat [w_b (rjs_ok m), w_str (rjs_message m),
     put_jobkey (rjs_job m), w_u64 (rjs_control_generation m)]"

definition get_RegisterJobResponse :: "RegisterJobResponse reader" where
  "get_RegisterJobResponse = r_bind r_b (\<lambda>ok. r_bind r_str (\<lambda>message.
     r_bind get_jobkey (\<lambda>job. r_bind r_u64 (\<lambda>control_generation.
     r_return \<lparr>rjs_ok = ok, rjs_message = message, rjs_job = job,
       rjs_control_generation = control_generation\<rparr>))))"

definition decode_RegisterJobResponse :: "bytes \<Rightarrow> RegisterJobResponse option" where
  "decode_RegisterJobResponse = decode_with get_RegisterJobResponse"

interpretation RegisterJobResponse_codec: codec encode_RegisterJobResponse get_RegisterJobResponse "\<lambda>m. True"
proof
  show "get_RegisterJobResponse (b @ rest) = Some (m, rest)" if "encode_RegisterJobResponse m = Some b" for m b rest
    using that by (auto simp: encode_RegisterJobResponse_def get_RegisterJobResponse_def wire_write wire_read r_return_def jobkey_codec.in_message)
qed (auto simp: get_RegisterJobResponse_def intro!: wire_mono jobkey_codec.get_mono)

definition encode_RequestCanonicalEvictRequest :: "RequestCanonicalEvictRequest \<Rightarrow> wfield" where
  "encode_RequestCanonicalEvictRequest m = w_cat [w_u32 (ceq_rank_id m),
     w_u64 (ceq_rank_epoch m), put_key (ceq_key m), w_u64 (ceq_local_tensor_id m),
     w_u64 (ceq_local_version m), w_b (ceq_destructive m), w_b (ceq_attach_if_exists m),
     w_b (ceq_create_if_missing m), w_u32 (ceq_dedup_mode m),
     w_b (ceq_allow_duplicate_candidate m), w_u32 (ceq_alignment m), w_u32 (ceq_priority m),
     w_u32 (ceq_gpu_id m), w_u32 (ceq_numa_node m)]"

definition get_RequestCanonicalEvictRequest :: "RequestCanonicalEvictRequest reader" where
  "get_RequestCanonicalEvictRequest = r_bind r_u32 (\<lambda>rank_id.
     r_bind r_u64 (\<lambda>rank_epoch. r_bind get_key (\<lambda>key.
     r_bind r_u64 (\<lambda>local_tensor_id. r_bind r_u64 (\<lambda>local_version.
     r_bind r_b (\<lambda>destructive. r_bind r_b (\<lambda>attach_if_exists.
     r_bind r_b (\<lambda>create_if_missing. r_bind r_u32 (\<lambda>dedup_mode.
     r_bind r_b (\<lambda>allow_duplicate_candidate. r_bind r_u32 (\<lambda>alignment.
     r_bind r_u32 (\<lambda>priority. r_bind r_u32 (\<lambda>gpu_id.
     r_bind r_u32 (\<lambda>numa_node.
     r_return \<lparr>ceq_rank_id = rank_id, ceq_rank_epoch = rank_epoch, ceq_key = key,
       ceq_local_tensor_id = local_tensor_id, ceq_local_version = local_version,
       ceq_destructive = destructive, ceq_attach_if_exists = attach_if_exists,
       ceq_create_if_missing = create_if_missing, ceq_dedup_mode = dedup_mode,
       ceq_allow_duplicate_candidate = allow_duplicate_candidate, ceq_alignment = alignment,
       ceq_priority = priority, ceq_gpu_id = gpu_id,
       ceq_numa_node = numa_node\<rparr>))))))))))))))"

definition decode_RequestCanonicalEvictRequest :: "bytes \<Rightarrow> RequestCanonicalEvictRequest option" where
  "decode_RequestCanonicalEvictRequest = decode_with get_RequestCanonicalEvictRequest"

interpretation RequestCanonicalEvictRequest_codec: codec encode_RequestCanonicalEvictRequest get_RequestCanonicalEvictRequest "\<lambda>m. True"
proof
  show "get_RequestCanonicalEvictRequest (b @ rest) = Some (m, rest)" if "encode_RequestCanonicalEvictRequest m = Some b" for m b rest
    using that by (auto simp: encode_RequestCanonicalEvictRequest_def get_RequestCanonicalEvictRequest_def wire_write wire_read r_return_def key_codec.in_message)
qed (auto simp: get_RequestCanonicalEvictRequest_def intro!: wire_mono key_codec.get_mono)

definition encode_RequestCanonicalEvictResponse :: "RequestCanonicalEvictResponse \<Rightarrow> wfield" where
  "encode_RequestCanonicalEvictResponse m = w_cat [w_b (ces_ok m), w_str (ces_message m),
     w_u32 (ces_action m), w_u64 (ces_object_id m), w_u64 (ces_lease_id m),
     w_u32 (ces_slot_id m), w_u64 (ces_arena_id m), w_u64 (ces_arena_offset m),
     w_u64 (ces_capacity m), w_u64 (ces_synthetic_tid m)]"

definition get_RequestCanonicalEvictResponse :: "RequestCanonicalEvictResponse reader" where
  "get_RequestCanonicalEvictResponse = r_bind r_b (\<lambda>ok. r_bind r_str (\<lambda>message.
     r_bind r_u32 (\<lambda>action. r_bind r_u64 (\<lambda>object_id.
     r_bind r_u64 (\<lambda>lease_id. r_bind r_u32 (\<lambda>slot_id.
     r_bind r_u64 (\<lambda>arena_id. r_bind r_u64 (\<lambda>arena_offset.
     r_bind r_u64 (\<lambda>capacity. r_bind r_u64 (\<lambda>synthetic_tid.
     r_return \<lparr>ces_ok = ok, ces_message = message, ces_action = action,
       ces_object_id = object_id, ces_lease_id = lease_id, ces_slot_id = slot_id,
       ces_arena_id = arena_id, ces_arena_offset = arena_offset, ces_capacity = capacity,
       ces_synthetic_tid = synthetic_tid\<rparr>))))))))))"

definition decode_RequestCanonicalEvictResponse :: "bytes \<Rightarrow> RequestCanonicalEvictResponse option" where
  "decode_RequestCanonicalEvictResponse = decode_with get_RequestCanonicalEvictResponse"

interpretation RequestCanonicalEvictResponse_codec: codec encode_RequestCanonicalEvictResponse get_RequestCanonicalEvictResponse "\<lambda>m. True"
proof
  show "get_RequestCanonicalEvictResponse (b @ rest) = Some (m, rest)" if "encode_RequestCanonicalEvictResponse m = Some b" for m b rest
    using that by (auto simp: encode_RequestCanonicalEvictResponse_def get_RequestCanonicalEvictResponse_def wire_write wire_read r_return_def)
qed (auto simp: get_RequestCanonicalEvictResponse_def intro!: wire_mono)

definition encode_CommitCanonicalObjectRequest :: "CommitCanonicalObjectRequest \<Rightarrow> wfield" where
  "encode_CommitCanonicalObjectRequest m = w_cat [w_u32 (ccq_rank_id m),
     w_u64 (ccq_rank_epoch m), w_u64 (ccq_object_id m), w_u64 (ccq_lease_id m),
     w_u32 (ccq_slot_id m), w_u64 (ccq_content_hash_lo m), w_u64 (ccq_content_hash_hi m)]"

definition get_CommitCanonicalObjectRequest :: "CommitCanonicalObjectRequest reader" where
  "get_CommitCanonicalObjectRequest = r_bind r_u32 (\<lambda>rank_id.
     r_bind r_u64 (\<lambda>rank_epoch. r_bind r_u64 (\<lambda>object_id.
     r_bind r_u64 (\<lambda>lease_id. r_bind r_u32 (\<lambda>slot_id.
     r_bind r_u64 (\<lambda>content_hash_lo. r_bind r_u64 (\<lambda>content_hash_hi.
     r_return \<lparr>ccq_rank_id = rank_id, ccq_rank_epoch = rank_epoch,
       ccq_object_id = object_id, ccq_lease_id = lease_id, ccq_slot_id = slot_id,
       ccq_content_hash_lo = content_hash_lo,
       ccq_content_hash_hi = content_hash_hi\<rparr>)))))))"

definition decode_CommitCanonicalObjectRequest :: "bytes \<Rightarrow> CommitCanonicalObjectRequest option" where
  "decode_CommitCanonicalObjectRequest = decode_with get_CommitCanonicalObjectRequest"

interpretation CommitCanonicalObjectRequest_codec: codec encode_CommitCanonicalObjectRequest get_CommitCanonicalObjectRequest "\<lambda>m. True"
proof
  show "get_CommitCanonicalObjectRequest (b @ rest) = Some (m, rest)" if "encode_CommitCanonicalObjectRequest m = Some b" for m b rest
    using that by (auto simp: encode_CommitCanonicalObjectRequest_def get_CommitCanonicalObjectRequest_def wire_write wire_read r_return_def)
qed (auto simp: get_CommitCanonicalObjectRequest_def intro!: wire_mono)

definition encode_CommitCanonicalObjectResponse :: "CommitCanonicalObjectResponse \<Rightarrow> wfield" where
  "encode_CommitCanonicalObjectResponse m = w_cat [w_b (ccs_ok m), w_str (ccs_message m),
     w_u64 (ccs_object_id m), w_b (ccs_won m)]"

definition get_CommitCanonicalObjectResponse :: "CommitCanonicalObjectResponse reader" where
  "get_CommitCanonicalObjectResponse = r_bind r_b (\<lambda>ok. r_bind r_str (\<lambda>message.
     r_bind r_u64 (\<lambda>object_id. r_bind r_b (\<lambda>won.
     r_return \<lparr>ccs_ok = ok, ccs_message = message, ccs_object_id = object_id,
       ccs_won = won\<rparr>))))"

definition decode_CommitCanonicalObjectResponse :: "bytes \<Rightarrow> CommitCanonicalObjectResponse option" where
  "decode_CommitCanonicalObjectResponse = decode_with get_CommitCanonicalObjectResponse"

interpretation CommitCanonicalObjectResponse_codec: codec encode_CommitCanonicalObjectResponse get_CommitCanonicalObjectResponse "\<lambda>m. True"
proof
  show "get_CommitCanonicalObjectResponse (b @ rest) = Some (m, rest)" if "encode_CommitCanonicalObjectResponse m = Some b" for m b rest
    using that by (auto simp: encode_CommitCanonicalObjectResponse_def get_CommitCanonicalObjectResponse_def wire_write wire_read r_return_def)
qed (auto simp: get_CommitCanonicalObjectResponse_def intro!: wire_mono)

definition encode_SealModelVersionRequest :: "SealModelVersionRequest \<Rightarrow> wfield" where
  "encode_SealModelVersionRequest m = w_cat [put_jobkey (smq_job m), w_u32 (smq_model_role m),
     w_u64 (smq_model_version m), w_b (smq_fail_if_missing m),
     w_vec w_u64 (smq_expected_param_ids m), w_b (smq_promote m)]"

definition get_SealModelVersionRequest :: "SealModelVersionRequest reader" where
  "get_SealModelVersionRequest = r_bind get_jobkey (\<lambda>job.
     r_bind r_u32 (\<lambda>model_role. r_bind r_u64 (\<lambda>model_version.
     r_bind r_b (\<lambda>fail_if_missing. r_bind (r_vec r_u64) (\<lambda>expected_param_ids.
     r_bind r_b (\<lambda>promote.
     r_return \<lparr>smq_job = job, smq_model_role = model_role,
       smq_model_version = model_version, smq_fail_if_missing = fail_if_missing,
       smq_expected_param_ids = expected_param_ids, smq_promote = promote\<rparr>))))))"

definition decode_SealModelVersionRequest :: "bytes \<Rightarrow> SealModelVersionRequest option" where
  "decode_SealModelVersionRequest = decode_with get_SealModelVersionRequest"

interpretation SealModelVersionRequest_codec: codec encode_SealModelVersionRequest get_SealModelVersionRequest "\<lambda>m. length (smq_expected_param_ids m) \<le> 0xFFFFFFFF"
proof
  show "get_SealModelVersionRequest (b @ rest) = Some (m, rest)" if "length (smq_expected_param_ids m) \<le> 0xFFFFFFFF" and "encode_SealModelVersionRequest m = Some b" for m b rest
    using that by (auto simp: encode_SealModelVersionRequest_def get_SealModelVersionRequest_def wire_write wire_read r_return_def u64_codec.vec_in_message jobkey_codec.in_message)
qed (auto simp: get_SealModelVersionRequest_def intro!: wire_mono jobkey_codec.get_mono u64_codec.get_mono)

definition encode_SealModelVersionResponse :: "SealModelVersionResponse \<Rightarrow> wfield" where
  "encode_SealModelVersionResponse m = w_cat [w_b (sms_ok m), w_str (sms_message m),
     w_u32 (sms_state m), w_u64 (sms_tensor_count m), w_u64 (sms_total_nbytes m),
     w_u64 (sms_manifest_hash_lo m), w_u64 (sms_manifest_hash_hi m)]"

definition get_SealModelVersionResponse :: "SealModelVersionResponse reader" where
  "get_SealModelVersionResponse = r_bind r_b (\<lambda>ok. r_bind r_str (\<lambda>message.
     r_bind r_u32 (\<lambda>state. r_bind r_u64 (\<lambda>tensor_count.
     r_bind r_u64 (\<lambda>total_nbytes. r_bind r_u64 (\<lambda>manifest_hash_lo.
     r_bind r_u64 (\<lambda>manifest_hash_hi.
     r_return \<lparr>sms_ok = ok, sms_message = message, sms_state = state,
       sms_tensor_count = tensor_count, sms_total_nbytes = total_nbytes,
       sms_manifest_hash_lo = manifest_hash_lo,
       sms_manifest_hash_hi = manifest_hash_hi\<rparr>)))))))"

definition decode_SealModelVersionResponse :: "bytes \<Rightarrow> SealModelVersionResponse option" where
  "decode_SealModelVersionResponse = decode_with get_SealModelVersionResponse"

interpretation SealModelVersionResponse_codec: codec encode_SealModelVersionResponse get_SealModelVersionResponse "\<lambda>m. True"
proof
  show "get_SealModelVersionResponse (b @ rest) = Some (m, rest)" if "encode_SealModelVersionResponse m = Some b" for m b rest
    using that by (auto simp: encode_SealModelVersionResponse_def get_SealModelVersionResponse_def wire_write wire_read r_return_def)
qed (auto simp: get_SealModelVersionResponse_def intro!: wire_mono)

definition encode_GetLatestSealedVersionRequest :: "GetLatestSealedVersionRequest \<Rightarrow> wfield" where
  "encode_GetLatestSealedVersionRequest m = w_cat [put_jobkey (glq_job m),
     w_u32 (glq_model_role m)]"

definition get_GetLatestSealedVersionRequest :: "GetLatestSealedVersionRequest reader" where
  "get_GetLatestSealedVersionRequest = r_bind get_jobkey (\<lambda>job.
     r_bind r_u32 (\<lambda>model_role.
     r_return \<lparr>glq_job = job, glq_model_role = model_role\<rparr>))"

definition decode_GetLatestSealedVersionRequest :: "bytes \<Rightarrow> GetLatestSealedVersionRequest option" where
  "decode_GetLatestSealedVersionRequest = decode_with get_GetLatestSealedVersionRequest"

interpretation GetLatestSealedVersionRequest_codec: codec encode_GetLatestSealedVersionRequest get_GetLatestSealedVersionRequest "\<lambda>m. True"
proof
  show "get_GetLatestSealedVersionRequest (b @ rest) = Some (m, rest)" if "encode_GetLatestSealedVersionRequest m = Some b" for m b rest
    using that by (auto simp: encode_GetLatestSealedVersionRequest_def get_GetLatestSealedVersionRequest_def wire_write wire_read r_return_def jobkey_codec.in_message)
qed (auto simp: get_GetLatestSealedVersionRequest_def intro!: wire_mono jobkey_codec.get_mono)

definition encode_GetLatestSealedVersionResponse :: "GetLatestSealedVersionResponse \<Rightarrow> wfield" where
  "encode_GetLatestSealedVersionResponse m = w_cat [w_b (gls_ok m), w_str (gls_message m),
     w_b (gls_found m), w_u64 (gls_model_version m)]"

definition get_GetLatestSealedVersionResponse :: "GetLatestSealedVersionResponse reader" where
  "get_GetLatestSealedVersionResponse = r_bind r_b (\<lambda>ok. r_bind r_str (\<lambda>message.
     r_bind r_b (\<lambda>found. r_bind r_u64 (\<lambda>model_version.
     r_return \<lparr>gls_ok = ok, gls_message = message, gls_found = found,
       gls_model_version = model_version\<rparr>))))"

definition decode_GetLatestSealedVersionResponse :: "bytes \<Rightarrow> GetLatestSealedVersionResponse option" where
  "decode_GetLatestSealedVersionResponse = decode_with get_GetLatestSealedVersionResponse"

interpretation GetLatestSealedVersionResponse_codec: codec encode_GetLatestSealedVersionResponse get_GetLatestSealedVersionResponse "\<lambda>m. True"
proof
  show "get_GetLatestSealedVersionResponse (b @ rest) = Some (m, rest)" if "encode_GetLatestSealedVersionResponse m = Some b" for m b rest
    using that by (auto simp: encode_GetLatestSealedVersionResponse_def get_GetLatestSealedVersionResponse_def wire_write wire_read r_return_def)
qed (auto simp: get_GetLatestSealedVersionResponse_def intro!: wire_mono)

definition encode_GetManifestRequest :: "GetManifestRequest \<Rightarrow> wfield" where
  "encode_GetManifestRequest m = w_cat [put_jobkey (gmq_job m), w_u32 (gmq_model_role m),
     w_u64 (gmq_model_version m), put_filter (gmq_filter m)]"

definition get_GetManifestRequest :: "GetManifestRequest reader" where
  "get_GetManifestRequest = r_bind get_jobkey (\<lambda>job. r_bind r_u32 (\<lambda>model_role.
     r_bind r_u64 (\<lambda>model_version. r_bind get_filter (\<lambda>filter.
     r_return \<lparr>gmq_job = job, gmq_model_role = model_role,
       gmq_model_version = model_version, gmq_filter = filter\<rparr>))))"

definition decode_GetManifestRequest :: "bytes \<Rightarrow> GetManifestRequest option" where
  "decode_GetManifestRequest = decode_with get_GetManifestRequest"

interpretation GetManifestRequest_codec: codec encode_GetManifestRequest get_GetManifestRequest "\<lambda>m. True"
proof
  show "get_GetManifestRequest (b @ rest) = Some (m, rest)" if "encode_GetManifestRequest m = Some b" for m b rest
    using that by (auto simp: encode_GetManifestRequest_def get_GetManifestRequest_def wire_write wire_read r_return_def jobkey_codec.in_message filter_codec.in_message)
qed (auto simp: get_GetManifestRequest_def intro!: wire_mono jobkey_codec.get_mono filter_codec.get_mono)

definition put_manifest_entry :: "TensorManifestEntryWire \<Rightarrow> wfield" where
  "put_manifest_entry t = w_cat [put_key (tme_key t), w_u64 (tme_object_id t), w_u64 (tme_nbytes t),
     w_u64 (tme_content_hash_lo t), w_u64 (tme_content_hash_hi t), w_str (tme_location_hint t)]"

definition get_manifest_entry :: "TensorManifestEntryWire reader" where
  "get_manifest_entry = r_bind get_key (\<lambda>key. r_bind r_u64 (\<lambda>object_id. r_bind r_u64 (\<lambda>nbytes.
     r_bind r_u64 (\<lambda>content_hash_lo. r_bind r_u64 (\<lambda>content_hash_hi.
     r_bind r_str (\<lambda>location_hint.
     r_return \<lparr>tme_key = key, tme_object_id = object_id, tme_nbytes = nbytes,
       tme_content_hash_lo = content_hash_lo, tme_content_hash_hi = content_hash_hi,
       tme_location_hint = location_hint\<rparr>))))))"

interpretation manifest_entry_codec: codec put_manifest_entry get_manifest_entry "\<lambda>m. True"
proof
  show "get_manifest_entry (b @ rest) = Some (m, rest)" if "put_manifest_entry m = Some b" for m b rest
    using that by (auto simp: put_manifest_entry_def get_manifest_entry_def wire_write wire_read r_return_def key_codec.in_message)
qed (auto simp: get_manifest_entry_def intro!: wire_mono key_codec.get_mono)

definition encode_GetManifestResponse :: "GetManifestResponse \<Rightarrow> wfield" where
  "encode_GetManifestResponse m = w_cat [w_b (gms_ok m), w_str (gms_message m),
     put_jobkey (gms_job m), w_u32 (gms_model_role m), w_u64 (gms_model_version m),
     w_u32 (gms_state m), w_vec put_manifest_entry (gms_tensors m)]"

definition get_GetManifestResponse :: "GetManifestResponse reader" where
  "get_GetManifestResponse = r_bind r_b (\<lambda>ok. r_bind r_str (\<lambda>message.
     r_bind get_jobkey (\<lambda>job. r_bind r_u32 (\<lambda>model_role.
     r_bind r_u64 (\<lambda>model_version. r_bind r_u32 (\<lambda>state.
     r_bind (r_vec get_manifest_entry) (\<lambda>tensors.
     r_return \<lparr>gms_ok = ok, gms_message = message, gms_job = job,
       gms_model_role = model_role, gms_model_version = model_version, gms_state = state,
       gms_tensors = tensors\<rparr>)))))))"

definition decode_GetManifestResponse :: "bytes \<Rightarrow> GetManifestResponse option" where
  "decode_GetManifestResponse = decode_with get_GetManifestResponse"

interpretation GetManifestResponse_codec: codec encode_GetManifestResponse get_GetManifestResponse "\<lambda>m. length (gms_tensors m) \<le> 0xFFFFFFFF"
proof
  show "get_GetManifestResponse (b @ rest) = Some (m, rest)" if "length (gms_tensors m) \<le> 0xFFFFFFFF" and "encode_GetManifestResponse m = Some b" for m b rest
    using that by (auto simp: encode_GetManifestResponse_def get_GetManifestResponse_def wire_write wire_read r_return_def manifest_entry_codec.vec_in_message jobkey_codec.in_message)
qed (auto simp: get_GetManifestResponse_def intro!: wire_mono jobkey_codec.get_mono manifest_entry_codec.get_mono)

definition encode_PullTensorRequest :: "PullTensorRequest \<Rightarrow> wfield" where
  "encode_PullTensorRequest m = w_cat [put_jobkey (ptq_job m), w_u32 (ptq_model_role m),
     w_u64 (ptq_model_version m), w_u64 (ptq_object_id m), w_u32 (ptq_transport m),
     w_str (ptq_target_descriptor m)]"

definition get_PullTensorRequest :: "PullTensorRequest reader" where
  "get_PullTensorRequest = r_bind get_jobkey (\<lambda>job. r_bind r_u32 (\<lambda>model_role.
     r_bind r_u64 (\<lambda>model_version. r_bind r_u64 (\<lambda>object_id.
     r_bind r_u32 (\<lambda>transport. r_bind r_str (\<lambda>target_descriptor.
     r_return \<lparr>ptq_job = job, ptq_model_role = model_role,
       ptq_model_version = model_version, ptq_object_id = object_id, ptq_transport = transport,
       ptq_target_descriptor = target_descriptor\<rparr>))))))"

definition decode_PullTensorRequest :: "bytes \<Rightarrow> PullTensorRequest option" where
  "decode_PullTensorRequest = decode_with get_PullTensorRequest"

interpretation PullTensorRequest_codec: codec encode_PullTensorRequest get_PullTensorRequest "\<lambda>m. True"
proof
  show "get_PullTensorRequest (b @ rest) = Some (m, rest)" if "encode_PullTensorRequest m = Some b" for m b rest
    using that by (auto simp: encode_PullTensorRequest_def get_PullTensorRequest_def wire_write wire_read r_return_def jobkey_codec.in_message)
qed (auto simp: get_PullTensorRequest_def intro!: wire_mono jobkey_codec.get_mono)

definition encode_PullTensorResponse :: "PullTensorResponse \<Rightarrow> wfield" where
  "encode_PullTensorResponse m = w_cat [w_b (pts_ok m), w_str (pts_message m),
     w_u64 (pts_object_id m), w_u64 (pts_nbytes m), w_u32 (pts_transport m),
     w_u64 (pts_content_hash_lo m), w_u64 (pts_content_hash_hi m),
     w_str (pts_transport_metadata m)]"

definition get_PullTensorResponse :: "PullTensorResponse reader" where
  "get_PullTensorResponse = r_bind r_b (\<lambda>ok. r_bind r_str (\<lambda>message.
     r_bind r_u64 (\<lambda>object_id. r_bind r_u64 (\<lambda>nbytes.
     r_bind r_u32 (\<lambda>transport. r_bind r_u64 (\<lambda>content_hash_lo.
     r_bind r_u64 (\<lambda>content_hash_hi. r_bind r_str (\<lambda>transport_metadata.
     r_return \<lparr>pts_ok = ok, pts_message = message, pts_object_id = object_id,
       pts_nbytes = nbytes, pts_transport = transport, pts_content_hash_lo = content_hash_lo,
       pts_content_hash_hi = content_hash_hi,
       pts_transport_metadata = transport_metadata\<rparr>))))))))"

definition decode_PullTensorResponse :: "bytes \<Rightarrow> PullTensorResponse option" where
  "decode_PullTensorResponse = decode_with get_PullTensorResponse"

interpretation PullTensorResponse_codec: codec encode_PullTensorResponse get_PullTensorResponse "\<lambda>m. True"
proof
  show "get_PullTensorResponse (b @ rest) = Some (m, rest)" if "encode_PullTensorResponse m = Some b" for m b rest
    using that by (auto simp: encode_PullTensorResponse_def get_PullTensorResponse_def wire_write wire_read r_return_def)
qed (auto simp: get_PullTensorResponse_def intro!: wire_mono)

definition encode_RequestCanonicalRestoreRequest :: "RequestCanonicalRestoreRequest \<Rightarrow> wfield" where
  "encode_RequestCanonicalRestoreRequest m = w_cat [w_u32 (crq_rank_id m),
     w_u64 (crq_rank_epoch m), w_u64 (crq_object_id m), w_u32 (crq_gpu_id m),
     w_u32 (crq_numa_node m)]"

definition get_RequestCanonicalRestoreRequest :: "RequestCanonicalRestoreRequest reader" where
  "get_RequestCanonicalRestoreRequest = r_bind r_u32 (\<lambda>rank_id.
     r_bind r_u64 (\<lambda>rank_epoch. r_bind r_u64 (\<lambda>object_id.
     r_bind r_u32 (\<lambda>gpu_id. r_bind r_u32 (\<lambda>numa_node.
     r_return \<lparr>crq_rank_id = rank_id, crq_rank_epoch = rank_epoch,
       crq_object_id = object_id, crq_gpu_id = gpu_id, crq_numa_node = numa_node\<rparr>)))))"

definition decode_RequestCanonicalRestoreRequest :: "bytes \<Rightarrow> RequestCanonicalRestoreRequest option" where
  "decode_RequestCanonicalRestoreRequest = decode_with get_RequestCanonicalRestoreRequest"

interpretation RequestCanonicalRestoreRequest_codec: codec encode_RequestCanonicalRestoreRequest get_RequestCanonicalRestoreRequest "\<lambda>m. True"
proof
  show "get_RequestCanonicalRestoreRequest (b @ rest) = Some (m, rest)" if "encode_RequestCanonicalRestoreRequest m = Some b" for m b rest
    using that by (auto simp: encode_RequestCanonicalRestoreRequest_def get_RequestCanonicalRestoreRequest_def wire_write wire_read r_return_def)
qed (auto simp: get_RequestCanonicalRestoreRequest_def intro!: wire_mono)

definition encode_RequestCanonicalRestoreResponse :: "RequestCanonicalRestoreResponse \<Rightarrow> wfield" where
  "encode_RequestCanonicalRestoreResponse m = w_cat [w_b (crs_ok m), w_str (crs_message m),
     w_b (crs_retriable m), w_u64 (crs_object_id m), w_u64 (crs_nbytes m),
     w_u64 (crs_arena_id m), w_u64 (crs_arena_offset m)]"

definition get_RequestCanonicalRestoreResponse :: "RequestCanonicalRestoreResponse reader" where
  "get_RequestCanonicalRestoreResponse = r_bind r_b (\<lambda>ok. r_bind r_str (\<lambda>message.
     r_bind r_b (\<lambda>retriable. r_bind r_u64 (\<lambda>object_id.
     r_bind r_u64 (\<lambda>nbytes. r_bind r_u64 (\<lambda>arena_id.
     r_bind r_u64 (\<lambda>arena_offset.
     r_return \<lparr>crs_ok = ok, crs_message = message, crs_retriable = retriable,
       crs_object_id = object_id, crs_nbytes = nbytes, crs_arena_id = arena_id,
       crs_arena_offset = arena_offset\<rparr>)))))))"

definition decode_RequestCanonicalRestoreResponse :: "bytes \<Rightarrow> RequestCanonicalRestoreResponse option" where
  "decode_RequestCanonicalRestoreResponse = decode_with get_RequestCanonicalRestoreResponse"

interpretation RequestCanonicalRestoreResponse_codec: codec encode_RequestCanonicalRestoreResponse get_RequestCanonicalRestoreResponse "\<lambda>m. True"
proof
  show "get_RequestCanonicalRestoreResponse (b @ rest) = Some (m, rest)" if "encode_RequestCanonicalRestoreResponse m = Some b" for m b rest
    using that by (auto simp: encode_RequestCanonicalRestoreResponse_def get_RequestCanonicalRestoreResponse_def wire_write wire_read r_return_def)
qed (auto simp: get_RequestCanonicalRestoreResponse_def intro!: wire_mono)

definition encode_ReleaseCanonicalRestoreRequest :: "ReleaseCanonicalRestoreRequest \<Rightarrow> wfield" where
  "encode_ReleaseCanonicalRestoreRequest m = w_cat [w_u32 (xrq_rank_id m),
     w_u64 (xrq_rank_epoch m), w_u64 (xrq_object_id m)]"

definition get_ReleaseCanonicalRestoreRequest :: "ReleaseCanonicalRestoreRequest reader" where
  "get_ReleaseCanonicalRestoreRequest = r_bind r_u32 (\<lambda>rank_id.
     r_bind r_u64 (\<lambda>rank_epoch. r_bind r_u64 (\<lambda>object_id.
     r_return \<lparr>xrq_rank_id = rank_id, xrq_rank_epoch = rank_epoch,
       xrq_object_id = object_id\<rparr>)))"

definition decode_ReleaseCanonicalRestoreRequest :: "bytes \<Rightarrow> ReleaseCanonicalRestoreRequest option" where
  "decode_ReleaseCanonicalRestoreRequest = decode_with get_ReleaseCanonicalRestoreRequest"

interpretation ReleaseCanonicalRestoreRequest_codec: codec encode_ReleaseCanonicalRestoreRequest get_ReleaseCanonicalRestoreRequest "\<lambda>m. True"
proof
  show "get_ReleaseCanonicalRestoreRequest (b @ rest) = Some (m, rest)" if "encode_ReleaseCanonicalRestoreRequest m = Some b" for m b rest
    using that by (auto simp: encode_ReleaseCanonicalRestoreRequest_def get_ReleaseCanonicalRestoreRequest_def wire_write wire_read r_return_def)
qed (auto simp: get_ReleaseCanonicalRestoreRequest_def intro!: wire_mono)

definition encode_ReleaseCanonicalRestoreResponse :: "ReleaseCanonicalRestoreResponse \<Rightarrow> wfield" where
  "encode_ReleaseCanonicalRestoreResponse m = w_cat [w_b (xrs_ok m), w_str (xrs_message m)]"

definition get_ReleaseCanonicalRestoreResponse :: "ReleaseCanonicalRestoreResponse reader" where
  "get_ReleaseCanonicalRestoreResponse = r_bind r_b (\<lambda>ok. r_bind r_str (\<lambda>message.
     r_return \<lparr>xrs_ok = ok, xrs_message = message\<rparr>))"

definition decode_ReleaseCanonicalRestoreResponse :: "bytes \<Rightarrow> ReleaseCanonicalRestoreResponse option" where
  "decode_ReleaseCanonicalRestoreResponse = decode_with get_ReleaseCanonicalRestoreResponse"

interpretation ReleaseCanonicalRestoreResponse_codec: codec encode_ReleaseCanonicalRestoreResponse get_ReleaseCanonicalRestoreResponse "\<lambda>m. True"
proof
  show "get_ReleaseCanonicalRestoreResponse (b @ rest) = Some (m, rest)" if "encode_ReleaseCanonicalRestoreResponse m = Some b" for m b rest
    using that by (auto simp: encode_ReleaseCanonicalRestoreResponse_def get_ReleaseCanonicalRestoreResponse_def wire_write wire_read r_return_def)
qed (auto simp: get_ReleaseCanonicalRestoreResponse_def intro!: wire_mono)

definition encode_DropCanonicalVersionRequest :: "DropCanonicalVersionRequest \<Rightarrow> wfield" where
  "encode_DropCanonicalVersionRequest m = w_cat [put_jobkey (dvq_job m),
     w_u32 (dvq_model_role m), w_u64 (dvq_model_version m)]"

definition get_DropCanonicalVersionRequest :: "DropCanonicalVersionRequest reader" where
  "get_DropCanonicalVersionRequest = r_bind get_jobkey (\<lambda>job.
     r_bind r_u32 (\<lambda>model_role. r_bind r_u64 (\<lambda>model_version.
     r_return \<lparr>dvq_job = job, dvq_model_role = model_role,
       dvq_model_version = model_version\<rparr>)))"

definition decode_DropCanonicalVersionRequest :: "bytes \<Rightarrow> DropCanonicalVersionRequest option" where
  "decode_DropCanonicalVersionRequest = decode_with get_DropCanonicalVersionRequest"

interpretation DropCanonicalVersionRequest_codec: codec encode_DropCanonicalVersionRequest get_DropCanonicalVersionRequest "\<lambda>m. True"
proof
  show "get_DropCanonicalVersionRequest (b @ rest) = Some (m, rest)" if "encode_DropCanonicalVersionRequest m = Some b" for m b rest
    using that by (auto simp: encode_DropCanonicalVersionRequest_def get_DropCanonicalVersionRequest_def wire_write wire_read r_return_def jobkey_codec.in_message)
qed (auto simp: get_DropCanonicalVersionRequest_def intro!: wire_mono jobkey_codec.get_mono)

definition encode_DropCanonicalVersionResponse :: "DropCanonicalVersionResponse \<Rightarrow> wfield" where
  "encode_DropCanonicalVersionResponse m = w_cat [w_b (dvs_ok m), w_str (dvs_message m),
     w_u64 (dvs_dropped_count m), w_u64 (dvs_skipped_inflight m), w_u64 (dvs_bytes_freed m)]"

definition get_DropCanonicalVersionResponse :: "DropCanonicalVersionResponse reader" where
  "get_DropCanonicalVersionResponse = r_bind r_b (\<lambda>ok. r_bind r_str (\<lambda>message.
     r_bind r_u64 (\<lambda>dropped_count. r_bind r_u64 (\<lambda>skipped_inflight.
     r_bind r_u64 (\<lambda>bytes_freed.
     r_return \<lparr>dvs_ok = ok, dvs_message = message, dvs_dropped_count = dropped_count,
       dvs_skipped_inflight = skipped_inflight, dvs_bytes_freed = bytes_freed\<rparr>)))))"

definition decode_DropCanonicalVersionResponse :: "bytes \<Rightarrow> DropCanonicalVersionResponse option" where
  "decode_DropCanonicalVersionResponse = decode_with get_DropCanonicalVersionResponse"

interpretation DropCanonicalVersionResponse_codec: codec encode_DropCanonicalVersionResponse get_DropCanonicalVersionResponse "\<lambda>m. True"
proof
  show "get_DropCanonicalVersionResponse (b @ rest) = Some (m, rest)" if "encode_DropCanonicalVersionResponse m = Some b" for m b rest
    using that by (auto simp: encode_DropCanonicalVersionResponse_def get_DropCanonicalVersionResponse_def wire_write wire_read r_return_def)
qed (auto simp: get_DropCanonicalVersionResponse_def intro!: wire_mono)

definition encode_ReleaseCanonicalRequest :: "ReleaseCanonicalRequest \<Rightarrow> wfield" where
  "encode_ReleaseCanonicalRequest m = w_cat [w_u32 (rcq_rank_id m), w_u64 (rcq_rank_epoch m),
     put_jobkey (rcq_job m), w_u32 (rcq_model_role m), w_u64 (rcq_model_version m),
     w_u64 (rcq_object_id m)]"

definition get_ReleaseCanonicalRequest :: "ReleaseCanonicalRequest reader" where
  "get_ReleaseCanonicalRequest = r_bind r_u32 (\<lambda>rank_id.
     r_bind r_u64 (\<lambda>rank_epoch. r_bind get_jobkey (\<lambda>job.
     r_bind r_u32 (\<lambda>model_role. r_bind r_u64 (\<lambda>model_version.
     r_bind r_u64 (\<lambda>object_id.
     r_return \<lparr>rcq_rank_id = rank_id, rcq_rank_epoch = rank_epoch, rcq_job = job,
       rcq_model_role = model_role, rcq_model_version = model_version,
       rcq_object_id = object_id\<rparr>))))))"

definition decode_ReleaseCanonicalRequest :: "bytes \<Rightarrow> ReleaseCanonicalRequest option" where
  "decode_ReleaseCanonicalRequest = decode_with get_ReleaseCanonicalRequest"

interpretation ReleaseCanonicalRequest_codec: codec encode_ReleaseCanonicalRequest get_ReleaseCanonicalRequest "\<lambda>m. True"
proof
  show "get_ReleaseCanonicalRequest (b @ rest) = Some (m, rest)" if "encode_ReleaseCanonicalRequest m = Some b" for m b rest
    using that by (auto simp: encode_ReleaseCanonicalRequest_def get_ReleaseCanonicalRequest_def wire_write wire_read r_return_def jobkey_codec.in_message)
qed (auto simp: get_ReleaseCanonicalRequest_def intro!: wire_mono jobkey_codec.get_mono)

definition encode_ReleaseCanonicalResponse :: "ReleaseCanonicalResponse \<Rightarrow> wfield" where
  "encode_ReleaseCanonicalResponse m = w_cat [w_b (rcs_ok m), w_str (rcs_message m),
     w_u64 (rcs_released_count m), w_u64 (rcs_freed_count m), w_u64 (rcs_bytes_freed m)]"

definition get_ReleaseCanonicalResponse :: "ReleaseCanonicalResponse reader" where
  "get_ReleaseCanonicalResponse = r_bind r_b (\<lambda>ok. r_bind r_str (\<lambda>message.
     r_bind r_u64 (\<lambda>released_count. r_bind r_u64 (\<lambda>freed_count.
     r_bind r_u64 (\<lambda>bytes_freed.
     r_return \<lparr>rcs_ok = ok, rcs_message = message, rcs_released_count = released_count,
       rcs_freed_count = freed_count, rcs_bytes_freed = bytes_freed\<rparr>)))))"

definition decode_ReleaseCanonicalResponse :: "bytes \<Rightarrow> ReleaseCanonicalResponse option" where
  "decode_ReleaseCanonicalResponse = decode_with get_ReleaseCanonicalResponse"

interpretation ReleaseCanonicalResponse_codec: codec encode_ReleaseCanonicalResponse get_ReleaseCanonicalResponse "\<lambda>m. True"
proof
  show "get_ReleaseCanonicalResponse (b @ rest) = Some (m, rest)" if "encode_ReleaseCanonicalResponse m = Some b" for m b rest
    using that by (auto simp: encode_ReleaseCanonicalResponse_def get_ReleaseCanonicalResponse_def wire_write wire_read r_return_def)
qed (auto simp: get_ReleaseCanonicalResponse_def intro!: wire_mono)

end
