(* ===== verification/Uds.thy ===== *)
theory Uds
  imports Wire_Format
begin

text \<open>
  Framed transport over a stream socket (\<^verbatim>\<open>src/common/uds.cpp\<close>): sending and receiving whole frames
  although every \<^verbatim>\<open>send\<close> and \<^verbatim>\<open>recv\<close> may be interrupted, fail, or move only part of the bytes. The
  results of the system calls are an argument of the model: a list of outcomes, one per call. When
  the list ends before the operation does, the operation is still blocked (\<open>Pending\<close>).

  File descriptors passed with \<^verbatim>\<open>SCM_RIGHTS\<close> are modelled on the sending side only (which descriptors
  leave with a frame); the set-up calls (\<^verbatim>\<open>uds_listen\<close>, \<^verbatim>\<open>uds_connect\<close>, ...) are not modelled.
\<close>

section \<open>Definitions\<close>

text \<open>
  \<open>IoBytes n\<close>: the call moves at most \<open>n\<close> bytes, at least one if there are any. \<open>IoEintr\<close>:
  interrupted. \<open>IoError\<close>: any other failure.
\<close>

datatype sys_io = IoBytes nat | IoEintr | IoError

datatype 'a io_result = Done 'a | Threw | Pending

text \<open>Bytes a call moves when \<open>want\<close> are asked for and \<open>avail\<close> are there.\<close>

definition moved :: "nat \<Rightarrow> nat \<Rightarrow> nat \<Rightarrow> nat" where
  "moved n want avail = min (max 1 n) (min want avail)"

text \<open>
  \<^verbatim>\<open>write_all\<close>; the result is what the peer's stream has received, and the outcomes of the calls still
  to come. The \<^verbatim>\<open>sendmsg\<close> loop over the header in \<^verbatim>\<open>send_frame\<close> has the same shape.
\<close>

fun write_all :: "sys_io list \<Rightarrow> bytes \<Rightarrow> bytes \<Rightarrow> (bytes \<times> sys_io list) io_result" where
  "write_all ios [] out = Done (out, ios)"
| "write_all [] (b # bs) out = Pending"
| "write_all (IoEintr # ios) (b # bs) out = write_all ios (b # bs) out"
| "write_all (IoError # ios) (b # bs) out = Threw"
| "write_all (IoBytes n # ios) (b # bs) out =
     (let k = moved n (length (b # bs)) (length (b # bs))
      in write_all ios (drop k (b # bs)) (out @ take k (b # bs)))"

text \<open>
  \<^verbatim>\<open>read_all\<close>, and the header loop of \<^verbatim>\<open>recv_frame\<close>, which has the same shape: read \<open>want\<close> more bytes of
  the stream \<open>inp\<close> after the bytes \<open>acc\<close>. An empty stream is end-of-file: clean
  (\<open>Done None\<close>) when nothing has been read yet, an exception otherwise.
\<close>

fun read_all :: "sys_io list \<Rightarrow> nat \<Rightarrow> bytes \<Rightarrow> bytes \<Rightarrow> (bytes \<times> bytes \<times> sys_io list) option io_result" where
  "read_all ios 0 acc inp = Done (Some (acc, inp, ios))"
| "read_all [] (Suc w) acc inp = Pending"
| "read_all (IoEintr # ios) (Suc w) acc inp = read_all ios (Suc w) acc inp"
| "read_all (IoError # ios) (Suc w) acc inp = Threw"
| "read_all (IoBytes n # ios) (Suc w) acc inp =
     (if inp = [] then (if acc = [] then Done None else Threw)
      else let k = moved n (Suc w) (length inp)
           in read_all ios (Suc w - k) (acc @ take k inp) (drop k inp))"

definition max_payload :: u32 where
  "max_payload = push_bit 20 256"

text \<open>\<^verbatim>\<open>recv_frame\<close>: opcode number, payload, rest of the stream; \<open>None\<close> is a clean end-of-file.\<close>

definition recv_frame :: "sys_io list \<Rightarrow> bytes \<Rightarrow> (u16 \<times> bytes \<times> bytes) option io_result" where
  "recv_frame ios inp =
     (case read_all ios kFrameHeaderSize [] inp of
        Threw \<Rightarrow> Threw | Pending \<Rightarrow> Pending
      | Done None \<Rightarrow> Done None
      | Done (Some (hdr, inp1, ios1)) \<Rightarrow>
          (case parse_frame_header hdr of
             None \<Rightarrow> Threw
           | Some fh \<Rightarrow>
               if fh_payload_len fh > max_payload then Threw
               else (case read_all ios1 (unat (fh_payload_len fh)) [] inp1 of
                       Threw \<Rightarrow> Threw | Pending \<Rightarrow> Pending
                     | Done None \<Rightarrow> Threw
                     | Done (Some (payload, inp2, ios2)) \<Rightarrow> Done (Some (fh_opcode fh, payload, inp2)))))"

definition kMaxFds :: nat where
  "kMaxFds = 32"

text \<open>
  \<^verbatim>\<open>send_frame\<close>: the bytes the peer receives and the descriptors handed over with the first of them.
\<close>

definition send_frame :: "sys_io list \<Rightarrow> bytes \<Rightarrow> nat list \<Rightarrow> (bytes \<times> nat list) io_result" where
  "send_frame ios frame fds =
     (if length frame < kFrameHeaderSize then Threw
      else if fds = [] then
        (case write_all ios frame [] of Threw \<Rightarrow> Threw | Pending \<Rightarrow> Pending | Done (out, ios1) \<Rightarrow> Done (out, []))
      else if length fds > kMaxFds then Threw
      else (case write_all ios (take kFrameHeaderSize frame) [] of
              Threw \<Rightarrow> Threw | Pending \<Rightarrow> Pending
            | Done (out, ios1) \<Rightarrow>
                (case write_all ios1 (drop kFrameHeaderSize frame) out of
                   Threw \<Rightarrow> Threw | Pending \<Rightarrow> Pending
                 | Done (out2, ios2) \<Rightarrow> Done (out2, fds))))"

section \<open>Short reads and writes\<close>

definition calls :: "sys_io list \<Rightarrow> nat" where
  "calls ios = length (filter (\<lambda>io. io \<noteq> IoEintr) ios)"

lemma calls_simps [simp]:
  "calls [] = 0" "calls (IoEintr # ios) = calls ios" "calls (IoBytes n # ios) = Suc (calls ios)"
  "calls (IoError # ios) = Suc (calls ios)"
  by (simp_all add: calls_def)

lemma moved_pos: "0 < want \<Longrightarrow> 0 < avail \<Longrightarrow> 0 < moved n want avail"
  by (simp add: moved_def)

lemma moved_le: "moved n want avail \<le> want" "moved n want avail \<le> avail"
  by (simp_all add: moved_def)

lemma write_all_progress:
  "IoError \<notin> set ios \<Longrightarrow> length buf \<le> calls ios \<Longrightarrow>
   \<exists>ios'. write_all ios buf out = Done (out @ buf, ios') \<and> IoError \<notin> set ios' \<and>
     calls ios \<le> calls ios' + length buf"
proof (induction ios buf out rule: write_all.induct)
  case (5 n ios b bs out)
  let ?k = "moved n (length (b # bs)) (length (b # bs))"
  have k: "0 < ?k" by (rule moved_pos) auto
  then have l: "length (drop ?k (b # bs)) \<le> calls ios" using 5(3) by simp
  have e: "IoError \<notin> set ios" using 5(2) by simp
  obtain ios' where "write_all ios (drop ?k (b # bs)) (out @ take ?k (b # bs)) =
      Done ((out @ take ?k (b # bs)) @ drop ?k (b # bs), ios')"
      "IoError \<notin> set ios'" "calls ios \<le> calls ios' + length (drop ?k (b # bs))"
    using 5(1) [OF refl e l] by blast
  moreover have "(out @ take ?k (b # bs)) @ drop ?k (b # bs) = out @ b # bs"
    by (metis append.assoc append_take_drop_id)
  ultimately show ?case using k by (auto simp: Let_def)
qed auto

lemma read_all_progress:
  "IoError \<notin> set ios \<Longrightarrow> want \<le> calls ios \<Longrightarrow> want \<le> length inp \<Longrightarrow>
   \<exists>ios'. read_all ios want acc inp = Done (Some (acc @ take want inp, drop want inp, ios')) \<and>
      IoError \<notin> set ios' \<and> calls ios \<le> calls ios' + want"
proof (induction ios want acc inp rule: read_all.induct)
  case (5 n ios w acc inp)
  let ?k = "moved n (Suc w) (length inp)"
  have ne: "inp \<noteq> []" using 5(4) by auto
  have k: "0 < ?k" "?k \<le> Suc w" "?k \<le> length inp"
    using moved_pos [of "Suc w" "length inp" n] moved_le [of n "Suc w" "length inp"] ne by auto
  then obtain ios' where "read_all ios (Suc w - ?k) (acc @ take ?k inp) (drop ?k inp) =
      Done (Some ((acc @ take ?k inp) @ take (Suc w - ?k) (drop ?k inp), drop (Suc w - ?k) (drop ?k inp), ios'))"
      "IoError \<notin> set ios'" "calls ios \<le> calls ios' + (Suc w - ?k)"
    using 5(1) [OF ne refl] 5(2-4) by fastforce
  moreover have "take ?k inp @ take (Suc w - ?k) (drop ?k inp) = take (Suc w) inp"
    using k by (metis le_add_diff_inverse take_add)
  ultimately show ?case using ne k by (auto simp: Let_def)
qed auto

lemma frame_moves:
  assumes "make_frame op body flags = Some frame" and "length body \<le> 268435456"
    and "IoError \<notin> set ios" and "length frame \<le> calls ios" and "length fds \<le> kMaxFds"
  shows "recv_frame ios (frame @ rest) = Done (Some (op_number op, body, rest)) \<and>
         send_frame ios frame fds = Done (frame, fds)"
proof -
  let ?hdr = "le_bytes 4 OFLD_RPC_MAGIC @ le_bytes 2 (op_number op) @ le_bytes 2 flags @
             le_bytes 4 (of_nat (length body) :: u32)"
  have frame: "frame = ?hdr @ body" and len: "length body \<le> 0xFFFFFFFF"
    using assms(1) by (auto simp: make_frame_bytes)
  have h12: "length ?hdr = 12" by simp
  have u: "unat (of_nat (length body) :: u32) = length body" using unat_of_nat_u32 [OF len] .
  have "12 \<le> calls ios" using assms(4) by (simp add: frame)
  then obtain ios1 where r1: "read_all ios 12 [] (frame @ rest) = Done (Some (?hdr, body @ rest, ios1))"
      and e1: "IoError \<notin> set ios1" and c1: "calls ios \<le> calls ios1 + 12"
    using read_all_progress [OF assms(3), of 12 "frame @ rest" "[]"] by (auto simp: frame)
  have "length body \<le> calls ios1" using c1 assms(4) by (simp add: frame)
  then obtain ios2 where r2: "read_all ios1 (length body) [] (body @ rest) = Done (Some (body, rest, ios2))"
    using read_all_progress [OF e1, of "length body" "body @ rest" "[]"] by auto
  have p: "parse_frame_header ?hdr = Some \<lparr>fh_magic = OFLD_RPC_MAGIC, fh_opcode = op_number op,
      fh_flags = flags, fh_payload_len = of_nat (length body)\<rparr>"
    by (simp add: parse_frame_header_eq)
  have "\<not> (of_nat (length body) :: u32) > max_payload"
    using assms(2) u by (simp add: word_less_nat_alt max_payload_def push_bit_eq_mult)
  then have "recv_frame ios (frame @ rest) = Done (Some (op_number op, body, rest))"
    using r1 r2 p u by (simp add: recv_frame_def kFrameHeaderSize_def)
  moreover have "send_frame ios frame fds = Done (frame, fds)"
  proof (cases "fds = []")
    case True
    then show ?thesis using write_all_progress [OF assms(3,4), of "[]"] h12
      by (auto simp: send_frame_def kFrameHeaderSize_def frame)
  next
    case False
    have th: "take 12 frame = ?hdr" "drop 12 frame = body" by (simp_all add: frame)
    have "length ?hdr \<le> calls ios" using assms(4) by (simp add: frame)
    then obtain ios1 where w1: "write_all ios ?hdr [] = Done (?hdr, ios1)" "IoError \<notin> set ios1"
        "calls ios \<le> calls ios1 + 12"
      using write_all_progress [OF assms(3), of ?hdr "[]"] h12 by auto
    have "length body \<le> calls ios1" using w1(3) assms(4) by (simp add: frame)
    then obtain ios2 where "write_all ios1 body ?hdr = Done (frame, ios2)"
      using write_all_progress [OF w1(2), of body ?hdr] frame by auto
    then show ?thesis using False w1(1) assms(5) th frame
      by (simp add: send_frame_def kFrameHeaderSize_def)
  qed
  ultimately show ?thesis by simp
qed

section \<open>Properties\<close>

text \<open>
  C24. Frames survive the socket: whatever the sizes of the individual reads and however often
  they are interrupted, as long as no call fails and there are at least as many completed calls
  as bytes, receiving a frame built by \<^verbatim>\<open>make_frame\<close> (payload up to 256 MiB) yields its opcode and
  body and leaves the rest of the stream untouched; and sending it, with up to 32 descriptors
  attached, delivers exactly its bytes and the descriptors.
\<close>

theorem frame_transfer:
  assumes "make_frame op body flags = Some frame" and "length body \<le> 268435456"
    and "IoError \<notin> set ios" and "length frame \<le> calls ios" and "length fds \<le> kMaxFds"
  shows "recv_frame ios (frame @ rest) = Done (Some (op_number op, body, rest)) \<and>
         send_frame ios frame fds = Done (frame, fds)"
  using frame_moves [OF assms] .

theorem frame_transfer_witness:
  "recv_frame (replicate 30 (IoBytes 3)) (the (make_frame kShutdown [9, 8] 0) @ [7]) =
     Done (Some (12, [9, 8], [7]))"
proof -
  obtain frame where f: "make_frame kShutdown [9, 8] 0 = Some frame"
    by (simp add: make_frame_bytes)
  have "length frame = 14" using f by (simp add: make_frame_bytes)
  then show ?thesis
    using frame_transfer [OF f, of "replicate 30 (IoBytes 3)" "[]" "[7]"] f
    by (simp add: calls_def kMaxFds_def)
qed

end
