(* ===== verification/Messages.thy ===== *)
theory Messages
  imports Wire Wire_V2 Uds
begin

text \<open>
  All messages of the protocol as two sum types, one constructor per opcode. \<open>request\<close> is what
  \<^verbatim>\<open>RpcClient\<close> (\<^verbatim>\<open>src/agent/rpc_client.cpp\<close>) encodes and the daemon's \<^verbatim>\<open>dispatch\<close> decodes by opcode;
  \<open>response\<close> is what \<^verbatim>\<open>dispatch\<close> encodes and the client decodes. The C++ \<^verbatim>\<open>encode\<close> is one overloaded
  function; here the overloads are the equations of \<open>encode_request\<close> and \<open>encode_response\<close>.
\<close>

section \<open>Definitions\<close>

datatype (plugins only: code) request =
    RqRegisterRank RegisterRankRequest
  | RqHeartbeat HeartbeatRequest
  | RqRequestOffload RequestOffloadRequest
  | RqMarkD2HSubmitted MarkD2HSubmittedRequest
  | RqMarkD2HComplete MarkD2HCompleteRequest
  | RqRequestPrefetch RequestPrefetchRequest
  | RqMarkH2DSubmitted MarkH2DSubmittedRequest
  | RqMarkH2DComplete MarkH2DCompleteRequest
  | RqReleaseLease ReleaseLeaseRequest
  | RqLocationQuery LocationQueryRequest
  | RqBatchComplete BatchCompleteRequest
  | RqGetStats GetStatsRequest
  | RqShutdown ShutdownRequest
  | RqRegisterJob RegisterJobRequest
  | RqRequestCanonicalEvict RequestCanonicalEvictRequest
  | RqCommitCanonicalObject CommitCanonicalObjectRequest
  | RqSealModelVersion SealModelVersionRequest
  | RqGetLatestSealedVersion GetLatestSealedVersionRequest
  | RqGetManifest GetManifestRequest
  | RqPullTensor PullTensorRequest
  | RqRequestCanonicalRestore RequestCanonicalRestoreRequest
  | RqReleaseCanonicalRestore ReleaseCanonicalRestoreRequest
  | RqDropCanonicalVersion DropCanonicalVersionRequest
  | RqReleaseCanonical ReleaseCanonicalRequest

fun request_op :: "request \<Rightarrow> op_code" where
  "request_op (RqRegisterRank m) = kRegisterRank"
| "request_op (RqHeartbeat m) = kHeartbeat"
| "request_op (RqRequestOffload m) = kRequestOffload"
| "request_op (RqMarkD2HSubmitted m) = kMarkD2HSubmitted"
| "request_op (RqMarkD2HComplete m) = kMarkD2HComplete"
| "request_op (RqRequestPrefetch m) = kRequestPrefetch"
| "request_op (RqMarkH2DSubmitted m) = kMarkH2DSubmitted"
| "request_op (RqMarkH2DComplete m) = kMarkH2DComplete"
| "request_op (RqReleaseLease m) = kReleaseLease"
| "request_op (RqLocationQuery m) = kQueryLocation"
| "request_op (RqBatchComplete m) = kBatchComplete"
| "request_op (RqGetStats m) = kGetStats"
| "request_op (RqShutdown m) = kShutdown"
| "request_op (RqRegisterJob m) = kRegisterJob"
| "request_op (RqRequestCanonicalEvict m) = kRequestCanonicalEvict"
| "request_op (RqCommitCanonicalObject m) = kCommitCanonicalObject"
| "request_op (RqSealModelVersion m) = kSealModelVersion"
| "request_op (RqGetLatestSealedVersion m) = kGetLatestSealedVersion"
| "request_op (RqGetManifest m) = kGetManifest"
| "request_op (RqPullTensor m) = kPullTensor"
| "request_op (RqRequestCanonicalRestore m) = kRequestCanonicalRestore"
| "request_op (RqReleaseCanonicalRestore m) = kReleaseCanonicalRestore"
| "request_op (RqDropCanonicalVersion m) = kDropCanonicalVersion"
| "request_op (RqReleaseCanonical m) = kReleaseCanonical"

fun encode_request :: "request \<Rightarrow> wfield" where
  "encode_request (RqRegisterRank m) = encode_RegisterRankRequest m"
| "encode_request (RqHeartbeat m) = encode_HeartbeatRequest m"
| "encode_request (RqRequestOffload m) = encode_RequestOffloadRequest m"
| "encode_request (RqMarkD2HSubmitted m) = encode_MarkD2HSubmittedRequest m"
| "encode_request (RqMarkD2HComplete m) = encode_MarkD2HCompleteRequest m"
| "encode_request (RqRequestPrefetch m) = encode_RequestPrefetchRequest m"
| "encode_request (RqMarkH2DSubmitted m) = encode_MarkH2DSubmittedRequest m"
| "encode_request (RqMarkH2DComplete m) = encode_MarkH2DCompleteRequest m"
| "encode_request (RqReleaseLease m) = encode_ReleaseLeaseRequest m"
| "encode_request (RqLocationQuery m) = encode_LocationQueryRequest m"
| "encode_request (RqBatchComplete m) = encode_BatchCompleteRequest m"
| "encode_request (RqGetStats m) = encode_GetStatsRequest m"
| "encode_request (RqShutdown m) = encode_ShutdownRequest m"
| "encode_request (RqRegisterJob m) = encode_RegisterJobRequest m"
| "encode_request (RqRequestCanonicalEvict m) = encode_RequestCanonicalEvictRequest m"
| "encode_request (RqCommitCanonicalObject m) = encode_CommitCanonicalObjectRequest m"
| "encode_request (RqSealModelVersion m) = encode_SealModelVersionRequest m"
| "encode_request (RqGetLatestSealedVersion m) = encode_GetLatestSealedVersionRequest m"
| "encode_request (RqGetManifest m) = encode_GetManifestRequest m"
| "encode_request (RqPullTensor m) = encode_PullTensorRequest m"
| "encode_request (RqRequestCanonicalRestore m) = encode_RequestCanonicalRestoreRequest m"
| "encode_request (RqReleaseCanonicalRestore m) = encode_ReleaseCanonicalRestoreRequest m"
| "encode_request (RqDropCanonicalVersion m) = encode_DropCanonicalVersionRequest m"
| "encode_request (RqReleaseCanonical m) = encode_ReleaseCanonicalRequest m"

fun decode_request :: "op_code \<Rightarrow> bytes \<Rightarrow> request option" where
  "decode_request kRegisterRank d = map_option RqRegisterRank (decode_RegisterRankRequest d)"
| "decode_request kHeartbeat d = map_option RqHeartbeat (decode_HeartbeatRequest d)"
| "decode_request kRequestOffload d = map_option RqRequestOffload (decode_RequestOffloadRequest d)"
| "decode_request kMarkD2HSubmitted d = map_option RqMarkD2HSubmitted (decode_MarkD2HSubmittedRequest d)"
| "decode_request kMarkD2HComplete d = map_option RqMarkD2HComplete (decode_MarkD2HCompleteRequest d)"
| "decode_request kRequestPrefetch d = map_option RqRequestPrefetch (decode_RequestPrefetchRequest d)"
| "decode_request kMarkH2DSubmitted d = map_option RqMarkH2DSubmitted (decode_MarkH2DSubmittedRequest d)"
| "decode_request kMarkH2DComplete d = map_option RqMarkH2DComplete (decode_MarkH2DCompleteRequest d)"
| "decode_request kReleaseLease d = map_option RqReleaseLease (decode_ReleaseLeaseRequest d)"
| "decode_request kQueryLocation d = map_option RqLocationQuery (decode_LocationQueryRequest d)"
| "decode_request kBatchComplete d = map_option RqBatchComplete (decode_BatchCompleteRequest d)"
| "decode_request kGetStats d = map_option RqGetStats (decode_GetStatsRequest d)"
| "decode_request kShutdown d = map_option RqShutdown (decode_ShutdownRequest d)"
| "decode_request kRegisterJob d = map_option RqRegisterJob (decode_RegisterJobRequest d)"
| "decode_request kRequestCanonicalEvict d = map_option RqRequestCanonicalEvict (decode_RequestCanonicalEvictRequest d)"
| "decode_request kCommitCanonicalObject d = map_option RqCommitCanonicalObject (decode_CommitCanonicalObjectRequest d)"
| "decode_request kSealModelVersion d = map_option RqSealModelVersion (decode_SealModelVersionRequest d)"
| "decode_request kGetLatestSealedVersion d = map_option RqGetLatestSealedVersion (decode_GetLatestSealedVersionRequest d)"
| "decode_request kGetManifest d = map_option RqGetManifest (decode_GetManifestRequest d)"
| "decode_request kPullTensor d = map_option RqPullTensor (decode_PullTensorRequest d)"
| "decode_request kRequestCanonicalRestore d = map_option RqRequestCanonicalRestore (decode_RequestCanonicalRestoreRequest d)"
| "decode_request kReleaseCanonicalRestore d = map_option RqReleaseCanonicalRestore (decode_ReleaseCanonicalRestoreRequest d)"
| "decode_request kDropCanonicalVersion d = map_option RqDropCanonicalVersion (decode_DropCanonicalVersionRequest d)"
| "decode_request kReleaseCanonical d = map_option RqReleaseCanonical (decode_ReleaseCanonicalRequest d)"
| "decode_request kInvalid d = None"

text \<open>
  What the encoder takes for granted: the element count of a vector fits its 32-bit length
  prefix.
\<close>

fun wf_request :: "request \<Rightarrow> bool" where
  "wf_request (RqBatchComplete m) \<longleftrightarrow> length (bcq_completions m) \<le> 0xFFFFFFFF"
| "wf_request (RqRegisterJob m) \<longleftrightarrow> length (rjq_label_keys m) \<le> 0xFFFFFFFF \<and> length (rjq_label_values m) \<le> 0xFFFFFFFF"
| "wf_request (RqSealModelVersion m) \<longleftrightarrow> length (smq_expected_param_ids m) \<le> 0xFFFFFFFF"
| "wf_request m \<longleftrightarrow> True"

datatype (plugins only: code) response =
    RsRegisterRank RegisterRankResponse
  | RsHeartbeat HeartbeatResponse
  | RsRequestOffload RequestOffloadResponse
  | RsMarkD2HSubmitted MarkD2HSubmittedResponse
  | RsMarkD2HComplete MarkD2HCompleteResponse
  | RsRequestPrefetch RequestPrefetchResponse
  | RsMarkH2DSubmitted MarkH2DSubmittedResponse
  | RsMarkH2DComplete MarkH2DCompleteResponse
  | RsReleaseLease ReleaseLeaseResponse
  | RsLocationQuery LocationQueryResponse
  | RsBatchComplete BatchCompleteResponse
  | RsGetStats GetStatsResponse
  | RsShutdown ShutdownResponse
  | RsRegisterJob RegisterJobResponse
  | RsRequestCanonicalEvict RequestCanonicalEvictResponse
  | RsCommitCanonicalObject CommitCanonicalObjectResponse
  | RsSealModelVersion SealModelVersionResponse
  | RsGetLatestSealedVersion GetLatestSealedVersionResponse
  | RsGetManifest GetManifestResponse
  | RsPullTensor PullTensorResponse
  | RsRequestCanonicalRestore RequestCanonicalRestoreResponse
  | RsReleaseCanonicalRestore ReleaseCanonicalRestoreResponse
  | RsDropCanonicalVersion DropCanonicalVersionResponse
  | RsReleaseCanonical ReleaseCanonicalResponse

fun response_op :: "response \<Rightarrow> op_code" where
  "response_op (RsRegisterRank m) = kRegisterRank"
| "response_op (RsHeartbeat m) = kHeartbeat"
| "response_op (RsRequestOffload m) = kRequestOffload"
| "response_op (RsMarkD2HSubmitted m) = kMarkD2HSubmitted"
| "response_op (RsMarkD2HComplete m) = kMarkD2HComplete"
| "response_op (RsRequestPrefetch m) = kRequestPrefetch"
| "response_op (RsMarkH2DSubmitted m) = kMarkH2DSubmitted"
| "response_op (RsMarkH2DComplete m) = kMarkH2DComplete"
| "response_op (RsReleaseLease m) = kReleaseLease"
| "response_op (RsLocationQuery m) = kQueryLocation"
| "response_op (RsBatchComplete m) = kBatchComplete"
| "response_op (RsGetStats m) = kGetStats"
| "response_op (RsShutdown m) = kShutdown"
| "response_op (RsRegisterJob m) = kRegisterJob"
| "response_op (RsRequestCanonicalEvict m) = kRequestCanonicalEvict"
| "response_op (RsCommitCanonicalObject m) = kCommitCanonicalObject"
| "response_op (RsSealModelVersion m) = kSealModelVersion"
| "response_op (RsGetLatestSealedVersion m) = kGetLatestSealedVersion"
| "response_op (RsGetManifest m) = kGetManifest"
| "response_op (RsPullTensor m) = kPullTensor"
| "response_op (RsRequestCanonicalRestore m) = kRequestCanonicalRestore"
| "response_op (RsReleaseCanonicalRestore m) = kReleaseCanonicalRestore"
| "response_op (RsDropCanonicalVersion m) = kDropCanonicalVersion"
| "response_op (RsReleaseCanonical m) = kReleaseCanonical"

fun encode_response :: "response \<Rightarrow> wfield" where
  "encode_response (RsRegisterRank m) = encode_RegisterRankResponse m"
| "encode_response (RsHeartbeat m) = encode_HeartbeatResponse m"
| "encode_response (RsRequestOffload m) = encode_RequestOffloadResponse m"
| "encode_response (RsMarkD2HSubmitted m) = encode_MarkD2HSubmittedResponse m"
| "encode_response (RsMarkD2HComplete m) = encode_MarkD2HCompleteResponse m"
| "encode_response (RsRequestPrefetch m) = encode_RequestPrefetchResponse m"
| "encode_response (RsMarkH2DSubmitted m) = encode_MarkH2DSubmittedResponse m"
| "encode_response (RsMarkH2DComplete m) = encode_MarkH2DCompleteResponse m"
| "encode_response (RsReleaseLease m) = encode_ReleaseLeaseResponse m"
| "encode_response (RsLocationQuery m) = encode_LocationQueryResponse m"
| "encode_response (RsBatchComplete m) = encode_BatchCompleteResponse m"
| "encode_response (RsGetStats m) = encode_GetStatsResponse m"
| "encode_response (RsShutdown m) = encode_ShutdownResponse m"
| "encode_response (RsRegisterJob m) = encode_RegisterJobResponse m"
| "encode_response (RsRequestCanonicalEvict m) = encode_RequestCanonicalEvictResponse m"
| "encode_response (RsCommitCanonicalObject m) = encode_CommitCanonicalObjectResponse m"
| "encode_response (RsSealModelVersion m) = encode_SealModelVersionResponse m"
| "encode_response (RsGetLatestSealedVersion m) = encode_GetLatestSealedVersionResponse m"
| "encode_response (RsGetManifest m) = encode_GetManifestResponse m"
| "encode_response (RsPullTensor m) = encode_PullTensorResponse m"
| "encode_response (RsRequestCanonicalRestore m) = encode_RequestCanonicalRestoreResponse m"
| "encode_response (RsReleaseCanonicalRestore m) = encode_ReleaseCanonicalRestoreResponse m"
| "encode_response (RsDropCanonicalVersion m) = encode_DropCanonicalVersionResponse m"
| "encode_response (RsReleaseCanonical m) = encode_ReleaseCanonicalResponse m"

fun decode_response :: "op_code \<Rightarrow> bytes \<Rightarrow> response option" where
  "decode_response kRegisterRank d = map_option RsRegisterRank (decode_RegisterRankResponse d)"
| "decode_response kHeartbeat d = map_option RsHeartbeat (decode_HeartbeatResponse d)"
| "decode_response kRequestOffload d = map_option RsRequestOffload (decode_RequestOffloadResponse d)"
| "decode_response kMarkD2HSubmitted d = map_option RsMarkD2HSubmitted (decode_MarkD2HSubmittedResponse d)"
| "decode_response kMarkD2HComplete d = map_option RsMarkD2HComplete (decode_MarkD2HCompleteResponse d)"
| "decode_response kRequestPrefetch d = map_option RsRequestPrefetch (decode_RequestPrefetchResponse d)"
| "decode_response kMarkH2DSubmitted d = map_option RsMarkH2DSubmitted (decode_MarkH2DSubmittedResponse d)"
| "decode_response kMarkH2DComplete d = map_option RsMarkH2DComplete (decode_MarkH2DCompleteResponse d)"
| "decode_response kReleaseLease d = map_option RsReleaseLease (decode_ReleaseLeaseResponse d)"
| "decode_response kQueryLocation d = map_option RsLocationQuery (decode_LocationQueryResponse d)"
| "decode_response kBatchComplete d = map_option RsBatchComplete (decode_BatchCompleteResponse d)"
| "decode_response kGetStats d = map_option RsGetStats (decode_GetStatsResponse d)"
| "decode_response kShutdown d = map_option RsShutdown (decode_ShutdownResponse d)"
| "decode_response kRegisterJob d = map_option RsRegisterJob (decode_RegisterJobResponse d)"
| "decode_response kRequestCanonicalEvict d = map_option RsRequestCanonicalEvict (decode_RequestCanonicalEvictResponse d)"
| "decode_response kCommitCanonicalObject d = map_option RsCommitCanonicalObject (decode_CommitCanonicalObjectResponse d)"
| "decode_response kSealModelVersion d = map_option RsSealModelVersion (decode_SealModelVersionResponse d)"
| "decode_response kGetLatestSealedVersion d = map_option RsGetLatestSealedVersion (decode_GetLatestSealedVersionResponse d)"
| "decode_response kGetManifest d = map_option RsGetManifest (decode_GetManifestResponse d)"
| "decode_response kPullTensor d = map_option RsPullTensor (decode_PullTensorResponse d)"
| "decode_response kRequestCanonicalRestore d = map_option RsRequestCanonicalRestore (decode_RequestCanonicalRestoreResponse d)"
| "decode_response kReleaseCanonicalRestore d = map_option RsReleaseCanonicalRestore (decode_ReleaseCanonicalRestoreResponse d)"
| "decode_response kDropCanonicalVersion d = map_option RsDropCanonicalVersion (decode_DropCanonicalVersionResponse d)"
| "decode_response kReleaseCanonical d = map_option RsReleaseCanonical (decode_ReleaseCanonicalResponse d)"
| "decode_response kInvalid d = None"

text \<open>
  The same for responses; the two columns of a statistics reply have equal length.
\<close>

fun wf_response :: "response \<Rightarrow> bool" where
  "wf_response (RsRegisterRank m) \<longleftrightarrow> length (rrs_arenas m) \<le> 0xFFFFFFFF"
| "wf_response (RsGetStats m) \<longleftrightarrow> length (gss_keys m) = length (gss_values m) \<and> length (gss_keys m) \<le> 0xFFFFFFFF"
| "wf_response (RsGetManifest m) \<longleftrightarrow> length (gms_tensors m) \<le> 0xFFFFFFFF"
| "wf_response m \<longleftrightarrow> True"

text \<open>
  \<^verbatim>\<open>round_trip\<close> of \<^verbatim>\<open>rpc_client.cpp\<close>, seen from the client: what it puts on the socket, and what it makes
  of the byte stream that comes back. A decoding error, a closed connection and a reply with another
  opcode are all exceptions.
\<close>

definition rpc_send :: "sys_io list \<Rightarrow> request \<Rightarrow> (bytes \<times> nat list) io_result" where
  "rpc_send ios req =
     (case encode_request req of None \<Rightarrow> Threw
      | Some body \<Rightarrow> (case make_frame (request_op req) body 0 of None \<Rightarrow> Threw
                     | Some frame \<Rightarrow> send_frame ios frame []))"

definition rpc_receive :: "sys_io list \<Rightarrow> op_code \<Rightarrow> bytes \<Rightarrow> response io_result" where
  "rpc_receive ios op inp =
     (case recv_frame ios inp of
        Threw \<Rightarrow> Threw | Pending \<Rightarrow> Pending | Done None \<Rightarrow> Threw
      | Done (Some (reply_op, payload, rest)) \<Rightarrow>
          if reply_op \<noteq> op_number op then Threw
          else (case decode_response op payload of None \<Rightarrow> Threw | Some r \<Rightarrow> Done r))"

section \<open>Codecs\<close>

lemma request_trailing_ignored:
  "wf_request m \<Longrightarrow> encode_request m = Some b \<Longrightarrow> decode_request (request_op m) (b @ rest) = Some m"
  by (cases m) (simp_all add: decode_RegisterRankRequest_def RegisterRankRequest_codec.trailing_ignored
      decode_HeartbeatRequest_def HeartbeatRequest_codec.trailing_ignored
      decode_RequestOffloadRequest_def RequestOffloadRequest_codec.trailing_ignored
      decode_MarkD2HSubmittedRequest_def MarkD2HSubmittedRequest_codec.trailing_ignored
      decode_MarkD2HCompleteRequest_def MarkD2HCompleteRequest_codec.trailing_ignored
      decode_RequestPrefetchRequest_def RequestPrefetchRequest_codec.trailing_ignored
      decode_MarkH2DSubmittedRequest_def MarkH2DSubmittedRequest_codec.trailing_ignored
      decode_MarkH2DCompleteRequest_def MarkH2DCompleteRequest_codec.trailing_ignored
      decode_ReleaseLeaseRequest_def ReleaseLeaseRequest_codec.trailing_ignored
      decode_LocationQueryRequest_def LocationQueryRequest_codec.trailing_ignored
      decode_BatchCompleteRequest_def BatchCompleteRequest_codec.trailing_ignored
      decode_GetStatsRequest_def GetStatsRequest_codec.trailing_ignored
      decode_ShutdownRequest_def ShutdownRequest_codec.trailing_ignored
      decode_RegisterJobRequest_def RegisterJobRequest_codec.trailing_ignored
      decode_RequestCanonicalEvictRequest_def RequestCanonicalEvictRequest_codec.trailing_ignored
      decode_CommitCanonicalObjectRequest_def CommitCanonicalObjectRequest_codec.trailing_ignored
      decode_SealModelVersionRequest_def SealModelVersionRequest_codec.trailing_ignored
      decode_GetLatestSealedVersionRequest_def GetLatestSealedVersionRequest_codec.trailing_ignored
      decode_GetManifestRequest_def GetManifestRequest_codec.trailing_ignored
      decode_PullTensorRequest_def PullTensorRequest_codec.trailing_ignored
      decode_RequestCanonicalRestoreRequest_def RequestCanonicalRestoreRequest_codec.trailing_ignored
      decode_ReleaseCanonicalRestoreRequest_def ReleaseCanonicalRestoreRequest_codec.trailing_ignored
      decode_DropCanonicalVersionRequest_def DropCanonicalVersionRequest_codec.trailing_ignored
      decode_ReleaseCanonicalRequest_def ReleaseCanonicalRequest_codec.trailing_ignored)

lemma request_truncated:
  "wf_request m \<Longrightarrow> encode_request m = Some b \<Longrightarrow> k < length b \<Longrightarrow> decode_request (request_op m) (take k b) = None"
  by (cases m) (simp_all add: decode_RegisterRankRequest_def RegisterRankRequest_codec.truncated
      decode_HeartbeatRequest_def HeartbeatRequest_codec.truncated
      decode_RequestOffloadRequest_def RequestOffloadRequest_codec.truncated
      decode_MarkD2HSubmittedRequest_def MarkD2HSubmittedRequest_codec.truncated
      decode_MarkD2HCompleteRequest_def MarkD2HCompleteRequest_codec.truncated
      decode_RequestPrefetchRequest_def RequestPrefetchRequest_codec.truncated
      decode_MarkH2DSubmittedRequest_def MarkH2DSubmittedRequest_codec.truncated
      decode_MarkH2DCompleteRequest_def MarkH2DCompleteRequest_codec.truncated
      decode_ReleaseLeaseRequest_def ReleaseLeaseRequest_codec.truncated
      decode_LocationQueryRequest_def LocationQueryRequest_codec.truncated
      decode_BatchCompleteRequest_def BatchCompleteRequest_codec.truncated
      decode_GetStatsRequest_def GetStatsRequest_codec.truncated
      decode_ShutdownRequest_def ShutdownRequest_codec.truncated
      decode_RegisterJobRequest_def RegisterJobRequest_codec.truncated
      decode_RequestCanonicalEvictRequest_def RequestCanonicalEvictRequest_codec.truncated
      decode_CommitCanonicalObjectRequest_def CommitCanonicalObjectRequest_codec.truncated
      decode_SealModelVersionRequest_def SealModelVersionRequest_codec.truncated
      decode_GetLatestSealedVersionRequest_def GetLatestSealedVersionRequest_codec.truncated
      decode_GetManifestRequest_def GetManifestRequest_codec.truncated
      decode_PullTensorRequest_def PullTensorRequest_codec.truncated
      decode_RequestCanonicalRestoreRequest_def RequestCanonicalRestoreRequest_codec.truncated
      decode_ReleaseCanonicalRestoreRequest_def ReleaseCanonicalRestoreRequest_codec.truncated
      decode_DropCanonicalVersionRequest_def DropCanonicalVersionRequest_codec.truncated
      decode_ReleaseCanonicalRequest_def ReleaseCanonicalRequest_codec.truncated)

lemma response_trailing_ignored:
  "wf_response m \<Longrightarrow> encode_response m = Some b \<Longrightarrow> decode_response (response_op m) (b @ rest) = Some m"
  by (cases m) (simp_all add: decode_RegisterRankResponse_def RegisterRankResponse_codec.trailing_ignored
      decode_HeartbeatResponse_def HeartbeatResponse_codec.trailing_ignored
      decode_RequestOffloadResponse_def RequestOffloadResponse_codec.trailing_ignored
      decode_MarkD2HSubmittedResponse_def MarkD2HSubmittedResponse_codec.trailing_ignored
      decode_MarkD2HCompleteResponse_def MarkD2HCompleteResponse_codec.trailing_ignored
      decode_RequestPrefetchResponse_def RequestPrefetchResponse_codec.trailing_ignored
      decode_MarkH2DSubmittedResponse_def MarkH2DSubmittedResponse_codec.trailing_ignored
      decode_MarkH2DCompleteResponse_def MarkH2DCompleteResponse_codec.trailing_ignored
      decode_ReleaseLeaseResponse_def ReleaseLeaseResponse_codec.trailing_ignored
      decode_LocationQueryResponse_def LocationQueryResponse_codec.trailing_ignored
      decode_BatchCompleteResponse_def BatchCompleteResponse_codec.trailing_ignored
      decode_GetStatsResponse_def GetStatsResponse_codec.trailing_ignored
      decode_ShutdownResponse_def ShutdownResponse_codec.trailing_ignored
      decode_RegisterJobResponse_def RegisterJobResponse_codec.trailing_ignored
      decode_RequestCanonicalEvictResponse_def RequestCanonicalEvictResponse_codec.trailing_ignored
      decode_CommitCanonicalObjectResponse_def CommitCanonicalObjectResponse_codec.trailing_ignored
      decode_SealModelVersionResponse_def SealModelVersionResponse_codec.trailing_ignored
      decode_GetLatestSealedVersionResponse_def GetLatestSealedVersionResponse_codec.trailing_ignored
      decode_GetManifestResponse_def GetManifestResponse_codec.trailing_ignored
      decode_PullTensorResponse_def PullTensorResponse_codec.trailing_ignored
      decode_RequestCanonicalRestoreResponse_def RequestCanonicalRestoreResponse_codec.trailing_ignored
      decode_ReleaseCanonicalRestoreResponse_def ReleaseCanonicalRestoreResponse_codec.trailing_ignored
      decode_DropCanonicalVersionResponse_def DropCanonicalVersionResponse_codec.trailing_ignored
      decode_ReleaseCanonicalResponse_def ReleaseCanonicalResponse_codec.trailing_ignored)

lemma response_truncated:
  "wf_response m \<Longrightarrow> encode_response m = Some b \<Longrightarrow> k < length b \<Longrightarrow> decode_response (response_op m) (take k b) = None"
  by (cases m) (simp_all add: decode_RegisterRankResponse_def RegisterRankResponse_codec.truncated
      decode_HeartbeatResponse_def HeartbeatResponse_codec.truncated
      decode_RequestOffloadResponse_def RequestOffloadResponse_codec.truncated
      decode_MarkD2HSubmittedResponse_def MarkD2HSubmittedResponse_codec.truncated
      decode_MarkD2HCompleteResponse_def MarkD2HCompleteResponse_codec.truncated
      decode_RequestPrefetchResponse_def RequestPrefetchResponse_codec.truncated
      decode_MarkH2DSubmittedResponse_def MarkH2DSubmittedResponse_codec.truncated
      decode_MarkH2DCompleteResponse_def MarkH2DCompleteResponse_codec.truncated
      decode_ReleaseLeaseResponse_def ReleaseLeaseResponse_codec.truncated
      decode_LocationQueryResponse_def LocationQueryResponse_codec.truncated
      decode_BatchCompleteResponse_def BatchCompleteResponse_codec.truncated
      decode_GetStatsResponse_def GetStatsResponse_codec.truncated
      decode_ShutdownResponse_def ShutdownResponse_codec.truncated
      decode_RegisterJobResponse_def RegisterJobResponse_codec.truncated
      decode_RequestCanonicalEvictResponse_def RequestCanonicalEvictResponse_codec.truncated
      decode_CommitCanonicalObjectResponse_def CommitCanonicalObjectResponse_codec.truncated
      decode_SealModelVersionResponse_def SealModelVersionResponse_codec.truncated
      decode_GetLatestSealedVersionResponse_def GetLatestSealedVersionResponse_codec.truncated
      decode_GetManifestResponse_def GetManifestResponse_codec.truncated
      decode_PullTensorResponse_def PullTensorResponse_codec.truncated
      decode_RequestCanonicalRestoreResponse_def RequestCanonicalRestoreResponse_codec.truncated
      decode_ReleaseCanonicalRestoreResponse_def ReleaseCanonicalRestoreResponse_codec.truncated
      decode_DropCanonicalVersionResponse_def DropCanonicalVersionResponse_codec.truncated
      decode_ReleaseCanonicalResponse_def ReleaseCanonicalResponse_codec.truncated)

section \<open>Properties\<close>

text \<open>
  C25. Every message of the protocol survives its encoding: decoding the encoded bytes under the
  message's opcode gives the message back, for requests and for responses, also when further bytes
  follow; and no proper prefix of the encoding is accepted.
\<close>

theorem message_round_trip:
  assumes "wf_request m" and "encode_request m = Some b" and "wf_response r" and "encode_response r = Some c"
  shows "decode_request (request_op m) (b @ rest) = Some m \<and>
         decode_response (response_op r) (c @ rest) = Some r \<and>
         (k < length b \<longrightarrow> decode_request (request_op m) (take k b) = None) \<and>
         (k < length c \<longrightarrow> decode_response (response_op r) (take k c) = None)"
  using request_trailing_ignored [OF assms(1,2)] request_truncated [OF assms(1,2)]
    response_trailing_ignored [OF assms(3,4)] response_truncated [OF assms(3,4)] by blast

text \<open>
  C26. A call arrives: what the client writes for a request is a frame from which the daemon's
  \<^verbatim>\<open>recv_frame\<close> and decoder recover exactly that request, and from the frame of a response the client
  recovers exactly that response, for any split of the transfers into system calls.
\<close>

theorem rpc_delivery:
  assumes "wf_request req" and "encode_request req = Some b" and "length b \<le> 268435456"
    and "wf_response resp" and "encode_response resp = Some c" and "length c \<le> 268435456"
    and "make_frame (response_op resp) c 0 = Some reply"
    and "IoError \<notin> set ios" and "length b + 12 \<le> calls ios" and "length reply \<le> calls ios"
  shows "\<exists>frame. rpc_send ios req = Done (frame, []) \<and>
           recv_frame ios (frame @ rest) = Done (Some (op_number (request_op req), b, rest)) \<and>
           decode_request (request_op req) b = Some req \<and>
           rpc_receive ios (response_op resp) (reply @ rest) = Done resp"
proof -
  obtain frame where f: "make_frame (request_op req) b 0 = Some frame"
    using assms(3) by (auto simp: make_frame_bytes)
  then have l: "length frame \<le> calls ios" using assms(9) by (auto simp: make_frame_bytes)
  have nofd: "length ([] :: nat list) \<le> kMaxFds" by simp
  note t = frame_moves [OF f assms(3,8) l nofd, of rest] frame_moves [OF assms(7,6,8,10) nofd, of rest]
  have "decode_response (response_op resp) c = Some resp"
    using response_trailing_ignored [OF assms(4,5), of "[]"] by simp
  then have "rpc_receive ios (response_op resp) (reply @ rest) = Done resp"
    using t by (simp add: rpc_receive_def)
  moreover have "decode_request (request_op req) b = Some req"
    using request_trailing_ignored [OF assms(1,2), of "[]"] by simp
  ultimately show ?thesis using t f assms(2) by (auto simp: rpc_send_def)
qed

definition sample_request :: request where
  "sample_request = RqShutdown \<lparr>sdq_token = 7\<rparr>"

definition sample_response :: response where
  "sample_response = RsHeartbeat \<lparr>hbs_ok = True, hbs_message = ''A''\<rparr>"

lemma le_bytes_4_8:
  "le_bytes 4 (v :: u32) = [ucast v, ucast (drop_bit 8 v), ucast (drop_bit 16 v), ucast (drop_bit 24 v)]"
  "le_bytes 8 (w :: u64) = [ucast w, ucast (drop_bit 8 w), ucast (drop_bit 16 w), ucast (drop_bit 24 w),
     ucast (drop_bit 32 w), ucast (drop_bit 40 w), ucast (drop_bit 48 w), ucast (drop_bit 56 w)]"
  by (simp_all add: numeral_eq_Suc)

lemma sample_encodings:
  "encode_request sample_request = Some [7, 0, 0, 0, 0, 0, 0, 0]"
  "encode_response sample_response = Some [1, 1, 0, 0, 0, 65]"
  by (simp_all add: sample_request_def sample_response_def encode_ShutdownRequest_def
      encode_HeartbeatResponse_def wire_write le_bytes_4_8 str_bytes_def chars_bytes_def)

theorem message_round_trip_witness:
  "decode_request kShutdown [7, 0, 0, 0, 0, 0, 0, 0, 99] = Some sample_request"
  using message_round_trip [OF _ sample_encodings(1) _ sample_encodings(2), of "[99]" 0]
  by (simp add: sample_request_def sample_response_def)

theorem rpc_delivery_witness:
  "\<exists>reply. make_frame kHeartbeat [1, 1, 0, 0, 0, 65] 0 = Some reply \<and>
     rpc_receive (replicate 40 (IoBytes 4)) kHeartbeat reply = Done sample_response"
proof -
  obtain reply where r: "make_frame kHeartbeat [1, 1, 0, 0, 0, 65] 0 = Some reply"
    by (simp add: make_frame_bytes)
  then have "length reply = 18" by (simp add: make_frame_bytes)
  then show ?thesis
    using rpc_delivery [OF _ sample_encodings(1) _ _ sample_encodings(2), of reply "replicate 40 (IoBytes 4)" "[]"] r
    by (auto simp: sample_request_def sample_response_def calls_def)
qed

end
