(* ===== verification/Metrics.thy ===== *)
theory Metrics
  imports Prelude Complex_Main
begin

text \<open>
  The daemon's counters (\<^verbatim>\<open>src/common/metrics.h\<close>, \<^verbatim>\<open>metrics.cpp\<close>): a fixed set of 64-bit atomic
  counters with wrapping addition and subtraction, the rolling window of bandwidth samples, and
  the snapshot that \<^verbatim>\<open>GetStats\<close> returns. The trace file is output only and is not modelled.
\<close>

section \<open>Counters\<close>

datatype (plugins only: code) metric =
    kD2HBytes | kH2DBytes | kPinnedToPageableBytes | kPageableToPinnedBytes | kNvmeWriteBytes
  | kNvmeReadBytes | kUsedPinnedBytes | kInflightD2HBytes | kInflightH2DBytes | kDrainingBytes
  | kPageableResidentBytes | kNvmeResidentBytes | kOffloadRequests | kLeasesGranted
  | kBlockedReservations | kRemoteNumaAllocs | kDrainsEnqueued | kDrainsCompleted
  | kPrefetchRequests | kReadbacksStarted | kReadbacksCompleted | kInvalidTransitionRejected
  | kStaleVersionRejected | kEpochMismatchRejected | kSlotOverlapPrevented
  | kLeaseOwnerMismatchRejected | kChecksumMismatch | kIoFailure | kRankSessionsInvalidated
  | kJobsRegistered | kCanonicalObjectsCreated | kCanonicalAttachExisting | kCanonicalAttachWait
  | kCanonicalDuplicateCandidate | kCanonicalDedupBytesSaved | kCanonicalD2HBytesAvoided
  | kCanonicalHashMismatch | kCanonicalStaleVersionReject | kCanonicalRestoreServed
  | kCanonicalObjectsDropped | kQuotaRejections | kManifestSealed | kManifestSealFailed
  | kRolloutGetManifest | kRolloutPullTensor | kRolloutPullBytes | kRolloutStaleManifestReject
  | kExportInflightBytes | kExportStagingBytes | kExportFromPinned | kExportFromPageable
  | kExportFromNvme | kExportTransportErrors

text \<open>The switch of \<^verbatim>\<open>metric_name\<close>, in enumeration order.\<close>

definition metric_table :: "(metric \<times> string) list" where
  "metric_table = [
     (kD2HBytes, ''d2h_bytes''),
     (kH2DBytes, ''h2d_bytes''),
     (kPinnedToPageableBytes, ''pinned_to_pageable_bytes''),
     (kPageableToPinnedBytes, ''pageable_to_pinned_bytes''),
     (kNvmeWriteBytes, ''nvme_write_bytes''),
     (kNvmeReadBytes, ''nvme_read_bytes''),
     (kUsedPinnedBytes, ''used_pinned_bytes''),
     (kInflightD2HBytes, ''inflight_d2h_bytes''),
     (kInflightH2DBytes, ''inflight_h2d_bytes''),
     (kDrainingBytes, ''draining_bytes''),
     (kPageableResidentBytes, ''pageable_resident_bytes''),
     (kNvmeResidentBytes, ''nvme_resident_bytes''),
     (kOffloadRequests, ''offload_requests''),
     (kLeasesGranted, ''leases_granted''),
     (kBlockedReservations, ''blocked_reservation_count''),
     (kRemoteNumaAllocs, ''remote_numa_alloc_count''),
     (kDrainsEnqueued, ''drains_enqueued''),
     (kDrainsCompleted, ''drains_completed''),
     (kPrefetchRequests, ''prefetch_requests''),
     (kReadbacksStarted, ''readbacks_started''),
     (kReadbacksCompleted, ''readbacks_completed''),
     (kInvalidTransitionRejected, ''invalid_transition_rejected''),
     (kStaleVersionRejected, ''stale_version_completion_rejected''),
     (kEpochMismatchRejected, ''rank_epoch_mismatch_rejected''),
     (kSlotOverlapPrevented, ''slot_overlap_prevented''),
     (kLeaseOwnerMismatchRejected, ''lease_owner_mismatch_rejected''),
     (kChecksumMismatch, ''checksum_mismatch''),
     (kIoFailure, ''io_failure''),
     (kRankSessionsInvalidated, ''rank_sessions_invalidated''),
     (kJobsRegistered, ''jobs_registered_total''),
     (kCanonicalObjectsCreated, ''canonical_objects_created_total''),
     (kCanonicalAttachExisting, ''canonical_attach_existing_total''),
     (kCanonicalAttachWait, ''canonical_attach_wait_total''),
     (kCanonicalDuplicateCandidate, ''canonical_duplicate_candidate_total''),
     (kCanonicalDedupBytesSaved, ''canonical_dedup_bytes_saved''),
     (kCanonicalD2HBytesAvoided, ''canonical_d2h_bytes_avoided''),
     (kCanonicalHashMismatch, ''canonical_hash_mismatch_total''),
     (kCanonicalStaleVersionReject, ''canonical_stale_version_reject_total''),
     (kCanonicalRestoreServed, ''canonical_restore_served_total''),
     (kCanonicalObjectsDropped, ''canonical_objects_dropped_total''),
     (kQuotaRejections, ''quota_rejections''),
     (kManifestSealed, ''manifest_sealed_total''),
     (kManifestSealFailed, ''manifest_seal_failed_total''),
     (kRolloutGetManifest, ''rollout_get_manifest_total''),
     (kRolloutPullTensor, ''rollout_pull_tensor_total''),
     (kRolloutPullBytes, ''rollout_pull_bytes_total''),
     (kRolloutStaleManifestReject, ''rollout_stale_manifest_reject_total''),
     (kExportInflightBytes, ''export_inflight_bytes''),
     (kExportStagingBytes, ''export_staging_bytes''),
     (kExportFromPinned, ''export_from_pinned_total''),
     (kExportFromPageable, ''export_from_pageable_total''),
     (kExportFromNvme, ''export_from_nvme_total''),
     (kExportTransportErrors, ''export_transport_errors_total'')]"

definition metric_name :: "metric \<Rightarrow> string" where
  "metric_name m = (case map_of metric_table m of Some n \<Rightarrow> n | None \<Rightarrow> ''unknown'')"

type_synonym counters = "metric \<Rightarrow> u64"

definition metric_add :: "metric \<Rightarrow> u64 \<Rightarrow> counters \<Rightarrow> counters" where
  "metric_add m v c = c(m := c m + v)"

definition metric_sub :: "metric \<Rightarrow> u64 \<Rightarrow> counters \<Rightarrow> counters" where
  "metric_sub m v c = c(m := c m - v)"

section \<open>Bandwidth samples\<close>

text \<open>
  Samples are rationals. \<^verbatim>\<open>record_bandwidth_mbps\<close> keeps at most 8192 of them, dropping the oldest
  4096 when full; a non-positive sample is ignored.
\<close>

definition record_bandwidth_mbps :: "rat \<Rightarrow> rat list \<Rightarrow> rat list" where
  "record_bandwidth_mbps mbps xs =
     (if \<not> mbps > 0 then xs
      else (if length xs \<ge> 8192 then drop 4096 xs else xs) @ [mbps])"

definition bandwidth_percentile :: "rat \<Rightarrow> rat list \<Rightarrow> rat" where
  "bandwidth_percentile p xs =
     (if xs = [] then 0
      else let v = sort xs in
        if p \<le> 0 then hd v
        else if p \<ge> 1 then last v
        else v ! nat \<lfloor>p * of_nat (length v - 1) + 1 / 2\<rfloor>)"

definition snapshot :: "counters \<Rightarrow> rat list \<Rightarrow> string list \<times> u64 list" where
  "snapshot c xs =
     (map snd metric_table @ [''bandwidth_mbps_p50'', ''bandwidth_mbps_p90'', ''bandwidth_mbps_p99''],
      map (c \<circ> fst) metric_table @
        map (\<lambda>p. word_of_int \<lfloor>bandwidth_percentile p xs\<rfloor>) [1 / 2, 9 / 10, 99 / 100])"

lemma bandwidth_window_bounded:
  "length xs \<le> 8192 \<Longrightarrow> length (record_bandwidth_mbps mbps xs) \<le> 8192"
  by (simp add: record_bandwidth_mbps_def)

lemma percentile_index_in_range:
  assumes "xs \<noteq> []" and "0 < p" and "p < (1 :: rat)"
  shows "nat \<lfloor>p * of_nat (length xs - 1) + 1 / 2\<rfloor> < length xs"
proof -
  have "p * of_nat (length xs - 1) \<le> 1 * of_nat (length xs - 1)"
    using assms by (intro mult_right_mono) auto
  then have "\<lfloor>p * of_nat (length xs - 1) + 1 / 2\<rfloor> \<le> \<lfloor>of_nat (length xs - 1) + 1 / 2 :: rat\<rfloor>"
    by (intro floor_mono) simp
  also have "\<dots> = int (length xs - 1)"
    by (simp add: floor_unique)
  finally show ?thesis
    using assms(1) by (simp add: nat_less_iff) (cases xs, auto)
qed

lemma bandwidth_percentile_sample:
  assumes "xs \<noteq> []"
  shows "bandwidth_percentile p xs \<in> set xs"
proof -
  have v: "sort xs \<noteq> []" using assms by (metis length_0_conv length_sort)
  have "p > 0 \<Longrightarrow> p < 1 \<Longrightarrow> sort xs ! nat \<lfloor>p * of_nat (length (sort xs) - 1) + 1 / 2\<rfloor> \<in> set (sort xs)"
    using percentile_index_in_range [OF v] by (intro nth_mem)
  then show ?thesis
    using assms v hd_in_set [OF v] last_in_set [OF v]
    by (auto simp: bandwidth_percentile_def Let_def not_le)
qed

end
