(* ===== verification/Config.thy ===== *)
theory Config
  imports Prelude Complex_Main
begin

text \<open>
  The configuration of the daemon (\<^verbatim>\<open>src/daemon/config.h\<close>) with its defaults. Of \<^verbatim>\<open>config.cpp\<close>, the
  built-in configuration and the validation that every loaded configuration has passed are here.
\<close>

text \<open>A \<^verbatim>\<open>double\<close>: its value as a rational, or one of the special values (the sign of zero is dropped).\<close>

datatype double = Finite rat | PosInf | NegInf | NaN

text \<open>\<open>q >= d\<close> for a finite \<open>q\<close>.\<close>

fun at_least :: "rat \<Rightarrow> double \<Rightarrow> bool" where
  "at_least q (Finite r) \<longleftrightarrow> r \<le> q"
| "at_least q PosInf \<longleftrightarrow> False"
| "at_least q NegInf \<longleftrightarrow> True"
| "at_least q NaN \<longleftrightarrow> False"

datatype DrainTarget = kPageableOnly | kNvmeOnly | kPageableThenNvme

record GpuWindowConfig =
  gwc_gpu :: u32
  gwc_size_bytes :: u64

definition GpuWindowConfig_init :: GpuWindowConfig where
  "GpuWindowConfig_init = \<lparr>gwc_gpu = 0, gwc_size_bytes = 0\<rparr>"

record NumaArenaConfig =
  nac_numa_node :: u32
  nac_size_bytes :: u64
  nac_gpu_windows :: "GpuWindowConfig list"
  nac_overflow_bytes :: u64

definition NumaArenaConfig_init :: NumaArenaConfig where
  "NumaArenaConfig_init = \<lparr>nac_numa_node = 0, nac_size_bytes = 0, nac_gpu_windows = [],
     nac_overflow_bytes = 0\<rparr>"

record DaemonConfig =
  cfg_socket_path :: string
  cfg_control_shm_name :: string
  cfg_heartbeat_timeout_ms :: u64
  cfg_registration_policy :: string
  cfg_registration_chunk_bytes :: u64
  cfg_allocation_granularity_bytes :: u64
  cfg_per_numa :: "NumaArenaConfig list"
  cfg_drain_target :: DrainTarget
  cfg_drain_on_d2h_complete :: bool
  cfg_normal_threshold :: double
  cfg_priority_threshold :: double
  cfg_aggressive_threshold :: double
  cfg_nvme_enabled :: bool
  cfg_nvme_path :: string
  cfg_nvme_io_engine :: string
  cfg_nvme_direct_io :: bool
  cfg_nvme_stripe :: bool
  cfg_nvme_stripe_count :: u32
  cfg_nvme_block_bytes :: u64
  cfg_nvme_queue_depth :: u32
  cfg_nvme_stripe_dirs :: "string list"
  cfg_default_invalidate :: string
  cfg_require_own_storage :: bool
  cfg_allow_views :: bool
  cfg_unsafe_autograd :: bool
  cfg_drain_workers :: u32
  cfg_nvme_workers :: u32
  cfg_completion_ring_max_ranks :: u32
  cfg_completion_ring_capacity :: u32
  cfg_ring_poll_us :: u32
  cfg_v2_enable_canonical_store :: bool
  cfg_v2_enable_manifests :: bool
  cfg_v2_enable_rollout_export :: bool
  cfg_v2_default_tenant_id :: u64
  cfg_v2_require_job_registration :: bool
  cfg_v2_include_launch_epoch :: bool
  cfg_v2_dedup_default_mode :: u32
  cfg_v2_cross_job_dedup :: bool
  cfg_v2_creating_policy :: u32
  cfg_v2_duplicate_candidate_gpu_pressure_threshold :: double
  cfg_v2_sampled_hash_bytes_per_gib :: u64
  cfg_v2_seal_requires_all_objects_valid :: bool
  cfg_v2_retain_sealed_versions :: u32
  cfg_v2_default_transport :: u32
  cfg_v2_fallback_transport :: u32
  cfg_v2_use_dedicated_export_buffers :: bool
  cfg_v2_require_export_refcount :: bool
  cfg_v2_max_concurrent_exports_per_job :: u32
  cfg_v2_control_tcp_port :: u32
  cfg_v2_quota_max_pinned_bytes :: u64
  cfg_v2_quota_max_pageable_bytes :: u64
  cfg_v2_quota_max_nvme_bytes :: u64
  cfg_v2_quota_max_inflight_d2h_bytes :: u64
  cfg_v2_quota_max_inflight_export_bytes :: u64

definition DaemonConfig_init :: DaemonConfig where
  "DaemonConfig_init = \<lparr>cfg_socket_path = ''/tmp/state_spectre.sock'',
     cfg_control_shm_name = ''/state_spectre_ctrl'', cfg_heartbeat_timeout_ms = 5000,
     cfg_registration_policy = ''lazy_chunked'', cfg_registration_chunk_bytes = 536870912,
     cfg_allocation_granularity_bytes = 16777216, cfg_per_numa = [],
     cfg_drain_target = kPageableThenNvme, cfg_drain_on_d2h_complete = True,
     cfg_normal_threshold = Finite (3 / 5), cfg_priority_threshold = Finite (4 / 5),
     cfg_aggressive_threshold = Finite (19 / 20), cfg_nvme_enabled = True,
     cfg_nvme_path = ''/nvme/state_spectre'', cfg_nvme_io_engine = ''io_uring'',
     cfg_nvme_direct_io = True, cfg_nvme_stripe = True, cfg_nvme_stripe_count = 4,
     cfg_nvme_block_bytes = 16777216, cfg_nvme_queue_depth = 8, cfg_nvme_stripe_dirs = [],
     cfg_default_invalidate = ''set_empty'', cfg_require_own_storage = True,
     cfg_allow_views = False, cfg_unsafe_autograd = False, cfg_drain_workers = 2,
     cfg_nvme_workers = 2, cfg_completion_ring_max_ranks = 64,
     cfg_completion_ring_capacity = 1024, cfg_ring_poll_us = 50,
     cfg_v2_enable_canonical_store = True, cfg_v2_enable_manifests = True,
     cfg_v2_enable_rollout_export = True, cfg_v2_default_tenant_id = 0,
     cfg_v2_require_job_registration = True, cfg_v2_include_launch_epoch = True,
     cfg_v2_dedup_default_mode = 1, cfg_v2_cross_job_dedup = False, cfg_v2_creating_policy = 0,
     cfg_v2_duplicate_candidate_gpu_pressure_threshold = Finite (9 / 10),
     cfg_v2_sampled_hash_bytes_per_gib = 1048576, cfg_v2_seal_requires_all_objects_valid = True,
     cfg_v2_retain_sealed_versions = 4, cfg_v2_default_transport = 3,
     cfg_v2_fallback_transport = 1, cfg_v2_use_dedicated_export_buffers = True,
     cfg_v2_require_export_refcount = True, cfg_v2_max_concurrent_exports_per_job = 8,
     cfg_v2_control_tcp_port = 0, cfg_v2_quota_max_pinned_bytes = 0,
     cfg_v2_quota_max_pageable_bytes = 0, cfg_v2_quota_max_nvme_bytes = 0,
     cfg_v2_quota_max_inflight_d2h_bytes = 0, cfg_v2_quota_max_inflight_export_bytes = 0\<rparr>"

section \<open>The built-in configuration and the validation of a loaded one\<close>

definition default_smoke_config :: "u64 \<Rightarrow> u32 \<Rightarrow> u32 \<Rightarrow> DaemonConfig" where
  "default_smoke_config arena_bytes numa_node gpu_id =
     (let o1 = max (arena_bytes div 8) (16 * 1048576);
          overflow = (if o1 \<ge> arena_bytes then arena_bytes div 2 else o1);
          win = \<lparr>gwc_gpu = gpu_id, gwc_size_bytes = arena_bytes - overflow\<rparr>;
          arena = \<lparr>nac_numa_node = numa_node, nac_size_bytes = arena_bytes,
                   nac_gpu_windows = [win], nac_overflow_bytes = overflow\<rparr>
      in DaemonConfig_init
           \<lparr>cfg_allocation_granularity_bytes := 2 * 1048576,
            cfg_registration_chunk_bytes := min arena_bytes (512 * 1048576),
            cfg_nvme_enabled := False, cfg_drain_workers := 1, cfg_nvme_workers := 1,
            cfg_drain_target := kPageableOnly, cfg_per_numa := [arena]\<rparr>)"

definition drain_target_name :: "DrainTarget \<Rightarrow> string" where
  "drain_target_name t =
     (case t of kPageableOnly \<Rightarrow> ''pageable'' | kNvmeOnly \<Rightarrow> ''nvme'' | kPageableThenNvme \<Rightarrow> ''pageable_then_nvme'')"

text \<open>The checks at the end of \<^verbatim>\<open>load_config\<close>; the sums are 64-bit and may wrap.\<close>

definition arena_accepted :: "NumaArenaConfig \<Rightarrow> bool" where
  "arena_accepted a \<longleftrightarrow>
     (let win_total = fold (\<lambda>w acc. acc + gwc_size_bytes w) (nac_gpu_windows a) 0;
          needed = win_total + nac_overflow_bytes a
      in nac_size_bytes a \<noteq> 0 \<and> \<not> needed > nac_size_bytes a)"

definition config_accepted :: "DaemonConfig \<Rightarrow> bool" where
  "config_accepted cfg \<longleftrightarrow>
     cfg_allocation_granularity_bytes cfg \<noteq> 0 \<and> cfg_per_numa cfg \<noteq> [] \<and>
     list_all arena_accepted (cfg_per_numa cfg)"

end
