(* ===== verification/Daemon_State.thy ===== *)
theory Daemon_State
  imports Abi Completion_Ring Control_Layout Metrics Config Protocol Protocol_V2
begin

text \<open>
  The state of \<^verbatim>\<open>OffloadDaemon\<close> (\<^verbatim>\<open>src/daemon/daemon.h\<close>) and of the canonical store
  (\<^verbatim>\<open>src/daemon/canonical.h\<close>): the rows of its tables and one record \<open>daemon\<close> that holds everything
  the mutex \<^verbatim>\<open>mu_\<close> protects, the two work queues, the completion rings of the control region, the
  counters, the bytes of the pinned arenas and the files of the cold tier.

  An \<^verbatim>\<open>std::unordered_map\<close> is a \<open>table\<close>. Wall-clock time is the field \<open>d_clock\<close>; it is constant
  during a handler. The bytes of arena \<open>a\<close> are \<open>d_mem s a\<close>. A pageable buffer is the list of bytes it
  holds (\<^const>\<open>None\<close> is the null pointer), and a file is its list of bytes.
\<close>

section \<open>Rows of the tables\<close>

record Arena =
  ar_numa_node :: u32
  ar_size :: u64
  ar_arena_id :: u64
  ar_registration_granularity :: u32
  ar_allocation_granularity :: u32

definition kOverflowGpu :: u32 where
  "kOverflowGpu = 0xFFFFFFFF"

record Window =
  win_numa_node :: u32
  win_gpu :: u32
  win_is_overflow :: bool
  win_slot_ids :: "u32 list"

record Session =
  ss_rank_id :: u32
  ss_rank_epoch :: u64
  ss_pid :: u64
  ss_gpu_id :: u32
  ss_numa_node :: u32
  ss_last_heartbeat_ns :: u64
  ss_alive :: bool
  ss_ring_index :: u32

record Lease =
  ls_lease_id :: u64
  ls_base_slot :: u32
  ls_slot_count :: u32
  ls_tensor_id :: u64
  ls_version :: u64
  ls_owner_rank :: u32
  ls_owner_pid :: u64
  ls_rank_epoch :: u64
  ls_nbytes :: u64
  ls_is_prefetch :: bool

record Location =
  loc_tensor_id :: u64
  loc_version :: u64
  loc_kind :: location_kind
  loc_slot_id :: u32
  loc_cold_ref :: u64
  loc_nbytes :: u64

record NvmeChunk =
  nc_path :: string
  nc_offset :: u64
  nc_length :: u64

record ColdEntry =
  cold_kind :: location_kind
  cold_nbytes :: u64
  cold_pageable :: "bytes option"
  cold_nvme_chunks :: "NvmeChunk list"

record DrainJob =
  dj_base_slot :: u32
  dj_slot_count :: u32

record ReadbackJob =
  rj_base_slot :: u32
  rj_slot_count :: u32
  rj_cold_ref :: u64
  rj_nbytes :: u64

section \<open>Rows of the canonical store\<close>

definition kCanonicalTidBit :: u64 where
  "kCanonicalTidBit = 0x8000000000000000"

definition canonical_tid :: "u64 \<Rightarrow> u64" where
  "canonical_tid object_id = kCanonicalTidBit OR object_id"

definition is_canonical_tid :: "u64 \<Rightarrow> bool" where
  "is_canonical_tid tid \<longleftrightarrow> tid AND kCanonicalTidBit \<noteq> 0"

record JobUID =
  uid_tenant_id :: u64
  uid_job_id :: u64
  uid_launch_epoch :: u64

datatype JobState = kRegistered | kRunning | kDraining | kTerminating | kTerminated | kJobError

record JobRecord =
  job_uid :: JobUID
  job_name :: string
  job_state :: JobState
  job_priority :: u32
  job_created_ns :: u64
  job_heartbeat_ns :: u64
  job_pinned_bytes :: u64
  job_pageable_bytes :: u64
  job_nvme_bytes :: u64
  job_inflight_d2h_bytes :: u64
  job_inflight_export_bytes :: u64
  job_canonical_object_count :: u64
  job_max_pinned_bytes :: u64
  job_max_pageable_bytes :: u64
  job_max_nvme_bytes :: u64
  job_max_inflight_d2h_bytes :: u64
  job_max_inflight_export_bytes :: u64

text \<open>\<^verbatim>\<open>holders\<close>, an \<^verbatim>\<open>unordered_set\<close>, is a list without repetitions.\<close>

record CanonicalObject =
  obj_object_id :: u64
  obj_key :: CanonicalTensorKeyWire
  obj_key_str :: string
  obj_nbytes :: u64
  obj_state :: object_state
  obj_refcount :: u32
  obj_export_refcount :: u32
  obj_restore_refcount :: u32
  obj_producer_rank :: u32
  obj_flags :: u32
  obj_holders :: "u32 list"
  obj_content_hash_lo :: u64
  obj_content_hash_hi :: u64
  obj_synthetic_tid :: u64
  obj_version :: u64
  obj_lease_id :: u64
  obj_base_slot :: u32
  obj_slot_count :: u32
  obj_creating_rank :: u32
  obj_created_ns :: u64
  obj_sealed_ns :: u64
  obj_last_access_ns :: u64

record Manifest =
  man_job :: JobUID
  man_model_role :: u32
  man_model_version :: u64
  man_state :: manifest_state
  man_object_ids :: "u64 list"
  man_total_nbytes :: u64
  man_created_ns :: u64
  man_sealed_ns :: u64
  man_manifest_hash_lo :: u64
  man_manifest_hash_hi :: u64

record VersionKey =
  vk_job :: JobUID
  vk_model_role :: u32
  vk_model_version :: u64

record RoleKey =
  rk_job :: JobUID
  rk_model_role :: u32

section \<open>The daemon\<close>

record daemon =
  d_cfg :: DaemonConfig
  d_layout :: control_layout
  d_arenas :: "Arena list"
  d_windows :: "Window list"
  d_window_index :: "(u64, u32) table"
  d_slots :: "slot_entry list"
  d_generation :: u64
  d_heartbeat_ns :: u64
  d_rings :: "ring list"
  d_ring_owner :: "u32 list"
  d_ring_max_ranks :: u32
  d_ring_capacity :: u32
  d_sessions :: "(u32, Session) table"
  d_leases :: "(u64, Lease) table"
  d_locations :: "(u64, Location) table"
  d_cold_store :: "(u64, ColdEntry) table"
  d_next_lease_id :: u64
  d_next_rank_epoch :: u64
  d_next_cold_ref :: u64
  d_jobs :: "(JobUID, JobRecord) table"
  d_objects :: "(u64, CanonicalObject) table"
  d_object_by_key :: "(string, u64) table"
  d_manifests :: "(VersionKey, Manifest) table"
  d_latest_sealed :: "(RoleKey, u64) table"
  d_next_object_id :: u64
  d_next_launch_epoch :: u64
  d_drain_queue :: "DrainJob list"
  d_readback_queue :: "ReadbackJob list"
  d_running :: bool
  d_nvme_stripe_count :: u32
  d_nvme_stripe_offsets :: "u64 list"
  d_files :: "(string, bytes) table"
  d_mem :: "nat \<Rightarrow> nat \<Rightarrow> u8"
  d_counters :: counters
  d_bw_samples :: "rat list"
  d_clock :: u64

abbreviation gran :: "daemon \<Rightarrow> u64" where
  "gran s \<equiv> cfg_allocation_granularity_bytes (d_cfg s)"

definition now_real_ns :: "daemon \<Rightarrow> u64" where
  "now_real_ns s = d_clock s"

definition m_add :: "metric \<Rightarrow> u64 \<Rightarrow> daemon \<Rightarrow> daemon" where
  "m_add m v s = s\<lparr>d_counters := metric_add m v (d_counters s)\<rparr>"

definition m_inc :: "metric \<Rightarrow> daemon \<Rightarrow> daemon" where
  "m_inc m s = m_add m 1 s"

definition m_sub :: "metric \<Rightarrow> u64 \<Rightarrow> daemon \<Rightarrow> daemon" where
  "m_sub m v s = s\<lparr>d_counters := metric_sub m v (d_counters s)\<rparr>"

definition window_key :: "u32 \<Rightarrow> u32 \<Rightarrow> u64" where
  "window_key numa gpu = push_bit 32 (ucast numa) OR ucast gpu"

end
