(* ===== verification/Slots.thy ===== *)
theory Slots
  imports Daemon_State
begin

text \<open>
  Slots and the allocator of \<^verbatim>\<open>src/daemon/daemon.cpp\<close>: the slot-state helpers, the slot plan that
  carves every arena into windows at start-up, the scan for a run of free slots in a window, the
  preference chain of \<^verbatim>\<open>allocate_slots\<close>, and \<^verbatim>\<open>free_slots\<close>.
\<close>

section \<open>Slot helpers\<close>

abbreviation touch :: "u64 \<Rightarrow> slot_state \<Rightarrow> slot_entry \<Rightarrow> slot_entry" where
  "touch now st e \<equiv> e\<lparr>se_last_touch_ns := now, se_state := st\<rparr>"

definition set_slot_state :: "u32 \<Rightarrow> slot_state \<Rightarrow> daemon \<Rightarrow> daemon" where
  "set_slot_state i st s =
     s\<lparr>d_slots := (d_slots s)[unat i := touch (now_real_ns s) st (at32 (d_slots s) i)]\<rparr>"

definition slot_state :: "u32 \<Rightarrow> daemon \<Rightarrow> slot_state" where
  "slot_state i s = se_state (at32 (d_slots s) i)"

text \<open>\<^verbatim>\<open>for (k < count) { f(slots_[base + k]); }\<close>\<close>

definition upd_run :: "u32 \<Rightarrow> u32 \<Rightarrow> (nat \<Rightarrow> slot_entry \<Rightarrow> slot_entry) \<Rightarrow> daemon \<Rightarrow> daemon" where
  "upd_run base count f s = s\<lparr>d_slots := for_run base count f (d_slots s)\<rparr>"

text \<open>\<^verbatim>\<open>for (k < count) set_slot_state(base + k, st);\<close>\<close>

definition set_run_state :: "u32 \<Rightarrow> u32 \<Rightarrow> slot_state \<Rightarrow> daemon \<Rightarrow> daemon" where
  "set_run_state base count st s = upd_run base count (\<lambda>k. touch (now_real_ns s) st) s"

text \<open>Arena index and byte offset of a slot's first byte (\<^verbatim>\<open>slot_addr\<close>).\<close>

definition slot_addr :: "u32 \<Rightarrow> daemon \<Rightarrow> nat \<times> nat" where
  "slot_addr i s = (let e = at32 (d_slots s) i in (unat (se_arena_id e), unat (se_arena_offset e)))"

definition slots_for_bytes :: "u64 \<Rightarrow> daemon \<Rightarrow> u32" where
  "slots_for_bytes nbytes s =
     (let n = (nbytes + gran s - 1) div gran s; n' = (if n = 0 then 1 else n) in ucast n')"

definition used_pinned_bytes :: "daemon \<Rightarrow> u64" where
  "used_pinned_bytes s = d_counters s kUsedPinnedBytes"

definition pinned_pressure :: "daemon \<Rightarrow> rat" where
  "pinned_pressure s =
     (let total = ucast (cl_num_slots (d_layout s)) * gran s
      in if total = 0 then 0 else of_nat (unat (used_pinned_bytes s)) / of_nat (unat total))"

section \<open>The slot plan\<close>

record slot_plan =
  pl_next :: u32
  pl_slots :: "slot_entry list"
  pl_windows :: "Window list"
  pl_window_index :: "(u64, u32) table"
  pl_cursor :: u64

definition plan_entry :: "u32 \<Rightarrow> u32 \<Rightarrow> u32 \<Rightarrow> bool \<Rightarrow> u64 \<Rightarrow> u64 \<Rightarrow> u64 \<Rightarrow> slot_entry" where
  "plan_entry i numa gpu is_overflow arena_id offset g =
     \<lparr>se_state = OFLD_SLOT_FREE, se_slot_id = i, se_numa_node = numa, se_gpu_preferred = gpu,
      se_arena_id = arena_id, se_arena_offset = offset, se_capacity = g, se_nbytes = 0,
      se_tensor_id = 0, se_version = 0, se_lease_id = 0, se_owner_rank = 0, se_owner_pid = 0,
      se_rank_epoch = 0, se_flags = (if is_overflow then 0 else OFLD_FLAG_BORROWABLE),
      se_cold_ref = 0, se_checksum = 0, se_last_touch_ns = 0, se_submit_seq = 0,
      se_complete_seq = 0\<rparr>"

definition carve_window ::
  "u64 \<Rightarrow> u32 \<Rightarrow> u64 \<Rightarrow> u32 \<Rightarrow> bool \<Rightarrow> u64 \<Rightarrow> slot_plan \<Rightarrow> slot_plan" where
  "carve_window g numa arena_id gpu is_overflow nbytes p =
     (let nslots = nbytes div g in
      if nslots = 0 then p
      else
        let wgpu = (if is_overflow then kOverflowGpu else gpu);
            ids = map (\<lambda>k. pl_next p + of_nat k) [0..<unat nslots];
            slots = fold (\<lambda>k xs. let i = pl_next p + of_nat k in
                        xs[unat i := plan_entry i numa wgpu is_overflow arena_id
                                       (pl_cursor p + of_nat k * g) g])
                      [0..<unat nslots] (pl_slots p)
        in p\<lparr>pl_next := pl_next p + ucast nslots,
             pl_slots := slots,
             pl_cursor := pl_cursor p + nslots * g,
             pl_window_index := t_put (window_key numa wgpu) (of_nat (length (pl_windows p)))
                                  (pl_window_index p),
             pl_windows := pl_windows p @
               [\<lparr>win_numa_node = numa, win_gpu = wgpu, win_is_overflow = is_overflow,
                 win_slot_ids = ids\<rparr>]\<rparr>)"

definition plan_arena :: "u64 \<Rightarrow> NumaArenaConfig \<times> Arena \<Rightarrow> slot_plan \<Rightarrow> slot_plan" where
  "plan_arena g ca p =
     (case ca of (ac, arena) \<Rightarrow>
        let p0 = p\<lparr>pl_cursor := 0\<rparr>;
            p1 = fold (\<lambda>gw. carve_window g (nac_numa_node ac) (ar_arena_id arena) (gwc_gpu gw) False
                              (gwc_size_bytes gw)) (nac_gpu_windows ac) p0
        in carve_window g (nac_numa_node ac) (ar_arena_id arena) kOverflowGpu True
             (nac_overflow_bytes ac) p1)"

definition build_slot_plan :: "DaemonConfig \<Rightarrow> Arena list \<Rightarrow> slot_entry list \<Rightarrow> slot_plan" where
  "build_slot_plan cfg arenas slots =
     fold (plan_arena (cfg_allocation_granularity_bytes cfg)) (zip (cfg_per_numa cfg) arenas)
       \<lparr>pl_next = 0, pl_slots = slots, pl_windows = [], pl_window_index = [], pl_cursor = 0\<rparr>"

section \<open>The allocator\<close>

text \<open>
  The scan of \<^verbatim>\<open>try_alloc_in_window\<close>: at position \<open>i\<close> the inner loop looks for the first busy slot of
  the run; when it is the \<open>k\<close>-th, the scan resumes after it.
\<close>

function scan_window :: "(u32 \<Rightarrow> bool) \<Rightarrow> u32 list \<Rightarrow> nat \<Rightarrow> nat \<Rightarrow> u32 option" where
  "scan_window free ids count i =
     (if i + count \<le> length ids then
        (case find (\<lambda>k. \<not> free (ids ! (i + k))) [0..<count] of
           None \<Rightarrow> Some (ids ! i)
         | Some k \<Rightarrow> scan_window free ids count (i + k + 1))
      else None)"
  by auto
termination
  by (relation "measure (\<lambda>(free, ids, count, i). Suc (length ids) - i)") auto

declare scan_window.simps [simp del]

definition try_alloc_in_window :: "daemon \<Rightarrow> Window \<Rightarrow> u32 \<Rightarrow> u32 option" where
  "try_alloc_in_window s w count =
     (let ids = win_slot_ids w in
      if length ids < unat count then None
      else scan_window (\<lambda>i. slot_state i s = OFLD_SLOT_FREE) ids (unat count) 0)"

fun first_some :: "('a \<Rightarrow> 'b option) \<Rightarrow> 'a list \<Rightarrow> 'b option" where
  "first_some f [] = None"
| "first_some f (x # xs) = (case f x of Some y \<Rightarrow> Some y | None \<Rightarrow> first_some f xs)"

definition try_win :: "daemon \<Rightarrow> u32 \<Rightarrow> u32 \<Rightarrow> u32 \<Rightarrow> u32 option" where
  "try_win s count numa gpu =
     (case t_find (d_window_index s) (window_key numa gpu) of
        None \<Rightarrow> None
      | Some i \<Rightarrow> try_alloc_in_window s (at32 (d_windows s) i) count)"

definition try_peers :: "daemon \<Rightarrow> u32 \<Rightarrow> u32 \<Rightarrow> u32 \<Rightarrow> u32 option" where
  "try_peers s count numa gpu =
     first_some (\<lambda>w. if win_numa_node w \<noteq> numa \<or> win_is_overflow w then None
                     else if win_gpu w = gpu then None
                     else try_alloc_in_window s w count) (d_windows s)"

definition try_remote :: "daemon \<Rightarrow> u32 \<Rightarrow> u32 \<Rightarrow> u32 option" where
  "try_remote s count numa =
     first_some (\<lambda>w. if win_numa_node w = numa then None
                     else try_alloc_in_window s w count) (d_windows s)"

text \<open>
  Result: base slot and slot count, or \<^const>\<open>None\<close>. A slot id is an index of the slot table and never
  the reserved value \<^verbatim>\<open>kNoSlot\<close>. \<^verbatim>\<open>for_prefetch\<close> is unused and \<^verbatim>\<open>blocked_out\<close> always false.
\<close>

definition allocate_slots ::
  "u32 \<Rightarrow> u32 \<Rightarrow> u64 \<Rightarrow> u64 \<Rightarrow> daemon \<Rightarrow> (u32 \<times> u32) option \<times> daemon" where
  "allocate_slots gpu_id numa_node nbytes flags s =
     (let count = slots_for_bytes nbytes s in
      case try_win s count numa_node gpu_id of
        Some base \<Rightarrow> (Some (base, count), s)
      | None \<Rightarrow> (case try_win s count numa_node kOverflowGpu of
        Some base \<Rightarrow> (Some (base, count), s)
      | None \<Rightarrow> (case try_peers s count numa_node gpu_id of
        Some base \<Rightarrow> (Some (base, count), s)
      | None \<Rightarrow>
          if flags AND OFLD_FLAG_ALLOW_REMOTE_NUMA \<noteq> 0 then
            (case try_remote s count numa_node of
               Some base \<Rightarrow> (Some (base, count), m_inc kRemoteNumaAllocs s)
             | None \<Rightarrow> (None, s))
          else (None, s))))"

definition clear_entry :: "u64 \<Rightarrow> slot_entry \<Rightarrow> slot_entry" where
  "clear_entry now e = touch now OFLD_SLOT_FREE
     (e\<lparr>se_nbytes := 0, se_tensor_id := 0, se_version := 0, se_lease_id := 0, se_owner_rank := 0,
        se_owner_pid := 0, se_rank_epoch := 0, se_cold_ref := 0, se_submit_seq := 0,
        se_complete_seq := 0\<rparr>)"

definition free_slots :: "u32 \<Rightarrow> u32 \<Rightarrow> daemon \<Rightarrow> daemon" where
  "free_slots base_slot slot_count s =
     m_sub kUsedPinnedBytes (ucast slot_count * gran s)
       (upd_run base_slot slot_count (\<lambda>k. clear_entry (now_real_ns s)) s)"

section \<open>The scan finds the first free run\<close>

definition run_free_at :: "(u32 \<Rightarrow> bool) \<Rightarrow> u32 list \<Rightarrow> nat \<Rightarrow> nat \<Rightarrow> bool" where
  "run_free_at free ids count j \<longleftrightarrow> j + count \<le> length ids \<and> (\<forall>k < count. free (ids ! (j + k)))"

lemma run_busy_between:
  assumes "\<not> free (ids ! (i + k))" and "k < count" and "i \<le> j" and "j \<le> i + k"
  shows "\<not> run_free_at free ids count j"
proof -
  have "i + k = j + (i + k - j)" and "i + k - j < count"
    using assms by auto
  then show ?thesis
    using assms(1) unfolding run_free_at_def by metis
qed

lemma scan_window_spec:
  "case scan_window free ids count i of
     Some b \<Rightarrow> \<exists>j \<ge> i. run_free_at free ids count j \<and> b = ids ! j \<and>
               (\<forall>j'. i \<le> j' \<and> j' < j \<longrightarrow> \<not> run_free_at free ids count j')
   | None \<Rightarrow> (\<forall>j \<ge> i. \<not> run_free_at free ids count j)"
proof (induction free ids count i rule: scan_window.induct)
  case (1 free ids count i)
  show ?case
  proof (cases "i + count \<le> length ids")
    case False
    then show ?thesis
      by (subst scan_window.simps) (auto simp: run_free_at_def)
  next
    case True
    show ?thesis
    proof (cases "find (\<lambda>k. \<not> free (ids ! (i + k))) [0..<count]")
      case None
      then have "run_free_at free ids count i"
        using True by (auto simp: run_free_at_def find_None_iff)
      moreover have "scan_window free ids count i = Some (ids ! i)"
        using True None by (subst scan_window.simps) simp
      ultimately show ?thesis by auto
    next
      case (Some k)
      then have busy: "\<not> free (ids ! (i + k))" "k < count"
        by (auto simp: find_Some_iff)
      have eq: "scan_window free ids count i = scan_window free ids count (i + k + 1)"
        using True Some by (subst scan_window.simps) simp
      have skip: "i \<le> j \<Longrightarrow> j < i + k + 1 \<Longrightarrow> \<not> run_free_at free ids count j" for j
        using run_busy_between [of free ids i k count j] busy by simp
      have IH: "case scan_window free ids count (i + k + 1) of
           Some b \<Rightarrow> \<exists>j \<ge> i + k + 1. run_free_at free ids count j \<and> b = ids ! j \<and>
               (\<forall>j'. i + k + 1 \<le> j' \<and> j' < j \<longrightarrow> \<not> run_free_at free ids count j')
         | None \<Rightarrow> (\<forall>j \<ge> i + k + 1. \<not> run_free_at free ids count j)"
        using 1 [OF True Some] .
      show ?thesis
      proof (cases "scan_window free ids count (i + k + 1)")
        case None
        then show ?thesis using IH skip eq by simp (metis not_less)
      next
        case (Some b)
        then obtain j where j: "j \<ge> i + k + 1" "run_free_at free ids count j" "b = ids ! j"
          and first: "\<And>j'. i + k + 1 \<le> j' \<Longrightarrow> j' < j \<Longrightarrow> \<not> run_free_at free ids count j'"
          using IH by auto
        have "\<not> run_free_at free ids count j'" if "i \<le> j'" "j' < j" for j'
          using skip [of j'] first [of j'] that by linarith
        then show ?thesis
          using Some eq j by (auto intro!: exI [of _ j])
      qed
    qed
  qed
qed

section \<open>Windows\<close>

text \<open>
  What the slot plan establishes and no handler changes: every window is a non-empty run of
  consecutive slots of the table, windows have distinct (NUMA node, GPU) keys, and the index maps
  each key to its window.
\<close>

definition window_ok :: "nat \<Rightarrow> Window \<Rightarrow> bool" where
  "window_ok n w \<longleftrightarrow>
     (let ids = win_slot_ids w in
      ids \<noteq> [] \<and> ids = map (\<lambda>k. hd ids + of_nat k) [0..<length ids] \<and>
      unat (hd ids) + length ids \<le> n)"

definition window_id :: "Window \<Rightarrow> u64" where
  "window_id w = window_key (win_numa_node w) (win_gpu w)"

definition windows_ok :: "daemon \<Rightarrow> bool" where
  "windows_ok s \<longleftrightarrow>
     length (d_slots s) < 2 ^ 32 \<and>
     list_all (window_ok (length (d_slots s))) (d_windows s) \<and>
     distinct (map window_id (d_windows s)) \<and>
     list_all (\<lambda>w. win_is_overflow w \<longleftrightarrow> win_gpu w = kOverflowGpu) (d_windows s) \<and>
     list_all (\<lambda>(k, i). unat i < length (d_windows s) \<and> window_id (at32 (d_windows s) i) = k)
       (d_window_index s) \<and>
     list_all (\<lambda>w. t_find (d_window_index s) (window_id w) \<noteq> None) (d_windows s)"

definition run_free :: "daemon \<Rightarrow> u32 \<Rightarrow> u32 \<Rightarrow> bool" where
  "run_free s base count \<longleftrightarrow>
     unat base < length (d_slots s) \<and> run_fits base count (d_slots s) \<and>
     (\<forall>i. in_run base count i \<longrightarrow> se_state (d_slots s ! i) = OFLD_SLOT_FREE)"

lemma window_key_inj: "window_key n g = window_key n' g' \<longleftrightarrow> n = n' \<and> g = g'"
proof
  assume eq: "window_key n g = window_key n' g'"
  have "drop_bit 32 (window_key n g) = ucast n" for n g
    by (rule bit_word_eqI) (auto simp: window_key_def bit_simps dest: bit_imp_le_length)
  moreover have "take_bit 32 (window_key n g) = ucast g" for n g
    by (rule bit_word_eqI) (auto simp: window_key_def bit_simps dest: bit_imp_le_length)
  ultimately have "(ucast n :: u64) = ucast n'" and "(ucast g :: u64) = ucast g'"
    using eq by metis+
  then show "n = n' \<and> g = g'"
    by (metis unat_ucast_32_64 word_unat_eq_iff)
qed auto

lemma window_nth:
  assumes "window_ok n w" and "j < length (win_slot_ids w)" and "n < 2 ^ 32"
  shows "unat (win_slot_ids w ! j) = unat (hd (win_slot_ids w)) + j"
proof -
  let ?ids = "win_slot_ids w"
  have "?ids ! j = hd ?ids + of_nat j"
    using assms unfolding window_ok_def Let_def by (metis (no_types, lifting) add_0 diff_zero length_upt nth_map nth_upt)
  then show ?thesis
    using assms by (simp add: window_ok_def Let_def unat_add_of_nat)
qed

lemma run_free_at_window:
  assumes w: "window_ok (length (d_slots s)) w" and len: "length (d_slots s) < 2 ^ 32"
    and free: "run_free_at (\<lambda>i. slot_state i s = OFLD_SLOT_FREE) (win_slot_ids w) (unat count) j"
    and j: "j < length (win_slot_ids w)"
  shows "run_free s (win_slot_ids w ! j) count"
proof -
  let ?ids = "win_slot_ids w"
  have nth: "unat (?ids ! i) = unat (hd ?ids) + i" if "i < length ?ids" for i
    using window_nth [OF w that len] .
  have fit: "j + unat count \<le> length ?ids" and "unat (hd ?ids) + length ?ids \<le> length (d_slots s)"
    using free w by (auto simp: run_free_at_def window_ok_def Let_def)
  moreover have "se_state (d_slots s ! i) = OFLD_SLOT_FREE" if "in_run (?ids ! j) count i" for i
  proof -
    define k where "k = i - unat (?ids ! j)"
    have k: "k < unat count" and i: "i = unat (hd ?ids) + (j + k)"
      using that nth [OF j] by (auto simp: in_run_def k_def)
    have "slot_state (?ids ! (j + k)) s = OFLD_SLOT_FREE"
      using free k by (auto simp: run_free_at_def)
    then show ?thesis
      using nth [of "j + k"] k fit i by (simp add: slot_state_def)
  qed
  ultimately show ?thesis
    using nth [OF j] j len by (auto simp: run_free_def run_fits_def)
qed

lemma try_alloc_at:
  assumes "window_ok n w" and "try_alloc_in_window s w count = Some base"
  shows "\<exists>j < length (win_slot_ids w). base = win_slot_ids w ! j \<and>
           run_free_at (\<lambda>i. slot_state i s = OFLD_SLOT_FREE) (win_slot_ids w) (unat count) j"
proof -
  let ?ids = "win_slot_ids w" and ?free = "\<lambda>i. slot_state i s = OFLD_SLOT_FREE"
  have "scan_window ?free ?ids (unat count) 0 = Some base"
    using assms(2) by (auto simp: try_alloc_in_window_def Let_def split: if_splits)
  then obtain j where j: "run_free_at ?free ?ids (unat count) j" "base = ?ids ! j"
    and first: "\<And>j'. j' < j \<Longrightarrow> \<not> run_free_at ?free ?ids (unat count) j'"
    using scan_window_spec [where free = ?free and ids = ?ids and count = "unat count" and i = 0] by auto
  have "j < length ?ids"
  proof (cases "unat count")
    case 0
    then have "j = 0"
      using first [of 0] by (cases j) (auto simp: run_free_at_def)
    then show ?thesis using assms(1) by (simp add: window_ok_def Let_def)
  next
    case (Suc n)
    then show ?thesis using j(1) by (simp add: run_free_at_def)
  qed
  then show ?thesis using j by blast
qed

lemma try_alloc_sound:
  assumes "window_ok (length (d_slots s)) w" and "length (d_slots s) < 2 ^ 32"
    and "try_alloc_in_window s w count = Some base"
  shows "run_free s base count \<and> base \<in> set (win_slot_ids w)"
  using try_alloc_at [OF assms(1,3)] run_free_at_window [OF assms(1,2)] nth_mem by metis

lemma try_alloc_None:
  "try_alloc_in_window s w count = None \<longleftrightarrow>
     (\<forall>j. \<not> run_free_at (\<lambda>i. slot_state i s = OFLD_SLOT_FREE) (win_slot_ids w) (unat count) j)"
proof -
  let ?ids = "win_slot_ids w" and ?free = "\<lambda>i. slot_state i s = OFLD_SLOT_FREE"
  show ?thesis
    using scan_window_spec [where free = ?free and ids = ?ids and count = "unat count" and i = 0]
    by (cases "scan_window ?free ?ids (unat count) 0")
      (auto simp: try_alloc_in_window_def Let_def run_free_at_def)
qed

lemma first_some_Some: "first_some f xs = Some y \<Longrightarrow> \<exists>x \<in> set xs. f x = Some y"
  by (induction xs) (auto split: option.splits)

lemma first_some_None: "first_some f xs = None \<longleftrightarrow> (\<forall>x \<in> set xs. f x = None)"
  by (induction xs) (auto split: option.splits)

lemma windows_okD:
  assumes "windows_ok s"
  shows "length (d_slots s) < 2 ^ 32"
    and "w \<in> set (d_windows s) \<Longrightarrow> window_ok (length (d_slots s)) w"
    and "w \<in> set (d_windows s) \<Longrightarrow> win_is_overflow w \<longleftrightarrow> win_gpu w = kOverflowGpu"
  using assms by (auto simp: windows_ok_def list_all_iff)

lemma windows_ok_index:
  assumes "windows_ok s" and "t_find (d_window_index s) (window_key numa gpu) = Some i"
  shows "at32 (d_windows s) i \<in> set (d_windows s) \<and> win_numa_node (at32 (d_windows s) i) = numa \<and>
         win_gpu (at32 (d_windows s) i) = gpu"
proof -
  have "unat i < length (d_windows s) \<and> window_id (at32 (d_windows s) i) = window_key numa gpu"
    using assms t_find_in_set [OF assms(2)] by (auto simp: windows_ok_def list_all_iff)
  then show ?thesis by (auto simp: window_id_def window_key_inj)
qed

lemma windows_ok_find:
  assumes ok: "windows_ok s" and w: "w \<in> set (d_windows s)"
  shows "\<exists>i. t_find (d_window_index s) (window_key (win_numa_node w) (win_gpu w)) = Some i \<and>
             at32 (d_windows s) i = w"
proof -
  obtain i where i: "t_find (d_window_index s) (window_id w) = Some i"
    using ok w by (auto simp: windows_ok_def list_all_iff)
  then have in_range: "unat i < length (d_windows s)" and id: "window_id (at32 (d_windows s) i) = window_id w"
    using ok t_find_in_set [OF i] by (auto simp: windows_ok_def list_all_iff)
  obtain j where j: "j < length (d_windows s)" "d_windows s ! j = w"
    using w by (auto simp: in_set_conv_nth)
  have "distinct (map window_id (d_windows s))"
    using ok by (simp add: windows_ok_def)
  then have "unat i = j"
    using in_range id j by (metis distinct_conv_nth length_map nth_map)
  then show ?thesis
    using i j by (auto simp: window_id_def)
qed

lemma try_win_Some:
  assumes "windows_ok s" and "try_win s count numa gpu = Some base"
  shows "\<exists>w \<in> set (d_windows s). win_numa_node w = numa \<and> win_gpu w = gpu \<and>
           try_alloc_in_window s w count = Some base"
  using assms windows_ok_index [OF assms(1)] by (auto simp: try_win_def split: option.splits)

lemma try_win_None:
  assumes "windows_ok s" and "try_win s count numa gpu = None" and "w \<in> set (d_windows s)"
    and "win_numa_node w = numa" and "win_gpu w = gpu"
  shows "try_alloc_in_window s w count = None"
  using assms windows_ok_find [OF assms(1,3)] by (auto simp: try_win_def)

lemma allocate_slots_window:
  assumes "windows_ok s" and "allocate_slots gpu numa nbytes flags s = (Some (base, count), s')"
  shows "count = slots_for_bytes nbytes s \<and> d_slots s' = d_slots s \<and>
    (\<exists>w \<in> set (d_windows s). try_alloc_in_window s w count = Some base \<and>
       (win_numa_node w = numa \<or> flags AND OFLD_FLAG_ALLOW_REMOTE_NUMA \<noteq> 0))"
  using assms(2) try_win_Some [OF assms(1)]
  by (auto simp: allocate_slots_def Let_def try_peers_def try_remote_def m_inc_def m_add_def
      split: option.splits if_splits dest!: first_some_Some; fastforce)

lemma allocate_slots_state:
  "allocate_slots gpu numa nbytes flags s = (r, s') \<Longrightarrow>
   s' = s \<or> s' = m_inc kRemoteNumaAllocs s"
  by (auto simp: allocate_slots_def Let_def split: option.splits if_splits)

section \<open>Properties of the allocator\<close>


text \<open>
  C12. The allocator gives up only when no window the request may use holds a run of free slots
  of the required length: all windows of its NUMA node, and all windows when remote nodes are
  allowed.
\<close>

theorem allocate_slots_complete:
  assumes "windows_ok s"
  shows "fst (allocate_slots gpu numa nbytes flags s) = None \<longleftrightarrow>
    (\<forall>w \<in> set (d_windows s).
       win_numa_node w = numa \<or> flags AND OFLD_FLAG_ALLOW_REMOTE_NUMA \<noteq> 0 \<longrightarrow>
       (\<forall>j. \<not> run_free_at (\<lambda>i. slot_state i s = OFLD_SLOT_FREE) (win_slot_ids w)
               (unat (slots_for_bytes nbytes s)) j))"
  (is "?lhs \<longleftrightarrow> ?rhs")
proof
  let ?c = "slots_for_bytes nbytes s"
  assume ?lhs
  then have own: "try_win s ?c numa gpu = None" and over: "try_win s ?c numa kOverflowGpu = None"
    and peers: "try_peers s ?c numa gpu = None"
    and remote: "flags AND OFLD_FLAG_ALLOW_REMOTE_NUMA \<noteq> 0 \<Longrightarrow> try_remote s ?c numa = None"
    by (auto simp: allocate_slots_def Let_def split: option.splits if_splits)
  have "try_alloc_in_window s w ?c = None"
    if "w \<in> set (d_windows s)" and "win_numa_node w = numa \<or> flags AND OFLD_FLAG_ALLOW_REMOTE_NUMA \<noteq> 0" for w
    using that try_win_None [OF assms own that(1)] try_win_None [OF assms over that(1)] peers remote
      windows_okD(3) [OF assms that(1)]
    by (cases "win_numa_node w = numa") (auto simp: try_peers_def try_remote_def first_some_None split: if_splits)
  then show ?rhs by (simp add: try_alloc_None)
next
  assume ?rhs
  then show ?lhs
    using allocate_slots_window [OF assms] try_alloc_None
    by (cases "allocate_slots gpu numa nbytes flags s" rule: prod.exhaust)
      (metis eq_fst_iff option.distinct(1) option.exhaust surj_pair)
qed

lemma unat_ucast_64_32: "unat (ucast (w :: u64) :: u32) = unat w mod 2 ^ 32"
  by (simp add: unsigned_ucast_eq take_bit_eq_mod)

lemma unat_slots_for_bytes:
  assumes g: "gran s \<noteq> 0" and fit: "unat nbytes + unat (gran s) \<le> 2 ^ 64"
  shows "unat (slots_for_bytes nbytes s) =
           max 1 ((unat nbytes + unat (gran s) - 1) div unat (gran s)) mod 2 ^ 32"
proof -
  have g0: "unat (gran s) \<noteq> 0" using g by (simp add: unat_0_iff)
  have "unat (nbytes + gran s - 1) = unat nbytes + unat (gran s) - 1"
  proof -
    let ?n = "unat nbytes + unat (gran s) - 1"
    have "nbytes + gran s - 1 = of_nat ?n"
      using g0 by (simp add: of_nat_diff)
    moreover have "unat (of_nat ?n :: u64) = ?n mod 2 ^ LENGTH(64)"
      by (rule unat_of_nat)
    moreover have "?n < 2 ^ LENGTH(64)"
      using fit g0 by simp
    ultimately show ?thesis by simp
  qed
  then have "unat ((nbytes + gran s - 1) div gran s) = (unat nbytes + unat (gran s) - 1) div unat (gran s)"
    by (simp add: unat_div_distrib)
  moreover have "(w :: u64) = 0 \<longleftrightarrow> unat w = 0" for w
    by (simp add: unat_0_iff)
  ultimately show ?thesis
    by (simp add: slots_for_bytes_def Let_def unat_ucast_64_32 max_def)
qed

lemma slots_cover:
  assumes "gran s \<noteq> 0" and "0 < nbytes" and "unat nbytes + unat (gran s) \<le> 2 ^ 64"
    and "unat nbytes \<le> (2 ^ 32 - 1) * unat (gran s)"
  shows "unat nbytes \<le> unat (slots_for_bytes nbytes s) * unat (gran s) \<and>
         (unat (slots_for_bytes nbytes s) - 1) * unat (gran s) < unat nbytes"
proof -
  let ?g = "unat (gran s)" and ?n = "unat nbytes"
  define q where "q = (?n + ?g - 1) div ?g"
  have g: "0 < ?g" and n: "0 < ?n" using assms(1,2) by (auto simp: unat_gt_0)
  have split: "q * ?g + (?n + ?g - 1) mod ?g = ?n + ?g - 1"
    by (simp add: q_def)
  have rem: "(?n + ?g - 1) mod ?g < ?g" using g by simp
  have le: "?n \<le> q * ?g" and lt: "q * ?g < ?n + ?g" using split rem g n by linarith+
  have "1 \<le> q" using le n by (cases q) auto
  moreover have "q \<le> 2 ^ 32 - 1"
  proof -
    have "q * ?g < (2 ^ 32 - 1) * ?g + ?g" using lt assms(4) by linarith
    then have "q * ?g < 2 ^ 32 * ?g" by simp
    then show ?thesis by simp
  qed
  ultimately have "unat (slots_for_bytes nbytes s) = q"
    using unat_slots_for_bytes [OF assms(1,3)] by (simp add: q_def max_def)
  moreover have "(q - 1) * ?g = q * ?g - ?g" by (simp add: diff_mult_distrib)
  ultimately show ?thesis using le lt n by simp
qed

text \<open>
  C13. A reservation is large enough and never wasteful: when the request is at most
  \<open>2\<^sup>3\<^sup>2 - 1\<close> granules and the rounding does not overflow, the slots reserved for \<open>nbytes > 0\<close> bytes
  hold at least \<open>nbytes\<close> bytes, and one slot less would not.
\<close>

theorem slots_for_bytes_tight:
  assumes "gran s \<noteq> 0" and "0 < nbytes" and "unat nbytes + unat (gran s) \<le> 2 ^ 64"
    and "unat nbytes \<le> (2 ^ 32 - 1) * unat (gran s)"
  shows "unat nbytes \<le> unat (slots_for_bytes nbytes s) * unat (gran s) \<and>
         (unat (slots_for_bytes nbytes s) - 1) * unat (gran s) < unat nbytes"
  using slots_cover [OF assms] .

end
