(* ===== verification/Daemon_Init.thy ===== *)
theory Daemon_Init
  imports Slots
begin

text \<open>
  Construction of the daemon (\<^verbatim>\<open>OffloadDaemon::OffloadDaemon\<close>, \<^verbatim>\<open>build_arenas_and_control\<close>) and what
  start-up guarantees: the rounding of the ring capacity terminates with a power of two, and the
  slot plan gives every slot its own byte range inside its arena. A failing \<^verbatim>\<open>memfd_create\<close>,
  \<^verbatim>\<open>ftruncate\<close> or \<^verbatim>\<open>mmap\<close> throws before the daemon exists and is not represented.
\<close>

section \<open>Construction\<close>

text \<open>\<^verbatim>\<open>while (p < ring_cap) p <<= 1;\<close> over 32-bit words; \<^const>\<open>None\<close> is a loop that never ends.\<close>

partial_function (option) round_pow2 :: "u32 \<Rightarrow> u32 \<Rightarrow> u32 option" where
  "round_pow2 cap p = (if p < cap then round_pow2 cap (push_bit 1 p) else Some p)"

definition ring_capacity_of :: "DaemonConfig \<Rightarrow> u32 option" where
  "ring_capacity_of cfg =
     (let cap = cfg_completion_ring_capacity cfg
      in round_pow2 (if cap < 2 then 2 else cap) 1)"

definition build_arena :: "DaemonConfig \<Rightarrow> nat \<Rightarrow> NumaArenaConfig \<Rightarrow> Arena" where
  "build_arena cfg i ac =
     \<lparr>ar_numa_node = nac_numa_node ac, ar_size = nac_size_bytes ac, ar_arena_id = of_nat i,
      ar_registration_granularity = ucast (min (cfg_registration_chunk_bytes cfg) 0xFFFFFFFF),
      ar_allocation_granularity = ucast (cfg_allocation_granularity_bytes cfg)\<rparr>"

definition build_arenas :: "DaemonConfig \<Rightarrow> Arena list" where
  "build_arenas cfg =
     map (\<lambda>i. build_arena cfg i (cfg_per_numa cfg ! i)) [0..<length (cfg_per_numa cfg)]"

definition total_slots :: "DaemonConfig \<Rightarrow> u32" where
  "total_slots cfg =
     fold (\<lambda>ac acc. acc + ucast (nac_size_bytes ac div cfg_allocation_granularity_bytes cfg))
       (cfg_per_numa cfg) 0"

definition zero_entry :: slot_entry where
  "zero_entry = \<lparr>se_state = OFLD_SLOT_FREE, se_slot_id = 0, se_numa_node = 0, se_gpu_preferred = 0,
     se_arena_id = 0, se_arena_offset = 0, se_capacity = 0, se_nbytes = 0, se_tensor_id = 0,
     se_version = 0, se_lease_id = 0, se_owner_rank = 0, se_owner_pid = 0, se_rank_epoch = 0,
     se_flags = 0, se_cold_ref = 0, se_checksum = 0, se_last_touch_ns = 0, se_submit_seq = 0,
     se_complete_seq = 0\<rparr>"

definition zero_completion :: completion_entry where
  "zero_completion = \<lparr>ce_lease_id = 0, ce_tensor_id = 0, ce_version = 0, ce_slot_id = 0,
     ce_event_type = 0, ce_timestamp_ns = 0\<rparr>"

definition fresh_ring :: "u32 \<Rightarrow> ring" where
  "fresh_ring cap = \<lparr>rh_capacity = cap, rh_owner_rank = none32, rh_rank_epoch = 0, rh_head = 0,
     rh_tail = 0, rh_entries = replicate (unat cap) zero_completion\<rparr>"

definition stripe_count_of :: "DaemonConfig \<Rightarrow> u32" where
  "stripe_count_of cfg =
     (if cfg_nvme_stripe_count cfg > 0
      then (if cfg_nvme_stripe cfg then cfg_nvme_stripe_count cfg else 1)
      else (if cfg_nvme_stripe cfg then 4 else 1))"

text \<open>
  The constructor. \<open>clock\<close> is the time of the call and \<open>files\<close> the contents of the cold-tier
  directories found there.
\<close>

definition init_daemon :: "DaemonConfig \<Rightarrow> u64 \<Rightarrow> (string, bytes) table \<Rightarrow> daemon option" where
  "init_daemon cfg clock files =
     (case ring_capacity_of cfg of None \<Rightarrow> None | Some cap \<Rightarrow>
        let arenas = build_arenas cfg;
            ring_max = cfg_completion_ring_max_ranks cfg;
            stride = ucast (completion_ring_bytes cap) :: u32;
            ring_area = (if ring_max = 0 then 0 else ucast ring_max * ucast stride :: u64);
            layout = (compute_control_layout (of_nat (length arenas)) (total_slots cfg) ring_area)
                       \<lparr>cl_max_ranks := ring_max, cl_ring_stride := stride\<rparr>;
            plan = build_slot_plan cfg arenas (replicate (unat (cl_num_slots layout)) zero_entry)
        in Some \<lparr>d_cfg = cfg, d_layout = layout, d_arenas = arenas, d_windows = pl_windows plan,
             d_window_index = pl_window_index plan, d_slots = pl_slots plan, d_generation = 1,
             d_heartbeat_ns = clock, d_rings = replicate (unat ring_max) (fresh_ring cap),
             d_ring_owner = [], d_ring_max_ranks = ring_max, d_ring_capacity = cap,
             d_sessions = [], d_leases = [], d_locations = [], d_cold_store = [],
             d_next_lease_id = 1, d_next_rank_epoch = 1, d_next_cold_ref = 1, d_jobs = [],
             d_objects = [], d_object_by_key = [], d_manifests = [], d_latest_sealed = [],
             d_next_object_id = 1, d_next_launch_epoch = 1, d_drain_queue = [],
             d_readback_queue = [], d_running = True,
             d_nvme_stripe_count = stripe_count_of cfg,
             d_nvme_stripe_offsets = replicate (unat (stripe_count_of cfg)) 0,
             d_files = files, d_mem = (\<lambda>a off. 0), d_counters = (\<lambda>m. 0), d_bw_samples = [],
             d_clock = clock\<rparr>)"

section \<open>Rounding the ring capacity\<close>

lemma unat_pow2_u32: "n < 32 \<Longrightarrow> unat (2 ^ n :: u32) = 2 ^ n"
  using unat_of_nat [of "2 ^ n", where 'a = 32] by (simp add: power_strict_increasing [of n 32 "2::nat", simplified])

lemma round_pow2_from:
  "n \<le> 31 \<Longrightarrow> unat cap \<le> 2 ^ 31 \<Longrightarrow> n = 0 \<or> 2 ^ (n - 1) < unat cap \<Longrightarrow>
   \<exists>m. m \<le> 31 \<and> round_pow2 cap (2 ^ n) = Some (2 ^ m) \<and> unat cap \<le> 2 ^ m \<and>
       (m = 0 \<or> 2 ^ (m - 1) < unat cap)"
proof (induction "31 - n" arbitrary: n)
  case 0
  then have "n = 31" by simp
  then have "\<not> (2 ^ n :: u32) < cap"
    using 0 unat_pow2_u32 [of 31] by (simp add: word_less_nat_alt)
  then show ?case
    using 0 \<open>n = 31\<close> by (subst round_pow2.simps) auto
next
  case (Suc k)
  show ?case
  proof (cases "(2 ^ n :: u32) < cap")
    case True
    then have "2 ^ n < unat cap"
      using Suc unat_pow2_u32 [of n] by (simp add: word_less_nat_alt)
    then have "\<exists>m. m \<le> 31 \<and> round_pow2 cap (2 ^ Suc n) = Some (2 ^ m) \<and> unat cap \<le> 2 ^ m \<and>
       (m = 0 \<or> 2 ^ (m - 1) < unat cap)"
      using Suc by (intro Suc.hyps(1)) auto
    moreover have "push_bit 1 (2 ^ n :: u32) = 2 ^ Suc n"
      by (simp add: push_bit_eq_mult)
    ultimately show ?thesis
      using True by (subst round_pow2.simps) (simp only: if_True)
  next
    case False
    then have "unat cap \<le> 2 ^ n"
      using Suc unat_pow2_u32 [of n] by (simp add: word_less_nat_alt)
    then show ?thesis
      using False Suc by (subst round_pow2.simps) auto
  qed
qed


lemma shift_power_u32:
  assumes "p = 0 \<or> (\<exists>n \<le> 31. p = 2 ^ n)"
  shows "unat (p :: u32) \<le> 2 ^ 31 \<and> (push_bit 1 p = 0 \<or> (\<exists>n \<le> 31. push_bit 1 p = 2 ^ n))"
  using assms
proof
  assume "\<exists>n \<le> 31. p = 2 ^ n"
  then obtain n where n: "n \<le> 31" "p = 2 ^ n" by blast
  have "push_bit 1 p = 2 ^ Suc n" by (simp add: n push_bit_eq_mult)
  moreover have "unat p \<le> 2 ^ 31"
    using n power_increasing [of n 31 "2::nat"] by (simp add: unat_pow2_u32)
  ultimately show ?thesis using n by (cases "n = 31") (auto intro: exI [of _ "Suc n"])
qed simp

lemma round_pow2_too_large:
  assumes "round_pow2 cap p = Some y" and "2 ^ 31 < unat cap" and "p = 0 \<or> (\<exists>n \<le> (31::nat). p = 2 ^ n)"
  shows False
proof -
  have "2 ^ 31 < unat cap \<longrightarrow> \<not> (p = 0 \<or> (\<exists>n \<le> 31. p = 2 ^ n))"
  proof (rule round_pow2.raw_induct [where P = "\<lambda>cap p y. 2 ^ 31 < unat cap \<longrightarrow> \<not> (p = 0 \<or> (\<exists>n \<le> 31. p = 2 ^ n))", OF _ assms(1)])
    fix f :: "u32 \<Rightarrow> u32 \<Rightarrow> u32 option" and cap p y :: u32
    assume IH: "\<And>cap p y. f cap p = Some y \<Longrightarrow> 2 ^ 31 < unat cap \<longrightarrow> \<not> (p = 0 \<or> (\<exists>n \<le> 31. p = 2 ^ n))"
      and eq: "(if p < cap then f cap (push_bit 1 p) else Some p) = Some y"
    show "2 ^ 31 < unat cap \<longrightarrow> \<not> (p = 0 \<or> (\<exists>n \<le> 31. p = 2 ^ n))"
    proof (intro impI notI)
      assume big: "2 ^ 31 < unat cap" and small: "p = 0 \<or> (\<exists>n \<le> 31. p = 2 ^ n)"
      then have "f cap (push_bit 1 p) = Some y"
        using eq shift_power_u32 [OF small] by (simp add: word_less_nat_alt split: if_splits)
      then show False using IH big shift_power_u32 [OF small] by blast
    qed
  qed
  then show False using assms by blast
qed

text \<open>
  C16. A configured capacity above \<open>2\<^sup>3\<^sup>1\<close> never leaves the rounding loop: the 32-bit shift reaches
  zero, so the daemon does not start.
\<close>

theorem ring_capacity_diverges:
  assumes "2 ^ 31 < unat (cfg_completion_ring_capacity cfg)"
  shows "ring_capacity_of cfg = None \<and> init_daemon cfg clock files = None"
proof -
  have "\<not> cfg_completion_ring_capacity cfg < 2"
    using assms by (simp add: word_less_nat_alt)
  then have "ring_capacity_of cfg = round_pow2 (cfg_completion_ring_capacity cfg) (2 ^ 0)"
    by (simp add: ring_capacity_of_def)
  moreover have "round_pow2 (cfg_completion_ring_capacity cfg) (2 ^ 0) = None"
  proof (rule ccontr)
    assume "round_pow2 (cfg_completion_ring_capacity cfg) (2 ^ 0) \<noteq> None"
    then obtain y where "round_pow2 (cfg_completion_ring_capacity cfg) (2 ^ 0) = Some y" by blast
    then show False by (rule round_pow2_too_large [OF _ assms]) (use le0 in blast)
  qed
  ultimately show ?thesis by (simp add: init_daemon_def)
qed

section \<open>The slot plan\<close>

text \<open>Number of whole granules in \<open>b\<close> bytes, and what an arena's windows ask for.\<close>

definition granules :: "u64 \<Rightarrow> u64 \<Rightarrow> nat" where
  "granules g b = unat b div unat g"

definition arena_demand :: "u64 \<Rightarrow> NumaArenaConfig \<Rightarrow> nat" where
  "arena_demand g ac =
     sum_list (map (\<lambda>gw. granules g (gwc_size_bytes gw)) (nac_gpu_windows ac)) + granules g (nac_overflow_bytes ac)"

definition arena_keys :: "NumaArenaConfig \<Rightarrow> u64 list" where
  "arena_keys ac =
     map (\<lambda>gw. window_key (nac_numa_node ac) (gwc_gpu gw)) (nac_gpu_windows ac) @
     [window_key (nac_numa_node ac) kOverflowGpu]"

text \<open>
  The plan while arena \<open>a\<close> is being carved; its first slot has index \<open>st\<close>. Slots below \<open>st\<close> belong to
  earlier arenas and satisfy \<open>P\<close>.
\<close>

definition plan_slots_ok :: "u64 \<Rightarrow> nat \<Rightarrow> nat \<Rightarrow> slot_plan \<Rightarrow> bool" where
  "plan_slots_ok g a st p \<longleftrightarrow>
     length (pl_slots p) < 2 ^ 32 \<and> st \<le> unat (pl_next p) \<and> unat (pl_next p) \<le> length (pl_slots p) \<and>
     unat (pl_cursor p) = (unat (pl_next p) - st) * unat g \<and>
     (\<forall>i < unat (pl_next p).
        unat (se_slot_id (pl_slots p ! i)) = i \<and> se_capacity (pl_slots p ! i) = g \<and>
        se_state (pl_slots p ! i) = OFLD_SLOT_FREE \<and>
        (if i < st then unat (se_arena_id (pl_slots p ! i)) < a
         else unat (se_arena_id (pl_slots p ! i)) = a \<and>
              unat (se_arena_offset (pl_slots p ! i)) = (i - st) * unat g))"

text \<open>The slots of a window are in one arena.\<close>

definition one_arena :: "slot_entry list \<Rightarrow> Window \<Rightarrow> bool" where
  "one_arena slots w \<longleftrightarrow>
     (\<forall>i \<in> set (win_slot_ids w). \<forall>j \<in> set (win_slot_ids w). se_arena_id (at32 slots i) = se_arena_id (at32 slots j))"

definition plan_windows_ok :: "slot_plan \<Rightarrow> bool" where
  "plan_windows_ok p \<longleftrightarrow>
     length (pl_windows p) \<le> unat (pl_next p) \<and> t_ok (pl_window_index p) \<and>
     list_all (window_ok (unat (pl_next p))) (pl_windows p) \<and>
     distinct (map window_id (pl_windows p)) \<and>
     list_all (\<lambda>w. win_is_overflow w \<longleftrightarrow> win_gpu w = kOverflowGpu) (pl_windows p) \<and>
     (\<forall>k i. t_find (pl_window_index p) k = Some i \<longrightarrow>
        unat i < length (pl_windows p) \<and> window_id (pl_windows p ! unat i) = k) \<and>
     (\<forall>w \<in> set (pl_windows p). t_find (pl_window_index p) (window_id w) \<noteq> None) \<and>
     list_all (one_arena (pl_slots p)) (pl_windows p)"

lemma granules_word: "unat (b div g) = granules g b"
  by (simp add: granules_def unat_div_distrib)

lemma granules_mult: "granules g b * unat g \<le> unat b"
  by (simp add: granules_def)

lemma carve_window_empty: "granules g b = 0 \<Longrightarrow> carve_window g numa aid gpu ov b p = p"
  using granules_word [of b g] by (simp add: carve_window_def Let_def unat_0_iff)

lemma carve_window_next:
  assumes "unat (pl_next p) + granules g b < 2 ^ 32"
  shows "unat (pl_next (carve_window g numa aid gpu ov b p)) = unat (pl_next p) + granules g b"
proof -
  have "ucast (b div g) = (of_nat (granules g b) :: u32)"
    by (simp add: granules_word [symmetric] word_unat_eq_iff unat_ucast_64_32 unat_of_nat)
  then show ?thesis
    using assms granules_word [of b g]
    by (simp add: carve_window_def Let_def unat_add_of_nat unat_0_iff [symmetric])
qed

lemma carve_window_slots:
  assumes "unat (pl_next p) + granules g b \<le> length (pl_slots p)" and "length (pl_slots p) < 2 ^ 32"
  shows "length (pl_slots (carve_window g numa aid gpu ov b p)) = length (pl_slots p) \<and>
    (\<forall>i. pl_slots (carve_window g numa aid gpu ov b p) ! i =
      (if unat (pl_next p) \<le> i \<and> i < unat (pl_next p) + granules g b
       then plan_entry (of_nat i) numa (if ov then kOverflowGpu else gpu) ov aid
              (pl_cursor p + of_nat (i - unat (pl_next p)) * g) g
       else pl_slots p ! i))"
proof (cases "granules g b = 0")
  case True
  then show ?thesis by (auto simp: carve_window_empty)
next
  case False
  let ?n = "granules g b" and ?b = "unat (pl_next p)"
  let ?e = "\<lambda>k. plan_entry (of_nat (?b + k)) numa (if ov then kOverflowGpu else gpu) ov aid
              (pl_cursor p + of_nat k * g) g"
  have "b div g \<noteq> 0" using False granules_word [of b g] by auto
  then have "pl_slots (carve_window g numa aid gpu ov b p) =
      fold (\<lambda>k xs. let i = pl_next p + of_nat k in
                        xs[unat i := plan_entry i numa (if ov then kOverflowGpu else gpu) ov aid
                                       (pl_cursor p + of_nat k * g) g]) [0..<?n] (pl_slots p)"
    by (simp add: carve_window_def Let_def granules_word)
  also have "\<dots> = fold (\<lambda>k xs. xs[?b + k := (\<lambda>k e. ?e k) k (xs ! (?b + k))]) [0..<?n] (pl_slots p)"
    using assms by (intro fold_cong) (auto simp: Let_def unat_add_of_nat)
  finally show ?thesis
    using fold_upd_nth [of ?b ?n "pl_slots p" "\<lambda>k e. ?e k"] assms(1)
      fold_upd_length [of "\<lambda>k. ?b + k" "\<lambda>k e. ?e k" "[0..<?n]" "pl_slots p"]
    by (auto simp: Let_def)
qed

lemma unat_cursor:
  assumes "unat (c :: u64) = m * unat g" and "(m + k) * unat g < 2 ^ 64"
  shows "unat (c + of_nat k * g) = (m + k) * unat g"
proof -
  have "c + of_nat k * g = of_nat (m * unat g + k * unat g)"
    using assms(1) by (metis of_nat_add of_nat_mult of_nat_unat ucast_id)
  then have "unat (c + of_nat k * g) = (m * unat g + k * unat g) mod 2 ^ LENGTH(64)"
    by (simp only: unat_of_nat)
  then show ?thesis
    using assms(2) by (simp add: add_mult_distrib [symmetric] del: unat_less_u64)
qed

lemma carve_window_slots_ok:
  assumes ok: "plan_slots_ok g a st p" and a: "unat aid = a"
    and fit: "unat (pl_next p) + granules g b \<le> length (pl_slots p)"
    and bytes: "(unat (pl_next p) - st + granules g b) * unat g < 2 ^ 64"
  shows "plan_slots_ok g a st (carve_window g numa aid gpu ov b p)"
proof -
  let ?q = "carve_window g numa aid gpu ov b p" and ?n = "granules g b" and ?b = "unat (pl_next p)"
  have len: "length (pl_slots p) < 2 ^ 32" and st: "st \<le> ?b"
    and cur: "unat (pl_cursor p) = (?b - st) * unat g"
    using ok by (auto simp: plan_slots_ok_def)
  have nxt: "unat (pl_next ?q) = ?b + ?n"
    using carve_window_next fit len by simp
  note slots = carve_window_slots [OF fit len, of numa aid gpu ov]
  have curq: "unat (pl_cursor ?q) = (?b + ?n - st) * unat g"
  proof (cases "?n = 0")
    case True
    then show ?thesis using cur by (simp add: carve_window_empty)
  next
    case False
    then have "b div g \<noteq> 0" using granules_word [of b g] by auto
    then have "pl_cursor ?q = pl_cursor p + of_nat ?n * g"
      by (simp add: carve_window_def Let_def granules_word [symmetric])
    then show ?thesis
      using unat_cursor [OF cur bytes] st by simp
  qed
  have new: "unat (pl_cursor p + of_nat (i - ?b) * g) = (i - st) * unat g"
    if "?b \<le> i" "i < ?b + ?n" for i
  proof -
    have "(?b - st + (i - ?b)) * unat g \<le> (?b - st + ?n) * unat g"
      using that by (intro mult_right_mono) auto
    then have "unat (pl_cursor p + of_nat (i - ?b) * g) = (?b - st + (i - ?b)) * unat g"
      using bytes by (intro unat_cursor [OF cur]) linarith
    then show ?thesis using that st by simp
  qed
  have "unat (se_slot_id (pl_slots ?q ! i)) = i \<and> se_capacity (pl_slots ?q ! i) = g \<and>
        se_state (pl_slots ?q ! i) = OFLD_SLOT_FREE \<and>
        (if i < st then unat (se_arena_id (pl_slots ?q ! i)) < a
         else unat (se_arena_id (pl_slots ?q ! i)) = a \<and>
              unat (se_arena_offset (pl_slots ?q ! i)) = (i - st) * unat g)"
    if i: "i < ?b + ?n" for i
  proof (cases "?b \<le> i")
    case True
    then have "unat (of_nat i :: u32) = i"
      using i fit len by (simp add: unat_of_nat)
    then show ?thesis
      using True i new [OF True i] slots st a by (simp add: plan_entry_def)
  next
    case False
    then show ?thesis
      using ok slots by (simp add: plan_slots_ok_def)
  qed
  then show ?thesis
    unfolding plan_slots_ok_def nxt curq conjunct1 [OF slots] using len st fit by simp
qed

lemma t_put_set: "(k', v') \<in> set (t_put k v t) \<Longrightarrow> (k', v') = (k, v) \<or> (k', v') \<in> set t"
  unfolding t_put_def by (induction t) (auto split: if_splits)

lemma carve_window_windows:
  "granules g b \<noteq> 0 \<Longrightarrow>
   pl_windows (carve_window g numa aid gpu ov b p) = pl_windows p @
     [\<lparr>win_numa_node = numa, win_gpu = (if ov then kOverflowGpu else gpu), win_is_overflow = ov,
       win_slot_ids = map (\<lambda>k. pl_next p + of_nat k) [0..<granules g b]\<rparr>] \<and>
   pl_window_index (carve_window g numa aid gpu ov b p) =
     t_put (window_key numa (if ov then kOverflowGpu else gpu)) (of_nat (length (pl_windows p)))
       (pl_window_index p)"
  using granules_word [of b g] by (auto simp: carve_window_def Let_def)

lemma window_ok_mono: "window_ok n w \<Longrightarrow> n \<le> m \<Longrightarrow> window_ok m w"
  by (simp add: window_ok_def Let_def)

lemma window_ids_below:
  assumes "window_ok n w" and "n < 2 ^ 32" and "i \<in> set (win_slot_ids w)"
  shows "unat i < n"
proof -
  obtain j where "j < length (win_slot_ids w)" "win_slot_ids w ! j = i"
    using assms(3) by (auto simp: in_set_conv_nth)
  then show ?thesis
    using window_nth [OF assms(1) _ assms(2)] assms(1) by (auto simp: window_ok_def Let_def)
qed

lemma carve_window_arenas:
  assumes ok: "plan_windows_ok p" and len: "length (pl_slots p) < 2 ^ 32"
    and fit: "unat (pl_next p) + granules g b \<le> length (pl_slots p)"
    and w: "w \<in> set (pl_windows (carve_window g numa aid gpu ov b p))"
  shows "one_arena (pl_slots (carve_window g numa aid gpu ov b p)) w"
proof (cases "w \<in> set (pl_windows p)")
  case True
  have "window_ok (unat (pl_next p)) w" using ok True by (auto simp: plan_windows_ok_def list_all_iff)
  moreover have "unat (pl_next p) < 2 ^ 32" using fit len by simp
  ultimately have below: "unat i < unat (pl_next p)" if "i \<in> set (win_slot_ids w)" for i
    using window_ids_below that by blast
  have old: "pl_slots (carve_window g numa aid gpu ov b p) ! n = pl_slots p ! n" if "n < unat (pl_next p)" for n
    using carve_window_slots [OF fit len, of numa aid gpu ov] that by simp
  have "one_arena (pl_slots p) w"
    using ok True by (auto simp: plan_windows_ok_def list_all_iff)
  then show ?thesis unfolding one_arena_def using old below by metis
next
  case False
  then have "granules g b \<noteq> 0" using w carve_window_empty [of g b numa aid gpu ov p] by metis
  then have "w = \<lparr>win_numa_node = numa, win_gpu = (if ov then kOverflowGpu else gpu), win_is_overflow = ov,
       win_slot_ids = map (\<lambda>k. pl_next p + of_nat k) [0..<granules g b]\<rparr>"
    using w False carve_window_windows [of g b numa aid gpu ov p] by auto
  then have in_window: "unat (pl_next p) \<le> unat i \<and> unat i < unat (pl_next p) + granules g b"
    if "i \<in> set (win_slot_ids w)" for i
    using that fit len by (auto simp: unat_add_of_nat)
  have "se_arena_id (at32 (pl_slots (carve_window g numa aid gpu ov b p)) i) = aid"
    if "i \<in> set (win_slot_ids w)" for i
    using conjunct2 [OF carve_window_slots [OF fit len, of numa aid gpu ov]] in_window [OF that]
    by (simp add: plan_entry_def)
  then show ?thesis by (simp add: one_arena_def)
qed

lemma carve_window_windows_ok:
  assumes ok: "plan_windows_ok p" and fit': "unat (pl_next p) + granules g b \<le> length (pl_slots p)"
    and small: "length (pl_slots p) < 2 ^ 32"
    and fresh: "window_key numa (if ov then kOverflowGpu else gpu) \<notin> window_id ` set (pl_windows p)"
    and over: "ov \<longleftrightarrow> (if ov then kOverflowGpu else gpu) = kOverflowGpu"
  shows "plan_windows_ok (carve_window g numa aid gpu ov b p)"
proof (cases "granules g b = 0")
  case True
  then show ?thesis using ok by (simp add: carve_window_empty)
next
  case False
  let ?q = "carve_window g numa aid gpu ov b p" and ?n = "granules g b"
  let ?key = "window_key numa (if ov then kOverflowGpu else gpu)"
  have fit: "unat (pl_next p) + granules g b < 2 ^ 32" using fit' small by simp
  note nxt = carve_window_next [OF fit, of numa aid gpu ov]
  note win = carve_window_windows [OF False, of numa aid gpu ov p]
  have len: "unat (of_nat (length (pl_windows p)) :: u32) = length (pl_windows p)"
    using ok fit by (simp add: plan_windows_ok_def unat_of_nat)
  have "hd (map (\<lambda>k. pl_next p + of_nat k) [0..<?n]) = pl_next p"
    using False by (simp add: hd_map upt_conv_Cons)
  then have "window_ok (unat (pl_next ?q)) (last (pl_windows ?q))"
    using nxt False by (auto simp: window_ok_def Let_def win)
  moreover have "list_all (window_ok (unat (pl_next ?q))) (pl_windows p)"
    using ok nxt window_ok_mono unfolding plan_windows_ok_def list_all_iff by fastforce
  moreover have "window_id (last (pl_windows ?q)) = ?key"
    by (simp add: win window_id_def)
  moreover have "unat i < length (pl_windows ?q) \<and> window_id (pl_windows ?q ! unat i) = k"
    if "t_find (pl_window_index ?q) k = Some i" for k i
  proof (cases "k = ?key")
    case True
    then have "i = of_nat (length (pl_windows p))" using that by (simp add: win)
    then show ?thesis using True by (simp add: len win window_id_def)
  next
    case False
    then have "t_find (pl_window_index p) k = Some i" using that by (simp add: win)
    then have "unat i < length (pl_windows p) \<and> window_id (pl_windows p ! unat i) = k"
      using ok by (simp add: plan_windows_ok_def)
    then show ?thesis by (simp add: win nth_append)
  qed
  moreover have "list_all (one_arena (pl_slots ?q)) (pl_windows ?q)"
    using carve_window_arenas [OF ok small fit', of _ numa aid gpu ov] by (simp add: list_all_iff)
  ultimately show ?thesis
    using ok fresh over nxt False by (simp add: plan_windows_ok_def win)
qed

text \<open>One carved window, all consequences at once.\<close>

definition carves :: "u64 \<Rightarrow> nat \<Rightarrow> nat \<Rightarrow> slot_plan \<Rightarrow> nat \<Rightarrow> u64 set \<Rightarrow> slot_plan \<Rightarrow> bool" where
  "carves g a st p n keys q \<longleftrightarrow>
     plan_slots_ok g a st q \<and> plan_windows_ok q \<and> unat (pl_next q) = unat (pl_next p) + n \<and>
     length (pl_slots q) = length (pl_slots p) \<and>
     (\<forall>i < unat (pl_next p). pl_slots q ! i = pl_slots p ! i) \<and>
     window_id ` set (pl_windows q) \<subseteq> window_id ` set (pl_windows p) \<union> keys"

lemma carve_window_carves:
  assumes "plan_slots_ok g a st p" and "plan_windows_ok p" and "unat aid = a"
    and fit: "unat (pl_next p) + granules g b \<le> length (pl_slots p)"
    and "(unat (pl_next p) - st + granules g b) * unat g < 2 ^ 64"
    and "window_key numa (if ov then kOverflowGpu else gpu) \<notin> window_id ` set (pl_windows p)"
    and "ov \<longleftrightarrow> (if ov then kOverflowGpu else gpu) = kOverflowGpu"
  shows "carves g a st p (granules g b) {window_key numa (if ov then kOverflowGpu else gpu)}
           (carve_window g numa aid gpu ov b p)"
proof -
  have len: "length (pl_slots p) < 2 ^ 32" using assms(1) by (simp add: plan_slots_ok_def)
  have win: "window_id ` set (pl_windows (carve_window g numa aid gpu ov b p)) \<subseteq>
      window_id ` set (pl_windows p) \<union> {window_key numa (if ov then kOverflowGpu else gpu)}"
    using carve_window_windows [of g b numa aid gpu ov p]
    by (cases "granules g b = 0") (auto simp: carve_window_empty window_id_def)
  show ?thesis
    using carve_window_slots_ok [OF assms(1,3) fit assms(5)] win
      carve_window_windows_ok [OF assms(2) fit len assms(6,7)] carve_window_next [of p g b numa aid gpu ov]
      carve_window_slots [OF fit len, of numa aid gpu ov] fit len
    unfolding carves_def by (meson le_less_trans not_le)
qed

lemma carves_trans:
  assumes pq: "carves g a st p n K q" and qr: "carves g a st q m L r"
  shows "carves g a st p (n + m) (K \<union> L) r"
proof -
  have q: "unat (pl_next q) = unat (pl_next p) + n" "length (pl_slots q) = length (pl_slots p)"
      "\<forall>i < unat (pl_next p). pl_slots q ! i = pl_slots p ! i"
      "window_id ` set (pl_windows q) \<subseteq> window_id ` set (pl_windows p) \<union> K"
    using pq unfolding carves_def by blast+
  have r: "plan_slots_ok g a st r" "plan_windows_ok r" "unat (pl_next r) = unat (pl_next q) + m"
      "length (pl_slots r) = length (pl_slots q)" "\<forall>i < unat (pl_next q). pl_slots r ! i = pl_slots q ! i"
      "window_id ` set (pl_windows r) \<subseteq> window_id ` set (pl_windows q) \<union> L"
    using qr unfolding carves_def by blast+
  have "window_id ` set (pl_windows r) \<subseteq> window_id ` set (pl_windows p) \<union> (K \<union> L)"
    using q(4) r(6) by blast
  then show ?thesis
    unfolding carves_def using q r by simp
qed

lemma disjoint_insert: "A \<subseteq> B \<union> {x} \<Longrightarrow> x \<notin> C \<Longrightarrow> C \<inter> B = {} \<Longrightarrow> C \<inter> A = {}"
  by blast

lemma disjoint_union: "A \<subseteq> B \<union> D \<Longrightarrow> C \<inter> D = {} \<Longrightarrow> C \<inter> B = {} \<Longrightarrow> C \<inter> A = {}"
  by blast

lemma carve_gpu_windows:
  assumes "plan_slots_ok g a st p" and "plan_windows_ok p" and "unat aid = a"
    and "unat (pl_next p) + sum_list (map (\<lambda>gw. granules g (gwc_size_bytes gw)) gws) \<le> length (pl_slots p)"
    and "(unat (pl_next p) - st + sum_list (map (\<lambda>gw. granules g (gwc_size_bytes gw)) gws)) * unat g < 2 ^ 64"
    and "distinct (map (\<lambda>gw. window_key numa (gwc_gpu gw)) gws)"
    and "set (map (\<lambda>gw. window_key numa (gwc_gpu gw)) gws) \<inter> window_id ` set (pl_windows p) = {}"
    and "list_all (\<lambda>gw. gwc_gpu gw \<noteq> kOverflowGpu) gws"
  shows "carves g a st p (sum_list (map (\<lambda>gw. granules g (gwc_size_bytes gw)) gws))
           (set (map (\<lambda>gw. window_key numa (gwc_gpu gw)) gws))
           (fold (\<lambda>gw. carve_window g numa aid (gwc_gpu gw) False (gwc_size_bytes gw)) gws p)"
  using assms
proof (induction gws arbitrary: p)
  case Nil
  then show ?case by (simp add: carves_def)
next
  case (Cons gw gws)
  let ?q = "carve_window g numa aid (gwc_gpu gw) False (gwc_size_bytes gw) p"
  let ?n = "granules g (gwc_size_bytes gw)" and ?m = "sum_list (map (\<lambda>gw. granules g (gwc_size_bytes gw)) gws)"
  have fit: "unat (pl_next p) + ?n + ?m \<le> length (pl_slots p)"
    and bytes: "(unat (pl_next p) - st + ?n + ?m) * unat g < 2 ^ 64"
    using Cons.prems(4,5) by (simp_all add: add.assoc o_def)
  have "(unat (pl_next p) - st + ?n) * unat g \<le> (unat (pl_next p) - st + ?n + ?m) * unat g"
    by (intro mult_right_mono) auto
  then have "(unat (pl_next p) - st + ?n) * unat g < 2 ^ 64"
    using bytes by (rule le_less_trans)
  then have q: "carves g a st p ?n {window_key numa (gwc_gpu gw)} ?q"
    using carve_window_carves [of g a st p aid "gwc_size_bytes gw" numa False "gwc_gpu gw"] Cons.prems fit bytes
    by simp
  then have "carves g a st ?q ?m (set (map (\<lambda>gw. window_key numa (gwc_gpu gw)) gws))
      (fold (\<lambda>gw. carve_window g numa aid (gwc_gpu gw) False (gwc_size_bytes gw)) gws ?q)"
  proof (intro Cons.IH)
    have "st \<le> unat (pl_next p)" using Cons.prems(1) by (simp add: plan_slots_ok_def)
    then have "unat (pl_next ?q) - st + ?m = unat (pl_next p) - st + ?n + ?m"
      using q by (simp add: carves_def)
    then show "(unat (pl_next ?q) - st + ?m) * unat g < 2 ^ 64" using bytes by simp
    show "unat (pl_next ?q) + ?m \<le> length (pl_slots ?q)" using q fit by (simp add: carves_def)
    have "window_id ` set (pl_windows ?q) \<subseteq> window_id ` set (pl_windows p) \<union> {window_key numa (gwc_gpu gw)}"
      using q by (simp add: carves_def)
    moreover have "window_key numa (gwc_gpu gw) \<notin> set (map (\<lambda>gw. window_key numa (gwc_gpu gw)) gws)"
      using Cons.prems(6) by simp
    moreover have "set (map (\<lambda>gw. window_key numa (gwc_gpu gw)) gws) \<inter> window_id ` set (pl_windows p) = {}"
      using Cons.prems(7) by auto
    ultimately show "set (map (\<lambda>gw. window_key numa (gwc_gpu gw)) gws) \<inter> window_id ` set (pl_windows ?q) = {}"
      by (rule disjoint_insert)
  qed (use q Cons.prems in \<open>simp_all add: carves_def\<close>)
  then show ?case
    using carves_trans [OF q] by simp
qed

text \<open>The plan after the arenas whose sizes are \<open>sizes\<close>.\<close>

definition plan_done :: "u64 \<Rightarrow> nat list \<Rightarrow> slot_plan \<Rightarrow> bool" where
  "plan_done g sizes p \<longleftrightarrow>
     plan_windows_ok p \<and> length (pl_slots p) < 2 ^ 32 \<and> unat (pl_next p) \<le> length (pl_slots p) \<and>
     (\<forall>i < unat (pl_next p).
        unat (se_slot_id (pl_slots p ! i)) = i \<and> se_capacity (pl_slots p ! i) = g \<and>
        se_state (pl_slots p ! i) = OFLD_SLOT_FREE \<and>
        unat (se_arena_id (pl_slots p ! i)) < length sizes \<and>
        unat (se_arena_offset (pl_slots p ! i)) + unat g \<le> sizes ! unat (se_arena_id (pl_slots p ! i))) \<and>
     (\<forall>i j. i < j \<and> j < unat (pl_next p) \<and> se_arena_id (pl_slots p ! i) = se_arena_id (pl_slots p ! j) \<longrightarrow>
        unat (se_arena_offset (pl_slots p ! i)) + unat g \<le> unat (se_arena_offset (pl_slots p ! j)))"

lemma plan_done_extend:
  assumes pd: "plan_done g sizes p"
    and c: "carves g (length sizes) (unat (pl_next p)) p n K q" and sz: "n * unat g \<le> sz"
  shows "plan_done g (sizes @ [sz]) q"
proof -
  let ?st = "unat (pl_next p)"
  have q: "plan_slots_ok g (length sizes) ?st q" "plan_windows_ok q" "unat (pl_next q) = ?st + n"
    and old: "\<And>i. i < ?st \<Longrightarrow> pl_slots q ! i = pl_slots p ! i"
    using c unfolding carves_def by blast+
  have new: "unat (se_arena_id (pl_slots q ! i)) = length sizes \<and>
      unat (se_arena_offset (pl_slots q ! i)) = (i - ?st) * unat g"
    if "?st \<le> i" "i < ?st + n" for i
    using q that by (auto simp: plan_slots_ok_def)
  have lt: "(i - ?st) * unat g + unat g \<le> (j - ?st) * unat g" if "?st \<le> i" "i < j" for i j
  proof -
    have "(i - ?st + 1) * unat g \<le> (j - ?st) * unat g"
      using that by (intro mult_right_mono) auto
    then show ?thesis by simp
  qed
  have "unat (se_arena_offset (pl_slots q ! i)) + unat g \<le> (sizes @ [sz]) ! unat (se_arena_id (pl_slots q ! i)) \<and>
      unat (se_arena_id (pl_slots q ! i)) < length (sizes @ [sz])" if i: "i < ?st + n" for i
  proof (cases "i < ?st")
    case True
    then show ?thesis using pd old [OF True] by (auto simp: plan_done_def nth_append)
  next
    case False
    then show ?thesis using new [of i] lt [of i "?st + n"] i sz by simp
  qed
  moreover have "unat (se_arena_offset (pl_slots q ! i)) + unat g \<le> unat (se_arena_offset (pl_slots q ! j))"
    if "i < j" "j < ?st + n" and same: "se_arena_id (pl_slots q ! i) = se_arena_id (pl_slots q ! j)" for i j
  proof (cases "j < ?st")
    case True
    then show ?thesis using pd old [of i] old [of j] that by (auto simp: plan_done_def)
  next
    case False
    have "\<not> i < ?st"
    proof
      assume "i < ?st"
      then have "unat (se_arena_id (pl_slots q ! i)) < length sizes"
        using pd old by (simp add: plan_done_def)
      then show False using same new [of j] False that(2) by simp
    qed
    then show ?thesis using new [of i] new [of j] lt [of i j] False that by simp
  qed
  ultimately show ?thesis
    using q unfolding plan_done_def plan_slots_ok_def by auto
qed

lemma plan_arena_carves:
  assumes pd: "plan_done g sizes p" and a: "unat (ar_arena_id ar) = length sizes"
    and fit: "unat (pl_next p) + arena_demand g ac \<le> length (pl_slots p)"
    and bytes: "arena_demand g ac * unat g < 2 ^ 64"
    and keys: "distinct (arena_keys ac)" "set (arena_keys ac) \<inter> window_id ` set (pl_windows p) = {}"
  shows "carves g (length sizes) (unat (pl_next p)) p (arena_demand g ac) (set (arena_keys ac))
           (plan_arena g (ac, ar) p)"
proof -
  let ?numa = "nac_numa_node ac" and ?st = "unat (pl_next p)" and ?gws = "nac_gpu_windows ac"
  let ?n = "sum_list (map (\<lambda>gw. granules g (gwc_size_bytes gw)) ?gws)" and ?m = "granules g (nac_overflow_bytes ac)"
  define p0 where "p0 = p\<lparr>pl_cursor := 0\<rparr>"
  define p1 where "p1 = fold (\<lambda>gw. carve_window g ?numa (ar_arena_id ar) (gwc_gpu gw) False (gwc_size_bytes gw)) ?gws p0"
  have dm: "arena_demand g ac = ?n + ?m" by (simp add: arena_demand_def)
  have p0: "plan_slots_ok g (length sizes) ?st p0" "plan_windows_ok p0" "pl_next p0 = pl_next p"
      "pl_slots p0 = pl_slots p" "pl_windows p0 = pl_windows p"
    using pd by (auto simp: p0_def plan_done_def plan_slots_ok_def plan_windows_ok_def)
  have ks: "distinct (map (\<lambda>gw. window_key ?numa (gwc_gpu gw)) ?gws)"
      "window_key ?numa kOverflowGpu \<notin> set (map (\<lambda>gw. window_key ?numa (gwc_gpu gw)) ?gws)"
      "set (map (\<lambda>gw. window_key ?numa (gwc_gpu gw)) ?gws) \<inter> window_id ` set (pl_windows p) = {}"
      "window_key ?numa kOverflowGpu \<notin> window_id ` set (pl_windows p)"
    using keys by (auto simp: arena_keys_def o_def)
  have "?n * unat g \<le> (?n + ?m) * unat g" by (intro mult_right_mono) auto
  then have nb: "?n * unat g < 2 ^ 64" using bytes unfolding dm by (rule le_less_trans)
  have "list_all (\<lambda>gw. gwc_gpu gw \<noteq> kOverflowGpu) ?gws"
    using ks(2) by (force simp: list_all_iff)
  then have c1: "carves g (length sizes) ?st p0 ?n (set (map (\<lambda>gw. window_key ?numa (gwc_gpu gw)) ?gws)) p1"
    unfolding p1_def using p0 a fit dm nb ks by (intro carve_gpu_windows) auto
  have pa: "plan_arena g (ac, ar) p =
      carve_window g ?numa (ar_arena_id ar) kOverflowGpu True (nac_overflow_bytes ac) p1"
    by (simp add: plan_arena_def Let_def p0_def p1_def)
  have c2: "carves g (length sizes) ?st p1 ?m {window_key ?numa (if True then kOverflowGpu else kOverflowGpu)}
      (carve_window g ?numa (ar_arena_id ar) kOverflowGpu True (nac_overflow_bytes ac) p1)"
  proof (rule carve_window_carves)
    show "plan_slots_ok g (length sizes) ?st p1" "plan_windows_ok p1"
      using c1 by (auto simp: carves_def)
    show "unat (pl_next p1) + ?m \<le> length (pl_slots p1)" "(unat (pl_next p1) - ?st + ?m) * unat g < 2 ^ 64"
      using c1 fit bytes dm p0 by (auto simp: carves_def)
    show "window_key ?numa (if True then kOverflowGpu else kOverflowGpu) \<notin> window_id ` set (pl_windows p1)"
      using c1 ks p0 unfolding carves_def by auto
  qed (use a in auto)
  have "carves g (length sizes) ?st p0 (?n + ?m)
      (set (map (\<lambda>gw. window_key ?numa (gwc_gpu gw)) ?gws) \<union> {window_key ?numa kOverflowGpu}) (plan_arena g (ac, ar) p)"
    using carves_trans [OF c1 c2] unfolding pa by simp
  moreover have "set (arena_keys ac) = set (map (\<lambda>gw. window_key ?numa (gwc_gpu gw)) ?gws) \<union> {window_key ?numa kOverflowGpu}"
    by (auto simp: arena_keys_def)
  ultimately show ?thesis
    using p0 by (simp add: carves_def dm)
qed

lemma plan_arenas:
  assumes "plan_done g sizes p"
    and "\<forall>i < length cas. unat (ar_arena_id (snd (cas ! i))) = length sizes + i"
    and "unat (pl_next p) + sum_list (map (\<lambda>ca. arena_demand g (fst ca)) cas) \<le> length (pl_slots p)"
    and "list_all (\<lambda>ca. arena_demand g (fst ca) * unat g \<le> unat (nac_size_bytes (fst ca))) cas"
    and "distinct (concat (map (\<lambda>ca. arena_keys (fst ca)) cas))"
    and "set (concat (map (\<lambda>ca. arena_keys (fst ca)) cas)) \<inter> window_id ` set (pl_windows p) = {}"
  shows "plan_done g (sizes @ map (\<lambda>ca. unat (nac_size_bytes (fst ca))) cas) (fold (plan_arena g) cas p)"
  using assms
proof (induction cas arbitrary: sizes p)
  case Nil
  then show ?case by simp
next
  case (Cons ca cas)
  obtain ac ar where ca: "ca = (ac, ar)" by (cases ca)
  let ?q = "plan_arena g ca p" and ?sz = "unat (nac_size_bytes ac)"
  let ?rest = "set (concat (map (\<lambda>ca. arena_keys (fst ca)) cas))"
  have bytes: "arena_demand g ac * unat g \<le> ?sz"
    using Cons.prems(4) by (simp add: ca)
  then have "arena_demand g ac * unat g < 2 ^ 64"
    using unat_less_u64 [of "nac_size_bytes ac"] by (simp del: unat_less_u64)
  then have c: "carves g (length sizes) (unat (pl_next p)) p (arena_demand g ac) (set (arena_keys ac)) ?q"
    unfolding ca using Cons.prems by (intro plan_arena_carves) (auto simp: ca)
  have disj: "?rest \<inter> window_id ` set (pl_windows ?q) = {}"
  proof -
    have "window_id ` set (pl_windows ?q) \<subseteq> window_id ` set (pl_windows p) \<union> set (arena_keys ac)"
      using c by (simp add: carves_def)
    moreover have "?rest \<inter> set (arena_keys ac) = {}" "?rest \<inter> window_id ` set (pl_windows p) = {}"
      using Cons.prems(5,6) by (auto simp: ca)
    ultimately show ?thesis by (rule disjoint_union)
  qed
  have "plan_done g (sizes @ [?sz] @ map (\<lambda>ca. unat (nac_size_bytes (fst ca))) cas) (fold (plan_arena g) cas ?q)"
    unfolding append_assoc [symmetric]
  proof (rule Cons.IH)
    show "plan_done g (sizes @ [?sz]) ?q"
      by (rule plan_done_extend [OF Cons.prems(1) c bytes])
    show "\<forall>i < length cas. unat (ar_arena_id (snd (cas ! i))) = length (sizes @ [?sz]) + i"
      using Cons.prems(2) by (metis (no_types, lifting) add.commute add_Suc_right length_Cons
          length_append_singleton not_less_eq nth_Cons_Suc plus_1_eq_Suc)
    show "unat (pl_next ?q) + sum_list (map (\<lambda>ca. arena_demand g (fst ca)) cas) \<le> length (pl_slots ?q)"
      using c Cons.prems(3) by (simp add: carves_def ca)
  qed (use Cons.prems disj in auto)
  then show ?case by (simp add: ca)
qed

text \<open>
  A configuration that start-up can carve: it passed the validation, none of its 64-bit sums
  wraps, no two windows share a (NUMA node, GPU) key, and the slot count fits in 32 bits.
\<close>

definition config_plannable :: "DaemonConfig \<Rightarrow> bool" where
  "config_plannable cfg \<longleftrightarrow>
     config_accepted cfg \<and>
     list_all (\<lambda>ac. sum_list (map (\<lambda>gw. unat (gwc_size_bytes gw)) (nac_gpu_windows ac)) +
                     unat (nac_overflow_bytes ac) < 2 ^ 64) (cfg_per_numa cfg) \<and>
     distinct (concat (map arena_keys (cfg_per_numa cfg))) \<and>
     sum_list (map (\<lambda>ac. granules (cfg_allocation_granularity_bytes cfg) (nac_size_bytes ac))
       (cfg_per_numa cfg)) < 2 ^ 32 \<and>
     length (cfg_per_numa cfg) < 2 ^ 32"

lemma fold_add_unat:
  "unat acc + sum_list (map (\<lambda>x. unat (f x)) xs) < 2 ^ LENGTH('a) \<Longrightarrow>
   unat (fold (\<lambda>x acc. acc + f x) xs (acc :: 'a::len word)) = unat acc + sum_list (map (\<lambda>x. unat (f x)) xs)"
proof (induction xs arbitrary: acc)
  case (Cons x xs)
  then have "unat (acc + f x) = unat acc + unat (f x)"
    by (simp add: unat_word_ariths)
  then show ?case using Cons by (simp add: add.assoc)
qed simp

lemma arena_demand_bytes:
  assumes "sum_list (map (\<lambda>gw. unat (gwc_size_bytes gw)) (nac_gpu_windows ac)) + unat (nac_overflow_bytes ac) < 2 ^ 64"
    and "arena_accepted ac"
  shows "arena_demand g ac * unat g \<le> unat (nac_size_bytes ac)"
proof -
  let ?w = "sum_list (map (\<lambda>gw. unat (gwc_size_bytes gw)) (nac_gpu_windows ac))"
  have "sum_list (map (\<lambda>gw. granules g (gwc_size_bytes gw)) gws) * unat g \<le>
      sum_list (map (\<lambda>gw. unat (gwc_size_bytes gw)) gws)" for gws
    by (induction gws) (simp_all add: add_mult_distrib granules_mult add_mono)
  then have "arena_demand g ac * unat g \<le> ?w + unat (nac_overflow_bytes ac)"
    using granules_mult [of g "nac_overflow_bytes ac"] by (auto simp: arena_demand_def o_def add_mult_distrib intro: add_mono)
  also have "\<dots> = unat (fold (\<lambda>w acc. acc + gwc_size_bytes w) (nac_gpu_windows ac) 0 + nac_overflow_bytes ac)"
    using assms(1) fold_add_unat [of 0 gwc_size_bytes "nac_gpu_windows ac"] by (simp add: unat_word_ariths)
  also have "\<dots> \<le> unat (nac_size_bytes ac)"
    using assms(2) by (auto simp: arena_accepted_def Let_def not_less word_le_nat_alt)
  finally show ?thesis .
qed

lemma map_fst_zip_f: "length xs = length ys \<Longrightarrow> map (\<lambda>p. f (fst p)) (zip xs ys) = map f xs"
  by (induction xs ys rule: list_induct2) auto

lemma init_plan:
  assumes cfg: "config_plannable cfg" and init: "init_daemon cfg clock files = Some s"
  shows "\<exists>p. plan_done (gran s) (map (\<lambda>a. unat (ar_size a)) (d_arenas s)) p \<and> d_slots s = pl_slots p \<and>
           d_windows s = pl_windows p \<and> d_window_index s = pl_window_index p"
proof -
  let ?g = "cfg_allocation_granularity_bytes cfg" and ?acs = "cfg_per_numa cfg"
  let ?cas = "zip ?acs (build_arenas cfg)" and ?N = "unat (total_slots cfg)"
  let ?p0 = "\<lparr>pl_next = 0, pl_slots = replicate ?N zero_entry, pl_windows = [], pl_window_index = [], pl_cursor = 0\<rparr>"
  have s: "d_cfg s = cfg" "d_arenas s = build_arenas cfg"
      "d_slots s = pl_slots (fold (plan_arena ?g) ?cas ?p0)" "d_windows s = pl_windows (fold (plan_arena ?g) ?cas ?p0)"
      "d_window_index s = pl_window_index (fold (plan_arena ?g) ?cas ?p0)"
    using init by (auto simp: init_daemon_def Let_def build_slot_plan_def compute_control_layout_def split: option.splits)
  have len: "length (build_arenas cfg) = length ?acs" by (simp add: build_arenas_def)
  have ar: "build_arenas cfg ! i = build_arena cfg i (?acs ! i)" if "i < length ?acs" for i
    using that by (simp add: build_arenas_def)
  note fst_cas = map_fst_zip_f [OF len [symmetric]]
  have dem: "arena_demand ?g ac * unat ?g \<le> unat (nac_size_bytes ac)" if "ac \<in> set ?acs" for ac
    using cfg that arena_demand_bytes [of ac ?g]
    by (auto simp: config_plannable_def config_accepted_def list_all_iff)
  have g: "0 < unat ?g" using cfg by (simp add: config_plannable_def config_accepted_def unat_gt_0)
  have dle: "arena_demand ?g ac \<le> granules ?g (nac_size_bytes ac)" if "ac \<in> set ?acs" for ac
    using dem [OF that] g by (simp add: granules_def less_eq_div_iff_mult_less_eq)
  have small: "granules ?g (nac_size_bytes ac) < 2 ^ 32" if "ac \<in> set ?acs" for ac
    using cfg that member_le_sum_list [of "granules ?g (nac_size_bytes ac)"
        "map (\<lambda>ac. granules ?g (nac_size_bytes ac)) ?acs"]
    by (auto simp: config_plannable_def)
  have uc: "unat (ucast (nac_size_bytes ac div ?g) :: u32) = granules ?g (nac_size_bytes ac)"
    if "ac \<in> set ?acs" for ac
    using small [OF that] by (simp add: unat_ucast_64_32 granules_word)
  then have eq: "map (\<lambda>ac. unat (ucast (nac_size_bytes ac div ?g) :: u32)) ?acs =
      map (\<lambda>ac. granules ?g (nac_size_bytes ac)) ?acs" by simp
  have "sum_list (map (\<lambda>ac. granules ?g (nac_size_bytes ac)) ?acs) < 2 ^ LENGTH(32)"
    using cfg by (simp add: config_plannable_def)
  then have N: "?N = sum_list (map (\<lambda>ac. granules ?g (nac_size_bytes ac)) ?acs)"
    using fold_add_unat [of 0 "\<lambda>ac. ucast (nac_size_bytes ac div ?g) :: u32" ?acs]
    unfolding total_slots_def eq by simp
  have "plan_done ?g ([] @ map (\<lambda>ca. unat (nac_size_bytes (fst ca))) ?cas) (fold (plan_arena ?g) ?cas ?p0)"
  proof (rule plan_arenas)
    show "plan_done ?g [] ?p0" using N cfg by (simp add: plan_done_def plan_windows_ok_def config_plannable_def)
    show "\<forall>i < length ?cas. unat (ar_arena_id (snd (?cas ! i))) = length ([] :: nat list) + i"
      using ar len cfg by (auto simp: build_arena_def unat_of_nat config_plannable_def)
    show "unat (pl_next ?p0) + sum_list (map (\<lambda>ca. arena_demand ?g (fst ca)) ?cas) \<le> length (pl_slots ?p0)"
      using N dle fst_cas [of "arena_demand ?g"] by (simp add: sum_list_mono)
    show "list_all (\<lambda>ca. arena_demand ?g (fst ca) * unat ?g \<le> unat (nac_size_bytes (fst ca))) ?cas"
      using dem by (auto simp: list_all_iff dest!: set_zip_leftD)
    show "distinct (concat (map (\<lambda>ca. arena_keys (fst ca)) ?cas))"
      using cfg fst_cas [of arena_keys] by (simp add: config_plannable_def)
  qed simp
  moreover have "map (\<lambda>ca. unat (nac_size_bytes (fst ca))) ?cas = map (\<lambda>a. unat (ar_size a)) (build_arenas cfg)"
    using len ar by (intro nth_equalityI) (simp_all add: build_arena_def)
  ultimately show ?thesis
    unfolding s append_Nil by (intro exI [of _ "fold (plan_arena ?g) ?cas ?p0"] conjI) simp_all
qed

lemma plan_done_windows_ok:
  assumes "plan_done g sizes p" and "d_slots s = pl_slots p" and "d_windows s = pl_windows p"
    and "d_window_index s = pl_window_index p"
  shows "windows_ok s"
proof -
  have win: "plan_windows_ok p" and len: "unat (pl_next p) \<le> length (pl_slots p)" "length (pl_slots p) < 2 ^ 32"
    using assms(1) by (auto simp: plan_done_def)
  have "list_all (window_ok (length (pl_slots p))) (pl_windows p)"
    using win len window_ok_mono by (fastforce simp: plan_windows_ok_def list_all_iff)
  moreover have "list_all (\<lambda>(k, i). unat i < length (pl_windows p) \<and> window_id (at32 (pl_windows p) i) = k) (pl_window_index p)"
    using win by (auto simp: plan_windows_ok_def list_all_iff t_find_iff)
  ultimately show ?thesis
    using win len assms by (auto simp: windows_ok_def plan_windows_ok_def list_all_iff)
qed


section \<open>A small daemon\<close>

text \<open>
  One NUMA node with four slots of 4096 bytes: two for GPU 0, one for GPU 1 and one of overflow.
  The theories that follow evaluate their operations on it.
\<close>

definition sample_config :: DaemonConfig where
  "sample_config = DaemonConfig_init
     \<lparr>cfg_allocation_granularity_bytes := 4096, cfg_completion_ring_max_ranks := 2,
      cfg_completion_ring_capacity := 2, cfg_drain_target := kPageableOnly, cfg_drain_on_d2h_complete := False,
      cfg_nvme_io_engine := ''pwrite'', cfg_nvme_stripe_count := 2,
      cfg_per_numa := [\<lparr>nac_numa_node = 0, nac_size_bytes = 16384,
        nac_gpu_windows = [\<lparr>gwc_gpu = 0, gwc_size_bytes = 8192\<rparr>, \<lparr>gwc_gpu = 1, gwc_size_bytes = 4096\<rparr>],
        nac_overflow_bytes = 4096\<rparr>]\<rparr>"

definition sample_daemon :: daemon where
  "sample_daemon = the (init_daemon sample_config 1000 [])"

lemma sample_config_plannable: "config_plannable sample_config"
  by (simp add: sample_config_def DaemonConfig_init_def config_plannable_def config_accepted_def
      arena_accepted_def arena_keys_def granules_def window_key_inj kOverflowGpu_def)

lemma sample_ring_capacity: "ring_capacity_of sample_config = Some 2"
proof -
  have "round_pow2 2 1 = Some 2" by (subst round_pow2.simps, simp)+
  then show ?thesis by (simp add: ring_capacity_of_def sample_config_def DaemonConfig_init_def)
qed

lemma init_sample: "init_daemon sample_config 1000 [] = Some sample_daemon"
  by (simp add: sample_daemon_def init_daemon_def sample_ring_capacity Let_def)

lemma init_windows_ok: "config_plannable cfg \<Longrightarrow> init_daemon cfg clock files = Some s \<Longrightarrow> windows_ok s"
  using init_plan plan_done_windows_ok by blast

lemma sample_windows_ok: "windows_ok sample_daemon"
  by (rule init_windows_ok [OF sample_config_plannable init_sample])

lemma sample_config_sel [simp]:
  "cfg_allocation_granularity_bytes sample_config = 4096"
  "cfg_per_numa sample_config = [\<lparr>nac_numa_node = 0, nac_size_bytes = 16384,
     nac_gpu_windows = [\<lparr>gwc_gpu = 0, gwc_size_bytes = 8192\<rparr>, \<lparr>gwc_gpu = 1, gwc_size_bytes = 4096\<rparr>],
     nac_overflow_bytes = 4096\<rparr>]"
  "cfg_registration_chunk_bytes sample_config = 536870912"
  "cfg_completion_ring_max_ranks sample_config = 2"
  "cfg_drain_target sample_config = kPageableOnly"
  "cfg_drain_on_d2h_complete sample_config = False"
  "cfg_v2_enable_canonical_store sample_config = True"
  "cfg_nvme_stripe sample_config = True"
  "cfg_nvme_stripe_count sample_config = 2"
  by (simp_all add: sample_config_def DaemonConfig_init_def)

lemma list_small:
  "[0..<1] = [0]" "[0..<2] = [0, 1]" "[0..<3] = [0, 1, 2]" "[0..<4] = [0, 1, 2, 3]"
  "replicate 2 x = [x, x]" "replicate 4 x = [x, x, x, x]"
  "(a # ys)[1 := y] = a # ys[0 := y]" "(a # ys)[2 := y] = a # ys[1 := y]" "(a # ys)[3 := y] = a # ys[2 := y]"
  by (simp_all add: upt_rec eval_nat_numeral)

abbreviation sample_slot :: "u32 \<Rightarrow> u32 \<Rightarrow> bool \<Rightarrow> u64 \<Rightarrow> slot_entry" where
  "sample_slot i gpu ov off \<equiv> plan_entry i 0 gpu ov 0 off 4096"

lemma sample_daemon_sel [simp]:
  "d_cfg sample_daemon = sample_config"
  "d_arenas sample_daemon = [\<lparr>ar_numa_node = 0, ar_size = 16384, ar_arena_id = 0,
     ar_registration_granularity = 536870912, ar_allocation_granularity = 4096\<rparr>]"
  "d_clock sample_daemon = 1000"
  "d_sessions sample_daemon = []" "d_leases sample_daemon = []" "d_locations sample_daemon = []"
  "d_cold_store sample_daemon = []" "d_next_lease_id sample_daemon = 1"
  "d_next_rank_epoch sample_daemon = 1" "d_next_cold_ref sample_daemon = 1"
  "d_jobs sample_daemon = []" "d_objects sample_daemon = []" "d_object_by_key sample_daemon = []"
  "d_manifests sample_daemon = []" "d_latest_sealed sample_daemon = []"
  "d_next_object_id sample_daemon = 1" "d_next_launch_epoch sample_daemon = 1"
  "d_drain_queue sample_daemon = []" "d_readback_queue sample_daemon = []"
  "d_ring_max_ranks sample_daemon = 2" "d_ring_owner sample_daemon = []"
  "d_rings sample_daemon = [fresh_ring 2, fresh_ring 2]"
  "d_nvme_stripe_count sample_daemon = 2" "d_nvme_stripe_offsets sample_daemon = [0, 0]"
  "d_files sample_daemon = []"
  by (simp_all add: sample_daemon_def init_daemon_def sample_ring_capacity Let_def build_arenas_def
      build_arena_def list_small stripe_count_of_def)

lemma sample_plan:
  "build_slot_plan sample_config [\<lparr>ar_numa_node = 0, ar_size = 16384, ar_arena_id = 0,
     ar_registration_granularity = 536870912, ar_allocation_granularity = 4096\<rparr>] [zero_entry, zero_entry, zero_entry, zero_entry] =
   \<lparr>pl_next = 4,
    pl_slots = [sample_slot 0 0 False 0, sample_slot 1 0 False 4096, sample_slot 2 1 False 8192,
                sample_slot 3 kOverflowGpu True 12288],
    pl_windows = [\<lparr>win_numa_node = 0, win_gpu = 0, win_is_overflow = False, win_slot_ids = [0, 1]\<rparr>,
                  \<lparr>win_numa_node = 0, win_gpu = 1, win_is_overflow = False, win_slot_ids = [2]\<rparr>,
                  \<lparr>win_numa_node = 0, win_gpu = kOverflowGpu, win_is_overflow = True, win_slot_ids = [3]\<rparr>],
    pl_window_index = [(window_key 0 0, 0), (window_key 0 1, 1), (window_key 0 kOverflowGpu, 2)],
    pl_cursor = 16384\<rparr>"
  by (simp add: build_slot_plan_def plan_arena_def carve_window_def Let_def list_small t_put_def window_key_inj
      kOverflowGpu_def)

lemma sample_daemon_plan [simp]:
  "d_slots sample_daemon = [sample_slot 0 0 False 0, sample_slot 1 0 False 4096, sample_slot 2 1 False 8192,
     sample_slot 3 kOverflowGpu True 12288]"
  "d_windows sample_daemon = [\<lparr>win_numa_node = 0, win_gpu = 0, win_is_overflow = False, win_slot_ids = [0, 1]\<rparr>,
     \<lparr>win_numa_node = 0, win_gpu = 1, win_is_overflow = False, win_slot_ids = [2]\<rparr>,
     \<lparr>win_numa_node = 0, win_gpu = kOverflowGpu, win_is_overflow = True, win_slot_ids = [3]\<rparr>]"
  "d_window_index sample_daemon =
     [(window_key 0 0, 0), (window_key 0 1, 1), (window_key 0 kOverflowGpu, 2)]"
  by (simp_all add: sample_daemon_def init_daemon_def sample_ring_capacity Let_def build_arenas_def
      build_arena_def list_small compute_control_layout_def total_slots_def sample_plan)

lemma plan_entry_sel [simp]:
  "se_state (plan_entry i numa gpu ov a off g) = OFLD_SLOT_FREE"
  "se_slot_id (plan_entry i numa gpu ov a off g) = i"
  "se_arena_id (plan_entry i numa gpu ov a off g) = a"
  "se_arena_offset (plan_entry i numa gpu ov a off g) = off"
  "se_capacity (plan_entry i numa gpu ov a off g) = g"
  by (simp_all add: plan_entry_def)

section \<open>Witnesses\<close>


theorem ring_capacity_diverges_witness:
  "init_daemon (DaemonConfig_init\<lparr>cfg_completion_ring_capacity := 0xC0000000\<rparr>) 0 [] = None"
  using ring_capacity_diverges [of "DaemonConfig_init\<lparr>cfg_completion_ring_capacity := 0xC0000000\<rparr>" 0 "[]"]
  by simp



theorem allocate_slots_complete_witness:
  "fst (allocate_slots 1 0 8193 0 sample_daemon) = None"
proof -
  have "slots_for_bytes 8193 sample_daemon = 3" by (simp add: slots_for_bytes_def)
  then show ?thesis
    using allocate_slots_complete [OF sample_windows_ok, of 1 0 8193 0] by (simp add: run_free_at_def)
qed

theorem slots_for_bytes_tight_witness:
  "(5000::nat) \<le> unat (slots_for_bytes 5000 sample_daemon) * 4096 \<and>
   (unat (slots_for_bytes 5000 sample_daemon) - 1) * 4096 < (5000::nat)"
  using slots_for_bytes_tight [of sample_daemon 5000] by simp

end
