(* ===== verification/Daemon_Ops.thy ===== *)
theory Daemon_Ops
  imports Slots Protocol Completion_Ring
begin

text \<open>
  The steps the handlers of \<^verbatim>\<open>src/daemon\<close> share, all executed under the daemon's mutex: the session,
  lease and location helpers, the release of a canonical object's backing, the completion of a
  device-to-host or host-to-device copy (reached from an RPC, from a batch and from a ring), and the
  recovery of a dead session.
\<close>

section \<open>Statements on the tables\<close>

definition put_lease :: "u64 \<Rightarrow> Lease \<Rightarrow> daemon \<Rightarrow> daemon" where
  "put_lease k L s = s\<lparr>d_leases := t_put k L (d_leases s)\<rparr>"

definition erase_lease :: "u64 \<Rightarrow> daemon \<Rightarrow> daemon" where
  "erase_lease k s = s\<lparr>d_leases := t_erase k (d_leases s)\<rparr>"

definition put_location :: "u64 \<Rightarrow> Location \<Rightarrow> daemon \<Rightarrow> daemon" where
  "put_location k l s = s\<lparr>d_locations := t_put k l (d_locations s)\<rparr>"

definition erase_location :: "u64 \<Rightarrow> daemon \<Rightarrow> daemon" where
  "erase_location k s = s\<lparr>d_locations := t_erase k (d_locations s)\<rparr>"

definition put_cold :: "u64 \<Rightarrow> ColdEntry \<Rightarrow> daemon \<Rightarrow> daemon" where
  "put_cold k c s = s\<lparr>d_cold_store := t_put k c (d_cold_store s)\<rparr>"

definition erase_cold :: "u64 \<Rightarrow> daemon \<Rightarrow> daemon" where
  "erase_cold k s = s\<lparr>d_cold_store := t_erase k (d_cold_store s)\<rparr>"

definition put_object :: "u64 \<Rightarrow> CanonicalObject \<Rightarrow> daemon \<Rightarrow> daemon" where
  "put_object k ob s = s\<lparr>d_objects := t_put k ob (d_objects s)\<rparr>"

definition modify_job :: "JobUID \<Rightarrow> (JobRecord \<Rightarrow> JobRecord) \<Rightarrow> daemon \<Rightarrow> daemon" where
  "modify_job k f s = s\<lparr>d_jobs := t_modify k f (d_jobs s)\<rparr>"

definition modify_session :: "u32 \<Rightarrow> (Session \<Rightarrow> Session) \<Rightarrow> daemon \<Rightarrow> daemon" where
  "modify_session k f s = s\<lparr>d_sessions := t_modify k f (d_sessions s)\<rparr>"

definition set_ring :: "u32 \<Rightarrow> ring \<Rightarrow> daemon \<Rightarrow> daemon" where
  "set_ring i h s = s\<lparr>d_rings := (d_rings s)[unat i := h]\<rparr>"

section \<open>Sessions, leases and locations\<close>

definition epoch_valid :: "u32 \<Rightarrow> u64 \<Rightarrow> daemon \<Rightarrow> bool" where
  "epoch_valid rank_id rank_epoch s \<longleftrightarrow>
     (case t_find (d_sessions s) rank_id of
        None \<Rightarrow> False
      | Some ss \<Rightarrow> ss_alive ss \<and> ss_rank_epoch ss = rank_epoch)"

definition find_lease :: "u64 \<Rightarrow> daemon \<Rightarrow> Lease option" where
  "find_lease lease_id s = t_find (d_leases s) lease_id"

definition latest_version :: "u64 \<Rightarrow> daemon \<Rightarrow> u64" where
  "latest_version tensor_id s =
     (case t_find (d_locations s) tensor_id of None \<Rightarrow> 0 | Some l \<Rightarrow> loc_version l)"

definition update_location_if_latest ::
  "u64 \<Rightarrow> u64 \<Rightarrow> location_kind \<Rightarrow> u32 \<Rightarrow> u64 \<Rightarrow> u64 \<Rightarrow> daemon \<Rightarrow> bool \<times> daemon" where
  "update_location_if_latest tensor_id version kind slot_id cold_ref nbytes s =
     (let loc = \<lparr>loc_tensor_id = tensor_id, loc_version = version, loc_kind = kind,
                 loc_slot_id = slot_id, loc_cold_ref = cold_ref, loc_nbytes = nbytes\<rparr>
      in case t_find (d_locations s) tensor_id of
           None \<Rightarrow> (True, put_location tensor_id loc s)
         | Some old \<Rightarrow>
             if version < loc_version old then (False, m_inc kStaleVersionRejected s)
             else (True, put_location tensor_id loc s))"

definition should_drain :: "daemon \<Rightarrow> bool" where
  "should_drain s = cfg_drain_on_d2h_complete (d_cfg s)"

section \<open>Canonical objects\<close>

definition wire_uid :: "JobKeyWire \<Rightarrow> JobUID" where
  "wire_uid jk = \<lparr>uid_tenant_id = jk_tenant_id jk, uid_job_id = jk_job_id jk,
     uid_launch_epoch = jk_launch_epoch jk\<rparr>"

definition find_job :: "JobUID \<Rightarrow> daemon \<Rightarrow> JobRecord option" where
  "find_job uid s = t_find (d_jobs s) uid"

definition find_job_by_wire :: "JobKeyWire \<Rightarrow> daemon \<Rightarrow> JobRecord option" where
  "find_job_by_wire jk s = find_job (wire_uid jk) s"

definition find_object :: "u64 \<Rightarrow> daemon \<Rightarrow> CanonicalObject option" where
  "find_object object_id s = t_find (d_objects s) object_id"

definition find_object_by_key :: "string \<Rightarrow> daemon \<Rightarrow> CanonicalObject option" where
  "find_object_by_key key_str s =
     (case t_find (d_object_by_key s) key_str of None \<Rightarrow> None | Some oid \<Rightarrow> find_object oid s)"

text \<open>The object a canonical tensor id names: the id without its top bit.\<close>

definition object_of_tid :: "u64 \<Rightarrow> u64" where
  "object_of_tid tid = tid AND NOT kCanonicalTidBit"

definition drop_backing :: "CanonicalObject \<Rightarrow> daemon \<Rightarrow> daemon" where
  "drop_backing ob s =
     (case t_find (d_locations s) (obj_synthetic_tid ob) of
        None \<Rightarrow> s
      | Some l \<Rightarrow>
          erase_location (obj_synthetic_tid ob)
            (if loc_kind l = OFLD_LOC_PINNED \<and> obj_base_slot ob \<noteq> none32 then
               (if slot_state (obj_base_slot ob) s = OFLD_SLOT_PINNED_VALID
                then free_slots (obj_base_slot ob) (obj_slot_count ob) s else s)
             else if loc_cold_ref l \<noteq> 0 then erase_cold (loc_cold_ref l) s
             else s))"

definition uncharge_job :: "CanonicalObject \<Rightarrow> JobRecord \<Rightarrow> JobRecord" where
  "uncharge_job ob j =
     (let j1 = (if job_pinned_bytes j \<ge> obj_nbytes ob
                then j\<lparr>job_pinned_bytes := job_pinned_bytes j - obj_nbytes ob\<rparr> else j)
      in if job_canonical_object_count j1 > 0
         then j1\<lparr>job_canonical_object_count := job_canonical_object_count j1 - 1\<rparr> else j1)"

definition release_object :: "CanonicalObject \<Rightarrow> daemon \<Rightarrow> bool \<times> daemon" where
  "release_object ob s =
     (if obj_export_refcount ob > 0 \<or> obj_restore_refcount ob > 0 then (False, s)
      else
        let s1 = erase_lease (obj_lease_id ob) (drop_backing ob s);
            s2 = s1\<lparr>d_object_by_key := t_erase (obj_key_str ob) (d_object_by_key s1)\<rparr>;
            s3 = modify_job (wire_uid (ck_job (obj_key ob))) (uncharge_job ob) s2;
            s4 = m_inc kCanonicalObjectsDropped s3
        in (True, s4\<lparr>d_objects := t_erase (obj_object_id ob) (d_objects s4)\<rparr>))"

definition maybe_free_object :: "CanonicalObject \<Rightarrow> daemon \<Rightarrow> bool \<times> daemon" where
  "maybe_free_object ob s =
     (if obj_holders ob \<noteq> [] then (False, s)
      else if obj_export_refcount ob > 0 \<or> obj_restore_refcount ob > 0 then (False, s)
      else release_object ob s)"

text \<open>\<^verbatim>\<open>holders.erase(rank)\<close> followed by the recomputed reference count.\<close>

definition drop_holder :: "u32 \<Rightarrow> CanonicalObject \<Rightarrow> CanonicalObject" where
  "drop_holder rank ob =
     (let hs = removeAll rank (obj_holders ob) in ob\<lparr>obj_holders := hs, obj_refcount := of_nat (length hs)\<rparr>)"

definition add_holder :: "u32 \<Rightarrow> CanonicalObject \<Rightarrow> CanonicalObject" where
  "add_holder rank ob =
     (let hs = List.insert rank (obj_holders ob) in ob\<lparr>obj_holders := hs, obj_refcount := of_nat (length hs)\<rparr>)"

definition free_if_idle :: "u64 \<Rightarrow> daemon \<Rightarrow> daemon" where
  "free_if_idle oid s =
     (case find_object oid s of None \<Rightarrow> s | Some ob \<Rightarrow> snd (maybe_free_object ob s))"

definition purge_rank_from_canonical :: "u32 \<Rightarrow> daemon \<Rightarrow> daemon" where
  "purge_rank_from_canonical rank s =
     (let to_check = map fst (filter (\<lambda>(k, ob). rank \<in> set (obj_holders ob)) (d_objects s));
          s1 = s\<lparr>d_objects := map (\<lambda>(k, ob). (k, if rank \<in> set (obj_holders ob) then drop_holder rank ob else ob))
                               (d_objects s)\<rparr>
      in fold free_if_idle to_check s1)"

section \<open>Completions\<close>

text \<open>\<^verbatim>\<open>for (k) { slots_[base + k].complete_seq = seq; set_slot_state(base + k, st); }\<close>\<close>

definition complete_run :: "u32 \<Rightarrow> u32 \<Rightarrow> u64 \<Rightarrow> slot_state \<Rightarrow> daemon \<Rightarrow> daemon" where
  "complete_run base count seq st s =
     upd_run base count (\<lambda>k e. touch (now_real_ns s) st (e\<lparr>se_complete_seq := seq\<rparr>)) s"

definition submit_run :: "u32 \<Rightarrow> u32 \<Rightarrow> u64 \<Rightarrow> slot_state \<Rightarrow> daemon \<Rightarrow> daemon" where
  "submit_run base count seq st s =
     upd_run base count (\<lambda>k e. touch (now_real_ns s) st (e\<lparr>se_submit_seq := seq\<rparr>)) s"

definition creating_canonical :: "u64 \<Rightarrow> daemon \<Rightarrow> bool" where
  "creating_canonical tensor_id s \<longleftrightarrow>
     is_canonical_tid tensor_id \<and>
     (case find_object (object_of_tid tensor_id) s of
        None \<Rightarrow> False | Some co \<Rightarrow> obj_state co = OBJ_CREATING)"

definition enqueue_drain :: "Lease \<Rightarrow> daemon \<Rightarrow> daemon" where
  "enqueue_drain L s =
     (let s1 = set_run_state (ls_base_slot L) (ls_slot_count L) OFLD_SLOT_DRAIN_IN_FLIGHT s;
          s2 = s1\<lparr>d_drain_queue := d_drain_queue s1 @
                   [\<lparr>dj_base_slot = ls_base_slot L, dj_slot_count = ls_slot_count L\<rparr>]\<rparr>
      in m_add kDrainingBytes (ls_nbytes L) (m_inc kDrainsEnqueued s2))"

text \<open>Result: accepted, \<^verbatim>\<open>*out_latest\<close>, \<^verbatim>\<open>*out_drain_enqueued\<close>.\<close>

definition apply_d2h_complete ::
  "u32 \<Rightarrow> u64 \<Rightarrow> u64 \<Rightarrow> u64 \<Rightarrow> u64 \<Rightarrow> u32 \<Rightarrow> u64 \<Rightarrow> daemon \<Rightarrow> (bool \<times> bool \<times> bool) \<times> daemon" where
  "apply_d2h_complete rank_id rank_epoch lease_id tensor_id version slot_id complete_seq s =
     (if \<not> epoch_valid rank_id rank_epoch s then ((False, False, False), m_inc kEpochMismatchRejected s)
      else case find_lease lease_id s of
        None \<Rightarrow> ((False, False, False), m_inc kLeaseOwnerMismatchRejected s)
      | Some L \<Rightarrow>
        if ls_owner_rank L \<noteq> rank_id \<or> ls_base_slot L \<noteq> slot_id
        then ((False, False, False), m_inc kLeaseOwnerMismatchRejected s)
        else if ls_tensor_id L \<noteq> tensor_id \<or> ls_version L \<noteq> version
        then ((False, False, False), m_inc kInvalidTransitionRejected s)
        else if slot_state (ls_base_slot L) s \<noteq> OFLD_SLOT_D2H_IN_FLIGHT
        then ((False, False, False), m_inc kInvalidTransitionRejected s)
        else
          let s1 = complete_run (ls_base_slot L) (ls_slot_count L) complete_seq OFLD_SLOT_PINNED_VALID s;
              s2 = m_add kD2HBytes (ls_nbytes L) (m_sub kInflightD2HBytes (ls_nbytes L) s1)
          in case update_location_if_latest tensor_id version OFLD_LOC_PINNED (ls_base_slot L) 0
                    (ls_nbytes L) s2 of
               (latest, s3) \<Rightarrow>
                 if \<not> creating_canonical tensor_id s3 \<and> should_drain s3
                 then ((True, latest, True), enqueue_drain L s3)
                 else ((True, latest, False), s3))"

text \<open>The cold copy of a tensor: the location's reference if it has one, else the slot's.\<close>

definition cold_copy :: "u64 \<Rightarrow> u32 \<Rightarrow> daemon \<Rightarrow> u64 \<times> ColdEntry option" where
  "cold_copy tensor_id base s =
     (let ref0 = se_cold_ref (at32 (d_slots s) base);
          ref = (case t_find (d_locations s) tensor_id of
                   None \<Rightarrow> ref0
                 | Some l \<Rightarrow> if loc_cold_ref l \<noteq> 0 then loc_cold_ref l else ref0)
      in (ref, if ref \<noteq> 0 then t_find (d_cold_store s) ref else None))"

definition apply_h2d_complete ::
  "u32 \<Rightarrow> u64 \<Rightarrow> u64 \<Rightarrow> u64 \<Rightarrow> u64 \<Rightarrow> u32 \<Rightarrow> bool \<Rightarrow> u64 \<Rightarrow> daemon \<Rightarrow> bool \<times> daemon" where
  "apply_h2d_complete rank_id rank_epoch lease_id tensor_id version slot_id keep_pinned complete_seq s =
     (if \<not> epoch_valid rank_id rank_epoch s then (False, m_inc kEpochMismatchRejected s)
      else case find_lease lease_id s of
        None \<Rightarrow> (False, m_inc kLeaseOwnerMismatchRejected s)
      | Some L \<Rightarrow>
        if ls_owner_rank L \<noteq> rank_id \<or> ls_base_slot L \<noteq> slot_id
        then (False, m_inc kLeaseOwnerMismatchRejected s)
        else if slot_state (ls_base_slot L) s \<noteq> OFLD_SLOT_H2D_IN_FLIGHT
        then (False, m_inc kInvalidTransitionRejected s)
        else
          let base = ls_base_slot L; cnt = ls_slot_count L; nbytes = ls_nbytes L;
              s1 = upd_run base cnt (\<lambda>k e. e\<lparr>se_complete_seq := complete_seq\<rparr>) s;
              s2 = m_add kH2DBytes nbytes (m_sub kInflightH2DBytes nbytes s1)
          in case cold_copy tensor_id base s2 of
               (cold_ref, cold) \<Rightarrow>
                 (case cold of
                    Some ce \<Rightarrow>
                      if \<not> keep_pinned then
                        let s3 = (case t_find (d_locations s2) tensor_id of
                                    None \<Rightarrow> s2
                                  | Some l \<Rightarrow>
                                      if loc_slot_id l = base \<and> loc_version l = version
                                      then put_location tensor_id (l\<lparr>loc_kind := cold_kind ce, loc_slot_id := 0\<rparr>) s2
                                      else s2)
                        in (True, erase_lease lease_id (free_slots base cnt s3))
                      else
                        (True, snd (update_location_if_latest tensor_id version OFLD_LOC_PINNED base cold_ref nbytes
                                 (set_run_state base cnt OFLD_SLOT_PINNED_VALID s2)))
                  | None \<Rightarrow>
                      (True, snd (update_location_if_latest tensor_id version OFLD_LOC_PINNED base cold_ref nbytes
                                 (set_run_state base cnt OFLD_SLOT_PINNED_VALID s2)))))"

definition apply_ring_completion :: "u32 \<Rightarrow> u64 \<Rightarrow> completion_entry \<Rightarrow> daemon \<Rightarrow> daemon" where
  "apply_ring_completion rank_id rank_epoch e s =
     (if ce_event_type e = event_kD2HComplete then
        snd (apply_d2h_complete rank_id rank_epoch (ce_lease_id e) (ce_tensor_id e) (ce_version e)
               (ce_slot_id e) 0 s)
      else if ce_event_type e = event_kH2DComplete then
        snd (apply_h2d_complete rank_id rank_epoch (ce_lease_id e) (ce_tensor_id e) (ce_version e)
               (ce_slot_id e) False 0 s)
      else m_inc kInvalidTransitionRejected s)"

text \<open>\<^verbatim>\<open>while (budget-- > 0 && ring_pop(rh, &e)) apply_ring_completion(owner, epoch, e);\<close>\<close>

fun drain_ring :: "nat \<Rightarrow> u32 \<Rightarrow> u32 \<Rightarrow> u64 \<Rightarrow> daemon \<Rightarrow> daemon" where
  "drain_ring 0 i owner epoch s = s"
| "drain_ring (Suc budget) i owner epoch s =
     (case ring_pop (at32 (d_rings s) i) of
        None \<Rightarrow> s
      | Some (e, h) \<Rightarrow> drain_ring budget i owner epoch (apply_ring_completion owner epoch e (set_ring i h s)))"

text \<open>
  \<^verbatim>\<open>while (ring_pop(rh, &e))\<close>: every round consumes one entry and completions push none, so the
  number of pending entries bounds the rounds.
\<close>

definition drain_ring_all :: "u32 \<Rightarrow> u32 \<Rightarrow> u64 \<Rightarrow> daemon \<Rightarrow> daemon" where
  "drain_ring_all i owner epoch s = drain_ring (unat (ring_pending (at32 (d_rings s) i))) i owner epoch s"

section \<open>Recovery of a dead session\<close>

definition reclaim_lease :: "Lease \<Rightarrow> daemon \<Rightarrow> daemon" where
  "reclaim_lease L s =
     (let st = slot_state (ls_base_slot L) s in
      if st = OFLD_SLOT_PINNED_VALID \<or> st = OFLD_SLOT_COLD_VALID \<or> st = OFLD_SLOT_DRAIN_IN_FLIGHT then s
      else free_slots (ls_base_slot L) (ls_slot_count L) (set_slot_state (ls_base_slot L) OFLD_SLOT_ERROR s))"

definition leases_of :: "u32 \<Rightarrow> u64 \<Rightarrow> daemon \<Rightarrow> Lease list" where
  "leases_of rank epoch s =
     filter (\<lambda>L. ls_owner_rank L = rank \<and> ls_rank_epoch L = epoch) (map snd (d_leases s))"

definition recover_leases :: "u32 \<Rightarrow> u64 \<Rightarrow> daemon \<Rightarrow> daemon" where
  "recover_leases rank epoch s =
     (let mine = leases_of rank epoch s
      in fold erase_lease (map ls_lease_id mine) (fold reclaim_lease mine s))"

end
