(* ===== verification/Decimal.thy ===== *)
theory Decimal
  imports Prelude
begin

text \<open>
  Decimal notation, as \<^verbatim>\<open>std::to_string\<close> and \<^verbatim>\<open>printf\<close> write it and \<^verbatim>\<open>strtoll\<close> reads it.
\<close>

section \<open>Writing\<close>

text \<open>\<^verbatim>\<open>%u\<close> and \<^verbatim>\<open>%llu\<close>: decimal digits.\<close>

fun digits :: "nat \<Rightarrow> string" where
  "digits n = (if n < 10 then [char_of (48 + n)] else digits (n div 10) @ [char_of (48 + n mod 10)])"

declare digits.simps [simp del]

section \<open>Reading\<close>

definition is_digit :: "char \<Rightarrow> bool" where
  "is_digit c \<longleftrightarrow> 48 \<le> (of_char c :: nat) \<and> (of_char c :: nat) \<le> 57"

definition digit_value :: "char \<Rightarrow> nat" where
  "digit_value c = of_char c - 48"

definition decimal :: "string \<Rightarrow> nat" where
  "decimal ds = foldl (\<lambda>a c. 10 * a + digit_value c) 0 ds"

section \<open>Writing and reading\<close>

lemma of_char_digit [simp]: "k < 10 \<Longrightarrow> (of_char (char_of (48 + k :: nat) :: char) :: nat) = 48 + k"
  by simp

lemma is_digit_char [simp]: "k < 10 \<Longrightarrow> is_digit (char_of (48 + k :: nat))"
  by (simp add: is_digit_def)

lemma digit_value_char [simp]: "k < 10 \<Longrightarrow> digit_value (char_of (48 + k :: nat)) = k"
  by (simp add: digit_value_def)

lemma decimal_snoc [simp]: "decimal (ds @ [c]) = 10 * decimal ds + digit_value c"
  by (simp add: decimal_def)

lemma decimal_single [simp]: "decimal [c] = digit_value c"
  by (simp add: decimal_def)

lemma decimal_digits [simp]: "decimal (digits n) = n"
proof (induction n rule: digits.induct)
  case (1 n)
  then show ?case by (subst digits.simps) auto
qed

lemma digits_all [simp]: "list_all is_digit (digits n)"
proof (induction n rule: digits.induct)
  case (1 n)
  then show ?case by (subst digits.simps) auto
qed

lemma digits_not_Nil [simp]: "digits n \<noteq> []"
  by (subst digits.simps) simp

lemma digits_inject [simp]: "digits m = digits n \<longleftrightarrow> m = n"
  by (metis decimal_digits)

lemma digits_is_digit: "c \<in> set (digits n) \<Longrightarrow> is_digit c"
  using digits_all [of n] by (auto simp: list_all_iff)

text \<open>A run of digits that ends at a character that is none is cut off there.\<close>

lemma takeWhile_digits [simp]:
  "(r = [] \<or> \<not> is_digit (hd r)) \<Longrightarrow> takeWhile is_digit (digits n @ r) = digits n"
  using digits_all [of n] by (cases r) (auto simp: list_all_iff takeWhile_append)

lemma dropWhile_digits [simp]:
  "(r = [] \<or> \<not> is_digit (hd r)) \<Longrightarrow> dropWhile is_digit (digits n @ r) = r"
  using digits_all [of n] by (cases r) (auto simp: list_all_iff dropWhile_append)

lemma digits_only [simp]: "takeWhile is_digit (digits n) = digits n" "dropWhile is_digit (digits n) = []"
  using takeWhile_digits [of "[]" n] dropWhile_digits [of "[]" n] by (auto simp del: takeWhile_digits dropWhile_digits)

lemma length_digits: "0 < k \<Longrightarrow> length (digits n) \<le> k \<longleftrightarrow> n < 10 ^ k"
proof (induction k arbitrary: n)
  case (Suc k)
  show ?case
  proof (cases "n < 10")
    case True
    moreover have "(10 :: nat) \<le> 10 ^ Suc k" by simp
    ultimately have "n < 10 ^ Suc k" by linarith
    then show ?thesis using True by (subst digits.simps) simp
  next
    case False
    then have len: "length (digits n) = Suc (length (digits (n div 10)))" by (subst digits.simps) simp
    show ?thesis
    proof (cases "k = 0")
      case True
      then show ?thesis using False len by (simp add: Suc_le_eq)
    next
      case k: False
      have "length (digits (n div 10)) \<le> k \<longleftrightarrow> n div 10 < 10 ^ k" using Suc.IH k by blast
      also have "\<dots> \<longleftrightarrow> n < 10 ^ Suc k" by (simp add: div_less_iff_less_mult mult.commute)
      finally show ?thesis using len by simp
    qed
  qed
qed simp

end
