(* ===== verification/Cold_Store.thy ===== *)
theory Cold_Store
  imports Daemon_Ops Uds Decimal
begin

text \<open>
  The cold tiers of \<^verbatim>\<open>src/daemon/daemon.cpp\<close>: copying a pinned run to pageable memory or to striped
  files and back. All of it runs without the daemon's mutex. What the operating system does
  (failures of allocation, of queue set-up and of opening a file, partial, interrupted or failed transfers, the order in which the
  kernel completes queued blocks, the elapsed time) is given by an \<open>io_env\<close>; once its list of call
  outcomes is used up, every further call transfers all it was asked to.
\<close>

section \<open>Memory and files\<close>

record io_env =
  io_alloc_ok :: bool
  io_open_ok :: "nat \<Rightarrow> bool"
  io_calls :: "sys_io list"
  io_garbage :: "nat \<Rightarrow> u8"
  io_elapsed_ns :: u64
  io_submit_ok :: "nat \<Rightarrow> bool"
  io_pick :: "nat \<Rightarrow> nat"
  io_cqe :: "nat \<Rightarrow> nat option"
  io_errno :: string

definition mem_read :: "nat \<times> nat \<Rightarrow> nat \<Rightarrow> daemon \<Rightarrow> bytes" where
  "mem_read addr n s = map (\<lambda>k. d_mem s (fst addr) (snd addr + k)) [0..<n]"

definition mem_write :: "nat \<times> nat \<Rightarrow> bytes \<Rightarrow> daemon \<Rightarrow> daemon" where
  "mem_write addr bs s =
     s\<lparr>d_mem := (d_mem s)(fst addr := (\<lambda>off. if snd addr \<le> off \<and> off < snd addr + length bs
                                           then bs ! (off - snd addr) else d_mem s (fst addr) off))\<rparr>"

definition file_read :: "bytes \<Rightarrow> nat \<Rightarrow> nat \<Rightarrow> bytes" where
  "file_read f off n = take n (drop off f)"

text \<open>Writing past the end of a file fills the gap with zeros.\<close>

definition file_write :: "bytes \<Rightarrow> nat \<Rightarrow> bytes \<Rightarrow> bytes" where
  "file_write f off bs = take off f @ replicate (off - length f) 0 @ bs @ drop (off + length bs) f"

definition file_of :: "string \<Rightarrow> daemon \<Rightarrow> bytes" where
  "file_of path s = (case t_find (d_files s) path of None \<Rightarrow> [] | Some f \<Rightarrow> f)"

definition put_file :: "string \<Rightarrow> bytes \<Rightarrow> daemon \<Rightarrow> daemon" where
  "put_file path f s = s\<lparr>d_files := t_put path f (d_files s)\<rparr>"

section \<open>Stripes\<close>

definition roundup :: "u64 \<Rightarrow> u64 \<Rightarrow> u64" where
  "roundup v a = (v + a - 1) div a * a"

definition stripe_dir :: "nat \<Rightarrow> daemon \<Rightarrow> string" where
  "stripe_dir i s =
     (let dirs = cfg_nvme_stripe_dirs (d_cfg s)
      in if dirs \<noteq> [] then dirs ! (i mod length dirs) else cfg_nvme_path (d_cfg s))"

text \<open>The path is formatted into a buffer of 1024 characters.\<close>

definition stripe_path :: "nat \<Rightarrow> daemon \<Rightarrow> string" where
  "stripe_path i s = take 1023 (stripe_dir i s @ ''/off_stripe_'' @ digits i @ ''.dat'')"

definition use_uring_engine :: "daemon \<Rightarrow> bool" where
  "use_uring_engine s \<longleftrightarrow> cfg_nvme_io_engine (d_cfg s) = ''io_uring''"

definition nvme_block :: "daemon \<Rightarrow> u64" where
  "nvme_block s = (if cfg_nvme_block_bytes (d_cfg s) \<noteq> 0 then cfg_nvme_block_bytes (d_cfg s) else push_bit 20 16)"

fun segments_from :: "nat \<Rightarrow> nat \<Rightarrow> u64 \<Rightarrow> u64 \<Rightarrow> u64 \<Rightarrow> u64 list" where
  "segments_from 0 i per nbytes consumed = []"
| "segments_from (Suc n) i per nbytes consumed =
     (let seg = (if n = 0 then nbytes - consumed else per)
      in seg # segments_from n (Suc i) per nbytes (consumed + seg))"

definition stripe_segments :: "u64 \<Rightarrow> daemon \<Rightarrow> u64 list" where
  "stripe_segments nbytes s =
     segments_from (unat (d_nvme_stripe_count s)) 0 (nbytes div ucast (d_nvme_stripe_count s)) nbytes 0"

section \<open>The pwrite engine\<close>

text \<open>The inner loop over \<^verbatim>\<open>pwrite\<close>, which may write less than asked or be interrupted.\<close>

fun pwrite_all :: "sys_io list \<Rightarrow> bytes \<Rightarrow> nat \<Rightarrow> bytes \<Rightarrow> bool \<times> bytes \<times> sys_io list" where
  "pwrite_all ios [] off f = (True, f, ios)"
| "pwrite_all [] (b # bs) off f = (True, file_write f off (b # bs), [])"
| "pwrite_all (IoEintr # ios) (b # bs) off f = pwrite_all ios (b # bs) off f"
| "pwrite_all (IoError # ios) (b # bs) off f = (False, f, ios)"
| "pwrite_all (IoBytes n # ios) (b # bs) off f =
     (let k = moved n (length (b # bs)) (length (b # bs))
      in pwrite_all ios (drop k (b # bs)) (off + k) (file_write f off (take k (b # bs))))"

definition pad_to :: "nat \<Rightarrow> bytes \<Rightarrow> bytes" where
  "pad_to n bs = bs @ replicate (n - length bs) 0"

text \<open>One segment, block by block, each block padded to the direct-I/O granule.\<close>

function write_seg :: "nat \<Rightarrow> bytes \<Rightarrow> u64 \<Rightarrow> sys_io list \<Rightarrow> bytes \<Rightarrow> bool \<times> bytes \<times> sys_io list" where
  "write_seg block data woff ios f =
     (if data = [] \<or> block = 0 then (True, f, ios)
      else
        let this = take block data;
            bpad = unat (roundup (of_nat (length this)) 4096)
        in case pwrite_all ios (pad_to bpad this) (unat woff) f of
             (ok, f1, ios1) \<Rightarrow>
               if ok then write_seg block (drop block data) (woff + of_nat (length this)) ios1 f1
               else (False, f1, ios1))"
  by auto
termination
  by (relation "measure (\<lambda>(block, data, woff, ios, f). length data)") auto

declare write_seg.simps [simp del]

fun write_stripes ::
  "io_env \<Rightarrow> bytes \<Rightarrow> nat \<Rightarrow> u64 list \<Rightarrow> sys_io list \<Rightarrow> NvmeChunk list \<Rightarrow> daemon \<Rightarrow>
   bool \<times> NvmeChunk list \<times> daemon" where
  "write_stripes env src i [] ios chunks s = (True, chunks, s)"
| "write_stripes env src i (seg # segs) ios chunks s =
     (if seg = 0 \<and> i \<noteq> 0 then write_stripes env src (Suc i) segs ios chunks s
      else if \<not> io_open_ok env i then (False, chunks, s)
      else
        let path = stripe_path i s;
            base_off = d_nvme_stripe_offsets s ! i;
            s1 = s\<lparr>d_nvme_stripe_offsets := (d_nvme_stripe_offsets s)[i := base_off + roundup seg 4096]\<rparr>
        in case write_seg (unat (nvme_block s)) (take (unat seg) src) base_off ios (file_of path s) of
             (ok, f, ios1) \<Rightarrow>
               let s2 = put_file path f s1 in
               if ok then write_stripes env (drop (unat seg) src) (Suc i) segs ios1
                            (chunks @ [\<lparr>nc_path = path, nc_offset = base_off, nc_length = seg\<rparr>]) s2
               else (False, chunks, s2))"

definition nvme_write_pwrite :: "io_env \<Rightarrow> bytes \<Rightarrow> u64 \<Rightarrow> daemon \<Rightarrow> bool \<times> NvmeChunk list \<times> daemon" where
  "nvme_write_pwrite env src nbytes s =
     (if \<not> io_alloc_ok env then (False, [], s)
      else write_stripes env src 0 (stripe_segments nbytes s) (io_calls env) [] s)"

text \<open>
  The inner loop over \<^verbatim>\<open>pread\<close>: fills the bounce buffer from position \<open>r\<close>; a read of no bytes is the
  end of the file.
\<close>

definition buf_put :: "(nat \<Rightarrow> u8) \<Rightarrow> nat \<Rightarrow> bytes \<Rightarrow> nat \<Rightarrow> u8" where
  "buf_put abuf r bs = (\<lambda>j. if r \<le> j \<and> j < r + length bs then bs ! (j - r) else abuf j)"

fun pread_all ::
  "sys_io list \<Rightarrow> nat \<Rightarrow> nat \<Rightarrow> nat \<Rightarrow> bytes \<Rightarrow> (nat \<Rightarrow> u8) \<Rightarrow> bool \<times> (nat \<Rightarrow> u8) \<times> sys_io list" where
  "pread_all [] bpad r off f abuf = (True, buf_put abuf r (file_read f (off + r) (bpad - r)), [])"
| "pread_all (io # ios) bpad r off f abuf =
     (if bpad \<le> r then (True, abuf, io # ios)
      else case io of
        IoEintr \<Rightarrow> pread_all ios bpad r off f abuf
      | IoError \<Rightarrow> (False, abuf, ios)
      | IoBytes n \<Rightarrow>
          (let k = moved n (bpad - r) (length f - (off + r))
           in if k = 0 then (True, abuf, ios)
              else pread_all ios bpad (r + k) off f (buf_put abuf r (file_read f (off + r) k))))"

function read_seg ::
  "nat \<Rightarrow> nat \<Rightarrow> u64 \<Rightarrow> sys_io list \<Rightarrow> bytes \<Rightarrow> (nat \<Rightarrow> u8) \<Rightarrow> bytes \<Rightarrow>
   bool \<times> bytes \<times> (nat \<Rightarrow> u8) \<times> sys_io list" where
  "read_seg block left roff ios f abuf out =
     (if left = 0 \<or> block = 0 then (True, out, abuf, ios)
      else
        let this = min block left;
            bpad = unat (roundup (of_nat this) 4096)
        in case pread_all ios bpad 0 (unat roff) f abuf of
             (ok, abuf1, ios1) \<Rightarrow>
               let out1 = out @ map abuf1 [0..<this] in
               if ok then read_seg block (left - this) (roff + of_nat this) ios1 f abuf1 out1
               else (False, out1, abuf1, ios1))"
  by auto
termination
  by (relation "measure (\<lambda>(block, left, roff, ios, f, abuf, out). left)") auto

declare read_seg.simps [simp del]

text \<open>After a failed transfer the remaining files are still opened, but nothing more is read.\<close>

fun read_chunks ::
  "io_env \<Rightarrow> nat \<Rightarrow> nat \<Rightarrow> NvmeChunk list \<Rightarrow> sys_io list \<Rightarrow> (nat \<Rightarrow> u8) \<Rightarrow> bytes \<Rightarrow> daemon \<Rightarrow> bool \<times> bytes" where
  "read_chunks env block i [] ios abuf out s = (True, out)"
| "read_chunks env block i (c # cs) ios abuf out s =
     (if \<not> io_open_ok env i then (False, out)
      else case read_seg block (unat (nc_length c)) (nc_offset c) ios (file_of (nc_path c) s) abuf out of
             (ok, out1, abuf1, ios1) \<Rightarrow>
               if ok then read_chunks env block (Suc i) cs ios1 abuf1 out1 s else (False, out1))"

text \<open>
  The bytes stored from the destination on, and the result, which does not depend on whether the
  transfers succeeded.
\<close>

definition nvme_read_pwrite :: "io_env \<Rightarrow> ColdEntry \<Rightarrow> daemon \<Rightarrow> bool \<times> bytes" where
  "nvme_read_pwrite env e s =
     (if \<not> io_alloc_ok env then (False, [])
      else (True, snd (read_chunks env (unat (nvme_block s)) 0 (cold_nvme_chunks e) (io_calls env)
                    (io_garbage env) [] s)))"

section \<open>The io_uring engine\<close>

text \<open>
  One transfer of at most a block: file, position in the file, position in memory, length.
\<close>

record BlockIO =
  bio_path :: string
  bio_file_off :: u64
  bio_mem_off :: nat
  bio_len :: nat

function seg_blocks :: "nat \<Rightarrow> string \<Rightarrow> u64 \<Rightarrow> nat \<Rightarrow> nat \<Rightarrow> nat \<Rightarrow> BlockIO list" where
  "seg_blocks block path base mem off seg =
     (if seg \<le> off \<or> block = 0 then []
      else let len = min block (seg - off)
           in \<lparr>bio_path = path, bio_file_off = base + of_nat off, bio_mem_off = mem + off, bio_len = len\<rparr> #
              seg_blocks block path base mem (off + len) seg)"
  by auto
termination
  by (relation "measure (\<lambda>(block, path, base, mem, off, seg). seg - off)") auto

declare seg_blocks.simps [simp del]

fun chunk_blocks :: "nat \<Rightarrow> nat \<Rightarrow> NvmeChunk list \<Rightarrow> BlockIO list" where
  "chunk_blocks block mem [] = []"
| "chunk_blocks block mem (c # cs) =
     seg_blocks block (nc_path c) (nc_offset c) mem 0 (unat (nc_length c)) @
     chunk_blocks block (mem + unat (nc_length c)) cs"

definition bio_padded :: "BlockIO \<Rightarrow> nat" where
  "bio_padded b = unat (roundup (of_nat (bio_len b)) 4096)"

text \<open>
  The submission pipeline. \<open>ur_free\<close> is the stack of free bounce buffers, \<open>ur_iov\<close> the 64 shared
  I/O vectors (buffer and length), \<open>ur_prep\<close> the prepared and \<open>ur_inflight\<close> the submitted requests.
  A request carries its block, the buffer packed into \<^verbatim>\<open>user_data\<close>, and, once submitted, the buffer
  and length the kernel found in its I/O vector. \<open>ur_data\<close> is what the direction of the transfer
  works on.
\<close>

record 'd uring =
  ur_next :: nat
  ur_free :: "nat list"
  ur_iov :: "nat \<Rightarrow> nat \<times> nat"
  ur_prep :: "(nat \<times> nat) list"
  ur_inflight :: "(nat \<times> nat \<times> nat \<times> nat) list"
  ur_pool :: "nat \<Rightarrow> nat \<Rightarrow> u8"
  ur_data :: 'd

text \<open>Fill the pipe: one round per free buffer, while fewer than \<open>qd\<close> requests are under way.\<close>

fun uring_fill ::
  "nat \<Rightarrow> BlockIO list \<Rightarrow> (BlockIO \<Rightarrow> (nat \<Rightarrow> u8) \<Rightarrow> nat \<Rightarrow> u8) \<Rightarrow> nat list \<Rightarrow> 'd uring \<Rightarrow> 'd uring" where
  "uring_fill qd ios load [] u = u\<lparr>ur_free := []\<rparr>"
| "uring_fill qd ios load (bi # free) u =
     (if length (ur_inflight u) + length (ur_prep u) < qd \<and> ur_next u < length ios then
        let b = ios ! ur_next u
        in uring_fill qd ios load free
             (u\<lparr>ur_next := Suc (ur_next u),
                ur_pool := (ur_pool u)(bi := load b (ur_pool u bi)),
                ur_iov := (ur_iov u)(bi mod 64 := (bi, bio_padded b)),
                ur_prep := ur_prep u @ [(ur_next u, bi)]\<rparr>)
      else u\<lparr>ur_free := bi # free\<rparr>)"

text \<open>\<^verbatim>\<open>io_uring_submit\<close>: the kernel reads the I/O vectors of the prepared requests.\<close>

definition uring_submit :: "'d uring \<Rightarrow> 'd uring" where
  "uring_submit u =
     u\<lparr>ur_inflight := ur_inflight u @
          map (\<lambda>(blk, bi). (blk, bi, ur_iov u (bi mod 64))) (ur_prep u),
       ur_prep := []\<rparr>"

text \<open>
  The loop, one completion per round. The kernel picks which request completes and how much it
  transferred (\<open>io_pick\<close>, \<open>io_cqe\<close>); \<open>xfer\<close> is the transfer itself and \<open>finish\<close> the check of the
  completed block, with what the program then does with its buffer.
\<close>

fun uring_loop ::
  "io_env \<Rightarrow> nat \<Rightarrow> BlockIO list \<Rightarrow> (BlockIO \<Rightarrow> (nat \<Rightarrow> u8) \<Rightarrow> nat \<Rightarrow> u8) \<Rightarrow>
   (BlockIO \<Rightarrow> nat \<Rightarrow> nat \<Rightarrow> nat option \<Rightarrow> 'd uring \<Rightarrow> nat option \<times> 'd uring) \<Rightarrow>
   (BlockIO \<Rightarrow> nat \<Rightarrow> nat option \<Rightarrow> 'd uring \<Rightarrow> bool \<times> 'd uring) \<Rightarrow>
   nat \<Rightarrow> nat \<Rightarrow> 'd uring \<Rightarrow> bool \<times> 'd uring" where
  "uring_loop env qd ios load xfer finish 0 rd u = (True, u)"
| "uring_loop env qd ios load xfer finish (Suc todo) rd u =
     (let u1 = uring_fill qd ios load (ur_free u) u in
      if \<not> io_submit_ok env rd then (False, u1)
      else
        let u2 = uring_submit u1;
            j = io_pick env rd mod length (ur_inflight u2)
        in case ur_inflight u2 ! j of
             (blk, bi, buf, len) \<Rightarrow>
               (case xfer (ios ! blk) buf len (io_cqe env rd)
                       (u2\<lparr>ur_inflight := take j (ur_inflight u2) @ drop (Suc j) (ur_inflight u2)\<rparr>) of
                  (res, u3) \<Rightarrow>
                    (case finish (ios ! blk) bi res u3 of
                       (ok, u4) \<Rightarrow>
                         let u5 = u4\<lparr>ur_free := bi # ur_free u4\<rparr>
                         in if ok then uring_loop env qd ios load xfer finish todo (Suc rd) u5
                            else (False, u5))))"

definition uring_start :: "nat \<Rightarrow> (nat \<Rightarrow> u8) \<Rightarrow> 'd \<Rightarrow> 'd uring" where
  "uring_start qd garbage d =
     \<lparr>ur_next = 0, ur_free = rev [0..<qd], ur_iov = (\<lambda>_. (0, 0)), ur_prep = [], ur_inflight = [],
      ur_pool = (\<lambda>_. garbage), ur_data = d\<rparr>"

definition queue_depth :: "daemon \<Rightarrow> nat" where
  "queue_depth s = unat (max 1 (cfg_nvme_queue_depth (d_cfg s)))"

text \<open>Writing: a completed request puts the buffer the kernel saw into the file.\<close>

definition load_block :: "bytes \<Rightarrow> BlockIO \<Rightarrow> (nat \<Rightarrow> u8) \<Rightarrow> nat \<Rightarrow> u8" where
  "load_block src b old =
     (let z = (if bio_padded b > bio_len b then (\<lambda>j. if j < bio_padded b then 0 else old j) else old)
      in buf_put z 0 (take (bio_len b) (drop (bio_mem_off b) src)))"

definition kernel_write ::
  "BlockIO \<Rightarrow> nat \<Rightarrow> nat \<Rightarrow> nat option \<Rightarrow> (string, bytes) table uring \<Rightarrow>
   nat option \<times> (string, bytes) table uring" where
  "kernel_write b buf len cnt u =
     (case cnt of
        None \<Rightarrow> (None, u)
      | Some n \<Rightarrow>
          let r = min n len;
              f = (case t_find (ur_data u) (bio_path b) of None \<Rightarrow> [] | Some f \<Rightarrow> f)
          in (Some r, u\<lparr>ur_data := t_put (bio_path b)
                 (file_write f (unat (bio_file_off b)) (map (ur_pool u buf) [0..<r])) (ur_data u)\<rparr>))"

definition finish_write :: "BlockIO \<Rightarrow> nat \<Rightarrow> nat option \<Rightarrow> 'd uring \<Rightarrow> bool \<times> 'd uring" where
  "finish_write b bi res u = (res = Some (bio_padded b), u)"

text \<open>The first loop of \<^verbatim>\<open>nvme_write_uring\<close>: open the files and reserve a padded region in each.\<close>

fun open_stripes :: "io_env \<Rightarrow> nat \<Rightarrow> u64 list \<Rightarrow> NvmeChunk list \<Rightarrow> daemon \<Rightarrow> bool \<times> NvmeChunk list \<times> daemon" where
  "open_stripes env i [] chunks s = (True, chunks, s)"
| "open_stripes env i (seg # segs) chunks s =
     (if seg = 0 \<and> i \<noteq> 0 then open_stripes env (Suc i) segs chunks s
      else if \<not> io_open_ok env i then (False, chunks, s)
      else
        let path = stripe_path i s;
            base_off = d_nvme_stripe_offsets s ! i;
            s1 = s\<lparr>d_nvme_stripe_offsets := (d_nvme_stripe_offsets s)[i := base_off + roundup seg 4096]\<rparr>
        in open_stripes env (Suc i) segs
             (chunks @ [\<lparr>nc_path = path, nc_offset = base_off, nc_length = seg\<rparr>])
             (put_file path (file_of path s1) s1))"

definition nvme_write_uring :: "io_env \<Rightarrow> bytes \<Rightarrow> u64 \<Rightarrow> daemon \<Rightarrow> bool \<times> NvmeChunk list \<times> daemon" where
  "nvme_write_uring env src nbytes s =
     (case open_stripes env 0 (stripe_segments nbytes s) [] s of
        (ok, chunks, s1) \<Rightarrow>
          if \<not> ok \<or> \<not> io_alloc_ok env then (False, chunks, s1)
          else
            let ios = chunk_blocks (unat (nvme_block s1)) 0 chunks
            in case uring_loop env (queue_depth s1) ios (load_block src) kernel_write finish_write
                      (length ios) 0 (uring_start (queue_depth s1) (io_garbage env) (d_files s1)) of
                 (ok2, u) \<Rightarrow> (ok2, chunks, s1\<lparr>d_files := ur_data u\<rparr>))"

text \<open>
  Reading: a completed request has filled the buffer the kernel saw; the program then copies from the
  buffer named in \<^verbatim>\<open>user_data\<close>. The copies into the destination are collected in order.
\<close>

definition kernel_read ::
  "(string, bytes) table \<Rightarrow> BlockIO \<Rightarrow> nat \<Rightarrow> nat \<Rightarrow> nat option \<Rightarrow> (nat \<times> bytes) list uring \<Rightarrow>
   nat option \<times> (nat \<times> bytes) list uring" where
  "kernel_read files b buf len cnt u =
     (case cnt of
        None \<Rightarrow> (None, u)
      | Some n \<Rightarrow>
          let f = (case t_find files (bio_path b) of None \<Rightarrow> [] | Some f \<Rightarrow> f);
              bs = file_read f (unat (bio_file_off b)) (min n len)
          in (Some (length bs), u\<lparr>ur_pool := (ur_pool u)(buf := buf_put (ur_pool u buf) 0 bs)\<rparr>))"

definition finish_read :: "BlockIO \<Rightarrow> nat \<Rightarrow> nat option \<Rightarrow> (nat \<times> bytes) list uring \<Rightarrow>
   bool \<times> (nat \<times> bytes) list uring" where
  "finish_read b bi res u =
     (case res of
        None \<Rightarrow> (False, u)
      | Some r \<Rightarrow>
          if r < bio_len b then (False, u)
          else (True, u\<lparr>ur_data := ur_data u @ [(bio_mem_off b, map (ur_pool u bi) [0..<bio_len b])]\<rparr>))"

definition nvme_read_uring :: "io_env \<Rightarrow> ColdEntry \<Rightarrow> daemon \<Rightarrow> bool \<times> (nat \<times> bytes) list" where
  "nvme_read_uring env e s =
     (if \<not> list_all (io_open_ok env) [0..<length (cold_nvme_chunks e)] \<or> \<not> io_alloc_ok env then (False, [])
      else
        let ios = chunk_blocks (unat (nvme_block s)) 0 (cold_nvme_chunks e)
        in case uring_loop env (queue_depth s) ios (\<lambda>b old. old) (kernel_read (d_files s)) finish_read
                  (length ios) 0 (uring_start (queue_depth s) (io_garbage env) []) of
             (ok, u) \<Rightarrow> (ok, ur_data u))"

section \<open>Drain and readback\<close>

definition nvme_write :: "io_env \<Rightarrow> bytes \<Rightarrow> u64 \<Rightarrow> daemon \<Rightarrow> bool \<times> NvmeChunk list \<times> daemon" where
  "nvme_write env src nbytes s =
     (if use_uring_engine s then nvme_write_uring env src nbytes s else nvme_write_pwrite env src nbytes s)"

text \<open>The copies a read makes into its destination, as offset and bytes.\<close>

definition nvme_read :: "io_env \<Rightarrow> ColdEntry \<Rightarrow> daemon \<Rightarrow> bool \<times> (nat \<times> bytes) list" where
  "nvme_read env e s =
     (if use_uring_engine s then nvme_read_uring env e s
      else case nvme_read_pwrite env e s of (ok, out) \<Rightarrow> (ok, [(0, out)]))"

definition record_transfer :: "io_env \<Rightarrow> u64 \<Rightarrow> daemon \<Rightarrow> daemon" where
  "record_transfer env nbytes s =
     (let dt = io_elapsed_ns env in
      if dt > 0 then
        s\<lparr>d_bw_samples := record_bandwidth_mbps
             (of_nat (unat nbytes) / (1024 * 1024) / (of_nat (unat dt) / 1000000000)) (d_bw_samples s)\<rparr>
      else s)"

definition empty_cold :: "u64 \<Rightarrow> ColdEntry" where
  "empty_cold nbytes = \<lparr>cold_kind = OFLD_LOC_NONE, cold_nbytes = nbytes, cold_pageable = None, cold_nvme_chunks = []\<rparr>"

definition do_drain_to_cold :: "io_env \<Rightarrow> u32 \<Rightarrow> u64 \<Rightarrow> daemon \<Rightarrow> (ColdEntry \<times> bool) \<times> daemon" where
  "do_drain_to_cold env base_slot nbytes s =
     (let src = mem_read (slot_addr base_slot s) (unat nbytes) s;
          want_nvme = (cfg_drain_target (d_cfg s) = kNvmeOnly \<and> cfg_nvme_enabled (d_cfg s))
      in if \<not> want_nvme then
           (if \<not> io_alloc_ok env then ((empty_cold nbytes, False), s)
            else
              (((empty_cold nbytes)\<lparr>cold_kind := OFLD_LOC_PAGEABLE, cold_pageable := Some src\<rparr>, True),
               record_transfer env nbytes
                 (m_add kPageableResidentBytes nbytes (m_add kPinnedToPageableBytes nbytes s))))
         else
           (case nvme_write env src nbytes s of
              (ok, chunks, s1) \<Rightarrow>
                if \<not> ok then (((empty_cold nbytes)\<lparr>cold_nvme_chunks := chunks\<rparr>, False), s1)
                else
                  (((empty_cold nbytes)\<lparr>cold_kind := OFLD_LOC_NVME, cold_nvme_chunks := chunks\<rparr>, True),
                   record_transfer env nbytes
                     (m_add kNvmeResidentBytes nbytes (m_add kNvmeWriteBytes nbytes s1)))))"

definition store_copies :: "nat \<times> nat \<Rightarrow> (nat \<times> bytes) list \<Rightarrow> daemon \<Rightarrow> daemon" where
  "store_copies addr copies s =
     fold (\<lambda>(off, bs). mem_write (fst addr, snd addr + off) bs) copies s"

text \<open>
  \<^verbatim>\<open>memcpy(dst, cold.pageable, nbytes)\<close> reads \<open>nbytes\<close> bytes of a buffer allocated with the entry's own
  size; callers pass the size the entry was drained with.
\<close>

definition do_readback_from_cold :: "io_env \<Rightarrow> u32 \<Rightarrow> ColdEntry \<Rightarrow> u64 \<Rightarrow> daemon \<Rightarrow> bool \<times> daemon" where
  "do_readback_from_cold env base_slot cold nbytes s =
     (if cold_kind cold = OFLD_LOC_PAGEABLE then
        (case cold_pageable cold of
           None \<Rightarrow> (False, s)
         | Some buf \<Rightarrow>
             (True, record_transfer env nbytes (m_add kPageableToPinnedBytes nbytes
                      (mem_write (slot_addr base_slot s) (take (unat nbytes) buf) s))))
      else if cold_kind cold = OFLD_LOC_NVME then
        (case nvme_read env cold s of
           (ok, copies) \<Rightarrow>
             let s1 = store_copies (slot_addr base_slot s) copies s in
             if \<not> ok then (False, s1)
             else (True, record_transfer env nbytes (m_add kNvmeReadBytes nbytes s1)))
      else (False, s))"

end
