(* ===== verification/Tasks.thy ===== *)
theory Tasks
  imports Cold_Store
begin

text \<open>
  Critical sections. A thread of the daemon runs from one release of the mutex to the next without
  interference; a handler that unlocks around I/O is a task: it has finished, or it waits with a
  continuation that takes the outcome of the system calls (\<open>io_env\<close>) and the state as other threads
  have left it, runs the next section and gives the rest of the task. \<open>Crash\<close> is undefined behaviour:
  the use of a pointer into a table whose row another thread has erased meanwhile.
\<close>

section \<open>Tasks\<close>

datatype 'a task =
    Ret 'a
  | Crash
  | Unlock "io_env \<Rightarrow> daemon \<Rightarrow> 'a task \<times> daemon"

type_synonym 'a prog = "daemon \<Rightarrow> 'a task \<times> daemon"

definition ret :: "'a \<Rightarrow> 'a prog" where
  "ret x s = (Ret x, s)"

text \<open>A section that does not release the mutex.\<close>

definition locked :: "(daemon \<Rightarrow> 'a \<times> daemon) \<Rightarrow> 'a prog" where
  "locked f s = (case f s of (x, s') \<Rightarrow> (Ret x, s'))"

text \<open>Release the mutex, perform I/O, and take the mutex again.\<close>

definition unlocked :: "(io_env \<Rightarrow> daemon \<Rightarrow> 'a \<times> daemon) \<Rightarrow> 'a prog" where
  "unlocked io s =
     (Unlock (\<lambda>env s1. case io env s1 of (x, s2) \<Rightarrow> (Unlock (\<lambda>env s3. (Ret x, s3)), s2)), s)"

primrec then_task :: "'a task \<Rightarrow> ('a \<Rightarrow> 'b prog) \<Rightarrow> 'b prog" where
  "then_task (Ret x) f = f x"
| "then_task Crash f = (\<lambda>s. (Crash, s))"
| "then_task (Unlock k) f =
     (\<lambda>s. (Unlock (\<lambda>env s1. case map_prod (\<lambda>t. then_task t f) id (k env s1) of (p, s2) \<Rightarrow> p s2), s))"

definition bnd :: "'a prog \<Rightarrow> ('a \<Rightarrow> 'b prog) \<Rightarrow> 'b prog" where
  "bnd m f s = (case m s of (t, s1) \<Rightarrow> then_task t f s1)"

text \<open>
  One thread running alone: the environments of its I/O sections are given one by one, and \<open>others\<close>
  is the effect of the other threads in each window. \<open>None\<close>: still waiting when the list ends.
\<close>

fun run_task :: "(io_env \<times> (daemon \<Rightarrow> daemon)) list \<Rightarrow> 'a task \<times> daemon \<Rightarrow> ('a task \<times> daemon) option" where
  "run_task ws (Ret x, s) = Some (Ret x, s)"
| "run_task ws (Crash, s) = Some (Crash, s)"
| "run_task [] (Unlock k, s) = None"
| "run_task ((env, others) # ws) (Unlock k, s) = run_task ws (k env (others s))"

section \<open>Laws\<close>

lemma then_task_Unlock:
  "then_task (Unlock k) f s = (Unlock (\<lambda>env s1. case k env s1 of (t, s2) \<Rightarrow> then_task t f s2), s)"
  by (simp add: map_prod_def split_def)

declare then_task.simps(3) [simp del]

lemma bnd_ret [simp]: "bnd (ret x) f = f x"
  by (rule ext) (simp add: bnd_def ret_def)

end
