(* ===== verification/Handlers.thy ===== *)
theory Handlers
  imports Tasks
begin

text \<open>
  The RPC handlers of \<^verbatim>\<open>src/daemon/daemon.cpp\<close>, in the order of the file. A handler that holds the mutex
  throughout is a function from request and state to response and state; the two that may release it
  to drain a run under memory pressure are tasks.
\<close>

section \<open>Registration and heartbeat\<close>

definition release_ring :: "Session \<Rightarrow> daemon \<Rightarrow> daemon" where
  "release_ring ss s =
     (if ss_ring_index ss < d_ring_max_ranks s then
        let s1 = drain_ring_all (ss_ring_index ss) (ss_rank_id ss) (ss_rank_epoch ss) s;
            s2 = set_ring (ss_ring_index ss)
                   ((at32 (d_rings s1) (ss_ring_index ss))\<lparr>rh_owner_rank := none32, rh_rank_epoch := 0\<rparr>) s1
        in (if unat (ss_ring_index ss) < length (d_ring_owner s2)
            then s2\<lparr>d_ring_owner := (d_ring_owner s2)[unat (ss_ring_index ss) := none32]\<rparr> else s2)
      else s)"

text \<open>The lambda \<^verbatim>\<open>invalidate\<close> of \<^verbatim>\<open>handle_register\<close>, on the session of rank \<open>k\<close>.\<close>

definition invalidate :: "u32 \<Rightarrow> daemon \<Rightarrow> daemon" where
  "invalidate k s =
     (case t_find (d_sessions s) k of
        None \<Rightarrow> s
      | Some ss \<Rightarrow>
          if \<not> ss_alive ss then s
          else purge_rank_from_canonical (ss_rank_id ss)
                 (release_ring ss
                    (recover_leases (ss_rank_id ss) (ss_rank_epoch ss)
                       (m_inc kRankSessionsInvalidated (modify_session k (\<lambda>ss. ss\<lparr>ss_alive := False\<rparr>) s)))))"

text \<open>The loop over the other sessions of the same process.\<close>

definition invalidate_pid :: "u32 \<Rightarrow> u64 \<Rightarrow> u32 \<Rightarrow> daemon \<Rightarrow> daemon" where
  "invalidate_pid rank_id pid k s =
     (case t_find (d_sessions s) k of
        None \<Rightarrow> s
      | Some ss \<Rightarrow> if k \<noteq> rank_id \<and> ss_alive ss \<and> ss_pid ss = pid then invalidate k s else s)"

definition pad_owners :: "daemon \<Rightarrow> daemon" where
  "pad_owners s =
     (let n = unat (d_ring_max_ranks s); ow = d_ring_owner s
      in if length ow < n then s\<lparr>d_ring_owner := ow @ replicate (n - length ow) none32\<rparr> else s)"

definition assign_ring :: "u32 \<Rightarrow> u64 \<Rightarrow> daemon \<Rightarrow> u32 \<times> daemon" where
  "assign_ring rank_id epoch s =
     (let s1 = pad_owners s in
      case find (\<lambda>i. d_ring_owner s1 ! i = none32) [0..<unat (d_ring_max_ranks s1)] of
        None \<Rightarrow> (none32, s1)
      | Some i \<Rightarrow>
          (of_nat i,
           set_ring (of_nat i)
             ((d_rings s1 ! i)\<lparr>rh_head := 0, rh_tail := 0, rh_owner_rank := rank_id, rh_rank_epoch := epoch\<rparr>)
             (s1\<lparr>d_ring_owner := (d_ring_owner s1)[i := rank_id]\<rparr>)))"

definition arena_fd :: "nat \<Rightarrow> Arena \<Rightarrow> ArenaFd" where
  "arena_fd i a =
     \<lparr>afd_arena_id = ar_arena_id a, afd_numa_node = ar_numa_node a, afd_kind = OFLD_ARENA_DATA_PINNED,
      afd_size = ar_size a, afd_base_offset = 0, afd_preferred_gpu = 0, afd_flags = 0,
      afd_fd_index = of_nat i, afd_registration_granularity = ar_registration_granularity a,
      afd_allocation_granularity = ar_allocation_granularity a\<rparr>"

text \<open>
  The descriptors sent along are those of the arenas and of the control region, in this order; they are
  named by their position.
\<close>

definition handle_register :: "RegisterRankRequest \<Rightarrow> daemon \<Rightarrow> (RegisterRankResponse \<times> nat list) \<times> daemon" where
  "handle_register req s =
     (let s1 = invalidate (rrq_rank_id req) s;
          s2 = fold (invalidate_pid (rrq_rank_id req) (rrq_pid req)) (map fst (d_sessions s1)) s1;
          epoch = d_next_rank_epoch s2;
          s3 = s2\<lparr>d_next_rank_epoch := epoch + 1\<rparr>
      in case assign_ring (rrq_rank_id req) epoch s3 of
           (ring_index, s4) \<Rightarrow>
             let ss = \<lparr>ss_rank_id = rrq_rank_id req, ss_rank_epoch = epoch, ss_pid = rrq_pid req,
                       ss_gpu_id = rrq_gpu_id req, ss_numa_node = rrq_numa_node req,
                       ss_last_heartbeat_ns = now_real_ns s, ss_alive = True, ss_ring_index = ring_index\<rparr>;
                 s5 = s4\<lparr>d_sessions := t_put (rrq_rank_id req) ss (d_sessions s4)\<rparr>
             in ((\<lparr>rrs_ok = True, rrs_message = ''ok'', rrs_rank_epoch = epoch,
                   rrs_control_generation = d_generation s5,
                   rrs_arenas = map2 arena_fd [0..<length (d_arenas s5)] (d_arenas s5),
                   rrs_control_fd_index = of_nat (length (d_arenas s5)),
                   rrs_control_size = cl_total_bytes (d_layout s5),
                   rrs_num_slots = cl_num_slots (d_layout s5), rrs_ring_index = ring_index\<rparr>,
                  [0..<Suc (length (d_arenas s5))]), s5))"

definition handle_heartbeat :: "HeartbeatRequest \<Rightarrow> daemon \<Rightarrow> HeartbeatResponse \<times> daemon" where
  "handle_heartbeat req s =
     (if \<not> epoch_valid (hbq_rank_id req) (hbq_rank_epoch req) s
      then (\<lparr>hbs_ok = False, hbs_message = ''epoch invalid''\<rparr>, m_inc kEpochMismatchRejected s)
      else
        let s1 = modify_session (hbq_rank_id req) (\<lambda>ss. ss\<lparr>ss_last_heartbeat_ns := now_real_ns s\<rparr>) s
        in (\<lparr>hbs_ok = True, hbs_message = ''ok''\<rparr>, s1\<lparr>d_heartbeat_ns := now_real_ns s\<rparr>))"

section \<open>Draining under pressure\<close>

definition drain_eligible :: "Lease \<Rightarrow> daemon \<Rightarrow> bool" where
  "drain_eligible L s \<longleftrightarrow>
     \<not> ls_is_prefetch L \<and> slot_state (ls_base_slot L) s = OFLD_SLOT_PINNED_VALID \<and>
     \<not> (is_canonical_tid (ls_tensor_id L) \<and>
        (case find_object (object_of_tid (ls_tensor_id L)) s of
           None \<Rightarrow> False
         | Some co \<Rightarrow> obj_restore_refcount co > 0 \<or> obj_export_refcount co > 0 \<or> obj_state co = OBJ_CREATING))"

text \<open>The scan for the least recently touched eligible lease; id 0 when there is none.\<close>

definition oldest_lease :: "daemon \<Rightarrow> u64" where
  "oldest_lease s =
     snd (fold (\<lambda>(k, L) (best_ts, best_lease).
                  if drain_eligible L s \<and> se_last_touch_ns (at32 (d_slots s) (ls_base_slot L)) < best_ts
                  then (se_last_touch_ns (at32 (d_slots s) (ls_base_slot L)), ls_lease_id L)
                  else (best_ts, best_lease)) (d_leases s) (NOT 0, 0))"

definition Lease_init :: Lease where
  "Lease_init = \<lparr>ls_lease_id = 0, ls_base_slot = 0, ls_slot_count = 0, ls_tensor_id = 0, ls_version = 0,
     ls_owner_rank = 0, ls_owner_pid = 0, ls_rank_epoch = 0, ls_nbytes = 0, ls_is_prefetch = False\<rparr>"

text \<open>\<^verbatim>\<open>leases_[id]\<close> inserts a default row for a missing key.\<close>

definition lease_at :: "u64 \<Rightarrow> daemon \<Rightarrow> Lease \<times> daemon" where
  "lease_at k s = (case find_lease k s of Some L \<Rightarrow> (L, s) | None \<Rightarrow> (Lease_init, put_lease k Lease_init s))"

text \<open>The end of a successful drain, in \<^verbatim>\<open>force_drain_one\<close> and in the drain worker.\<close>

definition commit_drain ::
  "u32 \<Rightarrow> u32 \<Rightarrow> u64 \<Rightarrow> u64 \<Rightarrow> u64 \<Rightarrow> u64 \<Rightarrow> ColdEntry \<Rightarrow> daemon \<Rightarrow> daemon" where
  "commit_drain base count tensor_id version nbytes lease_id cold s =
     (let cref = d_next_cold_ref s;
          s1 = put_cold cref cold (s\<lparr>d_next_cold_ref := cref + 1\<rparr>);
          s2 = upd_run base count (\<lambda>k e. e\<lparr>se_cold_ref := cref\<rparr>) s1;
          s3 = set_slot_state base OFLD_SLOT_COLD_VALID s2;
          s4 = snd (update_location_if_latest tensor_id version (cold_kind cold) base cref nbytes s3)
      in m_inc kDrainsCompleted (erase_lease lease_id (free_slots base count s4)))"

definition force_drain_one :: "bool prog" where
  "force_drain_one s =
     (let best = oldest_lease s in
      if best = 0 then ret False s
      else case lease_at best s of
        (L, s0) \<Rightarrow>
          let s1 = m_add kDrainingBytes (ls_nbytes L)
                     (set_run_state (ls_base_slot L) (ls_slot_count L) OFLD_SLOT_DRAIN_IN_FLIGHT s0)
          in bnd (unlocked (\<lambda>env. do_drain_to_cold env (ls_base_slot L) (ls_nbytes L)))
               (\<lambda>(cold, ok) s2.
                  let s3 = m_sub kDrainingBytes (ls_nbytes L) s2 in
                  if \<not> ok then
                    ret False (m_inc kIoFailure
                      (set_run_state (ls_base_slot L) (ls_slot_count L) OFLD_SLOT_PINNED_VALID s3))
                  else
                    ret True (commit_drain (ls_base_slot L) (ls_slot_count L) (ls_tensor_id L)
                      (ls_version L) (ls_nbytes L) best cold s3)) s1)"

text \<open>The allocation loop of the handlers: up to 65 attempts, a forced drain between two of them.\<close>

fun alloc_draining :: "nat \<Rightarrow> u32 \<Rightarrow> u32 \<Rightarrow> u64 \<Rightarrow> u64 \<Rightarrow> (u32 \<times> u32) option prog" where
  "alloc_draining 0 gpu numa nbytes flags s = ret None s"
| "alloc_draining (Suc n) gpu numa nbytes flags s =
     (case allocate_slots gpu numa nbytes flags s of
        (Some run, s1) \<Rightarrow> ret (Some run) s1
      | (None, s1) \<Rightarrow>
          bnd force_drain_one
            (\<lambda>drained. if drained then alloc_draining n gpu numa nbytes flags else ret None) s1)"

definition session_pid :: "u32 \<Rightarrow> daemon \<Rightarrow> u64" where
  "session_pid rank s = (case t_find (d_sessions s) rank of None \<Rightarrow> 0 | Some ss \<Rightarrow> ss_pid ss)"

section \<open>Device-to-host\<close>

text \<open>The reservation block: metadata and state of a fresh run.\<close>

definition reserve_run ::
  "u32 \<Rightarrow> u32 \<Rightarrow> u64 \<Rightarrow> u64 \<Rightarrow> u64 \<Rightarrow> u32 \<Rightarrow> u64 \<Rightarrow> u64 \<Rightarrow> u64 \<Rightarrow> u64 \<Rightarrow> daemon \<Rightarrow> daemon" where
  "reserve_run base count tensor_id version lease_id rank pid epoch nbytes flags s =
     m_add kUsedPinnedBytes (ucast count * gran s)
       (upd_run base count (\<lambda>k e. touch (now_real_ns s) OFLD_SLOT_RESERVED_D2H
          (e\<lparr>se_tensor_id := tensor_id, se_version := version, se_lease_id := lease_id,
             se_owner_rank := ucast rank, se_owner_pid := pid, se_rank_epoch := epoch,
             se_nbytes := (if k = 0 then nbytes else se_capacity e), se_flags := flags\<rparr>)) s)"

definition grant_offload :: "RequestOffloadRequest \<Rightarrow> u32 \<Rightarrow> u32 \<Rightarrow> u64 \<Rightarrow> daemon \<Rightarrow> RequestOffloadResponse \<times> daemon" where
  "grant_offload req base count owner_pid s =
     (let lease_id = d_next_lease_id s;
          s1 = reserve_run base count (roq_tensor_id req) (roq_version req) lease_id (roq_rank_id req) owner_pid
                 (roq_rank_epoch req) (roq_nbytes req) (roq_flags req) (s\<lparr>d_next_lease_id := lease_id + 1\<rparr>);
          L = \<lparr>ls_lease_id = lease_id, ls_base_slot = base, ls_slot_count = count,
               ls_tensor_id = roq_tensor_id req, ls_version = roq_version req,
               ls_owner_rank = roq_rank_id req, ls_owner_pid = owner_pid,
               ls_rank_epoch = roq_rank_epoch req, ls_nbytes = roq_nbytes req, ls_is_prefetch = False\<rparr>;
          s2 = m_inc kLeasesGranted (put_lease lease_id L s1)
      in (\<lparr>ros_ok = True, ros_message = ''ok'', ros_lease_id = lease_id, ros_slot_id = base,
           ros_arena_id = se_arena_id (at32 (d_slots s2) base),
           ros_arena_offset = se_arena_offset (at32 (d_slots s2) base),
           ros_capacity = ucast count * gran s2, ros_state = slot_state_code OFLD_SLOT_RESERVED_D2H,
           ros_blocked = False\<rparr>, s2))"

definition handle_request_offload :: "RequestOffloadRequest \<Rightarrow> RequestOffloadResponse prog" where
  "handle_request_offload req s =
     (if \<not> epoch_valid (roq_rank_id req) (roq_rank_epoch req) s then
        ret (RequestOffloadResponse_init\<lparr>ros_ok := False, ros_message := ''epoch invalid''\<rparr>)
          (m_inc kEpochMismatchRejected s)
      else if roq_nbytes req = 0 then
        ret (RequestOffloadResponse_init\<lparr>ros_ok := False, ros_message := ''nbytes must be > 0''\<rparr>) s
      else
        let s1 = m_inc kOffloadRequests s;
            count = slots_for_bytes (roq_nbytes req) s1;
            owner_pid = session_pid (roq_rank_id req) s1
        in bnd (alloc_draining 65 (roq_gpu_id req) (roq_numa_node req) (roq_nbytes req) (roq_flags req))
             (\<lambda>got s2. case got of
                None \<Rightarrow>
                  ret (RequestOffloadResponse_init\<lparr>ros_ok := False, ros_blocked := True,
                         ros_message := ''no pinned capacity (blocked / backpressure)''\<rparr>)
                    (m_inc kBlockedReservations s2)
              | Some (base, ncount) \<Rightarrow>
                  if \<not> list_all (\<lambda>i. slot_state i s2 = OFLD_SLOT_FREE) (run_ids base count) then
                    ret (RequestOffloadResponse_init\<lparr>ros_ok := False, ros_message := ''slot overlap prevented''\<rparr>)
                      (m_inc kSlotOverlapPrevented s2)
                  else locked (grant_offload req base count owner_pid) s2) s1)"

definition handle_mark_d2h_submitted ::
  "MarkD2HSubmittedRequest \<Rightarrow> daemon \<Rightarrow> MarkD2HSubmittedResponse \<times> daemon" where
  "handle_mark_d2h_submitted req s =
     (if \<not> epoch_valid (dsq_rank_id req) (dsq_rank_epoch req) s
      then (\<lparr>dss_ok = False, dss_message = ''epoch invalid''\<rparr>, m_inc kEpochMismatchRejected s)
      else case find_lease (dsq_lease_id req) s of
        None \<Rightarrow> (\<lparr>dss_ok = False, dss_message = ''lease/owner/slot mismatch''\<rparr>, m_inc kLeaseOwnerMismatchRejected s)
      | Some L \<Rightarrow>
        if ls_owner_rank L \<noteq> dsq_rank_id req \<or> ls_base_slot L \<noteq> dsq_slot_id req
        then (\<lparr>dss_ok = False, dss_message = ''lease/owner/slot mismatch''\<rparr>, m_inc kLeaseOwnerMismatchRejected s)
        else if slot_state (ls_base_slot L) s \<noteq> OFLD_SLOT_RESERVED_D2H
        then (\<lparr>dss_ok = False, dss_message = ''not in RESERVED_D2H''\<rparr>, m_inc kInvalidTransitionRejected s)
        else (\<lparr>dss_ok = True, dss_message = ''ok''\<rparr>,
              m_add kInflightD2HBytes (ls_nbytes L)
                (submit_run (ls_base_slot L) (ls_slot_count L) (dsq_submit_seq req) OFLD_SLOT_D2H_IN_FLIGHT s)))"

definition handle_mark_d2h_complete ::
  "MarkD2HCompleteRequest \<Rightarrow> daemon \<Rightarrow> MarkD2HCompleteResponse \<times> daemon" where
  "handle_mark_d2h_complete req s =
     (case apply_d2h_complete (dcq_rank_id req) (dcq_rank_epoch req) (dcq_lease_id req) (dcq_tensor_id req)
             (dcq_version req) (dcq_slot_id req) (dcq_complete_seq req) s of
        ((ok, latest, enq), s1) \<Rightarrow>
          (\<lparr>dcs_ok = ok, dcs_message = (if ok then ''ok'' else ''rejected''), dcs_latest_version = latest,
            dcs_drain_enqueued = enq\<rparr>, s1))"

section \<open>Host-to-device\<close>

text \<open>An earlier prefetch of the same tensor and version that is under way or has landed.\<close>

definition prefetch_twin :: "u64 \<Rightarrow> u64 \<Rightarrow> daemon \<Rightarrow> Lease option" where
  "prefetch_twin tensor_id version s =
     find (\<lambda>L. ls_is_prefetch L \<and> ls_tensor_id L = tensor_id \<and> ls_version L = version \<and>
               (slot_state (ls_base_slot L) s = OFLD_SLOT_READBACK_IN_FLIGHT \<or>
                slot_state (ls_base_slot L) s = OFLD_SLOT_PINNED_VALID)) (map snd (d_leases s))"

definition prefetch_lease :: "RequestPrefetchRequest \<Rightarrow> u64 \<Rightarrow> u32 \<Rightarrow> u32 \<Rightarrow> u64 \<Rightarrow> u64 \<Rightarrow> u64 \<Rightarrow> Lease" where
  "prefetch_lease req lease_id base count version owner_pid nbytes =
     \<lparr>ls_lease_id = lease_id, ls_base_slot = base, ls_slot_count = count, ls_tensor_id = pfq_tensor_id req,
      ls_version = version, ls_owner_rank = pfq_rank_id req, ls_owner_pid = owner_pid,
      ls_rank_epoch = pfq_rank_epoch req, ls_nbytes = nbytes, ls_is_prefetch = True\<rparr>"

definition prefetch_reply ::
  "string \<Rightarrow> u64 \<Rightarrow> u32 \<Rightarrow> u64 \<Rightarrow> slot_state \<Rightarrow> bool \<Rightarrow> u64 \<Rightarrow> daemon \<Rightarrow> RequestPrefetchResponse" where
  "prefetch_reply msg lease_id base nbytes st ready version s =
     \<lparr>pfs_ok = True, pfs_message = msg, pfs_lease_id = lease_id, pfs_slot_id = base,
      pfs_arena_id = se_arena_id (at32 (d_slots s) base),
      pfs_arena_offset = se_arena_offset (at32 (d_slots s) base), pfs_nbytes = nbytes,
      pfs_state = slot_state_code st, pfs_ready = ready, pfs_version = version\<rparr>"

definition prefetch_refused :: "string \<Rightarrow> RequestPrefetchResponse" where
  "prefetch_refused msg = RequestPrefetchResponse_init\<lparr>pfs_ok := False, pfs_message := msg\<rparr>"

text \<open>The tail of \<^verbatim>\<open>handle_request_prefetch\<close>: bind the allocated run and queue its readback.\<close>

definition start_readback ::
  "RequestPrefetchRequest \<Rightarrow> Location \<Rightarrow> u64 \<Rightarrow> u64 \<Rightarrow> u64 \<Rightarrow> u32 \<Rightarrow> u32 \<Rightarrow> daemon \<Rightarrow>
   RequestPrefetchResponse \<times> daemon" where
  "start_readback req loc want owner_pid lease_id base count s =
     (let s1 = upd_run base count (\<lambda>k e. touch (now_real_ns s) OFLD_SLOT_READBACK_IN_FLIGHT
                 (e\<lparr>se_tensor_id := pfq_tensor_id req, se_version := want, se_lease_id := lease_id,
                    se_owner_rank := ucast (pfq_rank_id req), se_owner_pid := owner_pid,
                    se_rank_epoch := pfq_rank_epoch req,
                    se_nbytes := (if k = 0 then loc_nbytes loc else se_capacity e),
                    se_cold_ref := loc_cold_ref loc, se_flags := pfq_flags req\<rparr>)) s;
          s2 = put_lease lease_id (prefetch_lease req lease_id base count want owner_pid (loc_nbytes loc))
                 (m_add kUsedPinnedBytes (ucast count * gran s1) s1);
          s3 = m_inc kReadbacksStarted
                 (s2\<lparr>d_readback_queue := d_readback_queue s2 @
                     [\<lparr>rj_base_slot = base, rj_slot_count = count, rj_cold_ref = loc_cold_ref loc,
                       rj_nbytes = loc_nbytes loc\<rparr>]\<rparr>)
      in (prefetch_reply ''readback started'' lease_id base (loc_nbytes loc) OFLD_SLOT_READBACK_IN_FLIGHT
            False want s3, s3))"

definition prefetch_found :: "RequestPrefetchRequest \<Rightarrow> Location \<Rightarrow> u64 \<Rightarrow> RequestPrefetchResponse prog" where
  "prefetch_found req loc want s =
     (case prefetch_twin (pfq_tensor_id req) want s of
        Some L \<Rightarrow>
          let st = slot_state (ls_base_slot L) s; ready = (st = OFLD_SLOT_PINNED_VALID)
          in ret (prefetch_reply (if ready then ''ready'' else ''readback in flight'') (ls_lease_id L)
                    (ls_base_slot L) (ls_nbytes L) st ready want s) s
      | None \<Rightarrow>
          let owner_pid = session_pid (pfq_rank_id req) s;
              lease_id = d_next_lease_id s;
              s1 = s\<lparr>d_next_lease_id := lease_id + 1\<rparr>;
              count = slots_for_bytes (loc_nbytes loc) s1
          in if loc_kind loc = OFLD_LOC_PINNED \<and> slot_state (loc_slot_id loc) s1 = OFLD_SLOT_PINNED_VALID then
               let s2 = put_lease lease_id
                          (prefetch_lease req lease_id (loc_slot_id loc) count want owner_pid (loc_nbytes loc)) s1
               in ret (prefetch_reply ''ok'' lease_id (loc_slot_id loc) (loc_nbytes loc)
                         OFLD_SLOT_PINNED_VALID True want s2) s2
             else
               bnd (alloc_draining 65 (pfq_gpu_id req) (pfq_numa_node req) (loc_nbytes loc) (pfq_flags req))
                 (\<lambda>got s2. case got of
                    None \<Rightarrow> ret (prefetch_refused ''no pinned capacity for readback'') (m_inc kBlockedReservations s2)
                  | Some (base, ncount) \<Rightarrow> locked (start_readback req loc want owner_pid lease_id base count) s2) s1)"

definition handle_request_prefetch :: "RequestPrefetchRequest \<Rightarrow> RequestPrefetchResponse prog" where
  "handle_request_prefetch req s =
     (if \<not> epoch_valid (pfq_rank_id req) (pfq_rank_epoch req) s
      then ret (prefetch_refused ''epoch invalid'') (m_inc kEpochMismatchRejected s)
      else
        let s1 = m_inc kPrefetchRequests s in
        case t_find (d_locations s1) (pfq_tensor_id req) of
          None \<Rightarrow> ret (prefetch_refused ''unknown tensor'') s1
        | Some loc \<Rightarrow>
            let want = (if pfq_version req = 0 then loc_version loc else pfq_version req) in
            if want \<noteq> loc_version loc then ret (prefetch_refused ''requested version not latest/available'') s1
            else if loc_kind loc = OFLD_LOC_NONE \<or> loc_kind loc = OFLD_LOC_DELETED
            then ret (prefetch_refused ''tensor not resident'') s1
            else prefetch_found req loc want s1)"

definition handle_mark_h2d_submitted ::
  "MarkH2DSubmittedRequest \<Rightarrow> daemon \<Rightarrow> MarkH2DSubmittedResponse \<times> daemon" where
  "handle_mark_h2d_submitted req s =
     (if \<not> epoch_valid (hsq_rank_id req) (hsq_rank_epoch req) s
      then (\<lparr>hss_ok = False, hss_message = ''epoch invalid''\<rparr>, m_inc kEpochMismatchRejected s)
      else case find_lease (hsq_lease_id req) s of
        None \<Rightarrow> (\<lparr>hss_ok = False, hss_message = ''lease/owner/slot mismatch''\<rparr>, m_inc kLeaseOwnerMismatchRejected s)
      | Some L \<Rightarrow>
        if ls_owner_rank L \<noteq> hsq_rank_id req \<or> ls_base_slot L \<noteq> hsq_slot_id req
        then (\<lparr>hss_ok = False, hss_message = ''lease/owner/slot mismatch''\<rparr>, m_inc kLeaseOwnerMismatchRejected s)
        else if slot_state (ls_base_slot L) s \<noteq> OFLD_SLOT_PINNED_VALID
        then (\<lparr>hss_ok = False, hss_message = ''slot not PINNED_VALID''\<rparr>, m_inc kInvalidTransitionRejected s)
        else (\<lparr>hss_ok = True, hss_message = ''ok''\<rparr>,
              m_add kInflightH2DBytes (ls_nbytes L)
                (submit_run (ls_base_slot L) (ls_slot_count L) (hsq_submit_seq req) OFLD_SLOT_H2D_IN_FLIGHT s)))"

definition handle_mark_h2d_complete ::
  "MarkH2DCompleteRequest \<Rightarrow> daemon \<Rightarrow> MarkH2DCompleteResponse \<times> daemon" where
  "handle_mark_h2d_complete req s =
     (case apply_h2d_complete (hcq_rank_id req) (hcq_rank_epoch req) (hcq_lease_id req) (hcq_tensor_id req)
             (hcq_version req) (hcq_slot_id req) (hcq_keep_pinned req) (hcq_complete_seq req) s of
        (ok, s1) \<Rightarrow> (\<lparr>hcs_ok = ok, hcs_message = (if ok then ''ok'' else ''rejected'')\<rparr>, s1))"

section \<open>Leases, queries, batches\<close>

definition handle_release_lease :: "ReleaseLeaseRequest \<Rightarrow> daemon \<Rightarrow> ReleaseLeaseResponse \<times> daemon" where
  "handle_release_lease req s =
     (if \<not> epoch_valid (rlq_rank_id req) (rlq_rank_epoch req) s
      then (\<lparr>rls_ok = False, rls_message = ''epoch invalid''\<rparr>, m_inc kEpochMismatchRejected s)
      else case find_lease (rlq_lease_id req) s of
        None \<Rightarrow> (\<lparr>rls_ok = True, rls_message = ''already released''\<rparr>, s)
      | Some L \<Rightarrow>
        if ls_owner_rank L \<noteq> rlq_rank_id req
        then (\<lparr>rls_ok = False, rls_message = ''not lease owner''\<rparr>, m_inc kLeaseOwnerMismatchRejected s)
        else
          let base = ls_base_slot L; cnt = ls_slot_count L; tid = ls_tensor_id L; ver = ls_version L;
              st = slot_state base s
          in if st = OFLD_SLOT_PINNED_VALID \<or> st = OFLD_SLOT_RESERVED_D2H \<or> st = OFLD_SLOT_H2D_IN_FLIGHT \<or>
                st = OFLD_SLOT_D2H_IN_FLIGHT \<or> st = OFLD_SLOT_READBACK_IN_FLIGHT then
               let s1 = (case t_find (d_locations s) tid of
                           None \<Rightarrow> s
                         | Some l \<Rightarrow>
                             if loc_slot_id l = base \<and> loc_kind l = OFLD_LOC_PINNED \<and> loc_version l = ver
                             then put_location tid (l\<lparr>loc_kind := OFLD_LOC_NONE\<rparr>) s else s)
               in (\<lparr>rls_ok = True, rls_message = ''ok''\<rparr>, erase_lease (rlq_lease_id req) (free_slots base cnt s1))
             else (\<lparr>rls_ok = True, rls_message = ''ok (slot managed by drain)''\<rparr>, erase_lease (rlq_lease_id req) s))"

definition handle_query_location :: "LocationQueryRequest \<Rightarrow> daemon \<Rightarrow> LocationQueryResponse" where
  "handle_query_location req s =
     (case t_find (d_locations s) (lqq_tensor_id req) of
        None \<Rightarrow> LocationQueryResponse_init\<lparr>lqs_ok := False, lqs_message := ''unknown tensor''\<rparr>
      | Some loc \<Rightarrow>
          if lqq_version req \<noteq> 0 \<and> lqq_version req \<noteq> loc_version loc
          then LocationQueryResponse_init\<lparr>lqs_ok := False, lqs_message := ''version not latest''\<rparr>
          else \<lparr>lqs_ok = True, lqs_message = ''ok'', lqs_location_kind = location_kind_code (loc_kind loc),
                lqs_slot_id = loc_slot_id loc, lqs_nbytes = loc_nbytes loc, lqs_version = loc_version loc\<rparr>)"

text \<open>One completion of a batch.\<close>

definition apply_batch_entry :: "u32 \<Rightarrow> u64 \<Rightarrow> BatchCompletion \<Rightarrow> daemon \<Rightarrow> bool \<times> daemon" where
  "apply_batch_entry rank_id rank_epoch c s =
     (if bcn_event_type c = event_kD2HComplete then
        (case apply_d2h_complete rank_id rank_epoch (bcn_lease_id c) (bcn_tensor_id c) (bcn_version c)
                (bcn_slot_id c) (bcn_seq c) s of ((ok, latest, enq), s1) \<Rightarrow> (ok, s1))
      else if bcn_event_type c = event_kH2DComplete then
        apply_h2d_complete rank_id rank_epoch (bcn_lease_id c) (bcn_tensor_id c) (bcn_version c)
          (bcn_slot_id c) (bcn_keep_pinned c) (bcn_seq c) s
      else (False, m_inc kInvalidTransitionRejected s))"

fun batch_loop :: "u32 \<Rightarrow> u64 \<Rightarrow> BatchCompletion list \<Rightarrow> u32 \<Rightarrow> u32 \<Rightarrow> daemon \<Rightarrow> (u32 \<times> u32) \<times> daemon" where
  "batch_loop rank epoch [] accepted rejected s = ((accepted, rejected), s)"
| "batch_loop rank epoch (c # cs) accepted rejected s =
     (case apply_batch_entry rank epoch c s of
        (ok, s1) \<Rightarrow>
          if ok then batch_loop rank epoch cs (accepted + 1) rejected s1
          else batch_loop rank epoch cs accepted (rejected + 1) s1)"

definition handle_batch_complete :: "BatchCompleteRequest \<Rightarrow> daemon \<Rightarrow> BatchCompleteResponse \<times> daemon" where
  "handle_batch_complete req s =
     (case batch_loop (bcq_rank_id req) (bcq_rank_epoch req) (bcq_completions req) 0 0 s of
        ((accepted, rejected), s1) \<Rightarrow>
          (\<lparr>bcs_ok = True, bcs_message = ''ok'', bcs_accepted = accepted, bcs_rejected = rejected\<rparr>, s1))"

definition handle_get_stats :: "GetStatsRequest \<Rightarrow> daemon \<Rightarrow> GetStatsResponse" where
  "handle_get_stats req s =
     (case snapshot (d_counters s) (d_bw_samples s) of
        (keys, values) \<Rightarrow> \<lparr>gss_ok = True, gss_message = ''ok'', gss_keys = keys, gss_values = values\<rparr>)"

definition handle_shutdown :: "ShutdownRequest \<Rightarrow> daemon \<Rightarrow> ShutdownResponse \<times> daemon" where
  "handle_shutdown req s = (\<lparr>sds_ok = True, sds_message = ''shutting down''\<rparr>, s\<lparr>d_running := False\<rparr>)"

end
