(* ===== verification/Canonical.thy ===== *)
theory Canonical
  imports Handlers Protocol_V2
begin

text \<open>
  The canonical-object store of \<^verbatim>\<open>src/daemon/canonical.cpp\<close>: identity of a shard, job registration,
  attach-or-create, commit, and release of a rank's hold.
\<close>

section \<open>Identity\<close>

definition kCandidateBit :: u64 where
  "kCandidateBit = 0x4000000000000000"

definition candidate_tid :: "u64 \<Rightarrow> u64" where
  "candidate_tid seq = kCanonicalTidBit OR kCandidateBit OR seq"

text \<open>
  \<^verbatim>\<open>snprintf\<close> into 21 characters keeps 20 and the terminating zero, and the caller appends as many
  characters as the untruncated text has: after a 20-digit number a zero character takes the place
  of the colon.
\<close>

definition append_u64 :: "u64 \<Rightarrow> string" where
  "append_u64 v = (let d = digits (unat v) in d @ [if length d = 20 then char_of (0 :: nat) else CHR '':''])"

definition append_i64 :: "int \<Rightarrow> string" where
  "append_i64 v = (if v < 0 then CHR ''-'' # digits (nat (- v)) else digits (nat v)) @ '':''"

definition canonical_key_string :: "CanonicalTensorKeyWire \<Rightarrow> string" where
  "canonical_key_string k =
     append_u64 (jk_tenant_id (ck_job k)) @ append_u64 (jk_job_id (ck_job k)) @
     append_u64 (jk_launch_epoch (ck_job k)) @ append_u64 (ucast (ck_model_role k)) @
     append_u64 (ck_model_version k) @ append_u64 (ck_param_id k) @ append_u64 (ck_param_fqn_hash k) @
     append_u64 (ucast (ck_dtype k)) @ append_u64 (ucast (ck_layout k)) @ append_u64 (ck_nbytes k) @
     append_u64 (ck_shape_hash k) @ append_u64 (ck_stride_hash k) @ append_u64 (ucast (ck_pp_rank k)) @
     append_u64 (ucast (ck_tp_rank k)) @ append_u64 (ucast (ck_ep_rank k)) @
     append_u64 (ucast (ck_etp_rank k)) @ append_i64 (sint (ck_expert_id k)) @
     append_u64 (ck_shard_offset k) @ append_u64 (ck_shard_nbytes k)"

definition fnv_prime :: u64 where
  "fnv_prime = 1099511628211"

definition hash_bytes :: "bytes \<Rightarrow> u64 \<times> u64" where
  "hash_bytes bs =
     fold (\<lambda>b (h1, h2).
             let g = (h2 XOR ucast b) * fnv_prime
             in ((h1 XOR ucast b) * fnv_prime, push_bit 1 g OR drop_bit 63 g))
       bs (1469598103934665603, 1099511628211)"

definition quota_allows_pinned :: "JobRecord \<Rightarrow> u64 \<Rightarrow> bool" where
  "quota_allows_pinned job nbytes \<longleftrightarrow>
     job_max_pinned_bytes job = 0 \<or> job_pinned_bytes job + nbytes \<le> job_max_pinned_bytes job"

section \<open>Jobs\<close>

definition uid_wire :: "JobUID \<Rightarrow> string \<Rightarrow> JobKeyWire" where
  "uid_wire u name = \<lparr>jk_tenant_id = uid_tenant_id u, jk_job_id = uid_job_id u,
     jk_launch_epoch = uid_launch_epoch u, jk_job_name = name\<rparr>"

definition job_id_of :: "RegisterJobRequest \<Rightarrow> u64" where
  "job_id_of req =
     (if rjq_scheduler_job_id req \<noteq> 0 then rjq_scheduler_job_id req
      else let lo = fst (hash_bytes (map of_char (digits (unat (rjq_tenant_id req)) @ ''/'' @ rjq_job_name req)))
           in if lo \<noteq> 0 then lo else 1)"

definition live_job :: "u64 \<Rightarrow> u64 \<Rightarrow> daemon \<Rightarrow> JobRecord option" where
  "live_job tenant job_id s =
     find (\<lambda>ex. uid_tenant_id (job_uid ex) = tenant \<and> uid_job_id (job_uid ex) = job_id \<and>
                job_state ex \<noteq> kTerminated) (map snd (d_jobs s))"

definition handle_register_job :: "RegisterJobRequest \<Rightarrow> daemon \<Rightarrow> RegisterJobResponse \<times> daemon" where
  "handle_register_job req s =
     (if \<not> cfg_v2_enable_canonical_store (d_cfg s)
      then (RegisterJobResponse_init\<lparr>rjs_ok := False, rjs_message := ''canonical store disabled''\<rparr>, s)
      else case live_job (rjq_tenant_id req) (job_id_of req) s of
        Some ex \<Rightarrow>
          (\<lparr>rjs_ok = True, rjs_message = ''ok (joined existing job)'',
            rjs_job = uid_wire (job_uid ex) (job_name ex), rjs_control_generation = d_generation s\<rparr>, s)
      | None \<Rightarrow>
          let cfg = d_cfg s;
              epoch = (if cfg_v2_include_launch_epoch cfg then d_next_launch_epoch s else 1);
              s1 = (if cfg_v2_include_launch_epoch cfg then s\<lparr>d_next_launch_epoch := epoch + 1\<rparr> else s);
              uid = \<lparr>uid_tenant_id = rjq_tenant_id req, uid_job_id = job_id_of req, uid_launch_epoch = epoch\<rparr>;
              jr = \<lparr>job_uid = uid, job_name = rjq_job_name req, job_state = kRunning, job_priority = 0,
                    job_created_ns = now_real_ns s, job_heartbeat_ns = now_real_ns s, job_pinned_bytes = 0,
                    job_pageable_bytes = 0, job_nvme_bytes = 0, job_inflight_d2h_bytes = 0,
                    job_inflight_export_bytes = 0, job_canonical_object_count = 0,
                    job_max_pinned_bytes = cfg_v2_quota_max_pinned_bytes cfg,
                    job_max_pageable_bytes = cfg_v2_quota_max_pageable_bytes cfg,
                    job_max_nvme_bytes = cfg_v2_quota_max_nvme_bytes cfg,
                    job_max_inflight_d2h_bytes = cfg_v2_quota_max_inflight_d2h_bytes cfg,
                    job_max_inflight_export_bytes = cfg_v2_quota_max_inflight_export_bytes cfg\<rparr>;
              s2 = m_inc kJobsRegistered (s1\<lparr>d_jobs := t_put uid jr (d_jobs s1)\<rparr>)
          in (\<lparr>rjs_ok = True, rjs_message = ''ok'', rjs_job = uid_wire uid (rjq_job_name req),
               rjs_control_generation = d_generation s2\<rparr>, s2))"

section \<open>Attach or create\<close>

definition evict_refused :: "attach_action \<Rightarrow> string \<Rightarrow> RequestCanonicalEvictResponse" where
  "evict_refused action msg =
     RequestCanonicalEvictResponse_init\<lparr>ces_ok := False, ces_message := msg, ces_action := attach_action_code action\<rparr>"

text \<open>The lambda \<^verbatim>\<open>reserve\<close>: lease, base slot and slot count of a run for the shard, within the job's quota.\<close>

definition reserve_canonical :: "RequestCanonicalEvictRequest \<Rightarrow> u64 \<Rightarrow> u64 \<Rightarrow> (u64 \<times> u32 \<times> u32) option prog" where
  "reserve_canonical req tid version s =
     (let uid = wire_uid (ck_job (ceq_key req)); nbytes = ck_nbytes (ceq_key req) in
      if \<not> (case find_job uid s of None \<Rightarrow> False | Some job \<Rightarrow> quota_allows_pinned job nbytes)
      then ret None (m_inc kQuotaRejections s)
      else
        let count = slots_for_bytes nbytes s
        in bnd (alloc_draining 65 (ceq_gpu_id req) (ceq_numa_node req) nbytes OFLD_FLAG_DESTRUCTIVE)
             (\<lambda>got s1. case got of
                None \<Rightarrow> ret None (m_inc kBlockedReservations s1)
              | Some (base, ncount) \<Rightarrow>
                  let lease_id = d_next_lease_id s1;
                      pid = session_pid (ceq_rank_id req) s1;
                      s2 = reserve_run base count tid version lease_id (ceq_rank_id req) pid (ceq_rank_epoch req)
                             nbytes OFLD_FLAG_DESTRUCTIVE (s1\<lparr>d_next_lease_id := lease_id + 1\<rparr>);
                      L = \<lparr>ls_lease_id = lease_id, ls_base_slot = base, ls_slot_count = count, ls_tensor_id = tid,
                           ls_version = version, ls_owner_rank = ceq_rank_id req, ls_owner_pid = pid,
                           ls_rank_epoch = ceq_rank_epoch req, ls_nbytes = nbytes, ls_is_prefetch = False\<rparr>
                  in ret (Some (lease_id, base, count))
                       (modify_job uid (\<lambda>j. j\<lparr>job_pinned_bytes := job_pinned_bytes j + nbytes\<rparr>)
                          (put_lease lease_id L s2))) s)"

text \<open>\<^verbatim>\<open>fill_slot_resp\<close> on top of the action, the object and the lease.\<close>

definition evict_granted ::
  "RequestCanonicalEvictRequest \<Rightarrow> attach_action \<Rightarrow> string \<Rightarrow> u64 \<Rightarrow> u64 \<Rightarrow> u32 \<Rightarrow> u64 \<Rightarrow> daemon \<Rightarrow>
   RequestCanonicalEvictResponse" where
  "evict_granted req action msg object_id lease_id base tid s =
     \<lparr>ces_ok = True, ces_message = msg, ces_action = attach_action_code action, ces_object_id = object_id,
      ces_lease_id = lease_id, ces_slot_id = base, ces_arena_id = se_arena_id (at32 (d_slots s) base),
      ces_arena_offset = se_arena_offset (at32 (d_slots s) base),
      ces_capacity = ucast (slots_for_bytes (ck_nbytes (ceq_key req)) s) * gran s, ces_synthetic_tid = tid\<rparr>"

text \<open>
  A throwaway candidate run beside the existing object \<open>oid\<close>. The object's row is read after the
  reservation, which may have released the mutex.
\<close>

definition evict_candidate ::
  "RequestCanonicalEvictRequest \<Rightarrow> u64 \<Rightarrow> string \<Rightarrow> string \<Rightarrow> RequestCanonicalEvictResponse prog" where
  "evict_candidate req oid full_msg ok_msg s =
     (let seq = d_next_object_id s; tid = candidate_tid seq
      in bnd (reserve_canonical req tid 1)
           (\<lambda>got s1. case got of
              None \<Rightarrow> ret (evict_refused ATTACH_ACTION_QUOTA_EXCEEDED full_msg) s1
            | Some (lease_id, base, count) \<Rightarrow>
                (case find_object oid s1 of
                   None \<Rightarrow> (Crash, s1)
                 | Some ob \<Rightarrow>
                     ret (evict_granted req ATTACH_ACTION_DUPLICATE_CANDIDATE ok_msg (obj_object_id ob) lease_id base tid s1)
                       (m_inc kCanonicalDuplicateCandidate s1)))
           (s\<lparr>d_next_object_id := seq + 1\<rparr>))"

definition obj_readable :: "CanonicalObject \<Rightarrow> bool" where
  "obj_readable ob \<longleftrightarrow>
     obj_state ob = OBJ_VALID_PINNED \<or> obj_state ob = OBJ_VALID_PAGEABLE \<or> obj_state ob = OBJ_VALID_NVME \<or>
     obj_state ob = OBJ_VALID_MULTI_TIER \<or> obj_state ob = OBJ_SEALED \<or> obj_state ob = OBJ_EXPORT_IN_FLIGHT"

definition attach_existing ::
  "RequestCanonicalEvictRequest \<Rightarrow> CanonicalObject \<Rightarrow> daemon \<Rightarrow> RequestCanonicalEvictResponse \<times> daemon" where
  "attach_existing req ob s =
     (let ob1 = (add_holder (ceq_rank_id req) ob)\<lparr>obj_last_access_ns := now_real_ns s\<rparr>;
          nbytes = ck_nbytes (ceq_key req)
      in (RequestCanonicalEvictResponse_init\<lparr>ces_ok := True, ces_message := ''attached existing'',
            ces_action := attach_action_code ATTACH_ACTION_ATTACHED_EXISTING, ces_object_id := obj_object_id ob\<rparr>,
          m_add kCanonicalD2HBytesAvoided nbytes
            (m_add kCanonicalDedupBytesSaved nbytes
               (m_inc kCanonicalAttachExisting (put_object (obj_object_id ob) ob1 s)))))"

definition new_object :: "RequestCanonicalEvictRequest \<Rightarrow> u64 \<Rightarrow> u64 \<Rightarrow> u32 \<Rightarrow> u32 \<Rightarrow> u64 \<Rightarrow> CanonicalObject" where
  "new_object req object_id lease_id base count now =
     \<lparr>obj_object_id = object_id, obj_key = ceq_key req, obj_key_str = canonical_key_string (ceq_key req),
      obj_nbytes = ck_nbytes (ceq_key req), obj_state = OBJ_CREATING, obj_refcount = 1,
      obj_export_refcount = 0, obj_restore_refcount = 0, obj_producer_rank = ceq_rank_id req, obj_flags = 0,
      obj_holders = [ceq_rank_id req], obj_content_hash_lo = 0, obj_content_hash_hi = 0,
      obj_synthetic_tid = canonical_tid object_id, obj_version = 1, obj_lease_id = lease_id,
      obj_base_slot = base, obj_slot_count = count, obj_creating_rank = ceq_rank_id req,
      obj_created_ns = now, obj_sealed_ns = 0, obj_last_access_ns = now\<rparr>"

definition evict_create :: "RequestCanonicalEvictRequest \<Rightarrow> RequestCanonicalEvictResponse prog" where
  "evict_create req s =
     (let object_id = d_next_object_id s; tid = canonical_tid object_id
      in bnd (reserve_canonical req tid 1)
           (\<lambda>got s1. case got of
              None \<Rightarrow> ret (evict_refused ATTACH_ACTION_QUOTA_EXCEEDED ''no pinned capacity / quota'') s1
            | Some (lease_id, base, count) \<Rightarrow>
                let ob = new_object req object_id lease_id base count (now_real_ns s1);
                    s2 = put_object object_id ob s1;
                    s3 = s2\<lparr>d_object_by_key := t_put (obj_key_str ob) object_id (d_object_by_key s2)\<rparr>;
                    s4 = modify_job (wire_uid (ck_job (ceq_key req)))
                           (\<lambda>j. j\<lparr>job_canonical_object_count := job_canonical_object_count j + 1\<rparr>) s3
                in ret (evict_granted req ATTACH_ACTION_NEED_D2H_CREATE ''need d2h create'' object_id lease_id base tid s4)
                     (m_inc kCanonicalObjectsCreated s4))
           (s\<lparr>d_next_object_id := object_id + 1\<rparr>))"

definition version_sealed :: "VersionKey \<Rightarrow> daemon \<Rightarrow> bool" where
  "version_sealed vk s \<longleftrightarrow>
     (case t_find (d_manifests s) vk of None \<Rightarrow> False | Some m \<Rightarrow> man_state m = MANIFEST_SEALED)"

text \<open>The branches of \<^verbatim>\<open>handle_request_canonical_evict\<close> once the job and the version are accepted.\<close>

definition evict_shard :: "RequestCanonicalEvictRequest \<Rightarrow> RequestCanonicalEvictResponse prog" where
  "evict_shard req s =
     (case find_object_by_key (canonical_key_string (ceq_key req)) s of
        Some ob \<Rightarrow>
          if obj_nbytes ob \<noteq> ck_nbytes (ceq_key req)
          then ret (evict_refused ATTACH_ACTION_ERROR ''nbytes mismatch vs existing object'') s
          else if obj_readable ob then
            (if \<not> ceq_attach_if_exists req
             then ret (evict_refused ATTACH_ACTION_ERROR ''exists but attach disabled'') s
             else if \<not> (ceq_dedup_mode req = DEDUP_HASH_VERIFIED \<or> ceq_dedup_mode req = DEDUP_SAMPLED_HASH)
             then locked (attach_existing req ob) s
             else evict_candidate req (obj_object_id ob) ''no capacity for verify candidate''
                    ''verify candidate (hash)'' s)
          else if obj_state ob = OBJ_CREATING then
            (let pressure_hi = at_least (pinned_pressure s) (cfg_v2_duplicate_candidate_gpu_pressure_threshold (d_cfg s));
                 want_dup = (ceq_allow_duplicate_candidate req \<or> (cfg_v2_creating_policy (d_cfg s) = 1 \<and> pressure_hi))
             in if \<not> want_dup then
                  ret (RequestCanonicalEvictResponse_init\<lparr>ces_ok := True, ces_message := ''wait for creator'',
                         ces_action := attach_action_code ATTACH_ACTION_WAIT_FOR_CREATOR,
                         ces_object_id := obj_object_id ob\<rparr>) (m_inc kCanonicalAttachWait s)
                else evict_candidate req (obj_object_id ob) ''no capacity for duplicate candidate''
                       ''duplicate candidate'' s)
          else if \<not> ceq_create_if_missing req
          then ret (evict_refused ATTACH_ACTION_ERROR ''missing and create disabled'') s
          else evict_create req s
      | None \<Rightarrow>
          if \<not> ceq_create_if_missing req
          then ret (evict_refused ATTACH_ACTION_ERROR ''missing and create disabled'') s
          else evict_create req s)"

definition handle_request_canonical_evict ::
  "RequestCanonicalEvictRequest \<Rightarrow> RequestCanonicalEvictResponse prog" where
  "handle_request_canonical_evict req s =
     (if \<not> cfg_v2_enable_canonical_store (d_cfg s)
      then ret (evict_refused ATTACH_ACTION_ERROR ''canonical store disabled'') s
      else if \<not> epoch_valid (ceq_rank_id req) (ceq_rank_epoch req) s
      then ret (evict_refused ATTACH_ACTION_ERROR ''epoch invalid'') (m_inc kEpochMismatchRejected s)
      else case find_job_by_wire (ck_job (ceq_key req)) s of
        None \<Rightarrow> ret (evict_refused ATTACH_ACTION_ERROR ''job not registered'') s
      | Some job \<Rightarrow>
          if version_sealed \<lparr>vk_job = job_uid job, vk_model_role = ck_model_role (ceq_key req),
                             vk_model_version = ck_model_version (ceq_key req)\<rparr> s
          then ret (evict_refused ATTACH_ACTION_REJECTED_STALE_VERSION ''model_version already sealed'')
                 (m_inc kCanonicalStaleVersionReject s)
          else evict_shard req s)"

section \<open>Commit\<close>

definition commit_reply :: "CommitCanonicalObjectRequest \<Rightarrow> bool \<Rightarrow> bool \<Rightarrow> string \<Rightarrow> CommitCanonicalObjectResponse" where
  "commit_reply req ok won msg =
     \<lparr>ccs_ok = ok, ccs_message = msg, ccs_object_id = ccq_object_id req, ccs_won = won\<rparr>"

text \<open>The object state that names the tier of the bytes.\<close>

definition tier_state :: "location_kind \<Rightarrow> object_state" where
  "tier_state k =
     (case k of OFLD_LOC_PAGEABLE \<Rightarrow> OBJ_VALID_PAGEABLE | OFLD_LOC_NVME \<Rightarrow> OBJ_VALID_NVME | _ \<Rightarrow> OBJ_VALID_PINNED)"

definition commit_creator ::
  "CommitCanonicalObjectRequest \<Rightarrow> CanonicalObject \<Rightarrow> daemon \<Rightarrow> CommitCanonicalObjectResponse \<times> daemon" where
  "commit_creator req ob s =
     (case t_find (d_locations s) (obj_synthetic_tid ob) of
        None \<Rightarrow> (commit_reply req False False ''object bytes not yet valid'', m_inc kInvalidTransitionRejected s)
      | Some l \<Rightarrow>
          if loc_kind l = OFLD_LOC_NONE \<or> loc_kind l = OFLD_LOC_DELETED
          then (commit_reply req False False ''object bytes not yet valid'', m_inc kInvalidTransitionRejected s)
          else (commit_reply req True True ''committed'',
                put_object (obj_object_id ob)
                  (ob\<lparr>obj_content_hash_lo := ccq_content_hash_lo req, obj_content_hash_hi := ccq_content_hash_hi req,
                      obj_state := tier_state (loc_kind l), obj_creating_rank := none32,
                      obj_last_access_ns := now_real_ns s\<rparr>) s))"

definition hashes_agree :: "CommitCanonicalObjectRequest \<Rightarrow> CanonicalObject \<Rightarrow> bool" where
  "hashes_agree req ob \<longleftrightarrow>
     (if (obj_content_hash_lo ob \<noteq> 0 \<or> obj_content_hash_hi ob \<noteq> 0) \<and>
         (ccq_content_hash_lo req \<noteq> 0 \<or> ccq_content_hash_hi req \<noteq> 0)
      then obj_content_hash_lo ob = ccq_content_hash_lo req \<and> obj_content_hash_hi ob = ccq_content_hash_hi req
      else True)"

text \<open>Free the candidate's run, its throwaway location and its lease.\<close>

definition discard_candidate :: "CommitCanonicalObjectRequest \<Rightarrow> CanonicalObject \<Rightarrow> daemon \<Rightarrow> daemon" where
  "discard_candidate req ob s =
     (case find_lease (ccq_lease_id req) s of
        None \<Rightarrow> s
      | Some L \<Rightarrow>
          let st = slot_state (ls_base_slot L) s;
              s1 = (if st = OFLD_SLOT_PINNED_VALID \<or> st = OFLD_SLOT_RESERVED_D2H \<or> st = OFLD_SLOT_D2H_IN_FLIGHT
                    then free_slots (ls_base_slot L) (ls_slot_count L) s else s);
              s2 = erase_lease (ccq_lease_id req) (erase_location (ls_tensor_id L) s1)
          in modify_job (wire_uid (ck_job (obj_key ob)))
               (\<lambda>j. if job_pinned_bytes j \<ge> obj_nbytes ob
                    then j\<lparr>job_pinned_bytes := job_pinned_bytes j - obj_nbytes ob\<rparr> else j) s2)"

definition commit_candidate ::
  "CommitCanonicalObjectRequest \<Rightarrow> CanonicalObject \<Rightarrow> daemon \<Rightarrow> CommitCanonicalObjectResponse \<times> daemon" where
  "commit_candidate req ob s =
     (let obj_valid = (obj_state ob \<noteq> OBJ_CREATING \<and> obj_state ob \<noteq> OBJ_MISSING \<and> obj_state ob \<noteq> OBJ_ERROR \<and>
                       obj_state ob \<noteq> OBJ_DELETED);
          hash_ok = (if obj_valid then hashes_agree req ob else True);
          s1 = discard_candidate req ob s
      in if \<not> obj_valid then (commit_reply req False False ''canonical object not valid for attach'', s1)
         else if \<not> hash_ok then
           (commit_reply req False False ''content hash mismatch (corrupt replica)'',
            m_inc kChecksumMismatch (m_inc kCanonicalHashMismatch s1))
         else
           (commit_reply req True False ''attached after verify'',
            m_add kCanonicalDedupBytesSaved (obj_nbytes ob)
              (m_inc kCanonicalAttachExisting
                 (put_object (obj_object_id ob)
                    ((add_holder (ccq_rank_id req) ob)\<lparr>obj_last_access_ns := now_real_ns s\<rparr>) s1))))"

definition handle_commit_canonical_object ::
  "CommitCanonicalObjectRequest \<Rightarrow> daemon \<Rightarrow> CommitCanonicalObjectResponse \<times> daemon" where
  "handle_commit_canonical_object req s =
     (if \<not> cfg_v2_enable_canonical_store (d_cfg s)
      then (commit_reply req False False ''canonical store disabled'', s)
      else if \<not> epoch_valid (ccq_rank_id req) (ccq_rank_epoch req) s
      then (commit_reply req False False ''epoch invalid'', m_inc kEpochMismatchRejected s)
      else case find_object (ccq_object_id req) s of
        None \<Rightarrow> (commit_reply req False False ''unknown object'', s)
      | Some ob \<Rightarrow>
          if obj_state ob = OBJ_CREATING \<and> obj_lease_id ob = ccq_lease_id req
          then commit_creator req ob s else commit_candidate req ob s)"

section \<open>Release\<close>

definition same_job :: "JobUID \<Rightarrow> JobKeyWire \<Rightarrow> bool" where
  "same_job uid jk \<longleftrightarrow>
     jk_tenant_id jk = uid_tenant_id uid \<and> jk_job_id jk = uid_job_id uid \<and> jk_launch_epoch jk = uid_launch_epoch uid"

definition version_members :: "JobUID \<Rightarrow> u32 \<Rightarrow> u64 \<Rightarrow> daemon \<Rightarrow> CanonicalObject list" where
  "version_members uid role version s =
     filter (\<lambda>ob. same_job uid (ck_job (obj_key ob)) \<and> ck_model_role (obj_key ob) = role \<and>
                  ck_model_version (obj_key ob) = version) (map snd (d_objects s))"

text \<open>One object: drop this rank's hold, then reclaim the object if that was the last.\<close>

definition release_hold ::
  "u32 \<Rightarrow> u64 \<Rightarrow> ReleaseCanonicalResponse \<times> daemon \<Rightarrow> ReleaseCanonicalResponse \<times> daemon" where
  "release_hold rank oid rs =
     (case rs of (resp, s) \<Rightarrow>
        (case find_object oid s of
           None \<Rightarrow> (resp, s)
         | Some ob \<Rightarrow>
             if rank \<notin> set (obj_holders ob) then (resp, s)
             else
               let ob1 = drop_holder rank ob;
                   resp1 = resp\<lparr>rcs_released_count := rcs_released_count resp + 1\<rparr>
               in case maybe_free_object ob1 (put_object oid ob1 s) of
                    (freed, s1) \<Rightarrow>
                      if freed then (resp1\<lparr>rcs_freed_count := rcs_freed_count resp1 + 1,
                                           rcs_bytes_freed := rcs_bytes_freed resp1 + obj_nbytes ob\<rparr>, s1)
                      else (resp1, s1)))"

definition handle_release_canonical :: "ReleaseCanonicalRequest \<Rightarrow> daemon \<Rightarrow> ReleaseCanonicalResponse \<times> daemon" where
  "handle_release_canonical req s =
     (if \<not> cfg_v2_enable_canonical_store (d_cfg s)
      then (ReleaseCanonicalResponse_init\<lparr>rcs_ok := False, rcs_message := ''canonical store disabled''\<rparr>, s)
      else if \<not> epoch_valid (rcq_rank_id req) (rcq_rank_epoch req) s
      then (ReleaseCanonicalResponse_init\<lparr>rcs_ok := False, rcs_message := ''epoch invalid''\<rparr>, m_inc kEpochMismatchRejected s)
      else case find_job_by_wire (rcq_job req) s of
        None \<Rightarrow> (ReleaseCanonicalResponse_init\<lparr>rcs_ok := False, rcs_message := ''job not registered''\<rparr>, s)
      | Some job \<Rightarrow>
          let ids = (if rcq_object_id req \<noteq> 0 then [rcq_object_id req]
                     else map obj_object_id
                            (version_members (job_uid job) (rcq_model_role req) (rcq_model_version req) s))
          in case fold (release_hold (rcq_rank_id req)) ids (ReleaseCanonicalResponse_init, s) of
               (resp, s1) \<Rightarrow> (resp\<lparr>rcs_ok := True, rcs_message := ''ok''\<rparr>, s1))"

end
