(* ===== verification/Rollout.thy ===== *)
theory Rollout
  imports Canonical
begin

text \<open>
  Sealing, publishing and dropping of model versions and the garbage collection of their objects
  (\<^verbatim>\<open>src/daemon/canonical_rollout.cpp\<close>).
\<close>

section \<open>Garbage collection\<close>

text \<open>Release a list of objects; did every one of them go?\<close>

definition release_members :: "u64 list \<Rightarrow> daemon \<Rightarrow> bool \<times> daemon" where
  "release_members ids s =
     fold (\<lambda>oid (all_freed, s).
             case find_object oid s of
               None \<Rightarrow> (all_freed, s)
             | Some ob \<Rightarrow> (case release_object ob s of (freed, s1) \<Rightarrow> (all_freed \<and> freed, s1)))
       ids (True, s)"

definition sealed_versions :: "JobUID \<Rightarrow> u32 \<Rightarrow> daemon \<Rightarrow> u64 list" where
  "sealed_versions uid role s =
     rev (sort (map (\<lambda>(k, m). vk_model_version k)
       (filter (\<lambda>(k, m). vk_job k = uid \<and> vk_model_role k = role \<and> man_state m = MANIFEST_SEALED) (d_manifests s))))"

definition drop_version :: "JobUID \<Rightarrow> u32 \<Rightarrow> u64 \<Rightarrow> daemon \<Rightarrow> daemon" where
  "drop_version uid role ver s =
     (case release_members (map obj_object_id (version_members uid role ver s)) s of
        (all_freed, s1) \<Rightarrow>
          if all_freed
          then s1\<lparr>d_manifests := t_erase \<lparr>vk_job = uid, vk_model_role = role, vk_model_version = ver\<rparr> (d_manifests s1)\<rparr>
          else s1)"

definition enforce_sealed_retention :: "JobUID \<Rightarrow> u32 \<Rightarrow> daemon \<Rightarrow> daemon" where
  "enforce_sealed_retention uid role s =
     (let keep = unat (cfg_v2_retain_sealed_versions (d_cfg s));
          sealed = sealed_versions uid role s;
          latest = (case t_find (d_latest_sealed s) \<lparr>rk_job = uid, rk_model_role = role\<rparr> of None \<Rightarrow> 0 | Some v \<Rightarrow> v)
      in if keep = 0 \<or> length sealed \<le> keep then s
         else fold (\<lambda>ver s. if ver = latest then s else drop_version uid role ver s) (drop keep sealed) s)"

section \<open>Seal and publish\<close>

definition mix :: "u64 \<Rightarrow> u64 \<times> u64 \<Rightarrow> u64 \<times> u64" where
  "mix v h = ((fst h XOR v) * fnv_prime, (snd h XOR (v + 0x9e3779b97f4a7c15)) * fnv_prime)"

definition mix_object :: "CanonicalObject \<Rightarrow> u64 \<times> u64 \<Rightarrow> u64 \<times> u64" where
  "mix_object ob h =
     mix (obj_nbytes ob) (mix (obj_content_hash_hi ob) (mix (obj_content_hash_lo ob) (mix (obj_object_id ob) h)))"

text \<open>The loop that hashes and freezes the members.\<close>

definition seal_members :: "u64 list \<Rightarrow> daemon \<Rightarrow> (u64 \<times> u64) \<times> daemon" where
  "seal_members ids s =
     fold (\<lambda>oid (h, s).
             case find_object oid s of
               None \<Rightarrow> (h, s)
             | Some ob \<Rightarrow>
                 (mix_object (ob\<lparr>obj_object_id := oid\<rparr>) h,
                  put_object oid (ob\<lparr>obj_state := OBJ_SEALED, obj_sealed_ns := now_real_ns s\<rparr>) s))
       ids ((1469598103934665603, 1099511628211), s)"

definition params_covered :: "u64 list \<Rightarrow> u64 list \<Rightarrow> daemon \<Rightarrow> bool" where
  "params_covered pids ids s \<longleftrightarrow>
     list_all (\<lambda>pid. list_ex (\<lambda>oid. case find_object oid s of None \<Rightarrow> False | Some ob \<Rightarrow> ck_param_id (obj_key ob) = pid) ids)
       pids"

definition open_manifest :: "SealModelVersionRequest \<Rightarrow> JobUID \<Rightarrow> CanonicalObject list \<Rightarrow> daemon \<Rightarrow> Manifest" where
  "open_manifest req uid members s =
     \<lparr>man_job = uid, man_model_role = smq_model_role req, man_model_version = smq_model_version req,
      man_state = MANIFEST_SEALING, man_object_ids = map obj_object_id members,
      man_total_nbytes = sum_list (map obj_nbytes members), man_created_ns = now_real_ns s,
      man_sealed_ns = 0, man_manifest_hash_lo = 0, man_manifest_hash_hi = 0\<rparr>"

definition seal_reply :: "bool \<Rightarrow> manifest_state \<Rightarrow> string \<Rightarrow> SealModelVersionResponse" where
  "seal_reply ok st msg =
     SealModelVersionResponse_init\<lparr>sms_ok := ok, sms_state := manifest_state_code st, sms_message := msg\<rparr>"

definition sealed_reply :: "string \<Rightarrow> Manifest \<Rightarrow> SealModelVersionResponse" where
  "sealed_reply msg man =
     \<lparr>sms_ok = True, sms_message = msg, sms_state = manifest_state_code MANIFEST_SEALED,
      sms_tensor_count = of_nat (length (man_object_ids man)), sms_total_nbytes = man_total_nbytes man,
      sms_manifest_hash_lo = man_manifest_hash_lo man, sms_manifest_hash_hi = man_manifest_hash_hi man\<rparr>"

definition seal_version :: "SealModelVersionRequest \<Rightarrow> JobUID \<Rightarrow> VersionKey \<Rightarrow> daemon \<Rightarrow> SealModelVersionResponse \<times> daemon" where
  "seal_version req uid vk s =
     (let members = version_members uid (smq_model_role req) (smq_model_version req) s;
          valid = filter obj_readable members;
          man = open_manifest req uid valid s;
          any_invalid = (\<not> list_all obj_readable members \<or>
                         \<not> params_covered (smq_expected_param_ids req) (man_object_ids man) s)
      in if cfg_v2_seal_requires_all_objects_valid (d_cfg s) \<and> smq_fail_if_missing req \<and> any_invalid then
           (seal_reply False MANIFEST_ERROR ''seal failed: required objects missing/invalid'',
            m_inc kManifestSealFailed
              (s\<lparr>d_manifests := t_put vk (man\<lparr>man_state := MANIFEST_ERROR\<rparr>) (d_manifests s)\<rparr>))
         else
           let ids = sort (man_object_ids man)
           in case seal_members ids s of
                ((lo, hi), s1) \<Rightarrow>
                  let man1 = man\<lparr>man_object_ids := ids, man_manifest_hash_lo := lo, man_manifest_hash_hi := hi,
                                 man_state := MANIFEST_SEALED, man_sealed_ns := now_real_ns s\<rparr>;
                      s2 = m_inc kManifestSealed (s1\<lparr>d_manifests := t_put vk man1 (d_manifests s1)\<rparr>);
                      s3 = (if smq_promote req then
                              enforce_sealed_retention uid (smq_model_role req)
                                (s2\<lparr>d_latest_sealed := t_put \<lparr>rk_job = uid, rk_model_role = smq_model_role req\<rparr>
                                     (smq_model_version req) (d_latest_sealed s2)\<rparr>)
                            else s2)
                  in (sealed_reply ''sealed'' man1, s3))"

definition handle_seal_model_version :: "SealModelVersionRequest \<Rightarrow> daemon \<Rightarrow> SealModelVersionResponse \<times> daemon" where
  "handle_seal_model_version req s =
     (if \<not> cfg_v2_enable_canonical_store (d_cfg s) \<or> \<not> cfg_v2_enable_manifests (d_cfg s)
      then (seal_reply False MANIFEST_ERROR ''manifests disabled'', s)
      else case find_job_by_wire (smq_job req) s of
        None \<Rightarrow> (seal_reply False MANIFEST_ERROR ''job not registered'', s)
      | Some job \<Rightarrow>
          let vk = \<lparr>vk_job = job_uid job, vk_model_role = smq_model_role req, vk_model_version = smq_model_version req\<rparr>
          in case t_find (d_manifests s) vk of
               Some man \<Rightarrow>
                 if man_state man = MANIFEST_SEALED then (sealed_reply ''already sealed'' man, s)
                 else seal_version req (job_uid job) vk s
             | None \<Rightarrow> seal_version req (job_uid job) vk s)"

definition handle_get_latest_sealed_version ::
  "GetLatestSealedVersionRequest \<Rightarrow> daemon \<Rightarrow> GetLatestSealedVersionResponse" where
  "handle_get_latest_sealed_version req s =
     (case find_job_by_wire (glq_job req) s of
        None \<Rightarrow> GetLatestSealedVersionResponse_init\<lparr>gls_ok := False, gls_message := ''job not registered''\<rparr>
      | Some job \<Rightarrow>
          (case t_find (d_latest_sealed s) \<lparr>rk_job = job_uid job, rk_model_role = glq_model_role req\<rparr> of
             None \<Rightarrow> GetLatestSealedVersionResponse_init\<lparr>gls_ok := True, gls_found := False,
                        gls_message := ''no sealed version promoted''\<rparr>
           | Some v \<Rightarrow> \<lparr>gls_ok = True, gls_message = ''ok'', gls_found = True, gls_model_version = v\<rparr>))"

definition loc_hint :: "location_kind \<Rightarrow> string" where
  "loc_hint k =
     (case k of OFLD_LOC_PINNED \<Rightarrow> ''pinned'' | OFLD_LOC_PAGEABLE \<Rightarrow> ''pageable'' | OFLD_LOC_NVME \<Rightarrow> ''nvme''
      | OFLD_LOC_GPU \<Rightarrow> ''gpu'' | _ \<Rightarrow> ''none'')"

definition filter_matches :: "ManifestFilterWire \<Rightarrow> CanonicalTensorKeyWire \<Rightarrow> bool" where
  "filter_matches f k \<longleftrightarrow>
     \<not> (mfw_pp_present f \<and> ck_pp_rank k \<noteq> mfw_pp_rank f) \<and> \<not> (mfw_tp_present f \<and> ck_tp_rank k \<noteq> mfw_tp_rank f) \<and>
     \<not> (mfw_ep_present f \<and> ck_ep_rank k \<noteq> mfw_ep_rank f) \<and> \<not> (mfw_etp_present f \<and> ck_etp_rank k \<noteq> mfw_etp_rank f) \<and>
     \<not> (mfw_expert_present f \<and> ck_expert_id k \<noteq> mfw_expert_id f)"

definition manifest_entry :: "u64 \<Rightarrow> CanonicalObject \<Rightarrow> daemon \<Rightarrow> TensorManifestEntryWire" where
  "manifest_entry oid ob s =
     \<lparr>tme_key = obj_key ob, tme_object_id = oid, tme_nbytes = obj_nbytes ob,
      tme_content_hash_lo = obj_content_hash_lo ob, tme_content_hash_hi = obj_content_hash_hi ob,
      tme_location_hint = loc_hint (case t_find (d_locations s) (obj_synthetic_tid ob) of
                                      None \<Rightarrow> OFLD_LOC_NONE | Some l \<Rightarrow> loc_kind l)\<rparr>"

definition manifest_tensors :: "ManifestFilterWire \<Rightarrow> u64 list \<Rightarrow> daemon \<Rightarrow> TensorManifestEntryWire list" where
  "manifest_tensors f ids s =
     concat (map (\<lambda>oid. case find_object oid s of
                          None \<Rightarrow> []
                        | Some ob \<Rightarrow> if filter_matches f (obj_key ob) then [manifest_entry oid ob s] else []) ids)"

definition handle_get_manifest :: "GetManifestRequest \<Rightarrow> daemon \<Rightarrow> GetManifestResponse \<times> daemon" where
  "handle_get_manifest req s =
     (let none = GetManifestResponse_init\<lparr>gms_state := manifest_state_code MANIFEST_ERROR\<rparr> in
      case find_job_by_wire (gmq_job req) s of
        None \<Rightarrow> (none\<lparr>gms_ok := False, gms_message := ''job not registered''\<rparr>, s)
      | Some job \<Rightarrow>
          let resp = none\<lparr>gms_job := gmq_job req, gms_model_role := gmq_model_role req,
                          gms_model_version := gmq_model_version req\<rparr>;
              refused = (resp\<lparr>gms_ok := False, gms_message := ''no sealed manifest for version''\<rparr>,
                         m_inc kRolloutStaleManifestReject s)
          in case t_find (d_manifests s) \<lparr>vk_job = job_uid job, vk_model_role = gmq_model_role req,
                                          vk_model_version = gmq_model_version req\<rparr> of
               None \<Rightarrow> refused
             | Some man \<Rightarrow>
                 if man_state man \<noteq> MANIFEST_SEALED then refused
                 else (resp\<lparr>gms_state := manifest_state_code (man_state man),
                            gms_tensors := manifest_tensors (gmq_filter req) (man_object_ids man) s,
                            gms_ok := True, gms_message := ''ok''\<rparr>, m_inc kRolloutGetManifest s))"

end
