(* ===== verification/Export.thy ===== *)
theory Export
  imports Rollout
begin

text \<open>
  Reading canonical objects: the transports of \<^verbatim>\<open>src/daemon/export_backend.cpp\<close>, staging and
  \<^verbatim>\<open>PullTensor\<close>, restore into pinned memory, and \<^verbatim>\<open>DropCanonicalVersion\<close> (\<^verbatim>\<open>canonical_rollout.cpp\<close>). The
  transports are those of a build without libfabric.
\<close>

section \<open>Transports\<close>

record ExportRequest =
  xq_object_id :: u64
  xq_nbytes :: u64
  xq_transport :: u32
  xq_target_descriptor :: string
  xq_content_hash_lo :: u64
  xq_content_hash_hi :: u64

record ExportResult =
  xs_ok :: bool
  xs_message :: string
  xs_transport :: u32
  xs_bytes_sent :: u64
  xs_duration_ns :: u64
  xs_transport_metadata :: string

definition ExportResult_init :: ExportResult where
  "ExportResult_init = \<lparr>xs_ok = False, xs_message = '''', xs_transport = 0, xs_bytes_sent = 0, xs_duration_ns = 0,
     xs_transport_metadata = ''''\<rparr>"

definition TK_TCP :: u32 where
  "TK_TCP = 1"

definition TK_FILE :: u32 where
  "TK_FILE = 2"

definition TK_LIBFABRIC_SEND :: u32 where
  "TK_LIBFABRIC_SEND = 3"

definition kExportMagic :: u32 where
  "kExportMagic = 0x4F464558"

definition export_header :: "ExportRequest \<Rightarrow> u64 \<Rightarrow> bytes" where
  "export_header req nbytes =
     le_bytes 4 kExportMagic @ le_bytes 4 (1 :: u32) @ le_bytes 8 (xq_object_id req) @ le_bytes 8 nbytes @
     le_bytes 8 (xq_content_hash_lo req) @ le_bytes 8 (xq_content_hash_hi req)"

text \<open>The local \<^verbatim>\<open>write_all\<close>: what has been written, and whether that is everything.\<close>

fun stream_write :: "sys_io list \<Rightarrow> bytes \<Rightarrow> bytes \<Rightarrow> bool \<times> bytes \<times> sys_io list" where
  "stream_write ios [] out = (True, out, ios)"
| "stream_write [] (b # bs) out = (True, out @ b # bs, [])"
| "stream_write (IoEintr # ios) (b # bs) out = stream_write ios (b # bs) out"
| "stream_write (IoError # ios) (b # bs) out = (False, out, ios)"
| "stream_write (IoBytes n # ios) (b # bs) out =
     (let k = moved n (length (b # bs)) (length (b # bs))
      in stream_write ios (drop k (b # bs)) (out @ take k (b # bs)))"

text \<open>\<^verbatim>\<open>write_all(fd, &h, sizeof h) && write_all(fd, data, nbytes)\<close>\<close>

definition write_export :: "io_env \<Rightarrow> ExportRequest \<Rightarrow> bytes \<Rightarrow> bool \<times> bytes" where
  "write_export env req data =
     (case stream_write (io_calls env) (export_header req (of_nat (length data))) [] of
        (ok, out, ios) \<Rightarrow>
          if \<not> ok then (False, out)
          else (case stream_write ios data out of (ok2, out2, ios2) \<Rightarrow> (ok2, out2)))"

text \<open>Host and port around the last colon; both must be non-empty.\<close>

definition split_hostport :: "string \<Rightarrow> (string \<times> string) option" where
  "split_hostport t =
     (if CHR '':'' \<notin> set t then None
      else let port = takeWhile (\<lambda>c. c \<noteq> CHR '':'') (rev t); host = take (length t - length port - 1) t
           in if host = [] \<or> port = [] then None else Some (host, rev port))"

text \<open>Results carry the bytes the receiver got.\<close>

definition send_tcp :: "io_env \<Rightarrow> ExportRequest \<Rightarrow> bytes \<Rightarrow> ExportResult \<times> bytes" where
  "send_tcp env req data =
     (let r = ExportResult_init\<lparr>xs_transport := TK_TCP\<rparr> in
      case split_hostport (xq_target_descriptor req) of
        None \<Rightarrow> (r\<lparr>xs_message := ''bad tcp target (want host:port)''\<rparr>, [])
      | Some hp \<Rightarrow>
          if \<not> io_open_ok env 0 then (r\<lparr>xs_message := ''tcp connect failed: '' @ io_errno env\<rparr>, [])
          else (case write_export env req data of
                  (ok, out) \<Rightarrow>
                    if \<not> ok then (r\<lparr>xs_message := ''tcp write failed''\<rparr>, out)
                    else (r\<lparr>xs_ok := True, xs_bytes_sent := of_nat (length data),
                            xs_transport_metadata := ''tcp:'' @ xq_target_descriptor req, xs_message := ''ok''\<rparr>, out)))"

definition send_file :: "io_env \<Rightarrow> ExportRequest \<Rightarrow> bytes \<Rightarrow> daemon \<Rightarrow> (ExportResult \<times> bytes) \<times> daemon" where
  "send_file env req data s =
     (let r = ExportResult_init\<lparr>xs_transport := TK_FILE\<rparr> in
      if \<not> io_open_ok env 0 then ((r\<lparr>xs_message := ''open failed: '' @ io_errno env\<rparr>, []), s)
      else (case write_export env req data of
              (ok, out) \<Rightarrow>
                (if \<not> ok then (r\<lparr>xs_message := ''file write failed''\<rparr>, out)
                 else (r\<lparr>xs_ok := True, xs_bytes_sent := of_nat (length data),
                         xs_transport_metadata := ''file:'' @ xq_target_descriptor req, xs_message := ''ok''\<rparr>, out),
                 put_file (xq_target_descriptor req) out s)))"

function export_send ::
  "io_env \<Rightarrow> ExportRequest \<Rightarrow> bytes \<Rightarrow> u32 \<Rightarrow> daemon \<Rightarrow> (ExportResult \<times> bytes) \<times> daemon" where
  "export_send env req data fallback s =
     (if xq_transport req = TK_TCP then
        (case send_tcp env req data of (r, out) \<Rightarrow> ((r\<lparr>xs_duration_ns := io_elapsed_ns env\<rparr>, out), s))
      else if xq_transport req = TK_FILE then
        (case send_file env req data s of ((r, out), s1) \<Rightarrow> ((r\<lparr>xs_duration_ns := io_elapsed_ns env\<rparr>, out), s1))
      else if xq_transport req = TK_LIBFABRIC_SEND then
        (case export_send env (req\<lparr>xq_transport := fallback\<rparr>) data TK_TCP s of
           ((r, out), s1) \<Rightarrow> ((r\<lparr>xs_duration_ns := io_elapsed_ns env\<rparr>, out), s1))
      else ((ExportResult_init\<lparr>xs_message := ''unknown transport'', xs_transport := xq_transport req,
               xs_duration_ns := io_elapsed_ns env\<rparr>, []), s))"
  by auto
termination
  by (relation "measure (\<lambda>(env, req, data, fallback, s).
        if xq_transport req = TK_LIBFABRIC_SEND then (if fallback = TK_LIBFABRIC_SEND then 2 else 1) else 0)")
    (auto simp: TK_TCP_def TK_LIBFABRIC_SEND_def)

declare export_send.simps [simp del]

section \<open>PullTensor\<close>

text \<open>The copies of a file read laid into a zeroed buffer.\<close>

definition patch_buf :: "bytes \<Rightarrow> (nat \<times> bytes) list \<Rightarrow> bytes" where
  "patch_buf buf copies = fold (\<lambda>(off, bs) buf. take off buf @ bs @ drop (off + length bs) buf) copies buf"

text \<open>
  The cold branch first runs a readback with base slot 0, whose result is ignored, and then reads the
  bytes again into the buffer.
\<close>

definition stage_cold :: "ColdEntry \<Rightarrow> u64 \<Rightarrow> io_env \<Rightarrow> daemon \<Rightarrow> (bytes \<times> bool) \<times> daemon" where
  "stage_cold cold nbytes env s =
     (if cold_kind cold = OFLD_LOC_PAGEABLE then
        (case cold_pageable cold of
           Some buf \<Rightarrow> ((take (unat nbytes) buf, True), s)
         | None \<Rightarrow> ((replicate (unat nbytes) 0, False), s))
      else if cold_kind cold = OFLD_LOC_NVME then
        (case nvme_read env cold s of (ok, copies) \<Rightarrow> ((patch_buf (replicate (unat nbytes) 0) copies, ok), s))
      else ((replicate (unat nbytes) 0, False), s))"

definition stage_object_for_export :: "CanonicalObject \<Rightarrow> (bytes \<times> bool) prog" where
  "stage_object_for_export ob s =
     (case t_find (d_locations s) (obj_synthetic_tid ob) of
        None \<Rightarrow> ret ([], False) s
      | Some loc \<Rightarrow>
          if loc_kind loc = OFLD_LOC_PINNED then
            ret (mem_read (slot_addr (loc_slot_id loc) s) (unat (obj_nbytes ob)) s, True) (m_inc kExportFromPinned s)
          else if loc_kind loc = OFLD_LOC_PAGEABLE \<or> loc_kind loc = OFLD_LOC_NVME then
            (case t_find (d_cold_store s) (loc_cold_ref loc) of
               None \<Rightarrow> ret ([], False) s
             | Some cold \<Rightarrow>
                 bnd (unlocked (\<lambda>env. do_readback_from_cold env 0 cold (obj_nbytes ob)))
                   (\<lambda>rok. bnd (unlocked (stage_cold cold (obj_nbytes ob)))
                      (\<lambda>(buf, copied) s1.
                         if \<not> copied then ret (buf, False) s1
                         else ret (buf, True)
                                (m_inc (if loc_kind loc = OFLD_LOC_NVME then kExportFromNvme else kExportFromPageable) s1))) s)
          else ret ([], False) s)"

definition pull_refused :: "PullTensorRequest \<Rightarrow> string \<Rightarrow> PullTensorResponse" where
  "pull_refused req msg =
     PullTensorResponse_init\<lparr>pts_object_id := ptq_object_id req, pts_transport := ptq_transport req,
       pts_ok := False, pts_message := msg\<rparr>"

definition export_quota_full :: "JobRecord \<Rightarrow> u64 \<Rightarrow> daemon \<Rightarrow> bool" where
  "export_quota_full job nbytes s \<longleftrightarrow>
     cfg_v2_max_concurrent_exports_per_job (d_cfg s) > 0 \<and> job_inflight_export_bytes job > 0 \<and>
     job_max_inflight_export_bytes job > 0 \<and>
     job_inflight_export_bytes job + nbytes > job_max_inflight_export_bytes job"

text \<open>Taking and releasing the export lease on the object and the job's accounting.\<close>

definition begin_export :: "JobUID \<Rightarrow> CanonicalObject \<Rightarrow> daemon \<Rightarrow> daemon" where
  "begin_export uid ob s =
     m_add kExportInflightBytes (obj_nbytes ob)
       (modify_job uid (\<lambda>j. j\<lparr>job_inflight_export_bytes := job_inflight_export_bytes j + obj_nbytes ob\<rparr>)
          (put_object (obj_object_id ob)
             (ob\<lparr>obj_export_refcount := obj_export_refcount ob + 1, obj_state := OBJ_EXPORT_IN_FLIGHT\<rparr>) s))"

definition modify_object :: "u64 \<Rightarrow> (CanonicalObject \<Rightarrow> CanonicalObject) \<Rightarrow> daemon \<Rightarrow> daemon" where
  "modify_object k f s = s\<lparr>d_objects := t_modify k f (d_objects s)\<rparr>"

definition abort_export :: "u64 \<Rightarrow> JobUID \<Rightarrow> object_state \<Rightarrow> u64 \<Rightarrow> daemon \<Rightarrow> daemon" where
  "abort_export oid uid prev nbytes s =
     m_inc kExportTransportErrors
       (m_sub kExportInflightBytes nbytes
          (modify_job uid (\<lambda>j. j\<lparr>job_inflight_export_bytes := job_inflight_export_bytes j - nbytes\<rparr>)
             (modify_object oid
                (\<lambda>ob. ob\<lparr>obj_export_refcount := obj_export_refcount ob - 1, obj_state := prev\<rparr>) s)))"

definition end_export :: "u64 \<Rightarrow> JobUID \<Rightarrow> object_state \<Rightarrow> u64 \<Rightarrow> daemon \<Rightarrow> daemon" where
  "end_export oid uid prev nbytes s =
     (let s1 = modify_object oid
                 (\<lambda>ob. let n = (if obj_export_refcount ob > 0 then obj_export_refcount ob - 1 else 0)
                       in ob\<lparr>obj_export_refcount := n, obj_state := (if n = 0 then prev else obj_state ob)\<rparr>) s;
          s2 = modify_job uid (\<lambda>j. if job_inflight_export_bytes j \<ge> nbytes
                                   then j\<lparr>job_inflight_export_bytes := job_inflight_export_bytes j - nbytes\<rparr> else j) s1
      in free_if_idle oid (m_sub kExportStagingBytes nbytes (m_sub kExportInflightBytes nbytes s2)))"

definition pull_finish ::
  "PullTensorRequest \<Rightarrow> JobUID \<Rightarrow> CanonicalObject \<Rightarrow> ExportResult \<Rightarrow> daemon \<Rightarrow> PullTensorResponse \<times> daemon" where
  "pull_finish req uid ob0 xres s =
     (let s1 = end_export (ptq_object_id req) uid (obj_state ob0) (obj_nbytes ob0) s in
      if \<not> xs_ok xres then
        (pull_refused req (''transport failed: '' @ xs_message xres), m_inc kExportTransportErrors s1)
      else
        (\<lparr>pts_ok = True, pts_message = ''ok'', pts_object_id = ptq_object_id req, pts_nbytes = obj_nbytes ob0,
          pts_transport = xs_transport xres, pts_content_hash_lo = obj_content_hash_lo ob0,
          pts_content_hash_hi = obj_content_hash_hi ob0, pts_transport_metadata = xs_transport_metadata xres\<rparr>,
         m_add kRolloutPullBytes (obj_nbytes ob0) (m_inc kRolloutPullTensor s1)))"

text \<open>Stage, send without the mutex, release. The task's value carries the bytes the receiver got.\<close>

definition pull_object :: "PullTensorRequest \<Rightarrow> JobUID \<Rightarrow> CanonicalObject \<Rightarrow> (PullTensorResponse \<times> bytes) prog" where
  "pull_object req uid ob0 s =
     bnd (stage_object_for_export ob0)
       (\<lambda>(buf, staged_ok) s1.
          if \<not> staged_ok \<or> find_object (ptq_object_id req) s1 = None then
            ret (pull_refused req ''staging failed'', [])
              (abort_export (ptq_object_id req) uid (obj_state ob0) (obj_nbytes ob0) s1)
          else
            bnd (unlocked (\<lambda>env s2. export_send env
                   \<lparr>xq_object_id = ptq_object_id req, xq_nbytes = obj_nbytes ob0, xq_transport = ptq_transport req,
                    xq_target_descriptor = ptq_target_descriptor req, xq_content_hash_lo = obj_content_hash_lo ob0,
                    xq_content_hash_hi = obj_content_hash_hi ob0\<rparr> buf (cfg_v2_fallback_transport (d_cfg s2)) s2))
              (\<lambda>(xres, out). locked (\<lambda>s2. case pull_finish req uid ob0 xres s2 of (r, s3) \<Rightarrow> ((r, out), s3)))
              (m_add kExportStagingBytes (obj_nbytes ob0) s1))
       (begin_export uid ob0 s)"

definition handle_pull_tensor :: "PullTensorRequest \<Rightarrow> (PullTensorResponse \<times> bytes) prog" where
  "handle_pull_tensor req s =
     (if \<not> cfg_v2_enable_canonical_store (d_cfg s) \<or> \<not> cfg_v2_enable_rollout_export (d_cfg s)
      then ret (pull_refused req ''rollout export disabled'', []) s
      else case find_job_by_wire (ptq_job req) s of
        None \<Rightarrow> ret (pull_refused req ''job not registered'', []) s
      | Some job \<Rightarrow>
          (case t_find (d_manifests s) \<lparr>vk_job = job_uid job, vk_model_role = ptq_model_role req,
                                        vk_model_version = ptq_model_version req\<rparr> of
             None \<Rightarrow> ret (pull_refused req ''version not sealed; refusing pull'', []) (m_inc kRolloutStaleManifestReject s)
           | Some man \<Rightarrow>
               if man_state man \<noteq> MANIFEST_SEALED
               then ret (pull_refused req ''version not sealed; refusing pull'', []) (m_inc kRolloutStaleManifestReject s)
               else (case find_object (ptq_object_id req) s of
                       None \<Rightarrow> ret (pull_refused req ''unknown object'', []) s
                     | Some ob \<Rightarrow>
                         if obj_state ob \<noteq> OBJ_SEALED then ret (pull_refused req ''object not sealed'', []) s
                         else if ptq_object_id req \<notin> set (man_object_ids man)
                         then ret (pull_refused req ''object not in manifest'', []) s
                         else if export_quota_full job (obj_nbytes ob) s
                         then ret (pull_refused req ''export inflight quota exceeded'', []) (m_inc kQuotaRejections s)
                         else pull_object req (wire_uid (ptq_job req)) ob s)))"

section \<open>Restore\<close>

definition restore_refused :: "RequestCanonicalRestoreRequest \<Rightarrow> bool \<Rightarrow> string \<Rightarrow> RequestCanonicalRestoreResponse" where
  "restore_refused req retriable msg =
     RequestCanonicalRestoreResponse_init\<lparr>crs_object_id := crq_object_id req, crs_ok := False,
       crs_retriable := retriable, crs_message := msg\<rparr>"

text \<open>\<^verbatim>\<open>locations_[tid]\<close> inserts a default row for a missing key.\<close>

definition location_at :: "u64 \<Rightarrow> daemon \<Rightarrow> Location" where
  "location_at tid s =
     (case t_find (d_locations s) tid of
        Some l \<Rightarrow> l
      | None \<Rightarrow> \<lparr>loc_tensor_id = 0, loc_version = 0, loc_kind = OFLD_LOC_NONE, loc_slot_id = 0, loc_cold_ref = 0,
                 loc_nbytes = 0\<rparr>)"

text \<open>
  The common end: the object is held for the copy to the device. The row is used through the pointer
  found at the start of the handler.
\<close>

definition serve_restore :: "RequestCanonicalRestoreRequest \<Rightarrow> u64 \<Rightarrow> u32 \<Rightarrow> RequestCanonicalRestoreResponse prog" where
  "serve_restore req nbytes base s =
     (case find_object (crq_object_id req) s of
        None \<Rightarrow> (Crash, s)
      | Some ob \<Rightarrow>
          ret \<lparr>crs_ok = True, crs_message = ''ok'', crs_retriable = False, crs_object_id = crq_object_id req,
               crs_nbytes = nbytes, crs_arena_id = se_arena_id (at32 (d_slots s) base),
               crs_arena_offset = se_arena_offset (at32 (d_slots s) base)\<rparr>
            (m_inc kCanonicalRestoreServed
               (put_object (crq_object_id req)
                  (ob\<lparr>obj_restore_refcount := obj_restore_refcount ob + 1, obj_last_access_ns := now_real_ns s\<rparr>) s)))"

text \<open>After the readback: publish the warmed copy.\<close>

definition warm_finish ::
  "RequestCanonicalRestoreRequest \<Rightarrow> u64 \<Rightarrow> u32 \<Rightarrow> u32 \<Rightarrow> bool \<Rightarrow> RequestCanonicalRestoreResponse prog" where
  "warm_finish req nbytes base count rok s =
     (if \<not> rok then
        ret (restore_refused req False ''readback failed'')
          (m_inc kIoFailure (free_slots base count (set_run_state base count OFLD_SLOT_ERROR s)))
      else
        let tid = canonical_tid (crq_object_id req);
            s1 = m_add kUsedPinnedBytes (ucast count * gran s) (set_run_state base count OFLD_SLOT_PINNED_VALID s);
            s2 = put_location tid ((location_at tid s1)\<lparr>loc_kind := OFLD_LOC_PINNED, loc_slot_id := base,
                                                        loc_nbytes := nbytes\<rparr>) s1
        in case find_object (crq_object_id req) s2 of
             None \<Rightarrow> (Crash, s2)
           | Some ob \<Rightarrow>
               serve_restore req nbytes base
                 (put_object (crq_object_id req)
                    (ob\<lparr>obj_base_slot := base, obj_slot_count := count, obj_state := OBJ_VALID_MULTI_TIER\<rparr>) s2))"

text \<open>A pinned run for the object, marked as being read back.\<close>

definition warm_bind :: "RequestCanonicalRestoreRequest \<Rightarrow> CanonicalObject \<Rightarrow> u32 \<Rightarrow> u32 \<Rightarrow> daemon \<Rightarrow> daemon" where
  "warm_bind req ob base count s =
     upd_run base count (\<lambda>k e. touch (now_real_ns s) OFLD_SLOT_READBACK_IN_FLIGHT
       (e\<lparr>se_tensor_id := canonical_tid (crq_object_id req), se_version := obj_version ob,
          se_owner_rank := ucast (crq_rank_id req), se_owner_pid := session_pid (crq_rank_id req) s,
          se_rank_epoch := crq_rank_epoch req,
          se_nbytes := (if k = 0 then obj_nbytes ob else se_capacity e)\<rparr>)) s"

definition warm_object :: "RequestCanonicalRestoreRequest \<Rightarrow> u64 \<Rightarrow> ColdEntry \<Rightarrow> RequestCanonicalRestoreResponse prog" where
  "warm_object req nbytes cold =
     bnd (alloc_draining 65 (crq_gpu_id req) (crq_numa_node req) nbytes OFLD_FLAG_ALLOW_OVERFLOW)
       (\<lambda>got s. case got of
          None \<Rightarrow> ret (restore_refused req False ''no pinned capacity to warm object'') s
        | Some (base, count) \<Rightarrow>
            (case find_object (crq_object_id req) s of
               None \<Rightarrow> (Crash, s)
             | Some ob \<Rightarrow>
                 bnd (unlocked (\<lambda>env. do_readback_from_cold env base cold nbytes))
                   (warm_finish req nbytes base count) (warm_bind req ob base count s)))"

definition handle_request_canonical_restore ::
  "RequestCanonicalRestoreRequest \<Rightarrow> RequestCanonicalRestoreResponse prog" where
  "handle_request_canonical_restore req s =
     (if \<not> cfg_v2_enable_canonical_store (d_cfg s)
      then ret (restore_refused req False ''canonical store disabled'') s
      else if \<not> epoch_valid (crq_rank_id req) (crq_rank_epoch req) s
      then ret (restore_refused req False ''epoch invalid'') (m_inc kEpochMismatchRejected s)
      else case find_object (crq_object_id req) s of
        None \<Rightarrow> ret (restore_refused req False ''unknown object'') s
      | Some ob \<Rightarrow>
          if \<not> obj_readable ob then ret (restore_refused req False ''object not readable'') s
          else (case t_find (d_locations s) (canonical_tid (crq_object_id req)) of
                  None \<Rightarrow> ret (restore_refused req False ''object not resident'') s
                | Some loc \<Rightarrow>
                    if loc_kind loc = OFLD_LOC_NONE \<or> loc_kind loc = OFLD_LOC_DELETED
                    then ret (restore_refused req False ''object not resident'') s
                    else if loc_kind loc = OFLD_LOC_PINNED \<and> slot_state (loc_slot_id loc) s = OFLD_SLOT_PINNED_VALID
                    then serve_restore req (obj_nbytes ob) (loc_slot_id loc) s
                    else if loc_kind loc = OFLD_LOC_PAGEABLE \<or> loc_kind loc = OFLD_LOC_NVME then
                      (case (if loc_cold_ref loc = 0 then None else t_find (d_cold_store s) (loc_cold_ref loc)) of
                         None \<Rightarrow> ret (restore_refused req True ''object cold reference not ready'') s
                       | Some cold \<Rightarrow> warm_object req (obj_nbytes ob) cold s)
                    else ret (restore_refused req True ''object transitioning between tiers'') s))"

definition handle_release_canonical_restore ::
  "ReleaseCanonicalRestoreRequest \<Rightarrow> daemon \<Rightarrow> ReleaseCanonicalRestoreResponse \<times> daemon" where
  "handle_release_canonical_restore req s =
     (if \<not> epoch_valid (xrq_rank_id req) (xrq_rank_epoch req) s
      then (\<lparr>xrs_ok = False, xrs_message = ''epoch invalid''\<rparr>, m_inc kEpochMismatchRejected s)
      else
        let s1 = modify_object (xrq_object_id req)
                   (\<lambda>ob. if obj_restore_refcount ob > 0
                         then ob\<lparr>obj_restore_refcount := obj_restore_refcount ob - 1\<rparr> else ob) s
        in (\<lparr>xrs_ok = True, xrs_message = ''ok''\<rparr>, free_if_idle (xrq_object_id req) s1))"

section \<open>Drop\<close>

definition drop_member ::
  "u64 \<Rightarrow> DropCanonicalVersionResponse \<times> daemon \<Rightarrow> DropCanonicalVersionResponse \<times> daemon" where
  "drop_member oid rs =
     (case rs of (resp, s) \<Rightarrow>
        (case find_object oid s of
           None \<Rightarrow> (resp, s)
         | Some ob \<Rightarrow>
             (case release_object ob s of
                (freed, s1) \<Rightarrow>
                  if freed then (resp\<lparr>dvs_dropped_count := dvs_dropped_count resp + 1,
                                      dvs_bytes_freed := dvs_bytes_freed resp + obj_nbytes ob\<rparr>, s1)
                  else (resp\<lparr>dvs_skipped_inflight := dvs_skipped_inflight resp + 1\<rparr>, s1))))"

definition handle_drop_canonical_version ::
  "DropCanonicalVersionRequest \<Rightarrow> daemon \<Rightarrow> DropCanonicalVersionResponse \<times> daemon" where
  "handle_drop_canonical_version req s =
     (if \<not> cfg_v2_enable_canonical_store (d_cfg s)
      then (DropCanonicalVersionResponse_init\<lparr>dvs_ok := False, dvs_message := ''canonical store disabled''\<rparr>, s)
      else case find_job_by_wire (dvq_job req) s of
        None \<Rightarrow> (DropCanonicalVersionResponse_init\<lparr>dvs_ok := False, dvs_message := ''job not registered''\<rparr>, s)
      | Some job \<Rightarrow>
          let uid = job_uid job; role = dvq_model_role req; ver = dvq_model_version req;
              ids = map obj_object_id (version_members uid role ver s)
          in case fold drop_member ids (DropCanonicalVersionResponse_init, s) of
               (resp, s1) \<Rightarrow>
                 let s2 = s1\<lparr>d_manifests := t_erase \<lparr>vk_job = uid, vk_model_role = role, vk_model_version = ver\<rparr>
                                (d_manifests s1)\<rparr>;
                     rk = \<lparr>rk_job = uid, rk_model_role = role\<rparr>;
                     s3 = (if t_find (d_latest_sealed s2) rk = Some ver
                           then s2\<lparr>d_latest_sealed := t_erase rk (d_latest_sealed s2)\<rparr> else s2)
                 in (resp\<lparr>dvs_ok := True, dvs_message := ''ok''\<rparr>, s3))"

end
