(* ===== verification/Workers.thy ===== *)
theory Workers
  imports Export
begin

text \<open>
  The background threads of \<^verbatim>\<open>src/daemon/daemon.cpp\<close>: one round of the drain worker and of the readback
  worker as tasks, one sweep of the heartbeat monitor, and one sweep of the ring poller.
\<close>

section \<open>Drain worker\<close>

text \<open>After the copy: was the run reclaimed meanwhile, did the copy fail, or does it go to the cold tier?\<close>

definition drain_commit :: "DrainJob \<Rightarrow> slot_entry \<Rightarrow> ColdEntry \<Rightarrow> bool \<Rightarrow> daemon \<Rightarrow> unit \<times> daemon" where
  "drain_commit job e cold ok s =
     (let s1 = m_sub kDrainingBytes (se_nbytes e) s in
      ((), if slot_state (dj_base_slot job) s1 \<noteq> OFLD_SLOT_DRAIN_IN_FLIGHT then s1
           else if \<not> ok then
             m_inc kIoFailure (set_run_state (dj_base_slot job) (dj_slot_count job) OFLD_SLOT_PINNED_VALID s1)
           else commit_drain (dj_base_slot job) (dj_slot_count job) (se_tensor_id e) (se_version e) (se_nbytes e)
                  (se_lease_id e) cold s1))"

definition drain_job :: "DrainJob \<Rightarrow> unit prog" where
  "drain_job job s =
     (let e = at32 (d_slots s) (dj_base_slot job) in
      if se_state e \<noteq> OFLD_SLOT_DRAIN_IN_FLIGHT then ret () (m_sub kDrainingBytes (se_nbytes e) s)
      else bnd (unlocked (\<lambda>env. do_drain_to_cold env (dj_base_slot job) (se_nbytes e)))
             (\<lambda>(cold, ok). locked (drain_commit job e cold ok)) s)"

text \<open>One round: take a job (under the queue's own mutex), then handle it under the daemon's.\<close>

definition drain_worker :: "unit prog" where
  "drain_worker s =
     (case d_drain_queue s of
        [] \<Rightarrow> ret () s
      | job # rest \<Rightarrow> (Unlock (\<lambda>env. drain_job job), s\<lparr>d_drain_queue := rest\<rparr>))"

section \<open>Readback worker\<close>

definition readback_failed :: "ReadbackJob \<Rightarrow> daemon \<Rightarrow> daemon" where
  "readback_failed job s =
     m_inc kIoFailure (set_run_state (rj_base_slot job) (rj_slot_count job) OFLD_SLOT_ERROR s)"

definition readback_commit :: "ReadbackJob \<Rightarrow> bool \<Rightarrow> daemon \<Rightarrow> unit \<times> daemon" where
  "readback_commit job ok s =
     ((), if slot_state (rj_base_slot job) s \<noteq> OFLD_SLOT_READBACK_IN_FLIGHT then s
          else if \<not> ok then readback_failed job s
          else
            let e = at32 (d_slots s) (rj_base_slot job);
                s1 = set_run_state (rj_base_slot job) (rj_slot_count job) OFLD_SLOT_PINNED_VALID s
            in m_inc kReadbacksCompleted
                 (snd (update_location_if_latest (se_tensor_id e) (se_version e) OFLD_LOC_PINNED (rj_base_slot job)
                         (rj_cold_ref job) (rj_nbytes job) s1)))"

definition readback_job :: "ReadbackJob \<Rightarrow> unit prog" where
  "readback_job job s =
     (if slot_state (rj_base_slot job) s \<noteq> OFLD_SLOT_READBACK_IN_FLIGHT then ret () s
      else case t_find (d_cold_store s) (rj_cold_ref job) of
        None \<Rightarrow> (Unlock (\<lambda>env s1. ret () (readback_failed job s1)), s)
      | Some cold \<Rightarrow>
          bnd (unlocked (\<lambda>env. do_readback_from_cold env (rj_base_slot job) cold (rj_nbytes job)))
            (\<lambda>ok. locked (readback_commit job ok)) s)"

definition readback_worker :: "unit prog" where
  "readback_worker s =
     (case d_readback_queue s of
        [] \<Rightarrow> ret () s
      | job # rest \<Rightarrow> (Unlock (\<lambda>env. readback_job job), s\<lparr>d_readback_queue := rest\<rparr>))"

section \<open>Heartbeat monitor\<close>

text \<open>The unsigned difference is as in the source: a heartbeat in the future counts as expired.\<close>

definition expired :: "u64 \<Rightarrow> Session \<Rightarrow> daemon \<Rightarrow> bool" where
  "expired now ss s \<longleftrightarrow>
     ss_alive ss \<and> \<not> (now - ss_last_heartbeat_ns ss \<le> cfg_heartbeat_timeout_ms (d_cfg s) * 1000000)"

definition monitor_session :: "u64 \<Rightarrow> u32 \<Rightarrow> daemon \<Rightarrow> daemon" where
  "monitor_session now k s =
     (case t_find (d_sessions s) k of
        None \<Rightarrow> s
      | Some ss \<Rightarrow>
          if \<not> expired now ss s then s
          else purge_rank_from_canonical (ss_rank_id ss)
                 (recover_leases (ss_rank_id ss) (ss_rank_epoch ss)
                    (m_inc kRankSessionsInvalidated (modify_session k (\<lambda>ss. ss\<lparr>ss_alive := False\<rparr>) s))))"

definition heartbeat_sweep :: "daemon \<Rightarrow> daemon" where
  "heartbeat_sweep s =
     (let now = now_real_ns s
      in fold (monitor_session now) (map fst (d_sessions s)) (s\<lparr>d_heartbeat_ns := now\<rparr>))"

section \<open>Ring poller\<close>

definition poll_ring :: "(daemon \<Rightarrow> nat \<Rightarrow> nat) \<Rightarrow> nat \<Rightarrow> daemon \<Rightarrow> daemon" where
  "poll_ring budget i s =
     (if length (d_ring_owner s) \<le> i \<or> d_ring_owner s ! i = none32 then s
      else let h = d_rings s ! i in
        if rh_rank_epoch h = 0 then s
        else drain_ring (budget s i) (of_nat i) (rh_owner_rank h) (rh_rank_epoch h) s)"

text \<open>A sweep takes at most 256 entries from each ring.\<close>

definition ring_sweep :: "daemon \<Rightarrow> daemon" where
  "ring_sweep s = fold (poll_ring (\<lambda>s i. 256)) [0..<unat (d_ring_max_ranks s)] s"

text \<open>The final sweep, on shutdown, takes all of them.\<close>

definition ring_final_sweep :: "daemon \<Rightarrow> daemon" where
  "ring_final_sweep s =
     fold (poll_ring (\<lambda>s i. unat (ring_pending (d_rings s ! i)))) [0..<unat (d_ring_max_ranks s)] s"

end
