(* ===== verification/Dispatch.thy ===== *)
theory Dispatch
  imports Workers Messages
begin

text \<open>
  \<^verbatim>\<open>dispatch\<close> and \<^verbatim>\<open>serve_connection\<close>: from a received frame to the handler and back to a reply frame; and the
  daemon as a concurrent system, in which any number of connection threads and worker rounds run
  interleaved at their critical sections, while the ranks push completions and the devices write
  memory.
\<close>

section \<open>Dispatch\<close>

definition reply :: "('a \<Rightarrow> response) \<Rightarrow> 'a prog \<Rightarrow> (response \<times> nat list) prog" where
  "reply wrap p = bnd p (\<lambda>r. ret (wrap r, []))"

fun handle_request :: "request \<Rightarrow> (response \<times> nat list) prog" where
  "handle_request (RqRegisterRank m) = bnd (locked (handle_register m)) (\<lambda>(r, fds). ret (RsRegisterRank r, fds))"
| "handle_request (RqHeartbeat m) = reply RsHeartbeat (locked (handle_heartbeat m))"
| "handle_request (RqRequestOffload m) = reply RsRequestOffload (handle_request_offload m)"
| "handle_request (RqMarkD2HSubmitted m) = reply RsMarkD2HSubmitted (locked (handle_mark_d2h_submitted m))"
| "handle_request (RqMarkD2HComplete m) = reply RsMarkD2HComplete (locked (handle_mark_d2h_complete m))"
| "handle_request (RqRequestPrefetch m) = reply RsRequestPrefetch (handle_request_prefetch m)"
| "handle_request (RqMarkH2DSubmitted m) = reply RsMarkH2DSubmitted (locked (handle_mark_h2d_submitted m))"
| "handle_request (RqMarkH2DComplete m) = reply RsMarkH2DComplete (locked (handle_mark_h2d_complete m))"
| "handle_request (RqReleaseLease m) = reply RsReleaseLease (locked (handle_release_lease m))"
| "handle_request (RqLocationQuery m) = reply RsLocationQuery (locked (\<lambda>s. (handle_query_location m s, s)))"
| "handle_request (RqBatchComplete m) = reply RsBatchComplete (locked (handle_batch_complete m))"
| "handle_request (RqGetStats m) = reply RsGetStats (locked (\<lambda>s. (handle_get_stats m s, s)))"
| "handle_request (RqShutdown m) = reply RsShutdown (locked (handle_shutdown m))"
| "handle_request (RqRegisterJob m) = reply RsRegisterJob (locked (handle_register_job m))"
| "handle_request (RqRequestCanonicalEvict m) = reply RsRequestCanonicalEvict (handle_request_canonical_evict m)"
| "handle_request (RqCommitCanonicalObject m) =
     reply RsCommitCanonicalObject (locked (handle_commit_canonical_object m))"
| "handle_request (RqSealModelVersion m) = reply RsSealModelVersion (locked (handle_seal_model_version m))"
| "handle_request (RqGetLatestSealedVersion m) =
     reply RsGetLatestSealedVersion (locked (\<lambda>s. (handle_get_latest_sealed_version m s, s)))"
| "handle_request (RqGetManifest m) = reply RsGetManifest (locked (handle_get_manifest m))"
| "handle_request (RqPullTensor m) = bnd (handle_pull_tensor m) (\<lambda>(r, out). ret (RsPullTensor r, []))"
| "handle_request (RqRequestCanonicalRestore m) =
     reply RsRequestCanonicalRestore (handle_request_canonical_restore m)"
| "handle_request (RqReleaseCanonicalRestore m) =
     reply RsReleaseCanonicalRestore (locked (handle_release_canonical_restore m))"
| "handle_request (RqDropCanonicalVersion m) =
     reply RsDropCanonicalVersion (locked (handle_drop_canonical_version m))"
| "handle_request (RqReleaseCanonical m) = reply RsReleaseCanonical (locked (handle_release_canonical m))"

text \<open>
  What \<^verbatim>\<open>dispatch\<close> does to the connection: it sends a frame with descriptors, it sends nothing (unknown
  opcode), or it ends with an exception, which closes the connection.
\<close>

datatype dispatch_result = Sent bytes "nat list" | NoReply | Closed

definition dispatch :: "u16 \<Rightarrow> bytes \<Rightarrow> dispatch_result prog" where
  "dispatch opcode payload =
     (case op_of_number opcode of
        None \<Rightarrow> ret NoReply
      | Some op \<Rightarrow>
          if op = kInvalid then ret NoReply
          else (case decode_request op payload of
                  None \<Rightarrow> ret Closed
                | Some req \<Rightarrow>
                    bnd (handle_request req)
                      (\<lambda>(r, fds). case encode_response r of
                         None \<Rightarrow> ret Closed
                       | Some body \<Rightarrow> (case make_frame op body 0 of
                           None \<Rightarrow> ret Closed | Some frame \<Rightarrow> ret (Sent frame fds)))))"

text \<open>
  One round of \<^verbatim>\<open>serve_connection\<close> on the bytes of the connection: the result of \<^verbatim>\<open>dispatch\<close>, the rest of
  the stream, and whether the loop goes on.
\<close>

definition serve_round :: "sys_io list \<Rightarrow> bytes \<Rightarrow> (dispatch_result \<times> bytes \<times> bool) prog" where
  "serve_round ios inp =
     (case recv_frame ios inp of
        Done (Some (opcode, payload, rest)) \<Rightarrow>
          bnd (dispatch opcode payload)
            (\<lambda>r s. ret (r, rest, r \<noteq> Closed \<and> d_running s) s)
      | _ \<Rightarrow> ret (Closed, [], False))"

section \<open>The concurrent system\<close>

definition forget :: "'a prog \<Rightarrow> unit prog" where
  "forget p = bnd p (\<lambda>_. ret ())"

text \<open>
  A state of the system is the daemon's state and the threads waiting for the mutex. A step is one
  critical section: a new request, a new round of a worker, a waiting thread that goes on, a sweep;
  or a step outside the daemon: the clock, a rank that pushes a completion, a device that writes
  memory.
\<close>

inductive sys_step :: "daemon \<times> unit task list \<Rightarrow> daemon \<times> unit task list \<Rightarrow> bool" where
  accept: "forget (handle_request req) s = (t, s') \<Longrightarrow> sys_step (s, ts) (s', t # ts)"
| drain_round: "drain_worker s = (t, s') \<Longrightarrow> sys_step (s, ts) (s', t # ts)"
| readback_round: "readback_worker s = (t, s') \<Longrightarrow> sys_step (s, ts) (s', t # ts)"
| resume: "i < length ts \<Longrightarrow> ts ! i = Unlock k \<Longrightarrow> k env s = (t, s') \<Longrightarrow> sys_step (s, ts) (s', ts[i := t])"
| monitor: "sys_step (s, ts) (heartbeat_sweep s, ts)"
| poll: "sys_step (s, ts) (ring_sweep s, ts)"
| final_poll: "sys_step (s, ts) (ring_final_sweep s, ts)"
| tick: "sys_step (s, ts) (s\<lparr>d_clock := now\<rparr>, ts)"
| rank_push: "sys_step (s, ts) (set_ring i (snd (ring_push (at32 (d_rings s) i) e)) s, ts)"
| device_write: "sys_step (s, ts) (s\<lparr>d_mem := m\<rparr>, ts)"

inductive sys_reach :: "daemon \<Rightarrow> daemon \<times> unit task list \<Rightarrow> bool" for s0 where
  start: "sys_reach s0 (s0, [])"
| step: "sys_reach s0 c \<Longrightarrow> sys_step c c' \<Longrightarrow> sys_reach s0 c'"

end
