(* ===== verification/Samples.thy ===== *)
theory Samples
  imports Dispatch Daemon_Init
begin

text \<open>
  A run of the small daemon, request by request: rank 7 registers, reserves a run for a tensor of 5000
  bytes, submits and completes the copy; a job registers and a shard of it is created. The witnesses
  of the theories that follow evaluate their properties on these states.
\<close>

definition sample_register :: RegisterRankRequest where
  "sample_register = RegisterRankRequest_init\<lparr>rrq_rank_id := 7, rrq_pid := 70\<rparr>"

definition sample_session :: Session where
  "sample_session = \<lparr>ss_rank_id = 7, ss_rank_epoch = 1, ss_pid = 70, ss_gpu_id = 0, ss_numa_node = 0,
     ss_last_heartbeat_ns = 1000, ss_alive = True, ss_ring_index = 0\<rparr>"

definition sample_registered :: daemon where
  "sample_registered = snd (handle_register sample_register sample_daemon)"

definition sample_offload :: RequestOffloadRequest where
  "sample_offload = RequestOffloadRequest_init\<lparr>roq_rank_id := 7, roq_rank_epoch := 1, roq_tensor_id := 42,
     roq_version := 3, roq_nbytes := 5000\<rparr>"

lemma sample_registered_eq:
  "sample_registered = sample_daemon\<lparr>d_next_rank_epoch := 2, d_sessions := [(7, sample_session)],
     d_ring_owner := [7, none32], d_rings := [(fresh_ring 2)\<lparr>rh_owner_rank := 7, rh_rank_epoch := 1\<rparr>, fresh_ring 2]\<rparr>"
  by (simp add: sample_registered_def handle_register_def sample_register_def RegisterRankRequest_init_def
      invalidate_def assign_ring_def pad_owners_def list_small set_ring_def sample_session_def now_real_ns_def
      Let_def t_put_def fresh_ring_def)

text \<open>An allocation that succeeds at the first attempt does not release the mutex.\<close>

lemma alloc_at_once:
  assumes "allocate_slots g n nb fl s = (Some r, s1)"
  shows "bnd (alloc_draining 65 g n nb fl) f s = f (Some r) s1"
proof -
  have "alloc_draining 65 g n nb fl s = ret (Some r) s1"
    using assms alloc_draining.simps(2) [of 64 g n nb fl s] by (simp add: eval_nat_numeral)
  then show ?thesis by (simp add: bnd_def ret_def)
qed

lemma sample_registered_sel [simp]:
  "d_slots sample_registered = d_slots sample_daemon" "d_windows sample_registered = d_windows sample_daemon"
  "d_window_index sample_registered = d_window_index sample_daemon" "d_cfg sample_registered = sample_config"
  "d_sessions sample_registered = [(7, sample_session)]" "d_leases sample_registered = []"
  "d_clock sample_registered = 1000" "d_next_lease_id sample_registered = 1" "d_next_object_id sample_registered = 1"
  "d_jobs sample_registered = []" "d_objects sample_registered = []" "d_locations sample_registered = []"
  "d_next_launch_epoch sample_registered = 1" "d_object_by_key sample_registered = []"
  "d_manifests sample_registered = []" "d_latest_sealed sample_registered = []"
  "d_cold_store sample_registered = []" "d_next_cold_ref sample_registered = 1" "d_drain_queue sample_registered = []"
  "d_readback_queue sample_registered = []"
  by (simp_all add: sample_registered_eq)

lemma sample_run:
  assumes "d_slots s = d_slots sample_daemon" and "d_windows s = d_windows sample_daemon"
    and "d_window_index s = d_window_index sample_daemon" and "d_cfg s = sample_config"
  shows "allocate_slots 0 0 5000 fl s = (Some (0, 2), s)"
  using assms by (simp add: allocate_slots_def slots_for_bytes_def try_win_def t_find_def try_alloc_in_window_def
      slot_state_def list_small scan_window.simps [of _ "[0, 1]" _ 0])

definition sample_lease :: Lease where
  "sample_lease = \<lparr>ls_lease_id = 1, ls_base_slot = 0, ls_slot_count = 2, ls_tensor_id = 42, ls_version = 3,
     ls_owner_rank = 7, ls_owner_pid = 70, ls_rank_epoch = 1, ls_nbytes = 5000, ls_is_prefetch = False\<rparr>"

definition reserved_entry :: "slot_entry \<Rightarrow> u64 \<Rightarrow> slot_entry" where
  "reserved_entry e nb = touch 1000 OFLD_SLOT_RESERVED_D2H (e\<lparr>se_tensor_id := 42, se_version := 3, se_lease_id := 1,
     se_owner_rank := 7, se_owner_pid := 70, se_rank_epoch := 1, se_nbytes := nb, se_flags := 0\<rparr>)"

definition sample_leased :: daemon where
  "sample_leased = sample_registered
     \<lparr>d_next_lease_id := 2,
      d_slots := [reserved_entry (sample_slot 0 0 False 0) 5000, reserved_entry (sample_slot 1 0 False 4096) 4096,
                  sample_slot 2 1 False 8192, sample_slot 3 kOverflowGpu True 12288],
      d_leases := [(1, sample_lease)],
      d_counters := metric_add kLeasesGranted 1 (metric_add kUsedPinnedBytes 8192
                      (metric_add kOffloadRequests 1 (d_counters sample_registered)))\<rparr>"

lemma sample_offload_run:
  "handle_request_offload sample_offload sample_registered =
    (Ret \<lparr>ros_ok = True, ros_message = ''ok'', ros_lease_id = 1, ros_slot_id = 0, ros_arena_id = 0, ros_arena_offset = 0,
       ros_capacity = 8192, ros_state = 1, ros_blocked = False\<rparr>, sample_leased)"
  by (simp add: handle_request_offload_def sample_offload_def RequestOffloadRequest_init_def epoch_valid_def t_find_def
      sample_session_def alloc_at_once [OF sample_run] m_inc_def m_add_def
      Let_def slots_for_bytes_def run_ids_def list_small slot_state_def locked_def grant_offload_def session_pid_def
      reserve_run_def upd_run_def for_run_def put_lease_def t_put_def sample_lease_def now_real_ns_def reserved_entry_def
      sample_leased_def)

section \<open>A sealed version\<close>

definition sample_job :: JobKeyWire where
  "sample_job = \<lparr>jk_tenant_id = 1, jk_job_id = 5, jk_launch_epoch = 1, jk_job_name = ''j''\<rparr>"

abbreviation sample_uid :: JobUID where
  "sample_uid \<equiv> \<lparr>uid_tenant_id = 1, uid_job_id = 5, uid_launch_epoch = 1\<rparr>"

definition sample_with_job :: daemon where
  "sample_with_job = snd (handle_register_job
     (RegisterJobRequest_init\<lparr>rjq_tenant_id := 1, rjq_job_name := ''j'', rjq_scheduler_job_id := 5\<rparr>) sample_registered)"

definition sample_seal :: SealModelVersionRequest where
  "sample_seal = SealModelVersionRequest_init\<lparr>smq_job := sample_job, smq_model_version := 9,
     smq_fail_if_missing := False, smq_promote := True\<rparr>"

definition sample_sealed :: daemon where
  "sample_sealed = snd (handle_seal_model_version sample_seal sample_with_job)"

lemma sample_with_job_jobs: "\<exists>jr. d_jobs sample_with_job = [(sample_uid, jr)] \<and> job_uid jr = sample_uid \<and>
    d_manifests sample_with_job = [] \<and> d_objects sample_with_job = [] \<and> d_cfg sample_with_job = sample_config \<and>
    d_latest_sealed sample_with_job = []"
  by (simp add: sample_with_job_def handle_register_job_def RegisterJobRequest_init_def live_job_def Let_def t_put_def
      job_id_of_def sample_config_def DaemonConfig_init_def m_inc_def m_add_def)

lemma sample_sealed_published:
  "t_find (d_latest_sealed sample_sealed) \<lparr>rk_job = sample_uid, rk_model_role = 0\<rparr> = Some 9 \<and>
   version_sealed \<lparr>vk_job = sample_uid, vk_model_role = 0, vk_model_version = 9\<rparr> sample_sealed \<and>
   find_job_by_wire sample_job sample_sealed \<noteq> None"
proof -
  obtain jr where j: "d_jobs sample_with_job = [(sample_uid, jr)]" "job_uid jr = sample_uid"
    "d_manifests sample_with_job = []" "d_objects sample_with_job = []" "d_cfg sample_with_job = sample_config"
    "d_latest_sealed sample_with_job = []"
    using sample_with_job_jobs by blast
  show ?thesis
    by (simp add: sample_sealed_def handle_seal_model_version_def sample_seal_def SealModelVersionRequest_init_def
      sample_job_def j find_job_by_wire_def find_job_def wire_uid_def t_find_def Let_def seal_version_def version_members_def
      seal_members_def open_manifest_def enforce_sealed_retention_def sealed_versions_def t_put_def version_sealed_def
      m_inc_def m_add_def sample_config_def DaemonConfig_init_def)
qed

text \<open>System calls that all succeed.\<close>

definition sample_env :: io_env where
  "sample_env = \<lparr>io_alloc_ok = True, io_open_ok = (\<lambda>_. True), io_calls = [], io_garbage = (\<lambda>_. 0), io_elapsed_ns = 0,
     io_submit_ok = (\<lambda>_. True), io_pick = (\<lambda>_. 0), io_cqe = (\<lambda>_. None), io_errno = []\<rparr>"

section \<open>A canonical object\<close>

definition sample_evict :: RequestCanonicalEvictRequest where
  "sample_evict = RequestCanonicalEvictRequest_init\<lparr>ceq_rank_id := 7, ceq_rank_epoch := 1, ceq_create_if_missing := True,
     ceq_key := CanonicalTensorKeyWire_init\<lparr>ck_job := sample_job, ck_model_version := 9, ck_nbytes := 5000\<rparr>\<rparr>"

definition sample_object :: CanonicalObject where
  "sample_object = new_object sample_evict 1 1 0 2 1000"

lemma sample_evict_run:
  "\<exists>r s. handle_request_canonical_evict sample_evict sample_with_job = (Ret r, s) \<and> ces_ok r \<and>
     ces_action r = attach_action_code ATTACH_ACTION_NEED_D2H_CREATE \<and> d_objects s = [(1, sample_object)]"
proof -
  obtain jr where j: "d_jobs sample_with_job = [(sample_uid, jr)]" "job_max_pinned_bytes jr = 0"
    "d_manifests sample_with_job = []" "d_objects sample_with_job = []" "d_cfg sample_with_job = sample_config"
    "d_object_by_key sample_with_job = []" "d_sessions sample_with_job = [(7, sample_session)]"
    "d_next_object_id sample_with_job = 1" "d_next_lease_id sample_with_job = 1" "d_leases sample_with_job = []"
    "d_slots sample_with_job = d_slots sample_daemon" "d_windows sample_with_job = d_windows sample_daemon"
    "d_window_index sample_with_job = d_window_index sample_daemon" "d_clock sample_with_job = 1000"
    by (simp add: sample_with_job_def handle_register_job_def RegisterJobRequest_init_def live_job_def Let_def t_put_def
        job_id_of_def sample_config_def DaemonConfig_init_def m_inc_def m_add_def)
  have alloc: "allocate_slots 0 0 5000 fl (sample_with_job\<lparr>d_next_object_id := n\<rparr>) =
      (Some (0, 2), sample_with_job\<lparr>d_next_object_id := n\<rparr>)" for fl n
    by (rule sample_run) (simp_all add: j)
  show ?thesis
    by (simp add: handle_request_canonical_evict_def sample_evict_def RequestCanonicalEvictRequest_init_def
      CanonicalTensorKeyWire_init_def sample_job_def j epoch_valid_def t_find_def sample_session_def find_job_by_wire_def
      find_job_def wire_uid_def version_sealed_def evict_shard_def find_object_by_key_def evict_create_def Let_def
      reserve_canonical_def quota_allows_pinned_def alloc_at_once [OF alloc] bnd_def [of "reserve_canonical _ _ _"]
      ret_def put_object_def put_lease_def modify_job_def t_put_def reserve_run_def upd_run_def m_inc_def m_add_def
      evict_granted_def sample_object_def now_real_ns_def slots_for_bytes_def)
qed

section \<open>Reaching them\<close>

lemma reply_value: "p s = (Ret r, s') \<Longrightarrow> reply w p s = (Ret (w r, []), s')"
  by (simp add: reply_def bnd_def ret_def)

lemma accepted:
  assumes "sys_reach s0 (s, ts)" and "handle_request req s = (Ret r, s')"
  shows "\<exists>ts'. sys_reach s0 (s', ts')"
proof -
  have "forget (handle_request req) s = (Ret (), s')" using assms(2) by (simp add: forget_def bnd_def ret_def)
  then show ?thesis using step [OF assms(1) accept] by blast
qed

lemma sample_registered_reached: "\<exists>ts. sys_reach sample_daemon (sample_registered, ts)"
proof (rule accepted [OF start])
  show "handle_request (RqRegisterRank sample_register) sample_daemon =
      (Ret (RsRegisterRank (fst (fst (handle_register sample_register sample_daemon))),
            snd (fst (handle_register sample_register sample_daemon))), sample_registered)"
    by (simp add: bnd_def locked_def ret_def split_beta sample_registered_def)
qed

lemma sample_leased_reached: "\<exists>ts. sys_reach sample_daemon (sample_leased, ts)"
  using sample_registered_reached accepted [of _ sample_registered _ "RqRequestOffload sample_offload"]
    by (auto simp: reply_value sample_offload_run)

lemma sample_with_job_reached: "\<exists>ts. sys_reach sample_daemon (sample_with_job, ts)"
  using sample_registered_reached accepted [of _ sample_registered _ "RqRegisterJob
      (RegisterJobRequest_init\<lparr>rjq_tenant_id := 1, rjq_job_name := ''j'', rjq_scheduler_job_id := 5\<rparr>)"]
  by (auto simp: reply_def bnd_def locked_def ret_def split_beta sample_with_job_def)

lemma sample_sealed_reached: "\<exists>ts. sys_reach sample_daemon (sample_sealed, ts)"
  using sample_with_job_reached accepted [of _ sample_with_job _ "RqSealModelVersion sample_seal"]
  by (auto simp: reply_def bnd_def locked_def ret_def split_beta sample_sealed_def)

lemma sample_object_reached:
  "\<exists>s ts. sys_reach sample_daemon (s, ts) \<and> d_objects s = [(1, sample_object)]"
proof -
  obtain r s where run: "handle_request_canonical_evict sample_evict sample_with_job = (Ret r, s)"
    and ob: "d_objects s = [(1, sample_object)]" using sample_evict_run by blast
  then have "handle_request (RqRequestCanonicalEvict sample_evict) sample_with_job = (Ret (RsRequestCanonicalEvict r, []), s)"
    by (simp add: reply_value run)
  then show ?thesis using sample_with_job_reached accepted ob by blast
qed

end
