(* ===== verification/Invariants.thy ===== *)
theory Invariants
  imports Dispatch
begin

text \<open>
  Invariants of the daemon. The locale \<open>daemon_invariant\<close> is the contract between an invariant and the
  statements the handlers are made of: which statement keeps it under which condition, and what it
  says about the rows of the tables. From these laws every handler, worker round and sweep is shown
  to keep the invariant, critical section by critical section, and so does every run of the
  concurrent system.
\<close>

section \<open>Sections that keep an invariant\<close>

text \<open>
  A task is safe when each of its sections, started in a state with the invariant, ends in one, and
  the value it returns satisfies \<open>Q\<close>.
\<close>

inductive safe :: "(daemon \<Rightarrow> bool) \<Rightarrow> ('a \<Rightarrow> bool) \<Rightarrow> 'a task \<Rightarrow> bool" for I Q where
  safe_Ret: "Q x \<Longrightarrow> safe I Q (Ret x)"
| safe_Crash: "safe I Q Crash"
| safe_Unlock: "(\<And>env s. I s \<Longrightarrow> I (snd (k env s)) \<and> safe I Q (fst (k env s))) \<Longrightarrow> safe I Q (Unlock k)"

inductive_simps safe_Ret_iff [simp]: "safe I Q (Ret x)"
inductive_cases safe_UnlockE: "safe I Q (Unlock k)"

lemma safe_resumed: "safe I Q (Unlock k) \<Longrightarrow> I s \<Longrightarrow> k env s = (t, s') \<Longrightarrow> I s' \<and> safe I Q t"
  by (erule safe_UnlockE) (metis fst_conv snd_conv)

text \<open>A program run at a state with the invariant: the section it ran and the task it left.\<close>

definition good :: "(daemon \<Rightarrow> bool) \<Rightarrow> ('a \<Rightarrow> bool) \<Rightarrow> 'a task \<times> daemon \<Rightarrow> bool" where
  "good I Q r \<longleftrightarrow> I (snd r) \<and> safe I Q (fst r)"

lemma good_ret: "Q x \<Longrightarrow> I s \<Longrightarrow> good I Q (ret x s)"
  by (simp add: good_def ret_def)

lemma good_crash: "I s \<Longrightarrow> good I Q (Crash, s)"
  by (simp add: good_def safe_Crash)

lemma good_locked: "I (snd (f s)) \<Longrightarrow> Q (fst (f s)) \<Longrightarrow> good I Q (locked f s)"
  by (simp add: good_def locked_def split_beta)

lemma good_unlock:
  "(\<And>env s. I s \<Longrightarrow> good I Q (k env s)) \<Longrightarrow> I s \<Longrightarrow> good I Q (Unlock k, s)"
  by (auto simp: good_def intro: safe_Unlock)

lemma good_unlocked:
  "(\<And>env s. I s \<Longrightarrow> I (snd (io env s)) \<and> Q (fst (io env s))) \<Longrightarrow> I s \<Longrightarrow> good I Q (unlocked io s)"
  unfolding unlocked_def by (rule good_unlock) (auto simp: split_beta good_def intro!: safe_Unlock)

lemma good_weaken: "good I Q r \<Longrightarrow> (\<And>x. Q x \<Longrightarrow> R x) \<Longrightarrow> good I R r"
proof -
  have "safe I Q t \<Longrightarrow> (\<And>x. Q x \<Longrightarrow> R x) \<Longrightarrow> safe I R t" for t
    by (induction rule: safe.induct) (auto intro: safe.intros)
  then show "good I Q r \<Longrightarrow> (\<And>x. Q x \<Longrightarrow> R x) \<Longrightarrow> good I R r" by (auto simp: good_def)
qed

lemma good_then:
  assumes "safe I Q t" and "\<And>x s. Q x \<Longrightarrow> I s \<Longrightarrow> good I R (f x s)" and "I s"
  shows "good I R (then_task t f s)"
  using assms
proof (induction arbitrary: s rule: safe.induct)
  case (safe_Unlock k)
  have "good I R (case k env s1 of (t, s2) \<Rightarrow> then_task t f s2)" if "I s1" for env s1
    using safe_Unlock(1) [OF that, of env] safe_Unlock.prems(1) by (simp add: split_beta)
  then show ?case using safe_Unlock.prems(2) by (simp add: then_task_Unlock good_unlock)
qed (simp_all add: good_crash)

lemma good_bnd:
  assumes "good I Q (p s)" and "\<And>x s. Q x \<Longrightarrow> I s \<Longrightarrow> good I R (f x s)"
  shows "good I R (bnd p f s)"
  using good_then [of I Q "fst (p s)" R f "snd (p s)"] assms by (simp add: bnd_def good_def split_beta)

lemma good_bnd_any:
  "good I (\<lambda>_. True) (p s) \<Longrightarrow> (\<And>x s. I s \<Longrightarrow> good I R (f x s)) \<Longrightarrow> good I R (bnd p f s)"
  by (rule good_bnd [where Q = "\<lambda>_. True"])

lemma ret_at [simp]: "fst (ret x s) = Ret x" "snd (ret x s) = s"
  by (simp_all add: ret_def)

section \<open>The contract of an invariant\<close>

text \<open>What a slot is, as opposed to what it holds.\<close>

definition geometry :: "slot_entry \<Rightarrow> u32 \<times> u32 \<times> u32 \<times> u64 \<times> u64 \<times> u64" where
  "geometry e = (se_slot_id e, se_numa_node e, se_gpu_preferred e, se_arena_id e, se_arena_offset e, se_capacity e)"

text \<open>States that differ only in counters, clocks, rings, files, memory and the like.\<close>

definition same_tables :: "daemon \<Rightarrow> daemon \<Rightarrow> bool" where
  "same_tables s s' \<longleftrightarrow>
     d_cfg s' = d_cfg s \<and> d_layout s' = d_layout s \<and> d_arenas s' = d_arenas s \<and> d_windows s' = d_windows s \<and>
     d_window_index s' = d_window_index s \<and> d_slots s' = d_slots s \<and> d_sessions s' = d_sessions s \<and>
     d_leases s' = d_leases s \<and> d_locations s' = d_locations s \<and> d_cold_store s' = d_cold_store s \<and>
     d_jobs s' = d_jobs s \<and> d_objects s' = d_objects s \<and> d_manifests s' = d_manifests s \<and>
     d_latest_sealed s' = d_latest_sealed s \<and> d_drain_queue s' = d_drain_queue s \<and>
     d_readback_queue s' = d_readback_queue s"

lemma same_tables_refl [simp]: "same_tables s s"
  by (simp add: same_tables_def)

lemma write_stripes_tables: "same_tables s0 s \<Longrightarrow> same_tables s0 (snd (snd (write_stripes env src i segs ios chunks s)))"
  by (induction env src i segs ios chunks s rule: write_stripes.induct)
    (auto simp: Let_def put_file_def same_tables_def split: prod.split)

lemma open_stripes_tables: "same_tables s0 s \<Longrightarrow> same_tables s0 (snd (snd (open_stripes env i segs chunks s)))"
  by (induction env i segs chunks s rule: open_stripes.induct) (auto simp: Let_def put_file_def same_tables_def)

lemma nvme_write_tables: "same_tables s (snd (snd (nvme_write env src nb s)))"
proof -
  have "same_tables s (s1\<lparr>d_files := fs\<rparr>)" if "same_tables s s1" for s1 fs
    using that by (simp add: same_tables_def)
  then show ?thesis
    using open_stripes_tables [of s s env 0 "stripe_segments nb s" "[]"]
    by (auto simp: nvme_write_def nvme_write_uring_def nvme_write_pwrite_def Let_def write_stripes_tables split: prod.split)
qed

text \<open>Releasing objects leaves the manifests and the published versions alone.\<close>

lemma counter_manifests [simp]:
  "d_manifests (m_inc m s) = d_manifests s" "d_latest_sealed (m_inc m s) = d_latest_sealed s"
  by (simp_all add: m_inc_def m_add_def)

lemma release_object_manifests [simp]:
  "d_manifests (snd (release_object ob s)) = d_manifests s"
  "d_latest_sealed (snd (release_object ob s)) = d_latest_sealed s"
  by (auto simp: release_object_def drop_backing_def Let_def erase_location_def erase_lease_def erase_cold_def
      modify_job_def m_inc_def m_add_def free_slots_def m_sub_def upd_run_def split: option.split)

lemma release_members_manifests [simp]:
  "d_manifests (snd (release_members ids s)) = d_manifests s"
  "d_latest_sealed (snd (release_members ids s)) = d_latest_sealed s"
  unfolding release_members_def
  by (induction ids rule: rev_induct) (auto simp: split_beta split: option.split)

lemma drop_version_latest [simp]: "d_latest_sealed (drop_version uid role ver s) = d_latest_sealed s"
  by (simp add: drop_version_def split_beta)

lemma seal_members_manifests [simp]:
  "d_manifests (snd (seal_members ids s)) = d_manifests s"
  "d_latest_sealed (snd (seal_members ids s)) = d_latest_sealed s"
  unfolding seal_members_def
  by (induction ids rule: rev_induct) (auto simp: split_beta put_object_def split: option.split)

definition lease_ok :: "(u32 \<Rightarrow> u32 \<Rightarrow> bool) \<Rightarrow> (u64 \<Rightarrow> u32) \<Rightarrow> u64 \<Rightarrow> Lease \<Rightarrow> bool" where
  "lease_ok run_ok cnt k L \<longleftrightarrow>
     ls_lease_id L = k \<and> ls_slot_count L = cnt (ls_nbytes L) \<and> run_ok (ls_base_slot L) (ls_slot_count L)"

definition location_ok :: "(u32 \<Rightarrow> u32 \<Rightarrow> bool) \<Rightarrow> (u64 \<Rightarrow> u32) \<Rightarrow> Location \<Rightarrow> bool" where
  "location_ok run_ok cnt l \<longleftrightarrow> (loc_kind l = OFLD_LOC_PINNED \<longrightarrow> run_ok (loc_slot_id l) (cnt (loc_nbytes l)))"

definition cold_ok :: "ColdEntry \<Rightarrow> bool" where
  "cold_ok c \<longleftrightarrow> cold_kind c = OFLD_LOC_PAGEABLE \<or> cold_kind c = OFLD_LOC_NVME"

definition readback_ok :: "(u32 \<Rightarrow> u32 \<Rightarrow> bool) \<Rightarrow> (u64 \<Rightarrow> u32) \<Rightarrow> ReadbackJob \<Rightarrow> bool" where
  "readback_ok run_ok cnt j \<longleftrightarrow>
     run_ok (rj_base_slot j) (rj_slot_count j) \<and> rj_slot_count j = cnt (rj_nbytes j)"

text \<open>The part of an object that only the listed statements change.\<close>

definition obj_core :: "CanonicalObject \<Rightarrow> u64 \<times> u32 \<times> u32 \<times> u32 \<times> u32 list" where
  "obj_core ob = (obj_object_id ob, obj_base_slot ob, obj_slot_count ob, obj_refcount ob, obj_holders ob)"

named_theorems inv_intros \<open>statements and operations that keep an invariant\<close>

locale daemon_invariant =
  fixes inv :: "daemon \<Rightarrow> bool"
    and run_ok :: "u32 \<Rightarrow> u32 \<Rightarrow> bool"
    and cnt :: "u64 \<Rightarrow> u32"
    and obj_ok :: "u64 \<Rightarrow> CanonicalObject \<Rightarrow> bool"
  assumes frame: "inv s \<Longrightarrow> same_tables s s' \<Longrightarrow> inv s'"
    and slots: "inv s \<Longrightarrow> (\<And>k e. geometry (f k e) = geometry e) \<Longrightarrow> inv (upd_run b c f s)"
    and slot: "inv s \<Longrightarrow> inv (set_slot_state i st s)"
    and sizes: "inv s \<Longrightarrow> slots_for_bytes nb s = cnt nb"
    and alloc: "inv s \<Longrightarrow> allocate_slots g n nb fl s = (Some (b, c), s') \<Longrightarrow> run_ok b c"
    and lease_get: "inv s \<Longrightarrow> (k, L) \<in> set (d_leases s) \<Longrightarrow> lease_ok run_ok cnt k L"
    and lease_put: "inv s \<Longrightarrow> lease_ok run_ok cnt k L \<Longrightarrow> inv (put_lease k L s)"
    and lease_erase: "inv s \<Longrightarrow> inv (erase_lease k s)"
    and location_get: "inv s \<Longrightarrow> t_find (d_locations s) k = Some l \<Longrightarrow> location_ok run_ok cnt l"
    and location_put: "inv s \<Longrightarrow> location_ok run_ok cnt l \<Longrightarrow> inv (put_location k l s)"
    and location_erase: "inv s \<Longrightarrow> inv (erase_location k s)"
    and cold_get: "inv s \<Longrightarrow> t_find (d_cold_store s) k = Some ce \<Longrightarrow> cold_ok ce"
    and cold_put: "inv s \<Longrightarrow> cold_ok ce \<Longrightarrow> inv (put_cold k ce s)"
    and cold_erase: "inv s \<Longrightarrow> inv (erase_cold k s)"
    and object_get: "inv s \<Longrightarrow> (k, ob) \<in> set (d_objects s) \<Longrightarrow> obj_ok k ob"
    and object_put: "inv s \<Longrightarrow> obj_ok k ob \<Longrightarrow> inv (put_object k ob s)"
    and objects_map: "inv s \<Longrightarrow> (\<And>k ob. obj_ok k ob \<Longrightarrow> obj_ok k (h ob)) \<Longrightarrow>
          inv (s\<lparr>d_objects := map (\<lambda>(k, ob). (k, h ob)) (d_objects s)\<rparr>)"
    and object_erase: "inv s \<Longrightarrow> inv (s\<lparr>d_objects := t_erase k (d_objects s)\<rparr>)"
    and session_get: "inv s \<Longrightarrow> t_find (d_sessions s) r = Some ss \<Longrightarrow> ss_rank_id ss = r"
    and session_put: "inv s \<Longrightarrow> ss_rank_id ss = r \<Longrightarrow> inv (s\<lparr>d_sessions := t_put r ss (d_sessions s)\<rparr>)"
    and job_get: "inv s \<Longrightarrow> t_find (d_jobs s) u = Some j \<Longrightarrow> job_uid j = u"
    and job_put: "inv s \<Longrightarrow> job_uid j = u \<Longrightarrow> inv (s\<lparr>d_jobs := t_put u j (d_jobs s)\<rparr>)"
    and drain_get: "inv s \<Longrightarrow> dj \<in> set (d_drain_queue s) \<Longrightarrow> run_ok (dj_base_slot dj) (dj_slot_count dj)"
    and drain_put: "inv s \<Longrightarrow> run_ok (dj_base_slot dj) (dj_slot_count dj) \<Longrightarrow>
          inv (s\<lparr>d_drain_queue := d_drain_queue s @ [dj]\<rparr>)"
    and drain_pop: "inv s \<Longrightarrow> d_drain_queue s = dj # djs \<Longrightarrow> inv (s\<lparr>d_drain_queue := djs\<rparr>)"
    and readback_get: "inv s \<Longrightarrow> rj \<in> set (d_readback_queue s) \<Longrightarrow> readback_ok run_ok cnt rj"
    and readback_put: "inv s \<Longrightarrow> readback_ok run_ok cnt rj \<Longrightarrow>
          inv (s\<lparr>d_readback_queue := d_readback_queue s @ [rj]\<rparr>)"
    and readback_pop: "inv s \<Longrightarrow> d_readback_queue s = rj # rjs \<Longrightarrow> inv (s\<lparr>d_readback_queue := rjs\<rparr>)"
    and manifest_put: "inv s \<Longrightarrow> \<not> version_sealed vk s \<Longrightarrow> inv (s\<lparr>d_manifests := t_put vk m (d_manifests s)\<rparr>)"
    and manifest_erase: "inv s \<Longrightarrow>
          t_find (d_latest_sealed s) \<lparr>rk_job = vk_job vk, rk_model_role = vk_model_role vk\<rparr> \<noteq> Some (vk_model_version vk) \<Longrightarrow>
          inv (s\<lparr>d_manifests := t_erase vk (d_manifests s)\<rparr>)"
    and latest_put: "inv s \<Longrightarrow> version_sealed \<lparr>vk_job = rk_job rk, vk_model_role = rk_model_role rk, vk_model_version = v\<rparr> s \<Longrightarrow>
          inv (s\<lparr>d_latest_sealed := t_put rk v (d_latest_sealed s)\<rparr>)"
    and latest_erase: "inv s \<Longrightarrow> inv (s\<lparr>d_latest_sealed := t_erase rk (d_latest_sealed s)\<rparr>)"
    and obj_same: "obj_ok k ob \<Longrightarrow> obj_core ob' = obj_core ob \<Longrightarrow> obj_ok k ob'"
    and obj_add: "obj_ok k ob \<Longrightarrow> obj_ok k (add_holder r ob)"
    and obj_drop: "obj_ok k ob \<Longrightarrow> obj_ok k (drop_holder r ob)"
    and obj_new: "run_ok b c \<Longrightarrow> obj_ok k (new_object req k lid b c now)"
    and obj_rebase: "obj_ok k ob \<Longrightarrow> run_ok b c \<Longrightarrow> obj_ok k (ob\<lparr>obj_base_slot := b, obj_slot_count := c\<rparr>)"
    and obj_id: "obj_ok k ob \<Longrightarrow> obj_object_id ob = k"
    and obj_run: "obj_ok k ob \<Longrightarrow> obj_base_slot ob \<noteq> none32 \<Longrightarrow> run_ok (obj_base_slot ob) (obj_slot_count ob)"
begin

lemma fields [inv_intros]:
  assumes "inv s"
  shows "inv (s\<lparr>d_counters := c\<rparr>)" "inv (s\<lparr>d_next_lease_id := i\<rparr>)" "inv (s\<lparr>d_next_cold_ref := i\<rparr>)"
    "inv (s\<lparr>d_next_object_id := i\<rparr>)" "inv (s\<lparr>d_next_rank_epoch := i\<rparr>)" "inv (s\<lparr>d_next_launch_epoch := i\<rparr>)"
    "inv (s\<lparr>d_heartbeat_ns := i\<rparr>)" "inv (s\<lparr>d_clock := i\<rparr>)" "inv (s\<lparr>d_rings := rs\<rparr>)" "inv (s\<lparr>d_ring_owner := os\<rparr>)"
    "inv (s\<lparr>d_running := r\<rparr>)" "inv (s\<lparr>d_nvme_stripe_offsets := ofs\<rparr>)" "inv (s\<lparr>d_files := fs\<rparr>)" "inv (s\<lparr>d_mem := m\<rparr>)"
    "inv (s\<lparr>d_bw_samples := bw\<rparr>)" "inv (s\<lparr>d_object_by_key := ks\<rparr>)"
  by (rule frame [OF assms]; simp add: same_tables_def)+

lemma counters [inv_intros]:
  "inv s \<Longrightarrow> inv (m_add m v s)" "inv s \<Longrightarrow> inv (m_sub m v s)" "inv s \<Longrightarrow> inv (m_inc m s)"
  by (auto simp: m_add_def m_sub_def m_inc_def intro: inv_intros)

lemmas statements [inv_intros] = slot lease_erase location_erase cold_erase object_erase latest_erase

lemma run_statements [inv_intros]:
  assumes "inv s"
  shows "inv (set_run_state b c st s)" "inv (free_slots b c s)" "inv (complete_run b c seq st s)"
    "inv (submit_run b c seq st s)" "inv (reserve_run b c tid ver lid rank pid ep nb fl s)"
    "inv (warm_bind req ob b c s)"
  using assms by (auto simp: set_run_state_def free_slots_def complete_run_def submit_run_def reserve_run_def
      warm_bind_def clear_entry_def geometry_def intro!: inv_intros slots)

lemma jobs [inv_intros]:
  assumes "inv s" and "\<And>j. job_uid (f j) = job_uid j"
  shows "inv (modify_job u f s)"
proof (cases "t_find (d_jobs s) u")
  case (Some j)
  then have "job_uid (f j) = u" using job_get [OF assms(1)] assms(2) by simp
  then show ?thesis using job_put [OF assms(1), of "f j" u] Some by (simp add: modify_job_def t_modify_def)
qed (simp add: modify_job_def t_modify_def assms(1))

lemma sessions [inv_intros]:
  assumes "inv s" and "\<And>ss. ss_rank_id (f ss) = ss_rank_id ss"
  shows "inv (modify_session r f s)"
proof (cases "t_find (d_sessions s) r")
  case (Some ss)
  then have "ss_rank_id (f ss) = r" using session_get [OF assms(1)] assms(2) by simp
  then show ?thesis using session_put [OF assms(1), of "f ss" r] Some by (simp add: modify_session_def t_modify_def)
qed (simp add: modify_session_def t_modify_def assms(1))

lemma lease_found: "inv s \<Longrightarrow> find_lease k s = Some L \<Longrightarrow> lease_ok run_ok cnt k L"
  using lease_get t_find_in_set unfolding find_lease_def by metis

lemma object_found: "inv s \<Longrightarrow> find_object k s = Some ob \<Longrightarrow> obj_ok k ob"
  using object_get t_find_in_set unfolding find_object_def by metis

lemma objects [inv_intros]:
  assumes "inv s" and "\<And>ob. obj_ok k ob \<Longrightarrow> obj_ok k (f ob)"
  shows "inv (modify_object k f s)"
proof (cases "t_find (d_objects s) k")
  case (Some ob)
  then have "obj_ok k (f ob)" using object_found [OF assms(1), of k ob] assms(2) by (simp add: find_object_def)
  then show ?thesis using object_put [OF assms(1), of k "f ob"] Some
    by (simp add: modify_object_def t_modify_def put_object_def)
qed (simp add: modify_object_def t_modify_def assms(1))

lemma update_location [inv_intros]:
  assumes "inv s" and "kind = OFLD_LOC_PINNED \<Longrightarrow> run_ok b (cnt nb)"
  shows "inv (snd (update_location_if_latest tid ver kind b cref nb s))"
  using assms by (auto simp: update_location_if_latest_def Let_def location_ok_def split: option.split intro!: inv_intros location_put)

end

end
