(* ===== verification/Handler_Invariants.thy ===== *)
theory Handler_Invariants
  imports Invariants
begin

text \<open>
  Every operation of the daemon keeps every invariant that satisfies the contract
  \<open>daemon_invariant\<close>: the shared steps, the handlers, the workers and the sweeps.
\<close>

context daemon_invariant
begin

section \<open>Shared steps\<close>

lemma drop_backing [inv_intros]: "inv s \<Longrightarrow> inv (drop_backing ob s)"
  by (auto simp: drop_backing_def split: option.split intro!: inv_intros)

lemma release_object [inv_intros]: "inv s \<Longrightarrow> inv (snd (release_object ob s))"
  by (auto simp: release_object_def Let_def uncharge_job_def intro!: inv_intros)

lemma maybe_free [inv_intros]: "inv s \<Longrightarrow> inv (snd (maybe_free_object ob s))"
  by (auto simp: maybe_free_object_def intro!: inv_intros)

lemma free_if_idle [inv_intros]: "inv s \<Longrightarrow> inv (free_if_idle oid s)"
  by (auto simp: free_if_idle_def split: option.split intro!: inv_intros)

lemma fold_keeps: "(\<And>x s. inv s \<Longrightarrow> inv (f x s)) \<Longrightarrow> inv s \<Longrightarrow> inv (fold f xs s)"
  by (induction xs arbitrary: s) auto

lemma purge [inv_intros]: "inv s \<Longrightarrow> inv (purge_rank_from_canonical rank s)"
  unfolding purge_rank_from_canonical_def Let_def
  by (rule fold_keeps [OF free_if_idle objects_map]) (simp_all add: obj_drop)

lemma enqueue_drain [inv_intros]: "inv s \<Longrightarrow> lease_ok run_ok cnt k L \<Longrightarrow> inv (enqueue_drain L s)"
  unfolding enqueue_drain_def Let_def
  by (intro inv_intros drain_put) (auto simp: lease_ok_def)

lemma d2h_complete [inv_intros]:
  assumes I: "inv s"
  shows "inv (snd (apply_d2h_complete rank ep lid tid ver slot_id seq s))"
proof (cases "find_lease lid s")
  case None
  then show ?thesis using I by (simp add: apply_d2h_complete_def inv_intros)
next
  case (Some L)
  then have L: "lease_ok run_ok cnt lid L" by (rule lease_found [OF I])
  then have "run_ok (ls_base_slot L) (cnt (ls_nbytes L))" by (auto simp: lease_ok_def)
  then show ?thesis
    using I Some
    by (auto simp: apply_d2h_complete_def Let_def split_beta intro!: inv_intros enqueue_drain [OF _ L])
qed

lemma cold_copied: "inv s \<Longrightarrow> snd (cold_copy tid b s) = Some ce \<Longrightarrow> cold_ok ce"
  by (auto simp: cold_copy_def Let_def split: if_splits intro: cold_get)

lemma h2d_complete [inv_intros]:
  assumes I: "inv s"
  shows "inv (snd (apply_h2d_complete rank ep lid tid ver slot_id keep seq s))"
proof (cases "find_lease lid s")
  case None
  then show ?thesis using I by (simp add: apply_h2d_complete_def inv_intros)
next
  case (Some L)
  have run: "run_ok (ls_base_slot L) (cnt (ls_nbytes L))"
    using lease_found [OF I Some] by (auto simp: lease_ok_def)
  let ?s2 = "m_add kH2DBytes (ls_nbytes L) (m_sub kInflightH2DBytes (ls_nbytes L)
      (upd_run (ls_base_slot L) (ls_slot_count L) (\<lambda>k e. e\<lparr>se_complete_seq := seq\<rparr>) s))"
  have I2: "inv ?s2" using I by (intro inv_intros slots) (auto simp: geometry_def)
  obtain ref ce where copy: "cold_copy tid (ls_base_slot L) ?s2 = (ref, ce)" by fastforce
  have "cold_kind c \<noteq> OFLD_LOC_PINNED" if "ce = Some c" for c
    using cold_copied [OF I2, of tid "ls_base_slot L" c] copy that by (auto simp: cold_ok_def)
  then show ?thesis
    using I I2 Some run copy
    by (auto simp: apply_h2d_complete_def Let_def location_ok_def split: option.split
        intro!: inv_intros location_put)
qed

lemma ring_completion [inv_intros]: "inv s \<Longrightarrow> inv (apply_ring_completion rank ep e s)"
  by (auto simp: apply_ring_completion_def intro!: inv_intros)

lemma drain_ring [inv_intros]: "inv s \<Longrightarrow> inv (drain_ring n i owner ep s)"
proof (induction n arbitrary: s)
  case (Suc n)
  have "inv (drain_ring n i owner ep (apply_ring_completion owner ep e (set_ring i h s)))" for e h
    unfolding set_ring_def by (intro Suc.IH inv_intros Suc.prems)
  then show ?case using Suc.prems by (auto split: option.split)
qed simp

lemma reclaim [inv_intros]: "inv s \<Longrightarrow> inv (reclaim_lease L s)"
  by (auto simp: reclaim_lease_def Let_def intro!: inv_intros)

lemma recover [inv_intros]: "inv s \<Longrightarrow> inv (recover_leases rank ep s)"
  unfolding recover_leases_def Let_def by (intro fold_keeps inv_intros)

lemma alloc_count: "inv s \<Longrightarrow> allocate_slots g n nb fl s = (Some (b, c), s') \<Longrightarrow> c = cnt nb"
  using sizes [of s nb] by (auto simp: allocate_slots_def Let_def split: option.splits if_splits)

lemma alloc_state: "inv s \<Longrightarrow> inv (snd (allocate_slots g n nb fl s))"
  by (auto simp: allocate_slots_def Let_def split: option.split intro!: inv_intros)

section \<open>Registration\<close>

lemma release_ring [inv_intros]: "inv s \<Longrightarrow> inv (release_ring ss s)"
  by (auto simp: release_ring_def drain_ring_all_def set_ring_def Let_def intro!: inv_intros)

lemma invalidate [inv_intros]: "inv s \<Longrightarrow> inv (invalidate k s)"
  by (auto simp: invalidate_def split: option.split intro!: inv_intros)

lemma invalidate_pid [inv_intros]: "inv s \<Longrightarrow> inv (invalidate_pid rank pid k s)"
  by (auto simp: invalidate_pid_def split: option.split intro!: inv_intros)

lemma assign_ring [inv_intros]: "inv s \<Longrightarrow> inv (snd (assign_ring rank ep s))"
  by (auto simp: assign_ring_def pad_owners_def set_ring_def Let_def split: option.split intro!: inv_intros)

lemma register [inv_intros]: "inv s \<Longrightarrow> inv (snd (handle_register req s))"
  by (auto simp: handle_register_def Let_def split_beta intro!: inv_intros session_put fold_keeps [where f = "invalidate_pid _ _"])

lemma heartbeat [inv_intros]: "inv s \<Longrightarrow> inv (snd (handle_heartbeat req s))"
  by (auto simp: handle_heartbeat_def Let_def intro!: inv_intros)

section \<open>Draining under pressure\<close>

lemma record_transfer [inv_intros]: "inv s \<Longrightarrow> inv (record_transfer env nb s)"
  by (auto simp: record_transfer_def Let_def intro!: inv_intros)

lemma nvme_write [inv_intros]: "inv s \<Longrightarrow> inv (snd (snd (nvme_write env src nb s)))"
  using frame nvme_write_tables by blast

lemma drain_to_cold [inv_intros]: "inv s \<Longrightarrow> inv (snd (do_drain_to_cold env b nb s))"
  by (auto simp: do_drain_to_cold_def Let_def split_beta intro!: inv_intros)

lemma drained_entry: "snd (fst (do_drain_to_cold env b nb s)) \<Longrightarrow> cold_ok (fst (fst (do_drain_to_cold env b nb s)))"
  by (auto simp: do_drain_to_cold_def Let_def split_beta cold_ok_def)

lemma good_drain:
  "inv s \<Longrightarrow> good inv (\<lambda>(cold, ok). ok \<longrightarrow> cold_ok cold) (unlocked (\<lambda>env. do_drain_to_cold env b nb) s)"
  by (rule good_unlocked) (auto simp: split_beta drained_entry intro!: inv_intros)

lemma commit_drain [inv_intros]:
  "inv s \<Longrightarrow> cold_ok cold \<Longrightarrow> inv (commit_drain b c tid ver nb lid cold s)"
  unfolding commit_drain_def Let_def
  by (intro inv_intros slots cold_put) (auto simp: cold_ok_def geometry_def)

lemma oldest_found: 
  assumes "inv s" and "oldest_lease s \<noteq> 0"
  shows "\<exists>L. find_lease (oldest_lease s) s = Some L"
proof -
  let ?step = "\<lambda>(k, L) (best_ts, best_lease).
      if drain_eligible L s \<and> se_last_touch_ns (at32 (d_slots s) (ls_base_slot L)) < best_ts
      then (se_last_touch_ns (at32 (d_slots s) (ls_base_slot L)), ls_lease_id L) else (best_ts, best_lease)"
  have "snd (fold ?step xs acc) = snd acc \<or> snd (fold ?step xs acc) \<in> ls_lease_id ` snd ` set xs" for xs acc
    by (induction xs arbitrary: acc) (force split: if_splits)+
  from this [of "d_leases s" "(NOT 0, 0)"] assms(2)
  have "oldest_lease s \<in> ls_lease_id ` snd ` set (d_leases s)"
    unfolding oldest_lease_def snd_conv by blast
  then have "oldest_lease s \<in> fst ` set (d_leases s)"
    using lease_get [OF assms(1)] by (force simp: lease_ok_def)
  then show ?thesis unfolding find_lease_def by (auto simp: t_find_def map_of_eq_None_iff simp flip: not_None_eq)
qed

lemma force_drain: "inv s \<Longrightarrow> good inv (\<lambda>_. True) (force_drain_one s)"
proof (cases "oldest_lease s = 0")
  case False
  assume I: "inv s"
  obtain L where "find_lease (oldest_lease s) s = Some L" using oldest_found [OF I False] by blast
  then show ?thesis
    using I False
    by (auto simp: force_drain_one_def Let_def lease_at_def intro!: good_bnd [OF good_drain] good_ret inv_intros
        split: if_splits)
qed (simp add: force_drain_one_def good_ret)

lemma alloc_draining:
  "inv s \<Longrightarrow> good inv (\<lambda>got. \<forall>b c. got = Some (b, c) \<longrightarrow> run_ok b c \<and> c = cnt nb) (alloc_draining n g nu nb fl s)"
proof (induction n arbitrary: s)
  case (Suc n)
  obtain got s1 where a: "allocate_slots g nu nb fl s = (got, s1)" by fastforce
  have I1: "inv s1" using alloc_state [OF Suc.prems, of g nu nb fl] a by simp
  show ?case
  proof (cases got)
    case None
    then show ?thesis using a I1 by (auto intro!: good_bnd [OF force_drain] Suc.IH good_ret)
  next
    case (Some run)
    then show ?thesis using a I1 alloc [OF Suc.prems] alloc_count [OF Suc.prems]
      by (cases run) (auto intro!: good_ret)
  qed
qed (simp add: good_ret)

section \<open>Offload and prefetch\<close>

lemma grant_offload [inv_intros]:
  "inv s \<Longrightarrow> run_ok b c \<Longrightarrow> c = cnt (roq_nbytes req) \<Longrightarrow> inv (snd (grant_offload req b c pid s))"
  unfolding grant_offload_def Let_def snd_conv
  by (intro inv_intros lease_put) (auto simp: lease_ok_def)

lemma request_offload: "inv s \<Longrightarrow> good inv (\<lambda>_. True) (handle_request_offload req s)"
  unfolding handle_request_offload_def Let_def
  by (auto simp: sizes counters split: option.split
      intro!: good_ret good_bnd [OF alloc_draining] good_locked inv_intros)

lemma d2h_submitted [inv_intros]: "inv s \<Longrightarrow> inv (snd (handle_mark_d2h_submitted req s))"
  by (auto simp: handle_mark_d2h_submitted_def split: option.split intro!: inv_intros)

lemma mark_d2h_complete [inv_intros]: "inv s \<Longrightarrow> inv (snd (handle_mark_d2h_complete req s))"
  by (auto simp: handle_mark_d2h_complete_def split_beta intro!: inv_intros)

lemma start_readback [inv_intros]:
  "inv s \<Longrightarrow> run_ok b c \<Longrightarrow> c = cnt (loc_nbytes loc) \<Longrightarrow> inv (snd (start_readback req loc want pid lid b c s))"
  unfolding start_readback_def Let_def snd_conv
  by (intro inv_intros readback_put lease_put slots)
    (auto simp: lease_ok_def readback_ok_def prefetch_lease_def geometry_def)

lemma prefetch_found:
  assumes "inv s" and "location_ok run_ok cnt loc"
  shows "good inv (\<lambda>_. True) (prefetch_found req loc want s)"
  using assms unfolding prefetch_found_def Let_def
  by (auto simp: sizes fields location_ok_def lease_ok_def prefetch_lease_def split: option.split
      intro!: good_ret good_bnd [OF alloc_draining] good_locked inv_intros lease_put)

lemma request_prefetch: "inv s \<Longrightarrow> good inv (\<lambda>_. True) (handle_request_prefetch req s)"
  unfolding handle_request_prefetch_def Let_def
  by (auto split: option.split intro!: good_ret inv_intros prefetch_found intro: location_get [OF counters(3)])

lemma h2d_submitted [inv_intros]: "inv s \<Longrightarrow> inv (snd (handle_mark_h2d_submitted req s))"
  by (auto simp: handle_mark_h2d_submitted_def split: option.split intro!: inv_intros)

lemma mark_h2d_complete [inv_intros]: "inv s \<Longrightarrow> inv (snd (handle_mark_h2d_complete req s))"
  by (auto simp: handle_mark_h2d_complete_def split_beta intro!: inv_intros)

lemma release_lease [inv_intros]: "inv s \<Longrightarrow> inv (snd (handle_release_lease req s))"
  by (auto simp: handle_release_lease_def Let_def location_ok_def split: option.split
      intro!: inv_intros location_put)

lemma batch_entry [inv_intros]: "inv s \<Longrightarrow> inv (snd (apply_batch_entry rank ep c s))"
  by (auto simp: apply_batch_entry_def split_beta intro!: inv_intros)

lemma batch_loop [inv_intros]: "inv s \<Longrightarrow> inv (snd (batch_loop rank ep cs a r s))"
proof (induction cs arbitrary: a r s)
  case (Cons c cs)
  then have "inv (snd (apply_batch_entry rank ep c s))" by (intro inv_intros)
  then show ?case using Cons.IH by (simp add: split_beta)
qed simp

lemma batch_complete [inv_intros]: "inv s \<Longrightarrow> inv (snd (handle_batch_complete req s))"
  by (auto simp: handle_batch_complete_def split_beta intro!: inv_intros)

lemma shutdown [inv_intros]: "inv s \<Longrightarrow> inv (snd (handle_shutdown req s))"
  by (auto simp: handle_shutdown_def intro!: inv_intros)

section \<open>Canonical objects\<close>

lemma job_insert: "inv s \<Longrightarrow> js = d_jobs s \<Longrightarrow> job_uid j = u \<Longrightarrow> inv (s\<lparr>d_jobs := t_put u j js\<rparr>)"
  by (simp add: job_put)

lemma register_job [inv_intros]: "inv s \<Longrightarrow> inv (snd (handle_register_job req s))"
  by (auto simp: handle_register_job_def Let_def split: option.split intro!: inv_intros job_insert)

lemma reserve_canonical:
  "inv s \<Longrightarrow> good inv (\<lambda>got. \<forall>lid b c. got = Some (lid, b, c) \<longrightarrow> run_ok b c) (reserve_canonical req tid ver s)"
  unfolding reserve_canonical_def Let_def
  by (auto simp: sizes lease_ok_def split: option.split
      intro!: good_ret good_bnd [OF alloc_draining] inv_intros lease_put)

lemma evict_candidate: "inv s \<Longrightarrow> good inv (\<lambda>_. True) (evict_candidate req oid m1 m2 s)"
  unfolding evict_candidate_def Let_def
  by (auto split: option.split intro!: good_bnd [OF reserve_canonical] good_ret good_crash inv_intros)

lemma evict_create: "inv s \<Longrightarrow> good inv (\<lambda>_. True) (evict_create req s)"
  unfolding evict_create_def Let_def
  by (auto split: option.split intro!: good_bnd [OF reserve_canonical] good_ret inv_intros object_put obj_new)

lemma key_found: "inv s \<Longrightarrow> find_object_by_key key s = Some ob \<Longrightarrow> obj_ok (obj_object_id ob) ob"
  using object_found obj_id by (fastforce simp: find_object_by_key_def split: option.splits)

lemma attach_existing [inv_intros]:
  "inv s \<Longrightarrow> obj_ok (obj_object_id ob) ob \<Longrightarrow> inv (snd (attach_existing req ob s))"
  unfolding attach_existing_def Let_def snd_conv
  by (intro inv_intros object_put) (auto simp: obj_core_def intro: obj_same [OF obj_add])

lemma evict_shard: "inv s \<Longrightarrow> good inv (\<lambda>_. True) (evict_shard req s)"
  unfolding evict_shard_def Let_def
  by (auto split: option.split intro!: good_ret good_locked evict_candidate evict_create inv_intros intro: key_found)

lemma canonical_evict: "inv s \<Longrightarrow> good inv (\<lambda>_. True) (handle_request_canonical_evict req s)"
  unfolding handle_request_canonical_evict_def
  by (auto split: option.split intro!: good_ret evict_shard inv_intros)

lemma discard_candidate [inv_intros]: "inv s \<Longrightarrow> inv (discard_candidate req ob s)"
  by (auto simp: discard_candidate_def Let_def split: option.split intro!: inv_intros)

lemma commit [inv_intros]:
  assumes I: "inv s"
  shows "inv (snd (handle_commit_canonical_object req s))"
proof (cases "find_object (ccq_object_id req) s")
  case (Some ob)
  then have ob: "obj_ok (obj_object_id ob) ob" using object_found [OF I] obj_id by metis
  have "inv (snd (commit_creator req ob s))"
    using I ob by (auto simp: commit_creator_def obj_core_def split: option.split
        intro!: inv_intros object_put intro: obj_same)
  moreover have "inv (snd (commit_candidate req ob s))"
    using I ob by (auto simp: commit_candidate_def Let_def obj_core_def
        intro!: inv_intros object_put intro: obj_same [OF obj_add])
  ultimately show ?thesis using I Some by (auto simp: handle_commit_canonical_object_def intro!: inv_intros)
qed (auto simp: handle_commit_canonical_object_def intro!: inv_intros I)

lemma fold_pair_keeps:
  "(\<And>x a s. inv s \<Longrightarrow> inv (snd (f x (a, s)))) \<Longrightarrow> inv s \<Longrightarrow> inv (snd (fold f xs (a, s)))"
proof (induction xs arbitrary: a s)
  case (Cons x xs)
  then have "inv (snd (f x (a, s)))" by blast
  then show ?case using Cons.IH [OF Cons.prems(1), of "snd (f x (a, s))" "fst (f x (a, s))"] by simp
qed simp

lemma release_hold [inv_intros]: "inv s \<Longrightarrow> inv (snd (release_hold rank oid (r, s)))"
  by (auto simp: release_hold_def Let_def split_beta split: option.split
      intro!: inv_intros object_put obj_drop intro: object_found)

lemma release_canonical [inv_intros]: "inv s \<Longrightarrow> inv (snd (handle_release_canonical req s))"
  by (auto simp: handle_release_canonical_def Let_def split_beta split: option.split
      intro!: inv_intros fold_pair_keeps [where f = "release_hold _"])

section \<open>Sealing, publishing and dropping\<close>

lemma release_members [inv_intros]: "inv s \<Longrightarrow> inv (snd (release_members ids s))"
  unfolding release_members_def
  by (rule fold_pair_keeps) (auto simp: split_beta split: option.split intro!: inv_intros)

lemma manifest_del:
  "inv s \<Longrightarrow> t_find (d_latest_sealed s) \<lparr>rk_job = vk_job vk, rk_model_role = vk_model_role vk\<rparr> \<noteq> Some (vk_model_version vk) \<Longrightarrow>
   ms = d_manifests s \<Longrightarrow> inv (s\<lparr>d_manifests := t_erase vk ms\<rparr>)"
  using manifest_erase by simp

lemma drop_version:
  assumes "inv s" and "t_find (d_latest_sealed s) \<lparr>rk_job = uid, rk_model_role = role\<rparr> \<noteq> Some ver"
  shows "inv (drop_version uid role ver s)"
  using assms by (auto simp: drop_version_def split_beta intro!: inv_intros manifest_del)

lemma retention [inv_intros]:
  assumes "inv s"
  shows "inv (enforce_sealed_retention uid role s)"
proof -
  let ?rk = "\<lparr>rk_job = uid, rk_model_role = role\<rparr>"
  define latest where "latest = (case t_find (d_latest_sealed s) ?rk of None \<Rightarrow> 0 | Some v \<Rightarrow> v)"
  have other: "t_find (d_latest_sealed s) ?rk \<noteq> Some v" if "v \<noteq> latest" for v
    using that by (auto simp: latest_def)
  have "inv (fold (\<lambda>ver s. if ver = latest then s else drop_version uid role ver s) vs s1)"
    if "inv s1" and "d_latest_sealed s1 = d_latest_sealed s" for vs s1
    using that
  proof (induction vs arbitrary: s1)
    case (Cons v vs)
    then show ?case using drop_version [of s1 uid role v] other [of v] by simp
  qed simp
  then show ?thesis using assms by (simp add: enforce_sealed_retention_def Let_def latest_def)
qed

lemma seal_members [inv_intros]: "inv s \<Longrightarrow> inv (snd (seal_members ids s))"
  unfolding seal_members_def
  by (rule fold_pair_keeps)
    (auto simp: obj_core_def split: option.split intro!: object_put intro: obj_same object_found)

lemma manifest_new:
  "inv s \<Longrightarrow> \<not> version_sealed vk s0 \<Longrightarrow> d_manifests s = d_manifests s0 \<Longrightarrow> ms = d_manifests s \<Longrightarrow>
   inv (s\<lparr>d_manifests := t_put vk m ms\<rparr>)"
  using manifest_put [of s vk m] by (simp add: version_sealed_def)

lemma latest_new:
  "inv s \<Longrightarrow> version_sealed \<lparr>vk_job = rk_job rk, vk_model_role = rk_model_role rk, vk_model_version = v\<rparr> s \<Longrightarrow>
   ls = d_latest_sealed s \<Longrightarrow> inv (s\<lparr>d_latest_sealed := t_put rk v ls\<rparr>)"
  using latest_put by simp

lemma seal_version:
  assumes I: "inv s" and vk: "vk = \<lparr>vk_job = uid, vk_model_role = smq_model_role req, vk_model_version = smq_model_version req\<rparr>"
    and new: "\<not> version_sealed vk s"
  shows "inv (snd (seal_version req uid vk s))"
proof -
  have put: "inv (s1\<lparr>d_manifests := t_put vk m ms\<rparr>)" if "inv s1" "d_manifests s1 = d_manifests s" "ms = d_manifests s" for s1 m ms
    using manifest_new [OF that(1) new that(2)] that(2,3) by simp
  have publish: "inv (m_inc c (s1\<lparr>d_manifests := t_put vk m ms\<rparr>)\<lparr>d_latest_sealed :=
      t_put \<lparr>rk_job = uid, rk_model_role = smq_model_role req\<rparr> (smq_model_version req) ls\<rparr>)"
    if "inv s1" "d_manifests s1 = d_manifests s" "ms = d_manifests s" "man_state m = MANIFEST_SEALED"
       "ls = d_latest_sealed s1" for s1 m ms ls c
    using that by (intro latest_new inv_intros put) (auto simp: version_sealed_def vk)
  show ?thesis
    unfolding seal_version_def Let_def
    by (auto simp: split_beta intro!: inv_intros put publish I)
qed

lemma seal [inv_intros]: "inv s \<Longrightarrow> inv (snd (handle_seal_model_version req s))"
  by (auto simp: handle_seal_model_version_def Let_def version_sealed_def split: option.split intro!: inv_intros seal_version)

lemma get_manifest [inv_intros]: "inv s \<Longrightarrow> inv (snd (handle_get_manifest req s))"
  by (auto simp: handle_get_manifest_def Let_def split: option.split intro!: inv_intros)

lemma drop_member [inv_intros]: "inv s \<Longrightarrow> inv (snd (drop_member oid (r, s)))"
  by (auto simp: drop_member_def split_beta split: option.split intro!: inv_intros)

lemma drop_canonical [inv_intros]:
  assumes I: "inv s"
  shows "inv (snd (handle_drop_canonical_version req s))"
proof -
  have both: "inv (s1\<lparr>d_manifests := t_erase vk (d_manifests s1), d_latest_sealed := t_erase rk (d_latest_sealed s1)\<rparr>)"
    if "inv s1" and "rk = \<lparr>rk_job = vk_job vk, rk_model_role = vk_model_role vk\<rparr>" for s1 rk vk
  proof -
    have "inv (s1\<lparr>d_latest_sealed := t_erase rk (d_latest_sealed s1), d_manifests := t_erase vk (d_manifests s1)\<rparr>)"
      using that by (auto intro!: manifest_del latest_erase)
    moreover have "s1\<lparr>d_latest_sealed := t_erase rk (d_latest_sealed s1), d_manifests := t_erase vk (d_manifests s1)\<rparr> =
        s1\<lparr>d_manifests := t_erase vk (d_manifests s1), d_latest_sealed := t_erase rk (d_latest_sealed s1)\<rparr>"
      by simp
    ultimately show ?thesis by simp
  qed
  have "inv (snd (fold drop_member ids (r, s)))" for ids r
    using fold_pair_keeps [where f = drop_member, OF drop_member I] .
  then show ?thesis
    using I by (auto simp: handle_drop_canonical_version_def Let_def split_beta split: option.split
        intro!: both manifest_del)
qed

section \<open>Export and restore\<close>

lemma send_file [inv_intros]: "inv s \<Longrightarrow> inv (snd (send_file env req data s))"
  by (auto simp: send_file_def put_file_def Let_def split_beta intro!: inv_intros)

lemma export_send [inv_intros]: "inv s \<Longrightarrow> inv (snd (export_send env req data fb s))"
proof (induction env req data fb s rule: export_send.induct)
  case (1 env req data fb s)
  have "inv (snd (send_file env req data s))" by (intro inv_intros 1)
  then show ?case using 1 by (subst export_send.simps) (simp add: split_beta)
qed

lemma store_copies [inv_intros]: "inv s \<Longrightarrow> inv (store_copies addr copies s)"
  unfolding store_copies_def
  by (rule fold_keeps) (auto simp: mem_write_def split_beta intro!: inv_intros)

lemma readback_from_cold [inv_intros]: "inv s \<Longrightarrow> inv (snd (do_readback_from_cold env b cold nb s))"
  by (auto simp: do_readback_from_cold_def Let_def mem_write_def split_beta split: option.split intro!: inv_intros)

lemma good_readback: "inv s \<Longrightarrow> good inv (\<lambda>_. True) (unlocked (\<lambda>env. do_readback_from_cold env b cold nb) s)"
  by (rule good_unlocked) (auto intro!: inv_intros)

lemma stage_object: "inv s \<Longrightarrow> good inv (\<lambda>_. True) (stage_object_for_export ob s)"
proof -
  have cold: "good inv (\<lambda>_. True) (unlocked (stage_cold c nb) s)" if "inv s" for c nb s
    using that by (auto simp: stage_cold_def split_beta split: option.split intro!: good_unlocked)
  show "inv s \<Longrightarrow> ?thesis"
    unfolding stage_object_for_export_def
    by (auto split: option.split intro!: good_ret inv_intros good_bnd [OF good_readback] good_bnd [OF cold])
qed

lemma begin_export [inv_intros]: "inv s \<Longrightarrow> obj_ok (obj_object_id ob) ob \<Longrightarrow> inv (begin_export uid ob s)"
  unfolding begin_export_def
  by (intro inv_intros object_put) (auto simp: obj_core_def intro: obj_same)

lemma abort_export [inv_intros]: "inv s \<Longrightarrow> inv (abort_export oid uid prev nb s)"
  unfolding abort_export_def by (intro inv_intros) (auto simp: obj_core_def intro: obj_same)

lemma end_export [inv_intros]: "inv s \<Longrightarrow> inv (end_export oid uid prev nb s)"
  unfolding end_export_def Let_def by (intro inv_intros) (auto simp: obj_core_def intro: obj_same)

lemma pull_finish [inv_intros]: "inv s \<Longrightarrow> inv (snd (pull_finish req uid ob xres s))"
  by (auto simp: pull_finish_def Let_def intro!: inv_intros)

lemma pull_object:
  assumes "inv s" and "obj_ok (obj_object_id ob) ob"
  shows "good inv (\<lambda>_. True) (pull_object req uid ob s)"
proof -
  have send: "good inv (\<lambda>_. True) (unlocked (\<lambda>env s2. export_send env (xq s2) buf (fb s2) s2) s1)" if "inv s1" for xq buf fb s1
    using that by (intro good_unlocked) (auto intro!: inv_intros)
  show ?thesis
    unfolding pull_object_def using assms
    by (auto simp: split_beta intro!: good_bnd [OF stage_object] good_bnd [OF send] good_ret good_locked inv_intros)
qed

lemma pull_tensor: "inv s \<Longrightarrow> good inv (\<lambda>_. True) (handle_pull_tensor req s)"
proof -
  assume I: "inv s"
  have "obj_ok (obj_object_id ob) ob" if "find_object k s = Some ob" for k ob
    using object_found [OF I that] obj_id by metis
  then show ?thesis
    unfolding handle_pull_tensor_def
    using I by (auto split: option.split intro!: good_ret inv_intros pull_object)
qed

lemma serve_restore: "inv s \<Longrightarrow> good inv (\<lambda>_. True) (serve_restore req nb b s)"
  unfolding serve_restore_def
  by (auto simp: obj_core_def split: option.split
      intro!: good_crash good_ret inv_intros object_put intro: obj_same object_found)

lemma obj_warm:
  "obj_ok k ob \<Longrightarrow> run_ok b c \<Longrightarrow> obj_ok k (ob\<lparr>obj_base_slot := b, obj_slot_count := c, obj_state := st\<rparr>)"
  by (rule obj_same [OF obj_rebase, of k ob b c]) (simp_all add: obj_core_def)

lemma warm_finish:
  assumes "inv s" and "run_ok b c" and "c = cnt nb"
  shows "good inv (\<lambda>_. True) (warm_finish req nb b c rok s)"
proof -
  define tid where "tid = canonical_tid (crq_object_id req)"
  define s1 where "s1 = m_add kUsedPinnedBytes (ucast c * gran s) (set_run_state b c OFLD_SLOT_PINNED_VALID s)"
  define s2 where
    "s2 = put_location tid ((location_at tid s1)\<lparr>loc_kind := OFLD_LOC_PINNED, loc_slot_id := b, loc_nbytes := nb\<rparr>) s1"
  have I: "inv s2"
    using assms by (auto simp: s2_def s1_def location_ok_def intro!: inv_intros location_put)
  then have "inv (put_object k (ob\<lparr>obj_base_slot := b, obj_slot_count := c, obj_state := OBJ_VALID_MULTI_TIER\<rparr>) s2)"
    if "find_object k s2 = Some ob" for k ob
    using obj_warm [OF object_found [OF I that] assms(2)] by (intro object_put)
  then show ?thesis
    using assms(1) I unfolding warm_finish_def Let_def tid_def [symmetric] s1_def [symmetric] s2_def [symmetric]
    by (auto split: option.split intro!: good_ret good_crash serve_restore inv_intros)
qed

lemma warm_object: "inv s \<Longrightarrow> good inv (\<lambda>_. True) (warm_object req nb cold s)"
  unfolding warm_object_def
  by (auto split: option.split intro!: good_bnd [OF alloc_draining] good_bnd [OF good_readback] good_ret good_crash
      warm_finish inv_intros)

lemma canonical_restore: "inv s \<Longrightarrow> good inv (\<lambda>_. True) (handle_request_canonical_restore req s)"
  unfolding handle_request_canonical_restore_def
  by (auto split: option.split intro!: good_ret inv_intros serve_restore warm_object)

lemma release_restore [inv_intros]: "inv s \<Longrightarrow> inv (snd (handle_release_canonical_restore req s))"
  unfolding handle_release_canonical_restore_def Let_def
  by (auto simp: obj_core_def intro!: inv_intros intro: obj_same)

section \<open>Workers and sweeps\<close>

lemma drain_commit [inv_intros]: "inv s \<Longrightarrow> (ok \<Longrightarrow> cold_ok cold) \<Longrightarrow> inv (snd (drain_commit job e cold ok s))"
  by (auto simp: drain_commit_def Let_def intro!: inv_intros)

lemma drain_job: "inv s \<Longrightarrow> good inv (\<lambda>_. True) (drain_job job s)"
  by (auto simp: drain_job_def Let_def intro!: good_ret inv_intros good_bnd [OF good_drain] good_locked)

lemma drain_worker: "inv s \<Longrightarrow> good inv (\<lambda>_. True) (drain_worker s)"
  by (auto simp: drain_worker_def split: list.split intro!: good_ret good_unlock drain_job intro: drain_pop)

lemma readback_commit:
  "inv s \<Longrightarrow> readback_ok run_ok cnt job \<Longrightarrow> inv (snd (readback_commit job ok s))"
  by (auto simp: readback_commit_def readback_failed_def readback_ok_def Let_def intro!: inv_intros)

lemma readback_job: "inv s \<Longrightarrow> readback_ok run_ok cnt job \<Longrightarrow> good inv (\<lambda>_. True) (readback_job job s)"
  by (auto simp: readback_job_def readback_failed_def split: option.split
      intro!: good_ret inv_intros good_unlock good_bnd [OF good_readback] good_locked readback_commit)

lemma readback_worker: "inv s \<Longrightarrow> good inv (\<lambda>_. True) (readback_worker s)"
  by (auto simp: readback_worker_def split: list.split
      intro!: good_ret good_unlock readback_job intro: readback_pop readback_get)

lemma heartbeat_sweep [inv_intros]: "inv s \<Longrightarrow> inv (heartbeat_sweep s)"
  unfolding heartbeat_sweep_def Let_def
  by (intro fold_keeps inv_intros) (auto simp: monitor_session_def split: option.split intro!: inv_intros)

lemma sweeps [inv_intros]: "inv s \<Longrightarrow> inv (ring_sweep s)" "inv s \<Longrightarrow> inv (ring_final_sweep s)"
  unfolding ring_sweep_def ring_final_sweep_def
  by (rule fold_keeps; auto simp: poll_ring_def Let_def intro!: inv_intros)+

section \<open>The system\<close>

lemma good_reply: "good inv (\<lambda>_. True) (p s) \<Longrightarrow> good inv (\<lambda>_. True) (reply wrap p s)"
  unfolding reply_def by (rule good_bnd_any) (auto intro: good_ret)

lemma good_sections:
  "inv (snd (f s)) \<Longrightarrow> good inv (\<lambda>_. True) (locked f s)"
  "inv s \<Longrightarrow> good inv (\<lambda>_. True) (locked (\<lambda>s. (g s, s)) s)"
  by (auto intro: good_locked)

lemma handle_request: "inv s \<Longrightarrow> good inv (\<lambda>_. True) (handle_request req s)"
proof (cases req)
  case (RqRegisterRank m)
  assume "inv s"
  then have "good inv (\<lambda>_. True) (locked (handle_register m) s)" by (intro good_sections inv_intros)
  then show ?thesis using RqRegisterRank by (auto simp: split_beta intro!: good_bnd_any good_ret)
next
  case (RqPullTensor m)
  assume "inv s"
  then show ?thesis using RqPullTensor by (auto simp: split_beta intro!: good_bnd_any [OF pull_tensor] good_ret)
qed (simp_all only: handle_request.simps,
  (rule good_reply, (rule good_sections(2) |
     intro good_sections(1) request_offload request_prefetch canonical_evict canonical_restore inv_intros); assumption)+)

lemma request_forgotten: "inv s \<Longrightarrow> good inv (\<lambda>_. True) (forget (handle_request req) s)"
  unfolding forget_def by (rule good_bnd [OF handle_request]) (auto intro: good_ret)

text \<open>Every state the system reaches has the invariant, and every waiting thread will keep it.\<close>

lemma step_keeps:
  assumes "sys_step (s, ts) (s', ts')" and I: "inv s" and T: "\<forall>t\<in>set ts. safe inv (\<lambda>_. True) t"
  shows "inv s' \<and> (\<forall>t\<in>set ts'. safe inv (\<lambda>_. True) t)"
  using assms(1)
proof (cases rule: sys_step.cases)
  case (accept req t)
  then show ?thesis using T request_forgotten [OF I, of req] by (simp add: good_def)
next
  case (drain_round t)
  then show ?thesis using T drain_worker [OF I] by (simp add: good_def)
next
  case (readback_round t)
  then show ?thesis using T readback_worker [OF I] by (simp add: good_def)
next
  case (resume i k env t)
  then have "safe inv (\<lambda>_. True) (Unlock k)" using T nth_mem by metis
  then have "inv s' \<and> safe inv (\<lambda>_. True) t" using safe_resumed I resume(4) by blast
  then show ?thesis using T set_update_subset_insert [of ts i t] resume(1) by auto
next
  case (rank_push i e)
  then show ?thesis using T I by (simp add: set_ring_def fields)
qed (use I T in \<open>simp_all add: fields sweeps heartbeat_sweep\<close>)

lemma reach_keeps:
  assumes "sys_reach s0 c" and "inv s0"
  shows "inv (fst c) \<and> (\<forall>t\<in>set (snd c). safe inv (\<lambda>_. True) t)"
  using assms(1)
proof induction
  case (step c c')
  then show ?case using step_keeps [of "fst c" "snd c" "fst c'" "snd c'"] by simp
qed (use assms(2) in simp)

end

end
