(* ===== verification/Safety.thy ===== *)
theory Safety
  imports Handler_Invariants Samples
begin

text \<open>
  The invariant of the running daemon and what it gives for every state the concurrent system reaches:
  the bytes a lease, a resident location or a queued readback stands for lie inside their arena, the
  reference count of an object is the number of ranks that hold it, and a published version is sealed.
\<close>

section \<open>The invariant\<close>

text \<open>A run inside one window.\<close>

definition window_run :: "daemon \<Rightarrow> u32 \<Rightarrow> u32 \<Rightarrow> bool" where
  "window_run s b c \<longleftrightarrow>
     list_ex (\<lambda>w. b \<in> set (win_slot_ids w) \<and>
                  unat b + unat c \<le> unat (hd (win_slot_ids w)) + length (win_slot_ids w)) (d_windows s)"

text \<open>What start-up fixes and no request changes.\<close>

definition same_plan :: "daemon \<Rightarrow> daemon \<Rightarrow> bool" where
  "same_plan s0 s \<longleftrightarrow>
     d_cfg s = d_cfg s0 \<and> d_arenas s = d_arenas s0 \<and> d_windows s = d_windows s0 \<and>
     d_window_index s = d_window_index s0 \<and> map geometry (d_slots s) = map geometry (d_slots s0)"

text \<open>
  An object is filed under its own id, its slots are a run of a window, its holders are distinct and
  counted.
\<close>

definition object_ok :: "(u32 \<Rightarrow> u32 \<Rightarrow> bool) \<Rightarrow> u64 \<Rightarrow> CanonicalObject \<Rightarrow> bool" where
  "object_ok run_ok k ob \<longleftrightarrow>
     obj_object_id ob = k \<and> (obj_base_slot ob \<noteq> none32 \<longrightarrow> run_ok (obj_base_slot ob) (obj_slot_count ob)) \<and>
     distinct (obj_holders ob) \<and> obj_refcount ob = of_nat (length (obj_holders ob))"

definition version_of :: "RoleKey \<Rightarrow> u64 \<Rightarrow> VersionKey" where
  "version_of rk v = \<lparr>vk_job = rk_job rk, vk_model_role = rk_model_role rk, vk_model_version = v\<rparr>"

definition rows_ok :: "('k \<Rightarrow> 'v \<Rightarrow> bool) \<Rightarrow> ('k, 'v) table \<Rightarrow> bool" where
  "rows_ok P t \<longleftrightarrow> list_all (\<lambda>(k, v). P k v) t"

definition daemon_ok :: "daemon \<Rightarrow> daemon \<Rightarrow> bool" where
  "daemon_ok s0 s \<longleftrightarrow>
     windows_ok s0 \<and> same_plan s0 s \<and>
     rows_ok (lease_ok (window_run s0) (\<lambda>nb. slots_for_bytes nb s0)) (d_leases s) \<and>
     rows_ok (\<lambda>k. location_ok (window_run s0) (\<lambda>nb. slots_for_bytes nb s0)) (d_locations s) \<and>
     rows_ok (\<lambda>k. cold_ok) (d_cold_store s) \<and>
     rows_ok (object_ok (window_run s0)) (d_objects s) \<and>
     rows_ok (\<lambda>r ss. ss_rank_id ss = r) (d_sessions s) \<and>
     rows_ok (\<lambda>u j. job_uid j = u) (d_jobs s) \<and>
     list_all (\<lambda>dj. window_run s0 (dj_base_slot dj) (dj_slot_count dj)) (d_drain_queue s) \<and>
     list_all (readback_ok (window_run s0) (\<lambda>nb. slots_for_bytes nb s0)) (d_readback_queue s) \<and>
     (\<forall>rk v. t_find (d_latest_sealed s) rk = Some v \<longrightarrow> version_sealed (version_of rk v) s)"

lemma rows_ok_find: "rows_ok P t \<Longrightarrow> t_find t k = Some v \<Longrightarrow> P k v"
  by (auto simp: rows_ok_def list_all_iff dest: t_find_in_set)

lemma rows_ok_in: "rows_ok P t \<Longrightarrow> (k, v) \<in> set t \<Longrightarrow> P k v"
  by (auto simp: rows_ok_def list_all_iff)

lemma rows_ok_put: "rows_ok P t \<Longrightarrow> P k v \<Longrightarrow> rows_ok P (t_put k v t)"
  by (auto simp: rows_ok_def list_all_iff dest!: t_put_set)

lemma rows_ok_erase: "rows_ok P t \<Longrightarrow> rows_ok P (t_erase k t)"
  by (auto simp: rows_ok_def list_all_iff t_erase_def AList.delete_eq)

lemma rows_ok_map: "rows_ok P t \<Longrightarrow> (\<And>k v. P k v \<Longrightarrow> P k (h v)) \<Longrightarrow> rows_ok P (map (\<lambda>(k, v). (k, h v)) t)"
  by (auto simp: rows_ok_def list_all_iff)

section \<open>Its laws\<close>

lemma window_run_alloc:
  assumes "daemon_ok s0 s" and "allocate_slots g n nb fl s = (Some (b, c), s')"
  shows "window_run s0 b c"
proof -
  have w: "d_windows s = d_windows s0" "length (d_slots s) = length (d_slots s0)"
    and s0: "windows_ok s0" "d_window_index s = d_window_index s0"
    using assms(1) by (auto simp: daemon_ok_def same_plan_def dest: map_eq_imp_length_eq)
  then have "windows_ok s" by (simp add: windows_ok_def)
  then obtain x where x: "x \<in> set (d_windows s)" and t: "try_alloc_in_window s x c = Some b"
    using allocate_slots_window [OF _ assms(2)] by blast
  have ok: "window_ok (length (d_slots s)) x" and len: "length (d_slots s) < 2 ^ 32"
    using windows_okD(1,2) [OF \<open>windows_ok s\<close>] x by auto
  obtain j where j: "j < length (win_slot_ids x)" "b = win_slot_ids x ! j"
      "run_free_at (\<lambda>i. slot_state i s = OFLD_SLOT_FREE) (win_slot_ids x) (unat c) j"
    using try_alloc_at [OF ok t] by blast
  then have "unat b + unat c \<le> unat (hd (win_slot_ids x)) + length (win_slot_ids x)"
    using window_nth [OF ok j(1) len] by (simp add: run_free_at_def)
  moreover have "b \<in> set (win_slot_ids x)" using j by simp
  ultimately show ?thesis using x w unfolding window_run_def list_ex_iff by auto
qed

lemma geometry_update: "geometry y = geometry (xs ! i) \<Longrightarrow> map geometry (xs[i := y]) = map geometry xs"
  by (cases "i < length xs") (simp_all add: map_update list_update_same_conv list_update_beyond)

lemma geometry_run:
  assumes "\<And>k e. geometry (f k e) = geometry e"
  shows "map geometry (for_run b c f xs) = map geometry xs"
proof -
  have "map geometry (fold (\<lambda>k ys. let i = g k in ys[i := f k (ys ! i)]) ks xs) = map geometry xs" for ks g
    by (induction ks arbitrary: xs) (auto simp: Let_def geometry_update assms)
  then show ?thesis by (simp add: for_run_def)
qed

lemmas rows_rules = rows_ok_put rows_ok_erase

lemmas statement_defs = put_lease_def erase_lease_def put_location_def erase_location_def put_cold_def erase_cold_def
  put_object_def upd_run_def set_slot_state_def

lemma ok_puts:
  assumes "daemon_ok s0 s"
  shows "lease_ok (window_run s0) (\<lambda>nb. slots_for_bytes nb s0) k L \<Longrightarrow> daemon_ok s0 (put_lease k L s)"
    "location_ok (window_run s0) (\<lambda>nb. slots_for_bytes nb s0) l \<Longrightarrow> daemon_ok s0 (put_location k l s)"
    "cold_ok ce \<Longrightarrow> daemon_ok s0 (put_cold k ce s)"
    "object_ok (window_run s0) k ob \<Longrightarrow> daemon_ok s0 (put_object k ob s)"
    "ss_rank_id ss = r \<Longrightarrow> daemon_ok s0 (s\<lparr>d_sessions := t_put r ss (d_sessions s)\<rparr>)"
    "job_uid j = u \<Longrightarrow> daemon_ok s0 (s\<lparr>d_jobs := t_put u j (d_jobs s)\<rparr>)"
    "window_run s0 (dj_base_slot dj) (dj_slot_count dj) \<Longrightarrow> daemon_ok s0 (s\<lparr>d_drain_queue := d_drain_queue s @ [dj]\<rparr>)"
    "readback_ok (window_run s0) (\<lambda>nb. slots_for_bytes nb s0) rj \<Longrightarrow>
       daemon_ok s0 (s\<lparr>d_readback_queue := d_readback_queue s @ [rj]\<rparr>)"
  using assms by (simp_all add: daemon_ok_def same_plan_def version_sealed_def statement_defs rows_rules)

lemma ok_erases:
  assumes "daemon_ok s0 s"
  shows "daemon_ok s0 (erase_lease k s)" "daemon_ok s0 (erase_location k s)" "daemon_ok s0 (erase_cold k s)"
    "daemon_ok s0 (s\<lparr>d_objects := t_erase k (d_objects s)\<rparr>)"
    "d_drain_queue s = dj # djs \<Longrightarrow> daemon_ok s0 (s\<lparr>d_drain_queue := djs\<rparr>)"
    "d_readback_queue s = rj # rjs \<Longrightarrow> daemon_ok s0 (s\<lparr>d_readback_queue := rjs\<rparr>)"
    "(\<And>k ob. object_ok (window_run s0) k ob \<Longrightarrow> object_ok (window_run s0) k (h ob)) \<Longrightarrow>
       daemon_ok s0 (s\<lparr>d_objects := map (\<lambda>(k, ob). (k, h ob)) (d_objects s)\<rparr>)"
  using assms by (simp_all add: daemon_ok_def same_plan_def version_sealed_def statement_defs rows_rules rows_ok_map)

lemma ok_rows:
  assumes "daemon_ok s0 s"
  shows "(k, L) \<in> set (d_leases s) \<Longrightarrow> lease_ok (window_run s0) (\<lambda>nb. slots_for_bytes nb s0) k L"
    "t_find (d_locations s) k = Some l \<Longrightarrow> location_ok (window_run s0) (\<lambda>nb. slots_for_bytes nb s0) l"
    "t_find (d_cold_store s) k = Some ce \<Longrightarrow> cold_ok ce"
    "(k, ob) \<in> set (d_objects s) \<Longrightarrow> object_ok (window_run s0) k ob"
    "t_find (d_sessions s) r = Some ss \<Longrightarrow> ss_rank_id ss = r"
    "t_find (d_jobs s) u = Some j \<Longrightarrow> job_uid j = u"
    "dj \<in> set (d_drain_queue s) \<Longrightarrow> window_run s0 (dj_base_slot dj) (dj_slot_count dj)"
    "rj \<in> set (d_readback_queue s) \<Longrightarrow> readback_ok (window_run s0) (\<lambda>nb. slots_for_bytes nb s0) rj"
    "t_find (d_latest_sealed s) rk = Some v \<Longrightarrow> version_sealed (version_of rk v) s"
  using assms unfolding daemon_ok_def list_all_iff by (blast dest: rows_ok_find rows_ok_in)+

lemma object_laws:
  "object_ok R k ob \<Longrightarrow> obj_core ob' = obj_core ob \<Longrightarrow> object_ok R k ob'"
  "object_ok R k ob \<Longrightarrow> object_ok R k (add_holder r ob)"
  "object_ok R k ob \<Longrightarrow> object_ok R k (drop_holder r ob)"
  "R b c \<Longrightarrow> object_ok R k (new_object req k lid b c now)"
  "object_ok R k ob \<Longrightarrow> R b c \<Longrightarrow> object_ok R k (ob\<lparr>obj_base_slot := b, obj_slot_count := c\<rparr>)"
  "object_ok R k ob \<Longrightarrow> obj_object_id ob = k"
  "object_ok R k ob \<Longrightarrow> obj_base_slot ob \<noteq> none32 \<Longrightarrow> R (obj_base_slot ob) (obj_slot_count ob)"
  by (auto simp: object_ok_def obj_core_def add_holder_def drop_holder_def new_object_def Let_def distinct_removeAll)

interpretation dk: daemon_invariant "daemon_ok s0" "window_run s0" "\<lambda>nb. slots_for_bytes nb s0"
  "object_ok (window_run s0)" for s0
proof unfold_locales
  fix s s' assume "daemon_ok s0 s" "same_tables s s'"
  then show "daemon_ok s0 s'" by (simp add: daemon_ok_def same_plan_def same_tables_def version_sealed_def)
next
  fix s b c and f :: "nat \<Rightarrow> slot_entry \<Rightarrow> slot_entry"
  assume "daemon_ok s0 s" "\<And>k e. geometry (f k e) = geometry e"
  then show "daemon_ok s0 (upd_run b c f s)"
    by (simp add: daemon_ok_def same_plan_def version_sealed_def upd_run_def geometry_run)
next
  fix s i st assume "daemon_ok s0 s"
  then show "daemon_ok s0 (set_slot_state i st s)"
    by (simp add: daemon_ok_def same_plan_def version_sealed_def set_slot_state_def geometry_update geometry_def)
next
  fix s nb assume "daemon_ok s0 s"
  then show "slots_for_bytes nb s = slots_for_bytes nb s0"
    by (simp add: daemon_ok_def same_plan_def slots_for_bytes_def)
next
  fix s m and vk :: VersionKey assume ok: "daemon_ok s0 s" and new: "\<not> version_sealed vk s"
  have "version_sealed (version_of rk v) (s\<lparr>d_manifests := t_put vk m (d_manifests s)\<rparr>)"
    if "t_find (d_latest_sealed s) rk = Some v" for rk v
  proof -
    have "version_sealed (version_of rk v) s" using ok that by (simp add: daemon_ok_def)
    moreover from this have "version_of rk v \<noteq> vk" using new by blast
    ultimately show ?thesis by (simp add: version_sealed_def)
  qed
  then show "daemon_ok s0 (s\<lparr>d_manifests := t_put vk m (d_manifests s)\<rparr>)"
    using ok by (simp add: daemon_ok_def same_plan_def)
next
  fix s and vk :: VersionKey assume ok: "daemon_ok s0 s"
    and other: "t_find (d_latest_sealed s) \<lparr>rk_job = vk_job vk, rk_model_role = vk_model_role vk\<rparr> \<noteq> Some (vk_model_version vk)"
  have "version_sealed (version_of rk v) (s\<lparr>d_manifests := t_erase vk (d_manifests s)\<rparr>)"
    if "t_find (d_latest_sealed s) rk = Some v" for rk v
  proof -
    have "version_sealed (version_of rk v) s" using ok that by (simp add: daemon_ok_def)
    moreover have "version_of rk v \<noteq> vk" using other that by (cases rk) (auto simp: version_of_def)
    ultimately show ?thesis by (simp add: version_sealed_def)
  qed
  then show "daemon_ok s0 (s\<lparr>d_manifests := t_erase vk (d_manifests s)\<rparr>)"
    using ok by (simp add: daemon_ok_def same_plan_def)
next
  fix s v and rk :: RoleKey assume "daemon_ok s0 s" and
    "version_sealed \<lparr>vk_job = rk_job rk, vk_model_role = rk_model_role rk, vk_model_version = v\<rparr> s"
  then show "daemon_ok s0 (s\<lparr>d_latest_sealed := t_put rk v (d_latest_sealed s)\<rparr>)"
    by (simp add: daemon_ok_def same_plan_def version_sealed_def version_of_def)
next
  fix s and rk :: RoleKey assume "daemon_ok s0 s"
  then show "daemon_ok s0 (s\<lparr>d_latest_sealed := t_erase rk (d_latest_sealed s)\<rparr>)"
    by (simp add: daemon_ok_def same_plan_def version_sealed_def)
qed (fact window_run_alloc ok_puts ok_erases ok_rows object_laws)+

section \<open>Bytes of a run\<close>

text \<open>The bytes a slot run stands for lie inside the arena of its first slot.\<close>

definition in_arena :: "daemon \<Rightarrow> u32 \<Rightarrow> u64 \<Rightarrow> bool" where
  "in_arena s b nb \<longleftrightarrow>
     unat b < length (d_slots s) \<and>
     (let e = at32 (d_slots s) b in
      unat (se_arena_id e) < length (d_arenas s) \<and>
      unat (se_arena_offset e) + unat nb \<le> unat (ar_size (d_arenas s ! unat (se_arena_id e))))"

text \<open>Sizes whose slot count is computed without wrap-around.\<close>

definition sized :: "daemon \<Rightarrow> u64 \<Rightarrow> bool" where
  "sized s nb \<longleftrightarrow>
     0 < nb \<and> unat nb + unat (gran s) \<le> 2 ^ 64 \<and> unat nb \<le> (2 ^ 32 - 1) * unat (gran s)"

lemma run_offsets:
  assumes pd: "plan_done g sizes p" and last: "i + k < unat (pl_next p)"
    and same: "\<And>j. j \<le> k \<Longrightarrow> se_arena_id (pl_slots p ! (i + j)) = se_arena_id (pl_slots p ! i)"
  shows "unat (se_arena_offset (pl_slots p ! i)) + k * unat g \<le> unat (se_arena_offset (pl_slots p ! (i + k)))"
  using last same
proof (induction k)
  case (Suc k)
  have "se_arena_id (pl_slots p ! (i + k)) = se_arena_id (pl_slots p ! (i + Suc k))"
    using Suc.prems(2) [of k] Suc.prems(2) [of "Suc k"] by simp
  then have "unat (se_arena_offset (pl_slots p ! (i + k))) + unat g \<le> unat (se_arena_offset (pl_slots p ! (i + Suc k)))"
    using pd Suc.prems(1) unfolding plan_done_def by (metis add_Suc_right lessI)
  moreover have "unat (se_arena_offset (pl_slots p ! i)) + k * unat g \<le> unat (se_arena_offset (pl_slots p ! (i + k)))"
    using Suc by simp
  ultimately show ?case by simp
qed simp

lemma window_run_bytes:
  assumes cfg: "config_plannable cfg" and init: "init_daemon cfg clock files = Some s"
    and run: "window_run s b c" and c: "0 < unat c"
  shows "unat b < length (d_slots s) \<and>
    (let e = at32 (d_slots s) b in unat (se_arena_id e) < length (d_arenas s) \<and>
      unat (se_arena_offset e) + unat c * unat (gran s) \<le> unat (ar_size (d_arenas s ! unat (se_arena_id e))))"
proof -
  obtain p where pd: "plan_done (gran s) (map (\<lambda>a. unat (ar_size a)) (d_arenas s)) p"
    and s: "d_slots s = pl_slots p" "d_windows s = pl_windows p" "d_window_index s = pl_window_index p"
    using init_plan [OF cfg init] by blast
  obtain w where w: "w \<in> set (pl_windows p)" and b: "b \<in> set (win_slot_ids w)"
    and fit: "unat b + unat c \<le> unat (hd (win_slot_ids w)) + length (win_slot_ids w)"
    using run s by (auto simp: window_run_def list_ex_iff)
  have ok: "window_ok (unat (pl_next p)) w" and small: "unat (pl_next p) < 2 ^ 32"
    and one: "one_arena (pl_slots p) w" and len: "unat (pl_next p) \<le> length (pl_slots p)"
    using pd w by (auto simp: plan_done_def plan_windows_ok_def list_all_iff)
  obtain j where j: "j < length (win_slot_ids w)" "b = win_slot_ids w ! j"
    using b by (auto simp: in_set_conv_nth)
  have bj: "unat b = unat (hd (win_slot_ids w)) + j"
    using window_nth [OF ok j(1) small] j(2) by simp
  have member: "\<exists>i \<in> set (win_slot_ids w). unat i = unat b + k" if "k < unat c" for k
  proof (rule bexI [of _ "win_slot_ids w ! (j + k)"])
    show "unat (win_slot_ids w ! (j + k)) = unat b + k" "win_slot_ids w ! (j + k) \<in> set (win_slot_ids w)"
      using window_nth [OF ok _ small, of "j + k"] fit bj that by auto
  qed
  then have below: "unat b + k < unat (pl_next p)" if "k < unat c" for k
    using that window_ids_below [OF ok small] by fastforce
  have same: "se_arena_id (pl_slots p ! (unat b + k)) = se_arena_id (pl_slots p ! unat b)" if "k < unat c" for k
    using member [OF that] one b unfolding one_arena_def by metis
  let ?k = "unat c - 1"
  have "unat (se_arena_offset (pl_slots p ! unat b)) + ?k * unat (gran s) \<le>
      unat (se_arena_offset (pl_slots p ! (unat b + ?k)))"
    using below [of ?k] same c by (intro run_offsets [OF pd]) auto
  moreover have "unat (se_arena_offset (pl_slots p ! (unat b + ?k))) + unat (gran s) \<le>
      unat (ar_size (d_arenas s ! unat (se_arena_id (pl_slots p ! unat b))))"
    and arena: "unat (se_arena_id (pl_slots p ! unat b)) < length (d_arenas s)"
    using pd below [of ?k] below [of 0] same [of ?k] c unfolding plan_done_def
    by (metis (no_types, lifting) add.right_neutral diff_less length_map less_numeral_extra(1) nth_map)+
  moreover have "?k * unat (gran s) + unat (gran s) = unat c * unat (gran s)"
    using c by (cases "unat c") simp_all
  ultimately show ?thesis
    using below [of 0] c len unfolding Let_def s by simp
qed

lemma sized_in_arena:
  assumes cfg: "config_plannable cfg" and init: "init_daemon cfg clock files = Some s0"
    and ok: "same_plan s0 s" and run: "window_run s0 b (slots_for_bytes nb s0)" and nb: "sized s0 nb"
  shows "in_arena s b nb"
proof -
  have "d_cfg s0 = cfg" using init by (auto simp: init_daemon_def Let_def split: option.splits)
  then have "gran s0 \<noteq> 0" using cfg by (auto simp: config_plannable_def config_accepted_def)
  then have nb: "unat nb \<le> unat (slots_for_bytes nb s0) * unat (gran s0)" and "0 < unat (slots_for_bytes nb s0)"
    using slots_cover [of s0 nb] nb by (auto simp: sized_def unat_gt_0 intro: gr0I)
  note * = window_run_bytes [OF cfg init run this(2)]
  have "d_arenas s = d_arenas s0" "length (d_slots s) = length (d_slots s0)"
    using ok by (auto simp: same_plan_def dest: map_eq_imp_length_eq)
  moreover from this have "geometry (at32 (d_slots s) b) = geometry (at32 (d_slots s0) b)"
    using ok * by (metis nth_map same_plan_def)
  ultimately show ?thesis
    using * nb by (simp add: in_arena_def geometry_def Let_def)
qed

section \<open>Every reachable state\<close>

lemma init_ok:
  assumes "config_plannable cfg" and "init_daemon cfg clock files = Some s0"
  shows "daemon_ok s0 s0"
  using assms init_windows_ok [OF assms]
  by (auto simp: daemon_ok_def same_plan_def rows_ok_def init_daemon_def Let_def split: option.splits)

lemma reach_ok:
  "config_plannable cfg \<Longrightarrow> init_daemon cfg clock files = Some s0 \<Longrightarrow> sys_reach s0 (s, ts) \<Longrightarrow> daemon_ok s0 s"
  using dk.reach_keeps [OF _ init_ok, of s0 "(s, ts)"] by simp

lemma in_table:
  assumes "daemon_ok s0 s" and "window_run s0 b c"
  shows "run_fits b c (d_slots s)"
proof -
  have len: "length (d_slots s) = length (d_slots s0)" and ok: "windows_ok s0"
    using assms(1) by (auto simp: daemon_ok_def same_plan_def dest: map_eq_imp_length_eq)
  obtain w where w: "w \<in> set (d_windows s0)" and b: "unat b + unat c \<le> unat (hd (win_slot_ids w)) + length (win_slot_ids w)"
    using assms(2) by (auto simp: window_run_def list_ex_iff)
  then show ?thesis
    using windows_okD(1) [OF ok] windows_okD(2) [OF ok w] len by (simp add: run_fits_def window_ok_def Let_def)
qed

text \<open>
  C1. Memory safety of the running daemon. In every state that a daemon started from a plannable
  configuration can reach, under any interleaving of requests, workers, sweeps and rank and device
  activity: the bytes of every lease, of every location resident in pinned memory and of every queued
  readback lie inside one arena, unless the size is so large that its slot count wraps; and every
  queued drain names slots of the table.
\<close>

theorem reachable_memory_safe:
  assumes "config_plannable cfg" and "init_daemon cfg clock files = Some s0" and "sys_reach s0 (s, ts)"
  shows "(\<forall>k L. t_find (d_leases s) k = Some L \<and> sized s (ls_nbytes L) \<longrightarrow> in_arena s (ls_base_slot L) (ls_nbytes L)) \<and>
    (\<forall>t l. t_find (d_locations s) t = Some l \<and> loc_kind l = OFLD_LOC_PINNED \<and> sized s (loc_nbytes l) \<longrightarrow>
       in_arena s (loc_slot_id l) (loc_nbytes l)) \<and>
    (\<forall>j \<in> set (d_readback_queue s). sized s (rj_nbytes j) \<longrightarrow> in_arena s (rj_base_slot j) (rj_nbytes j)) \<and>
    (\<forall>j \<in> set (d_drain_queue s). run_fits (dj_base_slot j) (dj_slot_count j) (d_slots s))"
proof -
  note ok = reach_ok [OF assms]
  then have plan: "same_plan s0 s" by (simp add: daemon_ok_def)
  then have sized: "sized s nb \<longleftrightarrow> sized s0 nb" for nb by (simp add: sized_def same_plan_def)
  note arena = sized_in_arena [OF assms(1,2) plan]
  have lease: "window_run s0 (ls_base_slot L) (slots_for_bytes (ls_nbytes L) s0)"
    if "t_find (d_leases s) k = Some L" for k L
    using ok_rows(1) [OF ok t_find_in_set [OF that]] by (auto simp: lease_ok_def)
  have loc: "window_run s0 (loc_slot_id l) (slots_for_bytes (loc_nbytes l) s0)"
    if "t_find (d_locations s) t = Some l" "loc_kind l = OFLD_LOC_PINNED" for t l
    using ok_rows(2) [OF ok that(1)] that(2) by (simp add: location_ok_def)
  have readback: "window_run s0 (rj_base_slot j) (slots_for_bytes (rj_nbytes j) s0)" if "j \<in> set (d_readback_queue s)" for j
    using ok_rows(8) [OF ok that] by (auto simp: readback_ok_def)
  show ?thesis
    unfolding sized using arena lease loc readback in_table [OF ok] ok_rows(7) [OF ok] by blast
qed

text \<open>
  C2. The reference count of a canonical object is the number of ranks that hold it, in every
  reachable state: no request, purge or recovery lets the two diverge or counts a rank twice, and
  objects are filed under their own id.
\<close>

theorem reachable_refcounts:
  assumes "config_plannable cfg" and "init_daemon cfg clock files = Some s0" and "sys_reach s0 (s, ts)"
    and "t_find (d_objects s) oid = Some ob"
  shows "obj_object_id ob = oid \<and> distinct (obj_holders ob) \<and> obj_refcount ob = of_nat (length (obj_holders ob))"
  using ok_rows(4) [OF reach_ok [OF assms(1-3)] t_find_in_set [OF assms(4)]] by (simp add: object_ok_def)

text \<open>
  C3. A published version can be read: whenever \<^verbatim>\<open>GetLatestSealedVersion\<close> finds a version, \<^verbatim>\<open>GetManifest\<close>
  for that job, role and version succeeds in the same state, and its manifest is sealed.
\<close>

theorem published_version_served:
  assumes "config_plannable cfg" and "init_daemon cfg clock files = Some s0" and "sys_reach s0 (s, ts)"
    and "handle_get_latest_sealed_version r s = resp" and "gls_found resp"
    and "gmq_job q = glq_job r" and "gmq_model_role q = glq_model_role r" and "gmq_model_version q = gls_model_version resp"
  shows "gms_ok (fst (handle_get_manifest q s)) \<and>
         gms_state (fst (handle_get_manifest q s)) = manifest_state_code MANIFEST_SEALED"
proof -
  obtain job v where job: "find_job_by_wire (glq_job r) s = Some job" and v: "gls_model_version resp = v"
    and l: "t_find (d_latest_sealed s) \<lparr>rk_job = job_uid job, rk_model_role = glq_model_role r\<rparr> = Some v"
    using assms(4,5) by (auto simp: handle_get_latest_sealed_version_def GetLatestSealedVersionResponse_init_def
        split: option.splits)
  have "version_sealed (version_of \<lparr>rk_job = job_uid job, rk_model_role = glq_model_role r\<rparr> v) s"
    by (rule ok_rows(9) [OF reach_ok [OF assms(1-3)] l])
  then show ?thesis
    using job v assms(6-8) by (auto simp: handle_get_manifest_def Let_def version_sealed_def version_of_def split: option.splits)
qed

section \<open>Witnesses\<close>

theorem reachable_memory_safe_witness:
  "\<exists>ts. sys_reach sample_daemon (sample_leased, ts) \<and> t_find (d_leases sample_leased) 1 = Some sample_lease \<and>
        in_arena sample_leased (ls_base_slot sample_lease) 5000"
proof -
  obtain ts where r: "sys_reach sample_daemon (sample_leased, ts)" using sample_leased_reached by blast
  have l: "t_find (d_leases sample_leased) 1 = Some sample_lease" and n: "ls_nbytes sample_lease = 5000"
    by (simp_all add: sample_leased_def t_find_def sample_lease_def)
  have "sized sample_leased 5000" by (simp add: sized_def sample_leased_def)
  then have "in_arena sample_leased (ls_base_slot sample_lease) 5000"
    using reachable_memory_safe [OF sample_config_plannable init_sample r] l n by metis
  then show ?thesis using r l by blast
qed

theorem reachable_refcounts_witness:
  "\<exists>s ts. sys_reach sample_daemon (s, ts) \<and> t_find (d_objects s) 1 = Some sample_object \<and>
     obj_refcount sample_object = of_nat (length (obj_holders sample_object))"
proof -
  obtain s ts where r: "sys_reach sample_daemon (s, ts)" and "d_objects s = [(1, sample_object)]"
    using sample_object_reached by blast
  then have "t_find (d_objects s) 1 = Some sample_object" by (simp add: t_find_def)
  then show ?thesis using reachable_refcounts [OF sample_config_plannable init_sample r] r by blast
qed

theorem published_version_served_witness:
  "\<exists>ts. sys_reach sample_daemon (sample_sealed, ts) \<and>
    gms_ok (fst (handle_get_manifest (GetManifestRequest_init\<lparr>gmq_job := sample_job, gmq_model_version := 9\<rparr>) sample_sealed))"
proof -
  obtain ts where r: "sys_reach sample_daemon (sample_sealed, ts)" using sample_sealed_reached by blast
  let ?r = "GetLatestSealedVersionRequest_init\<lparr>glq_job := sample_job\<rparr>"
  let ?resp = "\<lparr>gls_ok = True, gls_message = ''ok'', gls_found = True, gls_model_version = 9\<rparr>"
  obtain job where job: "find_job_by_wire sample_job sample_sealed = Some job"
    using sample_sealed_published by blast
  then have "job_uid job = sample_uid"
    using ok_rows(6) [OF reach_ok [OF sample_config_plannable init_sample r], of sample_uid job]
    by (simp add: find_job_by_wire_def find_job_def wire_uid_def sample_job_def)
  then have "handle_get_latest_sealed_version ?r sample_sealed = ?resp"
    using sample_sealed_published job by (simp add: handle_get_latest_sealed_version_def GetLatestSealedVersionRequest_init_def)
  then show ?thesis
    using published_version_served [OF sample_config_plannable init_sample r, of ?r ?resp
        "GetManifestRequest_init\<lparr>gmq_job := sample_job, gmq_model_version := 9\<rparr>"] r
    by (auto simp: GetLatestSealedVersionRequest_init_def GetManifestRequest_init_def)
qed

end
