(* ===== verification/Liveness.thy ===== *)
theory Liveness
  imports Samples
begin

text \<open>
  Every request comes to an end: a bound on the number of times its thread gives up the mutex, whatever
  the other threads do meanwhile and however the system calls end.
\<close>

section \<open>Tasks that end\<close>

inductive ends :: "nat \<Rightarrow> 'a task \<Rightarrow> bool" where
  ends_Ret: "ends n (Ret x)"
| ends_Crash: "ends n Crash"
| ends_Unlock: "(\<And>env s. ends n (fst (k env s))) \<Longrightarrow> ends (Suc n) (Unlock k)"

inductive_cases ends_UnlockE: "ends n (Unlock k)"

declare ends_Ret [simp] ends_Crash [simp]

lemma ends_mono: "ends n t \<Longrightarrow> n \<le> m \<Longrightarrow> ends m t"
proof (induction arbitrary: m rule: ends.induct)
  case (ends_Unlock n k)
  then show ?case by (cases m) (auto intro: ends.ends_Unlock)
qed auto

lemma ends_ret [simp]: "ends n (fst (ret x s))"
  by (simp add: ret_def)

lemma ends_locked [simp]: "ends n (fst (locked f s))"
  by (simp add: locked_def split_beta)

lemma ends_unlocked: "ends 2 (fst (unlocked io s))"
  by (auto simp: unlocked_def split_beta numeral_2_eq_2 intro!: ends_Unlock)

lemma ends_then:
  assumes "ends n t" and "\<And>x s. ends m (fst (f x s))"
  shows "ends (n + m) (fst (then_task t f s))"
  using assms
proof (induction arbitrary: s rule: ends.induct)
  case (ends_Ret n x)
  then show ?case using ends_mono [of m "fst (f x s)" "n + m"] by simp
next
  case (ends_Unlock n k)
  then show ?case by (auto simp: then_task_Unlock split_beta intro!: ends.ends_Unlock)
qed simp

lemma ends_bnd:
  assumes "ends n (fst (p s))" and "\<And>x s. ends m (fst (f x s))" and "n + m \<le> l"
  shows "ends l (fst (bnd p f s))"
  using ends_mono [OF ends_then [OF assms(1,2)] assms(3)] by (simp add: bnd_def split_beta)

lemma ends_run:
  assumes "ends n t" and "n \<le> length ws"
  shows "\<exists>t' s'. run_task ws (t, s) = Some (t', s') \<and> (t' = Crash \<or> (\<exists>x. t' = Ret x))"
  using assms
proof (induction arbitrary: ws s rule: ends.induct)
  case (ends_Unlock n k)
  then obtain env others ws' where ws: "ws = (env, others) # ws'" by (cases ws) auto
  then have "n \<le> length ws'" using ends_Unlock.prems by simp
  then show ?case using ends_Unlock.IH [of ws' env "others s" "snd (k env (others s))"] ws by simp
qed auto

section \<open>The handlers\<close>

lemma force_drain_ends: "ends 2 (fst (force_drain_one s))"
  by (auto simp: force_drain_one_def Let_def split_beta intro!: ends_bnd [OF ends_unlocked, of 0] split: prod.split)

lemma alloc_draining_ends: "ends (2 * n) (fst (alloc_draining n g nu nb fl s))"
proof (induction n arbitrary: s)
  case (Suc n)
  then show ?case
    by (auto split: prod.split option.split intro!: ends_bnd [OF force_drain_ends, of "2 * n"])
qed simp

lemma bnd_alloc: "(\<And>x s. ends m (fst (f x s))) \<Longrightarrow> 130 + m \<le> l \<Longrightarrow> ends l (fst (bnd (alloc_draining 65 g nu nb fl) f s))"
  using ends_bnd [of 130 "alloc_draining 65 g nu nb fl" s m f l] alloc_draining_ends [of 65] by simp

lemma offload_ends: "ends 130 (fst (handle_request_offload req s))"
  by (auto simp: handle_request_offload_def Let_def split: option.split intro!: bnd_alloc [of 0])

lemma prefetch_ends: "ends 130 (fst (handle_request_prefetch req s))"
  by (auto simp: handle_request_prefetch_def prefetch_found_def Let_def split: option.split intro!: bnd_alloc [of 0])

lemma reserve_ends: "ends 130 (fst (reserve_canonical req tid ver s))"
  by (auto simp: reserve_canonical_def Let_def split: option.split intro!: bnd_alloc [of 0])

lemma evict_ends: "ends 130 (fst (handle_request_canonical_evict req s))"
  by (auto simp: handle_request_canonical_evict_def evict_shard_def evict_candidate_def evict_create_def Let_def
      split: option.split intro!: ends_bnd [OF reserve_ends, of 0])

lemma bnd_unlocked: "(\<And>x s. ends m (fst (f x s))) \<Longrightarrow> 2 + m \<le> l \<Longrightarrow> ends l (fst (bnd (unlocked io) f s))"
  by (rule ends_bnd [OF ends_unlocked])

lemma stage_ends: "ends 4 (fst (stage_object_for_export ob s))"
proof -
  have "ends 4 (fst (bnd (unlocked io) (\<lambda>rok. bnd (unlocked io') (\<lambda>(buf, copied) s1.
      if \<not> copied then ret (buf, False) s1 else ret (buf, True) (m_inc m s1))) s1))" for io io' s1 m
    by (rule bnd_unlocked [of 2], rule bnd_unlocked [of 0]) (auto split: prod.split)
  then show ?thesis by (auto simp: stage_object_for_export_def split: option.split)
qed

lemma pull_ends: "ends 6 (fst (handle_pull_tensor req s))"
  by (auto simp: handle_pull_tensor_def pull_object_def split: option.split prod.split
      intro!: ends_bnd [OF stage_ends, of 2] ends_bnd [OF ends_unlocked, of 0])

lemma restore_ends: "ends 132 (fst (handle_request_canonical_restore req s))"
  by (auto simp: handle_request_canonical_restore_def warm_object_def warm_finish_def serve_restore_def Let_def
      split: option.split intro!: bnd_alloc [of 2] ends_bnd [OF ends_unlocked, of 0])

lemma reply_ends: "ends n (fst (p s)) \<Longrightarrow> ends n (fst (reply w p s))"
  unfolding reply_def by (rule ends_bnd [of n _ _ 0]) auto

lemma request_ends: "ends 132 (fst (handle_request req s))"
proof (cases req)
  case (RqRegisterRank m)
  then show ?thesis by (auto simp: split_beta intro!: ends_bnd [of 0 _ _ 0])
next
  case (RqPullTensor m)
  then show ?thesis by (auto simp: split_beta intro!: ends_bnd [OF pull_ends, of 0])
qed (auto intro!: reply_ends intro: ends_mono [OF offload_ends] ends_mono [OF prefetch_ends] ends_mono [OF evict_ends]
    restore_ends)


section \<open>Witness\<close>


end
