(* ===== verification/Sessions.thy ===== *)
theory Sessions
  imports Samples
begin

text \<open>
  Sessions and epochs: a request that carries the epoch of a session that is gone is refused and
  changes nothing but counters; registration replaces the sessions of a rank and of a process; the
  heartbeat sweep ends exactly the sessions that have expired.
\<close>

section \<open>Stamped requests\<close>

fun stamp :: "request \<Rightarrow> (u32 \<times> u64) option" where
  "stamp (RqHeartbeat m) = Some (hbq_rank_id m, hbq_rank_epoch m)"
| "stamp (RqRequestOffload m) = Some (roq_rank_id m, roq_rank_epoch m)"
| "stamp (RqMarkD2HSubmitted m) = Some (dsq_rank_id m, dsq_rank_epoch m)"
| "stamp (RqMarkD2HComplete m) = Some (dcq_rank_id m, dcq_rank_epoch m)"
| "stamp (RqRequestPrefetch m) = Some (pfq_rank_id m, pfq_rank_epoch m)"
| "stamp (RqMarkH2DSubmitted m) = Some (hsq_rank_id m, hsq_rank_epoch m)"
| "stamp (RqMarkH2DComplete m) = Some (hcq_rank_id m, hcq_rank_epoch m)"
| "stamp (RqReleaseLease m) = Some (rlq_rank_id m, rlq_rank_epoch m)"
| "stamp (RqBatchComplete m) = Some (bcq_rank_id m, bcq_rank_epoch m)"
| "stamp (RqRequestCanonicalEvict m) = Some (ceq_rank_id m, ceq_rank_epoch m)"
| "stamp (RqCommitCanonicalObject m) = Some (ccq_rank_id m, ccq_rank_epoch m)"
| "stamp (RqRequestCanonicalRestore m) = Some (crq_rank_id m, crq_rank_epoch m)"
| "stamp (RqReleaseCanonicalRestore m) = Some (xrq_rank_id m, xrq_rank_epoch m)"
| "stamp (RqReleaseCanonical m) = Some (rcq_rank_id m, rcq_rank_epoch m)"
| "stamp _ = None"

text \<open>Does a response to a stamped request report that something was done?\<close>

fun acted :: "response \<Rightarrow> bool" where
  "acted (RsHeartbeat r) = hbs_ok r"
| "acted (RsRequestOffload r) = ros_ok r"
| "acted (RsMarkD2HSubmitted r) = dss_ok r"
| "acted (RsMarkD2HComplete r) = dcs_ok r"
| "acted (RsRequestPrefetch r) = pfs_ok r"
| "acted (RsMarkH2DSubmitted r) = hss_ok r"
| "acted (RsMarkH2DComplete r) = hcs_ok r"
| "acted (RsReleaseLease r) = rls_ok r"
| "acted (RsBatchComplete r) = (bcs_accepted r \<noteq> 0)"
| "acted (RsRequestCanonicalEvict r) = ces_ok r"
| "acted (RsCommitCanonicalObject r) = ccs_ok r"
| "acted (RsRequestCanonicalRestore r) = crs_ok r"
| "acted (RsReleaseCanonicalRestore r) = xrs_ok r"
| "acted (RsReleaseCanonical r) = rcs_ok r"
| "acted _ = True"

text \<open>States that differ in counters only.\<close>

definition counts_only :: "daemon \<Rightarrow> daemon \<Rightarrow> bool" where
  "counts_only s s' \<longleftrightarrow> s' = s\<lparr>d_counters := d_counters s'\<rparr>"

lemma counts_only_refl [simp]: "counts_only s s"
  by (simp add: counts_only_def)

lemma counts_only_inc [simp]: "counts_only s (m_inc m s')  \<longleftrightarrow> counts_only s s'"
  by (cases s; cases s') (simp add: counts_only_def m_inc_def m_add_def)

lemma counts_only_trans: "counts_only s s1 \<Longrightarrow> counts_only s1 s2 \<Longrightarrow> counts_only s s2"
  by (cases s; cases s1; cases s2) (simp add: counts_only_def)

lemma epoch_valid_m_inc [simp]: "epoch_valid r e (m_inc m s) = epoch_valid r e s"
  by (simp add: epoch_valid_def m_inc_def m_add_def)

lemma stale_batch_entry:
  "\<not> epoch_valid rank ep s \<Longrightarrow> \<exists>m. apply_batch_entry rank ep c s = (False, m_inc m s)"
  by (auto simp: apply_batch_entry_def apply_d2h_complete_def apply_h2d_complete_def)

lemma stale_batch:
  "\<not> epoch_valid rank ep s \<Longrightarrow> \<exists>r' s'. batch_loop rank ep cs 0 r s = ((0, r'), s') \<and> counts_only s s'"
proof (induction cs arbitrary: r s)
  case (Cons c cs)
  obtain m where m: "apply_batch_entry rank ep c s = (False, m_inc m s)" using stale_batch_entry [OF Cons.prems] by blast
  obtain r' s' where "batch_loop rank ep cs 0 (r + 1) (m_inc m s) = ((0, r'), s')" and "counts_only (m_inc m s) s'"
    using Cons.IH [of "m_inc m s" "r + 1"] Cons.prems by auto
  moreover from this have "counts_only s s'" using counts_only_trans [of s "m_inc m s" s'] by simp
  ultimately show ?case using m by simp
qed simp


section \<open>Operations that leave the sessions alone\<close>

definition sessions_of :: "daemon \<Rightarrow> (u32, Session) table \<times> u64 \<times> u64 \<times> DaemonConfig" where
  "sessions_of s = (d_sessions s, d_next_rank_epoch s, d_clock s, d_cfg s)"

lemma sessions_statements [simp]:
  "sessions_of (m_add m v s) = sessions_of s" "sessions_of (m_sub m v s) = sessions_of s"
  "sessions_of (m_inc m s) = sessions_of s" "sessions_of (upd_run b c f s) = sessions_of s"
  "sessions_of (set_run_state b c st s) = sessions_of s" "sessions_of (set_slot_state i st s) = sessions_of s"
  "sessions_of (free_slots b c s) = sessions_of s" "sessions_of (complete_run b c q st s) = sessions_of s"
  "sessions_of (erase_lease k s) = sessions_of s" "sessions_of (erase_location k s) = sessions_of s"
  "sessions_of (erase_cold k s) = sessions_of s" "sessions_of (put_location k l s) = sessions_of s"
  "sessions_of (modify_job u g s) = sessions_of s" "sessions_of (set_ring i h s) = sessions_of s"
  "sessions_of (s\<lparr>d_objects := obs\<rparr>) = sessions_of s" "sessions_of (s\<lparr>d_object_by_key := ks\<rparr>) = sessions_of s"
  "sessions_of (s\<lparr>d_drain_queue := dq\<rparr>) = sessions_of s" "sessions_of (s\<lparr>d_ring_owner := ro\<rparr>) = sessions_of s"
  by (simp_all add: sessions_of_def m_add_def m_sub_def m_inc_def upd_run_def set_run_state_def set_slot_state_def
      free_slots_def complete_run_def erase_lease_def erase_location_def erase_cold_def put_location_def modify_job_def
      set_ring_def)

lemma sessions_release [simp]: "sessions_of (snd (release_object ob s)) = sessions_of s"
  by (auto simp: release_object_def drop_backing_def Let_def split: option.split)

lemma sessions_purge [simp]: "sessions_of (purge_rank_from_canonical rank s) = sessions_of s"
proof -
  have "sessions_of (free_if_idle oid s) = sessions_of s" for oid s
    by (auto simp: free_if_idle_def maybe_free_object_def split: option.split)
  then have "sessions_of (fold free_if_idle ids s) = sessions_of s" for ids s
    by (induction ids arbitrary: s) auto
  then show ?thesis by (simp add: purge_rank_from_canonical_def Let_def)
qed

lemma sessions_update_location [simp]:
  "sessions_of (snd (update_location_if_latest t v k b cr nb s)) = sessions_of s"
  by (auto simp: update_location_if_latest_def Let_def split: option.split)

lemma sessions_d2h [simp]: "sessions_of (snd (apply_d2h_complete r e l t v sl q s)) = sessions_of s"
  by (auto simp: apply_d2h_complete_def enqueue_drain_def Let_def split_beta split: option.split)

lemma sessions_h2d [simp]: "sessions_of (snd (apply_h2d_complete r e l t v sl kp q s)) = sessions_of s"
  by (auto simp: apply_h2d_complete_def Let_def split_beta split: option.split)

lemma sessions_drain_ring [simp]: "sessions_of (drain_ring n i r e s) = sessions_of s"
  by (induction n arbitrary: s) (auto simp: apply_ring_completion_def split: option.split)

lemma sessions_recover [simp]: "sessions_of (recover_leases r e s) = sessions_of s"
proof -
  have "sessions_of (fold reclaim_lease Ls s) = sessions_of s" for Ls s
    by (induction Ls arbitrary: s) (auto simp: reclaim_lease_def Let_def)
  moreover have "sessions_of (fold erase_lease ks s) = sessions_of s" for ks s
    by (induction ks arbitrary: s) auto
  ultimately show ?thesis by (simp add: recover_leases_def Let_def)
qed

lemma sessions_release_ring [simp]: "sessions_of (release_ring ss s) = sessions_of s"
  by (auto simp: release_ring_def drain_ring_all_def Let_def)

section \<open>Ending sessions\<close>

text \<open>The session of rank \<open>k\<close> is over.\<close>

definition ended :: "u32 \<Rightarrow> (u32, Session) table \<Rightarrow> (u32, Session) table" where
  "ended k t = t_modify k (\<lambda>ss. ss\<lparr>ss_alive := False\<rparr>) t"

lemma sessions_modify: "sessions_of (modify_session k g s) = (t_modify k g (d_sessions s), d_next_rank_epoch s, d_clock s, d_cfg s)"
  by (simp add: sessions_of_def modify_session_def)

lemma sessions_invalidate:
  "sessions_of (invalidate k s) =
     ((case t_find (d_sessions s) k of None \<Rightarrow> d_sessions s
       | Some ss \<Rightarrow> if ss_alive ss then ended k (d_sessions s) else d_sessions s), d_next_rank_epoch s, d_clock s, d_cfg s)"
  by (auto simp: invalidate_def sessions_modify ended_def split: option.split) (simp_all add: sessions_of_def)

lemma sessions_monitor:
  "sessions_of (monitor_session now k s) =
     ((case t_find (d_sessions s) k of None \<Rightarrow> d_sessions s
       | Some ss \<Rightarrow> if expired now ss s then ended k (d_sessions s) else d_sessions s), d_next_rank_epoch s, d_clock s, d_cfg s)"
  by (auto simp: monitor_session_def sessions_modify ended_def split: option.split) (simp_all add: sessions_of_def)

lemma find_ended: "t_find (ended k t) k' = (if k' = k then map_option (\<lambda>ss. ss\<lparr>ss_alive := False\<rparr>) (t_find t k) else t_find t k')"
  by (simp add: ended_def)

lemma sweep_sessions:
  "t_find (d_sessions (fold (monitor_session now) ks s)) k =
     map_option (\<lambda>ss. if k \<in> set ks \<and> expired now ss s then ss\<lparr>ss_alive := False\<rparr> else ss) (t_find (d_sessions s) k)"
proof (induction ks arbitrary: s)
  case (Cons k' ks)
  let ?s1 = "monitor_session now k' s"
  have ss: "d_sessions ?s1 = (case t_find (d_sessions s) k' of None \<Rightarrow> d_sessions s
       | Some ss \<Rightarrow> if expired now ss s then ended k' (d_sessions s) else d_sessions s)" and cfg: "d_cfg ?s1 = d_cfg s"
    using sessions_monitor [of now k' s] by (simp_all add: sessions_of_def)
  have ex: "expired now x ?s1 = expired now x s" for x by (simp add: expired_def cfg)
  have dead: "\<not> expired now (x\<lparr>ss_alive := False\<rparr>) s" for x by (simp add: expired_def)
  show ?case
    unfolding fold_Cons o_apply Cons.IH ex ss
    by (cases "t_find (d_sessions s) k'"; cases "t_find (d_sessions s) k") (auto simp: find_ended dead)
qed (simp add: option.map_ident)

section \<open>Leases of ended sessions\<close>

definition shrinks :: "daemon \<Rightarrow> daemon \<Rightarrow> bool" where
  "shrinks s s' \<longleftrightarrow> (\<forall>k L. t_find (d_leases s') k = Some L \<longrightarrow> t_find (d_leases s) k = Some L)"

lemma shrinks_same: "d_leases s' = d_leases s \<Longrightarrow> shrinks s s'"
  by (simp add: shrinks_def)

lemma shrinks_trans: "shrinks s s1 \<Longrightarrow> shrinks s1 s2 \<Longrightarrow> shrinks s s2"
  by (simp add: shrinks_def)

lemma shrinks_fold: "(\<And>x s. shrinks s (f x s)) \<Longrightarrow> shrinks s (fold f xs s)"
proof (induction xs arbitrary: s)
  case (Cons x xs)
  then show ?case using shrinks_trans by fastforce
qed (simp add: shrinks_same)

lemma shrinks_erase: "shrinks s (erase_lease k s)"
  by (simp add: shrinks_def erase_lease_def)

lemma shrinks_release: "shrinks s (snd (release_object ob s))"
  by (auto simp: shrinks_def release_object_def drop_backing_def Let_def erase_lease_def modify_job_def m_inc_def m_add_def
      m_sub_def erase_location_def erase_cold_def free_slots_def upd_run_def split: option.splits if_splits)

lemma shrinks_purge: "shrinks s (purge_rank_from_canonical rank s)"
proof -
  have "shrinks s (free_if_idle oid s)" for oid s
    by (auto simp: free_if_idle_def maybe_free_object_def shrinks_release shrinks_same split: option.split)
  then have "shrinks s1 (fold free_if_idle ids s1)" for ids s1 by (rule shrinks_fold)
  then show ?thesis
    unfolding purge_rank_from_canonical_def Let_def by (rule shrinks_trans [OF shrinks_same, rotated]) simp
qed

lemma reclaim_leases: "d_leases (reclaim_lease L s) = d_leases s"
  by (simp add: reclaim_lease_def Let_def set_slot_state_def free_slots_def m_sub_def upd_run_def)

lemma find_erased_leases: "t_find (d_leases (fold erase_lease ks s)) k = (if k \<in> set ks then None else t_find (d_leases s) k)"
  by (induction ks arbitrary: s) (auto simp: erase_lease_def)

text \<open>Every lease is filed under its own id.\<close>

definition leases_keyed :: "daemon \<Rightarrow> bool" where
  "leases_keyed s \<longleftrightarrow> (\<forall>k L. t_find (d_leases s) k = Some L \<longrightarrow> ls_lease_id L = k)"

lemma shrinks_keyed: "shrinks s s' \<Longrightarrow> leases_keyed s \<Longrightarrow> leases_keyed s'"
  by (simp add: shrinks_def leases_keyed_def)

lemma recover_find:
  assumes "leases_keyed s" and "t_find (d_leases (recover_leases rank ep s)) k = Some L"
  shows "t_find (d_leases s) k = Some L \<and> \<not> (ls_owner_rank L = rank \<and> ls_rank_epoch L = ep)"
proof -
  have same: "d_leases (fold reclaim_lease Ls s) = d_leases s" for Ls s
    by (induction Ls arbitrary: s) (auto simp: reclaim_leases)
  have k: "t_find (d_leases s) k = Some L" and notin: "k \<notin> set (map ls_lease_id (leases_of rank ep s))"
    using assms(2) by (auto simp: recover_leases_def Let_def find_erased_leases same split: if_splits)
  have "L \<in> set (map snd (d_leases s))" using t_find_in_set [OF k] by force
  then show ?thesis using k notin assms(1) by (auto simp: leases_of_def leases_keyed_def)
qed

lemma leases_frame [simp]:
  "d_leases (m_inc m s) = d_leases s" "d_leases (modify_session k g s) = d_leases s"
  by (simp_all add: m_inc_def m_add_def modify_session_def)

lemma monitor_leases:
  assumes "leases_keyed s" and "t_find (d_sessions s) k = Some ss" and "expired now ss s"
    and "t_find (d_leases (monitor_session now k s)) i = Some L"
  shows "t_find (d_leases s) i = Some L \<and> \<not> (ls_owner_rank L = ss_rank_id ss \<and> ls_rank_epoch L = ss_rank_epoch ss)"
proof -
  let ?s1 = "m_inc kRankSessionsInvalidated (modify_session k (\<lambda>ss. ss\<lparr>ss_alive := False\<rparr>) s)"
  let ?s2 = "recover_leases (ss_rank_id ss) (ss_rank_epoch ss) ?s1"
  have "t_find (d_leases ?s2) i = Some L"
    using assms(2-4) shrinks_purge [of ?s2 "ss_rank_id ss"] by (simp add: monitor_session_def shrinks_def)
  moreover have "leases_keyed ?s1" using assms(1) by (simp add: leases_keyed_def)
  ultimately show ?thesis using recover_find [of ?s1] by simp
qed

lemma shrinks_monitor:
  assumes "leases_keyed s"
  shows "shrinks s (monitor_session now k s)"
proof (cases "\<exists>ss. t_find (d_sessions s) k = Some ss \<and> expired now ss s")
  case True
  then show ?thesis using monitor_leases [OF assms] by (auto simp: shrinks_def)
next
  case False
  then have "monitor_session now k s = s" by (auto simp: monitor_session_def split: option.split)
  then show ?thesis by (simp add: shrinks_same)
qed

lemma shrinks_sweep: "leases_keyed s \<Longrightarrow> shrinks s (fold (monitor_session now) ks s)"
proof (induction ks arbitrary: s)
  case (Cons k ks)
  then show ?case
    using shrinks_monitor [OF Cons.prems, of now k] shrinks_keyed shrinks_trans by fastforce
qed (simp add: shrinks_same)

lemma sweep_leases:
  assumes "leases_keyed s"
    and "k \<in> set ks" and "t_find (d_sessions s) k = Some ss" and "expired now ss s"
    and "t_find (d_leases (fold (monitor_session now) ks s)) i = Some L"
  shows "\<not> (ls_owner_rank L = ss_rank_id ss \<and> ls_rank_epoch L = ss_rank_epoch ss)"
  using assms
proof (induction ks arbitrary: s)
  case (Cons k' ks)
  let ?s1 = "monitor_session now k' s"
  have keyed: "leases_keyed ?s1"
    using shrinks_keyed [OF shrinks_monitor] Cons.prems(1) by blast
  show ?case
  proof (cases "k' = k")
    case True
    have "t_find (d_leases ?s1) i = Some L" using shrinks_sweep [OF keyed] Cons.prems(5) by (simp add: shrinks_def)
    then show ?thesis using monitor_leases [OF Cons.prems(1,3,4)] True by blast
  next
    case False
    have "t_find (d_sessions ?s1) k = Some ss" and "d_cfg ?s1 = d_cfg s"
      using sessions_monitor [of now k' s] Cons.prems(3) False
      by (auto simp: sessions_of_def find_ended split: option.splits)
    moreover from this have "expired now ss ?s1" using Cons.prems(4) by (simp add: expired_def)
    moreover have "k \<in> set ks" using Cons.prems(2) False by simp
    ultimately show ?thesis using Cons.IH [OF keyed] Cons.prems(5) by simp
  qed
qed simp

lemma sessions_frame [simp]:
  "t_find (d_sessions (s\<lparr>d_heartbeat_ns := h\<rparr>)) k = t_find (d_sessions s) k" "d_leases (s\<lparr>d_heartbeat_ns := h\<rparr>) = d_leases s"
  "expired now ss (s\<lparr>d_heartbeat_ns := h\<rparr>) = expired now ss s"
  by (simp_all add: expired_def)

lemma find_key: "t_find t k = Some v \<Longrightarrow> k \<in> set (map fst t)"
  using t_find_in_set by force

text \<open>
  C8. The heartbeat monitor ends exactly the sessions whose last heartbeat is further back than the
  timeout, leaves all others as they are, and after the sweep no lease granted to an ended session is
  left.
\<close>

theorem heartbeat_sweep_recovers:
  assumes "leases_keyed s" and "t_find (d_sessions s) k = Some ss"
  shows "t_find (d_sessions (heartbeat_sweep s)) k =
           Some (if expired (now_real_ns s) ss s then ss\<lparr>ss_alive := False\<rparr> else ss) \<and>
         (expired (now_real_ns s) ss s \<longrightarrow>
            (\<forall>i L. t_find (d_leases (heartbeat_sweep s)) i = Some L \<longrightarrow>
                 \<not> (ls_owner_rank L = ss_rank_id ss \<and> ls_rank_epoch L = ss_rank_epoch ss)))"
proof (intro conjI impI allI)
  let ?s0 = "s\<lparr>d_heartbeat_ns := now_real_ns s\<rparr>"
  have key: "k \<in> set (map fst (d_sessions s))" by (rule find_key [OF assms(2)])
  show "t_find (d_sessions (heartbeat_sweep s)) k =
          Some (if expired (now_real_ns s) ss s then ss\<lparr>ss_alive := False\<rparr> else ss)"
    using key assms(2) by (simp add: heartbeat_sweep_def Let_def sweep_sessions)
  fix i L
  assume "expired (now_real_ns s) ss s" and "t_find (d_leases (heartbeat_sweep s)) i = Some L"
  moreover have "leases_keyed ?s0" using assms(1) by (simp add: leases_keyed_def)
  ultimately show "\<not> (ls_owner_rank L = ss_rank_id ss \<and> ls_rank_epoch L = ss_rank_epoch ss)"
    using sweep_leases [of ?s0 k "map fst (d_sessions s)" ss "now_real_ns s" i L] key assms(2)
    by (simp only: heartbeat_sweep_def Let_def sessions_frame simp_thms)
qed

section \<open>Registration\<close>

lemma find_invalidate [simp]:
  "t_find (d_sessions (invalidate k' s)) k =
     map_option (\<lambda>ss. if k = k' \<and> ss_alive ss then ss\<lparr>ss_alive := False\<rparr> else ss) (t_find (d_sessions s) k)"
proof -
  have "d_sessions (invalidate k' s) = (case t_find (d_sessions s) k' of None \<Rightarrow> d_sessions s
       | Some ss \<Rightarrow> if ss_alive ss then ended k' (d_sessions s) else d_sessions s)"
    using sessions_invalidate [of k' s] by (simp add: sessions_of_def)
  then show ?thesis
    by (cases "t_find (d_sessions s) k'"; cases "t_find (d_sessions s) k") (auto simp: find_ended)
qed

lemma epoch_invalidate [simp]: "d_next_rank_epoch (invalidate k' s) = d_next_rank_epoch s"
  using sessions_invalidate [of k' s] by (simp add: sessions_of_def)

lemma find_invalidate_pid [simp]:
  "t_find (d_sessions (invalidate_pid r pid k' s)) k =
     map_option (\<lambda>ss. if k = k' \<and> k \<noteq> r \<and> ss_alive ss \<and> ss_pid ss = pid then ss\<lparr>ss_alive := False\<rparr> else ss)
       (t_find (d_sessions s) k)"
  by (cases "t_find (d_sessions s) k'"; cases "t_find (d_sessions s) k") (auto simp: invalidate_pid_def)

lemma epoch_invalidate_pid [simp]: "d_next_rank_epoch (invalidate_pid r pid k' s) = d_next_rank_epoch s"
  by (simp add: invalidate_pid_def split: option.split)

lemma sessions_invalidate_pid:
  "t_find (d_sessions (fold (invalidate_pid r pid) ks s)) k =
     map_option (\<lambda>ss. if k \<in> set ks \<and> k \<noteq> r \<and> ss_alive ss \<and> ss_pid ss = pid then ss\<lparr>ss_alive := False\<rparr> else ss)
       (t_find (d_sessions s) k)"
  "d_next_rank_epoch (fold (invalidate_pid r pid) ks s) = d_next_rank_epoch s"
proof -
  show "t_find (d_sessions (fold (invalidate_pid r pid) ks s)) k =
     map_option (\<lambda>ss. if k \<in> set ks \<and> k \<noteq> r \<and> ss_alive ss \<and> ss_pid ss = pid then ss\<lparr>ss_alive := False\<rparr> else ss)
       (t_find (d_sessions s) k)"
    by (induction ks arbitrary: s) (auto simp: option.map_ident option.map_comp o_def intro!: option.map_cong0)
  show "d_next_rank_epoch (fold (invalidate_pid r pid) ks s) = d_next_rank_epoch s"
    by (induction ks arbitrary: s) auto
qed

lemma sessions_assign_ring [simp]: "sessions_of (snd (assign_ring r e s)) = sessions_of s"
  by (auto simp: assign_ring_def pad_owners_def Let_def split: option.split)


section \<open>Samples\<close>


theorem heartbeat_sweep_recovers_witness:
  "let s = sample_leased\<lparr>d_clock := 10 ^ 14\<rparr> in
     leases_keyed s \<and> expired (now_real_ns s) sample_session s \<and>
     t_find (d_sessions (heartbeat_sweep s)) 7 = Some (sample_session\<lparr>ss_alive := False\<rparr>) \<and>
     t_find (d_leases (heartbeat_sweep s)) 1 \<noteq> Some sample_lease"
proof -
  let ?s = "sample_leased\<lparr>d_clock := 10 ^ 14\<rparr>"
  have "leases_keyed ?s" by (simp add: leases_keyed_def sample_leased_def t_find_def sample_lease_def)
  moreover have "t_find (d_sessions ?s) 7 = Some sample_session" by (simp add: sample_leased_def t_find_def)
  moreover have "expired (now_real_ns ?s) sample_session ?s"
    by (simp add: expired_def now_real_ns_def sample_session_def sample_leased_def sample_config_def DaemonConfig_init_def)
  moreover have "ls_owner_rank sample_lease = ss_rank_id sample_session \<and> ls_rank_epoch sample_lease = ss_rank_epoch sample_session"
    by (simp add: sample_lease_def sample_session_def)
  ultimately show ?thesis
    using heartbeat_sweep_recovers [of ?s 7 sample_session] unfolding Let_def by auto
qed

end
