(* ===== verification/Yaml.thy ===== *)
theory Yaml
  imports Decimal "HOL-Library.Char_ord" "HOL-Library.List_Lexorder"
begin

text \<open>
  The YAML subset of \<^verbatim>\<open>src/daemon/config.cpp\<close>: lines with their indentation, and the recursive-descent
  parser for nested maps, lists and scalars. Exceptions are values: a parser returns a message or a
  result. The parser works on the list of lines that remain; the source's index only moves forward
  and only the current line is ever rewritten. Shown here: the parser terminates (the remaining text
  shrinks on every call), and it reads back every tree that is written out in the subset.
\<close>

section \<open>Lines\<close>

definition is_blank :: "char \<Rightarrow> bool" where
  "is_blank c \<longleftrightarrow> c = CHR '' '' \<or> c = CHR 0x09 \<or> c = CHR 0x0D"

definition rstrip :: "string \<Rightarrow> string" where
  "rstrip s = rev (dropWhile is_blank (rev s))"

definition strip :: "string \<Rightarrow> string" where
  "strip s = rstrip (dropWhile is_blank s)"

definition strip_comment :: "string \<Rightarrow> string" where
  "strip_comment s = takeWhile (\<lambda>c. c \<noteq> CHR ''#'') s"

record SrcLine =
  sl_indent :: nat
  sl_lineno :: nat
  sl_text :: string

definition at_line :: "string \<Rightarrow> nat \<Rightarrow> string \<Rightarrow> string" where
  "at_line what n msg = what @ '' at line '' @ digits n @ '': '' @ msg"

definition quoted :: "string \<Rightarrow> string" where
  "quoted s = CHR 0x27 # s @ [CHR 0x27]"

text \<open>The body of the loop of \<^verbatim>\<open>tokenize\<close> at the end of a line; \<open>None\<close>: nothing but blanks and comment.\<close>

definition tokenize_line :: "nat \<Rightarrow> string \<Rightarrow> string + SrcLine option" where
  "tokenize_line lineno raw =
     (let trimmed = rstrip (strip_comment raw) in
      if strip trimmed = [] then Inr None
      else
        let indent = length (takeWhile (\<lambda>c. c = CHR '' '') trimmed) in
        if CHR 0x09 \<in> set trimmed \<and> indent < length (takeWhile (\<lambda>c. c = CHR '' '' \<or> c = CHR 0x09) trimmed)
        then Inl (at_line ''config parse error'' lineno ''tabs are not allowed for indentation'')
        else Inr (Some \<lparr>sl_indent = indent, sl_lineno = lineno, sl_text = drop indent trimmed\<rparr>))"

text \<open>The loop: \<open>line\<close> holds the characters of the current line.\<close>

fun tokenize_loop :: "nat \<Rightarrow> string \<Rightarrow> string \<Rightarrow> SrcLine list \<Rightarrow> string + SrcLine list" where
  "tokenize_loop lineno line [] out =
     (case tokenize_line (lineno + 1) line of
        Inl e \<Rightarrow> Inl e
      | Inr None \<Rightarrow> Inr out
      | Inr (Some sl) \<Rightarrow> Inr (out @ [sl]))"
| "tokenize_loop lineno line (c # cs) out =
     (if c = CHR 0x0A then
        (case tokenize_line (lineno + 1) line of
           Inl e \<Rightarrow> Inl e
         | Inr None \<Rightarrow> tokenize_loop (lineno + 1) [] cs out
         | Inr (Some sl) \<Rightarrow> tokenize_loop (lineno + 1) [] cs (out @ [sl]))
      else tokenize_loop lineno (line @ [c]) cs out)"

definition tokenize :: "string \<Rightarrow> string + SrcLine list" where
  "tokenize content = tokenize_loop 0 [] content []"

section \<open>Nodes\<close>

datatype YamlKind = kEmpty | kScalar | kMap | kSeq

datatype YamlNode = YamlNode (yn_kind: YamlKind) (yn_scalar: string) (yn_map: "(string \<times> YamlNode) list")
  (yn_seq: "YamlNode list") (yn_line: nat)

definition yaml_empty :: "nat \<Rightarrow> YamlNode" where
  "yaml_empty line = YamlNode kEmpty '''' [] [] line"

definition yaml_scalar :: "string \<Rightarrow> nat \<Rightarrow> YamlNode" where
  "yaml_scalar s line = YamlNode kScalar s [] [] line"

definition yaml_find :: "YamlNode \<Rightarrow> string \<Rightarrow> YamlNode option" where
  "yaml_find n key = map_of (yn_map n) key"

text \<open>\<^verbatim>\<open>std::map\<close>: entries in the order of their keys; \<^verbatim>\<open>m[key] = v\<close> inserts or overwrites.\<close>

fun map_put :: "'k :: linorder \<Rightarrow> 'v \<Rightarrow> ('k \<times> 'v) list \<Rightarrow> ('k \<times> 'v) list" where
  "map_put k v [] = [(k, v)]"
| "map_put k v ((k', v') # m) =
     (if k < k' then (k, v) # (k', v') # m else if k = k' then (k, v) # m else (k', v') # map_put k v m)"

definition add_entry :: "string \<Rightarrow> YamlNode \<Rightarrow> YamlNode \<Rightarrow> YamlNode" where
  "add_entry key child n = YamlNode (yn_kind n) (yn_scalar n) (map_put key child (yn_map n)) (yn_seq n) (yn_line n)"

definition add_item :: "YamlNode \<Rightarrow> YamlNode \<Rightarrow> YamlNode" where
  "add_item child n = YamlNode (yn_kind n) (yn_scalar n) (yn_map n) (yn_seq n @ [child]) (yn_line n)"

section \<open>Parser\<close>

definition is_item :: "string \<Rightarrow> bool" where
  "is_item t \<longleftrightarrow> take 2 t = ''- '' \<or> t = ''-''"

text \<open>\<^verbatim>\<open>t.find(':')\<close>: what is before the first colon and after it.\<close>

definition split_colon :: "string \<Rightarrow> (string \<times> string) option" where
  "split_colon t =
     (if CHR '':'' \<in> set t
      then Some (takeWhile (\<lambda>c. c \<noteq> CHR '':'') t, tl (dropWhile (\<lambda>c. c \<noteq> CHR '':'') t))
      else None)"

text \<open>How far an item's content is from its dash: \<^verbatim>\<open>size_t c = 1; while (c < t.size() && t[c] == ' ') ++c;\<close>\<close>

definition item_start :: "string \<Rightarrow> nat" where
  "item_start t = 1 + length (takeWhile (\<lambda>c. c = CHR '' '') (drop 1 t))"

text \<open>How much text remains.\<close>

definition text_left :: "SrcLine list \<Rightarrow> nat" where
  "text_left ls = (\<Sum>l\<leftarrow>ls. length (sl_text l) + 1)"

lemma text_left_simps [simp]:
  "text_left [] = 0" "text_left (l # ls) = length (sl_text l) + 1 + text_left ls"
  by (simp_all add: text_left_def)

text \<open>The loops of \<^verbatim>\<open>parse_map\<close> and \<^verbatim>\<open>parse_seq\<close> carry the node built so far.\<close>

function (sequential) parse_node :: "SrcLine list \<Rightarrow> nat \<Rightarrow> string + YamlNode \<times> SrcLine list"
  and parse_map :: "YamlNode \<Rightarrow> SrcLine list \<Rightarrow> nat \<Rightarrow> string + YamlNode \<times> SrcLine list"
  and parse_seq :: "YamlNode \<Rightarrow> SrcLine list \<Rightarrow> nat \<Rightarrow> string + YamlNode \<times> SrcLine list" where
  "parse_node [] indent = Inr (yaml_empty 0, [])"
| "parse_node (l # ls) indent =
     (if is_item (sl_text l) then parse_seq (YamlNode kSeq '''' [] [] (sl_lineno l)) (l # ls) indent
      else if CHR '':'' \<notin> set (sl_text l) then Inr (yaml_scalar (strip (sl_text l)) (sl_lineno l), ls)
      else parse_map (YamlNode kMap '''' [] [] (sl_lineno l)) (l # ls) indent)"
| "parse_map node [] indent = Inr (node, [])"
| "parse_map node (l # ls) indent =
     (if sl_indent l = indent \<and> \<not> is_item (sl_text l) then
        (case split_colon (sl_text l) of
           None \<Rightarrow> Inl (at_line ''config parse error'' (sl_lineno l) (''expected '' @ quoted ''key: value''))
         | Some (k, v) \<Rightarrow>
             let key = strip k; val = strip v in
             if val \<noteq> [] then parse_map (add_entry key (yaml_scalar val (sl_lineno l)) node) ls indent
             else if ls \<noteq> [] \<and> indent < sl_indent (hd ls) then
               (case parse_node ls (sl_indent (hd ls)) of
                  Inl e \<Rightarrow> Inl e
                | Inr (child, rest) \<Rightarrow> parse_map (add_entry key child node) rest indent)
             else parse_map (add_entry key (yaml_empty (sl_lineno l)) node) ls indent)
      else Inr (node, l # ls))"
| "parse_seq node [] indent = Inr (node, [])"
| "parse_seq node (l # ls) indent =
     (if sl_indent l = indent \<and> is_item (sl_text l) then
        let c = item_start (sl_text l); content = drop c (sl_text l) in
        if content = [] then
          (if ls \<noteq> [] \<and> indent < sl_indent (hd ls) then
             (case parse_node ls (sl_indent (hd ls)) of
                Inl e \<Rightarrow> Inl e
              | Inr (child, rest) \<Rightarrow> parse_seq (add_item child node) rest indent)
           else parse_seq (add_item (yaml_empty (sl_lineno l)) node) ls indent)
        else
          (case parse_node (l\<lparr>sl_indent := indent + c, sl_text := content\<rparr> # ls) (indent + c) of
             Inl e \<Rightarrow> Inl e
           | Inr (child, rest) \<Rightarrow> parse_seq (add_item child node) rest indent)
      else Inr (node, l # ls))"
  by pat_completeness auto

lemma item_start_pos: "is_item t \<Longrightarrow> t \<noteq> [] \<and> 1 \<le> item_start t"
  by (auto simp: is_item_def item_start_def)

lemma parse_shrinks_partial:
  "parse_node_parse_map_parse_seq_dom (Inl (ls, i)) \<Longrightarrow>
     (\<And>n r. parse_node ls i = Inr (n, r) \<Longrightarrow> text_left r \<le> text_left ls)"
  "parse_node_parse_map_parse_seq_dom (Inr (Inl (nd, ls, i))) \<Longrightarrow>
     (\<And>n r. parse_map nd ls i = Inr (n, r) \<Longrightarrow> text_left r \<le> text_left ls)"
  "parse_node_parse_map_parse_seq_dom (Inr (Inr (nd, ls, i))) \<Longrightarrow>
     (\<And>n r. parse_seq nd ls i = Inr (n, r) \<Longrightarrow> text_left r \<le> text_left ls)"
proof (induction ls i and nd ls i and nd ls i rule: parse_node_parse_map_parse_seq.pinduct)
  case (4 node l ls indent)
  note eq = 4(6) [unfolded parse_map.psimps(2) [OF 4(1)]]
  show ?case
  proof (cases "sl_indent l = indent \<and> \<not> is_item (sl_text l)")
    case here: True
    then obtain k v where kv: "split_colon (sl_text l) = Some (k, v)" using eq by (auto split: option.splits)
    consider "strip v \<noteq> []" | "strip v = []" "ls \<noteq> [] \<and> indent < sl_indent (hd ls)"
      | "strip v = []" "\<not> (ls \<noteq> [] \<and> indent < sl_indent (hd ls))" by blast
    then show ?thesis
    proof cases
      case 1
      then have "parse_map (add_entry (strip k) (yaml_scalar (strip v) (sl_lineno l)) node) ls indent = Inr (n, r)"
        using eq here kv by (simp add: Let_def)
      then show ?thesis using 4(2) [OF here kv refl refl refl 1] by simp
    next
      case 2
      then obtain child rest where child: "parse_node ls (sl_indent (hd ls)) = Inr (child, rest)"
        using eq here kv by (auto simp: Let_def split: sum.splits)
      then have "parse_map (add_entry (strip k) child node) rest indent = Inr (n, r)"
        using eq here kv 2 by (simp add: Let_def)
      then show ?thesis using 4(3) [OF here kv refl refl refl _ 2(2) child] 4(4) [OF here kv refl refl refl _ 2(2) child refl] 2(1)
        by simp
    next
      case 3
      then have "parse_map (add_entry (strip k) (yaml_empty (sl_lineno l)) node) ls indent = Inr (n, r)"
        using eq here kv by (auto simp: Let_def split: if_splits)
      then show ?thesis using 4(5) [OF here kv refl refl refl _ 3(2)] 3(1) by simp
    qed
  qed (use eq in auto)
next
  case (6 node l ls indent)
  note eq = 6(7) [unfolded parse_seq.psimps(2) [OF 6(1)]]
  show ?case
  proof (cases "sl_indent l = indent \<and> is_item (sl_text l)")
    case here: True
    let ?c = "item_start (sl_text l)"
    let ?l = "l\<lparr>sl_indent := indent + ?c, sl_text := drop ?c (sl_text l)\<rparr>"
    consider "drop ?c (sl_text l) = []" "ls \<noteq> [] \<and> indent < sl_indent (hd ls)"
      | "drop ?c (sl_text l) = []" "\<not> (ls \<noteq> [] \<and> indent < sl_indent (hd ls))"
      | "drop ?c (sl_text l) \<noteq> []" by blast
    then show ?thesis
    proof cases
      case 1
      then obtain child rest where child: "parse_node ls (sl_indent (hd ls)) = Inr (child, rest)"
        using eq here by (auto simp: Let_def split: sum.splits)
      then have "parse_seq (add_item child node) rest indent = Inr (n, r)"
        using eq here 1 by (simp add: Let_def)
      then show ?thesis using 6(2) [OF here refl refl 1 child] 6(3) [OF here refl refl 1 child refl] by simp
    next
      case 2
      then have "parse_seq (add_item (yaml_empty (sl_lineno l)) node) ls indent = Inr (n, r)"
        using eq here by (auto simp: Let_def split: if_splits)
      then show ?thesis using 6(4) [OF here refl refl 2] by simp
    next
      case 3
      then obtain child rest where child: "parse_node (?l # ls) (indent + ?c) = Inr (child, rest)"
        using eq here by (auto simp: Let_def split: sum.splits)
      then have "parse_seq (add_item child node) rest indent = Inr (n, r)"
        using eq here 3 by (simp add: Let_def)
      then show ?thesis using 6(5) [OF here refl refl 3 child] 6(6) [OF here refl refl 3 child refl] by simp
    qed
  qed (use eq in auto)
qed (auto simp: parse_node.psimps parse_map.psimps parse_seq.psimps split: if_splits)

termination parse_node
proof (relation "measure (\<lambda>x. case x of Inl (ls, i) \<Rightarrow> 2 * text_left ls + 1
      | Inr (Inl (n, ls, i)) \<Rightarrow> 2 * text_left ls | Inr (Inr (n, ls, i)) \<Rightarrow> 2 * text_left ls)", goal_cases)
qed (auto dest!: parse_shrinks_partial(1) item_start_pos)

section \<open>Documents\<close>

text \<open>
  The documents the subset can express, and how one writes them: two more blanks per level, a list
  item behind a dash, a scalar behind its key.
\<close>

datatype ydoc = YEmpty | YScalar string | YMap "(string \<times> ydoc) list" | YSeq "ydoc list"

definition src :: "nat \<Rightarrow> string \<Rightarrow> SrcLine" where
  "src i t = \<lparr>sl_indent = i, sl_lineno = 0, sl_text = t\<rparr>"

fun dash :: "nat \<Rightarrow> SrcLine list \<Rightarrow> SrcLine list" where
  "dash i [] = [src i ''-'']"
| "dash i (l # ls) = l\<lparr>sl_indent := i, sl_text := ''- '' @ sl_text l\<rparr> # ls"

fun emit :: "nat \<Rightarrow> ydoc \<Rightarrow> SrcLine list"
  and emit_entries :: "nat \<Rightarrow> (string \<times> ydoc) list \<Rightarrow> SrcLine list"
  and emit_items :: "nat \<Rightarrow> ydoc list \<Rightarrow> SrcLine list" where
  "emit i YEmpty = []"
| "emit i (YScalar s) = [src i s]"
| "emit i (YMap kvs) = emit_entries i kvs"
| "emit i (YSeq ds) = emit_items i ds"
| "emit_entries i [] = []"
| "emit_entries i ((k, d) # kvs) =
     (case d of YScalar s \<Rightarrow> [src i (k @ '': '' @ s)] | _ \<Rightarrow> src i (k @ '':'') # emit (i + 2) d) @ emit_entries i kvs"
| "emit_items i [] = []"
| "emit_items i (d # ds) = dash i (emit (i + 2) d) @ emit_items i ds"

text \<open>What may stand on a line, as a key, and as a scalar that is an item or a block of its own.\<close>

definition trim_ok :: "string \<Rightarrow> bool" where
  "trim_ok t \<longleftrightarrow> t \<noteq> [] \<and> \<not> is_blank (hd t) \<and> \<not> is_blank (last t) \<and> CHR ''#'' \<notin> set t \<and> CHR 0x0A \<notin> set t"

definition key_ok :: "string \<Rightarrow> bool" where
  "key_ok k \<longleftrightarrow> trim_ok k \<and> CHR '':'' \<notin> set k \<and> \<not> is_item k"

fun block_ok :: "ydoc \<Rightarrow> bool" and entries_ok :: "(string \<times> ydoc) list \<Rightarrow> bool" and items_ok :: "ydoc list \<Rightarrow> bool" where
  "block_ok YEmpty \<longleftrightarrow> False"
| "block_ok (YScalar s) \<longleftrightarrow> trim_ok s \<and> CHR '':'' \<notin> set s \<and> \<not> is_item s"
| "block_ok (YMap kvs) \<longleftrightarrow> kvs \<noteq> [] \<and> sorted (map fst kvs) \<and> distinct (map fst kvs) \<and> entries_ok kvs"
| "block_ok (YSeq ds) \<longleftrightarrow> ds \<noteq> [] \<and> items_ok ds"
| "entries_ok [] \<longleftrightarrow> True"
| "entries_ok ((k, d) # kvs) \<longleftrightarrow>
     key_ok k \<and> (case d of YEmpty \<Rightarrow> True | YScalar s \<Rightarrow> trim_ok s | _ \<Rightarrow> block_ok d) \<and> entries_ok kvs"
| "items_ok [] \<longleftrightarrow> True"
| "items_ok (d # ds) \<longleftrightarrow> (d = YEmpty \<or> block_ok d) \<and> items_ok ds"

text \<open>The document a parsed node stands for.\<close>

fun doc_of :: "YamlNode \<Rightarrow> ydoc" where
  "doc_of (YamlNode kEmpty s m q n) = YEmpty"
| "doc_of (YamlNode kScalar s m q n) = YScalar s"
| "doc_of (YamlNode kMap s m q n) = YMap (map (\<lambda>(k, d). (k, doc_of d)) m)"
| "doc_of (YamlNode kSeq s m q n) = YSeq (map doc_of q)"

section \<open>Reading back\<close>

lemma strip_blanks:
  assumes "t \<noteq> []" and "\<not> is_blank (hd t)" and "\<not> is_blank (last t)"
  shows "strip (replicate n (CHR '' '') @ t) = t" and "rstrip (replicate n (CHR '' '') @ t) = replicate n (CHR '' '') @ t"
proof -
  have b: "is_blank (CHR '' '')" by (simp add: is_blank_def)
  have dw: "dropWhile is_blank (replicate n (CHR '' '') @ t) = t"
    using assms b by (induction n) (auto simp: neq_Nil_conv)
  have r: "rstrip (u @ t) = u @ t" for u
    using assms(1,3) by (cases t rule: rev_cases) (auto simp: rstrip_def)
  show "strip (replicate n (CHR '' '') @ t) = t" using dw r [of "[]"] by (simp add: strip_def)
  show "rstrip (replicate n (CHR '' '') @ t) = replicate n (CHR '' '') @ t" by (rule r)
qed

lemma strip_trim_ok [simp]: "trim_ok t \<Longrightarrow> strip t = t" "trim_ok t \<Longrightarrow> strip (CHR '' '' # t) = t"
  using strip_blanks(1) [of t 0] strip_blanks(1) [of t 1] by (auto simp: trim_ok_def)

lemma strip_Nil [simp]: "strip [] = []"
  by (simp add: strip_def rstrip_def)

lemma split_colon_key [simp]: "CHR '':'' \<notin> set k \<Longrightarrow> split_colon (k @ CHR '':'' # v) = Some (k, v)"
  by (simp add: split_colon_def takeWhile_append dropWhile_append takeWhile_eq_all_conv)

lemma not_item_key: "trim_ok k \<Longrightarrow> \<not> is_item k \<Longrightarrow> \<not> is_item (k @ CHR '':'' # v)"
proof (cases k rule: remdups_adj.cases)
  case (3 x y zs)
  then show "\<not> is_item k \<Longrightarrow> ?thesis" by (auto simp: is_item_def)
qed (auto simp: is_item_def trim_ok_def)

lemma map_put_last: "\<forall>k' \<in> set (map fst m). k' < k \<Longrightarrow> map_put k v m = m @ [(k, v)]"
  by (induction m) auto

text \<open>Lines up to their numbers.\<close>

definition unnumbered :: "SrcLine list \<Rightarrow> SrcLine list" where
  "unnumbered ls = map (\<lambda>l. l\<lparr>sl_lineno := 0\<rparr>) ls"

lemma unnumbered_simps [simp]:
  "unnumbered [] = []" "unnumbered (l # ls) = l\<lparr>sl_lineno := 0\<rparr> # unnumbered ls"
  "unnumbered (ls @ ls') = unnumbered ls @ unnumbered ls'"
  by (simp_all add: unnumbered_def)

lemma unnumbered_Nil [simp]: "unnumbered ls = [] \<longleftrightarrow> ls = []"
  by (simp add: unnumbered_def)

lemma unnumbered_append:
  "unnumbered ls = xs @ ys \<longleftrightarrow> (\<exists>us vs. ls = us @ vs \<and> unnumbered us = xs \<and> unnumbered vs = ys)"
  by (auto simp: unnumbered_def map_eq_append_conv)

lemma unnumbered_Cons:
  "unnumbered ls = src i t # xs \<longleftrightarrow> (\<exists>n us. ls = \<lparr>sl_indent = i, sl_lineno = n, sl_text = t\<rparr> # us \<and> unnumbered us = xs)"
proof -
  have "l\<lparr>sl_lineno := 0\<rparr> = src i t \<longleftrightarrow> (\<exists>n. l = \<lparr>sl_indent = i, sl_lineno = n, sl_text = t\<rparr>)" for l
    by (cases l) (auto simp: src_def)
  then show ?thesis by (cases ls) auto
qed

lemma emit_head:
  "block_ok d \<Longrightarrow> \<exists>t ls. emit i d = src i t # ls \<and> t \<noteq> [] \<and> \<not> is_blank (hd t)"
proof (induction d arbitrary: i)
  case (YMap kvs)
  then obtain k v kvs' where "kvs = (k, v) # kvs'" by (cases kvs) auto
  then show ?case using YMap.prems by (cases v) (auto simp: key_ok_def trim_ok_def)
next
  case (YSeq ds)
  then obtain d ds' where ds: "ds = d # ds'" by (cases ds) auto
  have "d = YEmpty \<or> (\<exists>t ls. emit (i + 2) d = src (i + 2) t # ls)"
    using YSeq.IH [of d "i + 2"] YSeq.prems ds by auto
  then show ?case using ds by (auto simp: is_blank_def src_def)
qed (auto simp: trim_ok_def)

definition ends_before :: "nat \<Rightarrow> SrcLine list \<Rightarrow> bool" where
  "ends_before i rest \<longleftrightarrow> rest = [] \<or> sl_indent (hd rest) < i"

lemma item_dash:
  "\<lbrakk>t \<noteq> []; \<not> is_blank (hd t)\<rbrakk> \<Longrightarrow> item_start (CHR ''-'' # CHR '' '' # t) = 2"
  by (cases t) (auto simp: item_start_def is_blank_def)

lemma is_item_dash [simp]: "is_item (CHR ''-'' # CHR '' '' # t)" "is_item ''-''"
  by (auto simp: is_item_def)

lemma entries_head: "entries_ok kvs \<Longrightarrow> unnumbered ls = emit_entries i kvs \<Longrightarrow> ends_before i rest \<Longrightarrow>
    ls @ rest = [] \<or> sl_indent (hd (ls @ rest)) \<le> i"
proof (cases kvs)
  case (Cons kd kvs')
  assume "unnumbered ls = emit_entries i kvs"
  then show ?thesis using Cons by (cases kd; cases "snd kd") (auto simp: unnumbered_Cons)
qed (auto simp: ends_before_def)

lemma items_head: "items_ok ds \<Longrightarrow> unnumbered ls = emit_items i ds \<Longrightarrow> ends_before i rest \<Longrightarrow>
    ls @ rest = [] \<or> sl_indent (hd (ls @ rest)) \<le> i"
proof (cases ds)
  case (Cons d ds')
  assume "items_ok ds" and ls: "unnumbered ls = emit_items i ds"
  then have "d = YEmpty \<or> (\<exists>t us. emit (i + 2) d = src (i + 2) t # us)"
    using Cons emit_head [of d "i + 2"] by auto
  then obtain t us where "dash i (emit (i + 2) d) = src i t # us" by (auto simp: src_def)
  then show ?thesis using ls Cons by (auto simp: unnumbered_Cons)
qed (auto simp: ends_before_def)

text \<open>What the three functions have to return on the lines of a document.\<close>

definition reads_block :: "nat \<Rightarrow> ydoc \<Rightarrow> bool" where
  "reads_block i d \<longleftrightarrow> (\<forall>ls rest. unnumbered ls = emit i d \<longrightarrow> ends_before i rest \<longrightarrow>
     (\<exists>n. parse_node (ls @ rest) i = Inr (n, rest) \<and> doc_of n = d))"

definition reads_entries :: "nat \<Rightarrow> (string \<times> ydoc) list \<Rightarrow> bool" where
  "reads_entries i kvs \<longleftrightarrow> (\<forall>ls rest m line. unnumbered ls = emit_entries i kvs \<longrightarrow> ends_before i rest \<longrightarrow>
     sorted (map fst m @ map fst kvs) \<longrightarrow> distinct (map fst m @ map fst kvs) \<longrightarrow>
     (\<exists>m'. parse_map (YamlNode kMap '''' m [] line) (ls @ rest) i = Inr (YamlNode kMap '''' m' [] line, rest) \<and>
           map (\<lambda>(k, d). (k, doc_of d)) m' = map (\<lambda>(k, d). (k, doc_of d)) m @ kvs))"

definition reads_items :: "nat \<Rightarrow> ydoc list \<Rightarrow> bool" where
  "reads_items i ds \<longleftrightarrow> (\<forall>ls rest q line. unnumbered ls = emit_items i ds \<longrightarrow> ends_before i rest \<longrightarrow>
     (\<exists>q'. parse_seq (YamlNode kSeq '''' [] q line) (ls @ rest) i = Inr (YamlNode kSeq '''' [] q' line, rest) \<and>
           map doc_of q' = map doc_of q @ ds))"

lemma reads_block_rest:
  assumes "reads_block (i + 2) d" and "unnumbered ls = emit (i + 2) d" and "rest = [] \<or> sl_indent (hd rest) \<le> i"
  obtains n where "parse_node (ls @ rest) (i + 2) = Inr (n, rest)" and "doc_of n = d"
proof -
  have "ends_before (i + 2) rest" using assms(3) by (auto simp: ends_before_def)
  then show ?thesis using assms(1) [unfolded reads_block_def, rule_format, OF assms(2)] that by blast
qed

lemma reads_entries_Cons:
  assumes ok: "entries_ok ((k, d) # kvs)" and kvs: "reads_entries i kvs" and d: "block_ok d \<Longrightarrow> reads_block (i + 2) d"
  shows "reads_entries i ((k, d) # kvs)"
  unfolding reads_entries_def
proof (intro allI impI)
  fix ls rest line and m :: "(string \<times> YamlNode) list"
  assume ls: "unnumbered ls = emit_entries i ((k, d) # kvs)" and rest: "ends_before i rest"
    and so: "sorted (map fst m @ map fst ((k, d) # kvs))" and di: "distinct (map fst m @ map fst ((k, d) # kvs))"
  have key: "key_ok k" using ok by simp
  have put: "map_put k c m = m @ [(k, c)]" for c :: YamlNode
    using so di by (intro map_put_last) (auto simp: sorted_append less_le)
  have more: "\<exists>m'. parse_map (YamlNode kMap '''' (map_put k c m) [] line) (us @ rest) i =
      Inr (YamlNode kMap '''' m' [] line, rest) \<and>
      map (\<lambda>(k, d). (k, doc_of d)) m' = map (\<lambda>(k, d). (k, doc_of d)) m @ (k, doc_of c) # kvs"
    if "unnumbered us = emit_entries i kvs" for us c
    using kvs that rest so di unfolding reads_entries_def put
    by (elim allE [of _ us] allE [of _ rest] allE [of _ "m @ [(k, c)]"] allE [of _ line]) auto
  show "\<exists>m'. parse_map (YamlNode kMap '''' m [] line) (ls @ rest) i = Inr (YamlNode kMap '''' m' [] line, rest) \<and>
      map (\<lambda>(k, d). (k, doc_of d)) m' = map (\<lambda>(k, d). (k, doc_of d)) m @ (k, d) # kvs"
  proof (cases "\<exists>s. d = YScalar s")
    case True
    then obtain s n us where s: "d = YScalar s" and us: "ls = \<lparr>sl_indent = i, sl_lineno = n, sl_text = k @ '': '' @ s\<rparr> # us"
      "unnumbered us = emit_entries i kvs" using ls by (auto simp: unnumbered_Cons)
    then show ?thesis using more [OF us(2), of "yaml_scalar s n"] ok key
      by (auto simp: add_entry_def yaml_scalar_def key_ok_def not_item_key trim_ok_def [of s])
  next
    case False
    then obtain n us vs where us: "ls = \<lparr>sl_indent = i, sl_lineno = n, sl_text = k @ '':''\<rparr> # us @ vs"
      "unnumbered us = emit (i + 2) d" "unnumbered vs = emit_entries i kvs"
      using ls by (cases d) (auto simp: unnumbered_Cons unnumbered_append)
    have vs: "vs @ rest = [] \<or> sl_indent (hd (vs @ rest)) \<le> i" using entries_head ok us(3) rest by auto
    show ?thesis
    proof (cases "d = YEmpty")
      case True
      then show ?thesis using more [OF us(3), of "yaml_empty n"] us vs key
        by (auto simp: add_entry_def yaml_empty_def key_ok_def not_item_key)
    next
      case nested: False
      then have b: "block_ok d" using ok False by (cases d) auto
      then obtain t us' where "emit (i + 2) d = src (i + 2) t # us'" using emit_head by blast
      then have hd: "us \<noteq> []" "sl_indent (hd us) = i + 2" using us(2) by (auto simp: unnumbered_Cons)
      obtain c where c: "parse_node (us @ vs @ rest) (i + 2) = Inr (c, vs @ rest)" "doc_of c = d"
        using reads_block_rest [OF d [OF b] us(2) vs] .
      then show ?thesis using more [OF us(3), of c] us hd key
        by (auto simp: add_entry_def key_ok_def not_item_key)
    qed
  qed
qed

lemma reads_items_Cons:
  assumes ok: "items_ok (d # ds)" and ds: "reads_items i ds" and d: "block_ok d \<Longrightarrow> reads_block (i + 2) d"
  shows "reads_items i (d # ds)"
  unfolding reads_items_def
proof (intro allI impI)
  fix ls rest q line
  assume ls: "unnumbered ls = emit_items i (d # ds)" and rest: "ends_before i rest"
  then obtain us vs where uv: "ls = us @ vs" "unnumbered us = dash i (emit (i + 2) d)" "unnumbered vs = emit_items i ds"
    by (auto simp: unnumbered_append)
  have vs: "vs @ rest = [] \<or> sl_indent (hd (vs @ rest)) \<le> i" using items_head ok uv(3) rest by auto
  have more: "\<exists>q'. parse_seq (YamlNode kSeq '''' [] (q @ [c]) line) (vs @ rest) i = Inr (YamlNode kSeq '''' [] q' line, rest) \<and>
      map doc_of q' = map doc_of q @ doc_of c # ds" for c
    using ds [unfolded reads_items_def, rule_format, OF uv(3) rest, of "q @ [c]" line] by simp
  show "\<exists>q'. parse_seq (YamlNode kSeq '''' [] q line) (ls @ rest) i = Inr (YamlNode kSeq '''' [] q' line, rest) \<and>
      map doc_of q' = map doc_of q @ d # ds"
  proof (cases "d = YEmpty")
    case True
    then obtain n where "us = [\<lparr>sl_indent = i, sl_lineno = n, sl_text = ''-''\<rparr>]" using uv(2) by (auto simp: unnumbered_Cons)
    then show ?thesis using more [of "yaml_empty n"] uv(1) vs True
      by (auto simp: add_item_def yaml_empty_def item_start_def)
  next
    case False
    then have b: "block_ok d" using ok by simp
    then obtain t us' where t: "emit (i + 2) d = src (i + 2) t # us'" "t \<noteq> []" "\<not> is_blank (hd t)" using emit_head by blast
    then have "unnumbered us = src i (''- '' @ t) # us'" using uv(2) by (simp add: src_def)
    then obtain n ws where ws: "us = \<lparr>sl_indent = i, sl_lineno = n, sl_text = ''- '' @ t\<rparr> # ws" "unnumbered ws = us'"
      by (auto simp only: unnumbered_Cons)
    let ?l = "\<lparr>sl_indent = i + 2, sl_lineno = n, sl_text = t\<rparr>"
    have "unnumbered (?l # ws) = emit (i + 2) d" using t(1) ws(2) by (simp add: src_def)
    then obtain c where c: "parse_node ((?l # ws) @ vs @ rest) (i + 2) = Inr (c, vs @ rest)" "doc_of c = d"
      using reads_block_rest [OF d [OF b] _ vs] by blast
    then show ?thesis using more [of c] uv(1) ws(1) t by (simp add: add_item_def item_dash)
  qed
qed

lemma parse_node_item:
  "is_item (sl_text l) \<Longrightarrow> parse_node (l # ls) i = parse_seq (YamlNode kSeq '''' [] [] (sl_lineno l)) (l # ls) i"
  by simp

lemma parse_node_map:
  "\<lbrakk>\<not> is_item (sl_text l); CHR '':'' \<in> set (sl_text l)\<rbrakk> \<Longrightarrow>
   parse_node (l # ls) i = parse_map (YamlNode kMap '''' [] [] (sl_lineno l)) (l # ls) i"
  by simp

lemma entries_first:
  assumes "entries_ok kvs" and "kvs \<noteq> []" and "unnumbered ls = emit_entries i kvs"
  obtains l us where "ls = l # us" and "\<not> is_item (sl_text l)" and "CHR '':'' \<in> set (sl_text l)"
proof -
  obtain k d kvs' where "kvs = (k, d) # kvs'" using assms(2) by (cases kvs) auto
  then have k: "key_ok k" and "\<exists>v us. unnumbered ls = src i (k @ CHR '':'' # v) # us"
    using assms(1,3) by (simp, cases d) auto
  then obtain v n us where "ls = \<lparr>sl_indent = i, sl_lineno = n, sl_text = k @ CHR '':'' # v\<rparr> # us"
    by (auto simp: unnumbered_Cons)
  then show thesis using that k by (auto simp: key_ok_def not_item_key)
qed

lemma items_first:
  assumes "items_ok ds" and "ds \<noteq> []" and "unnumbered ls = emit_items i ds"
  obtains l us where "ls = l # us" and "is_item (sl_text l)"
proof -
  obtain d ds' where ds: "ds = d # ds'" using assms(2) by (cases ds) auto
  then have "d = YEmpty \<or> (\<exists>t us. emit (i + 2) d = src (i + 2) t # us)"
    using assms(1) emit_head [of d "i + 2"] by auto
  then obtain t us where "dash i (emit (i + 2) d) = src i t # us" and t: "is_item t" by (auto simp: src_def)
  then show thesis using assms(3) ds that by (auto simp: unnumbered_Cons)
qed

lemma parse_map_stops: "ends_before i rest \<Longrightarrow> parse_map node rest i = Inr (node, rest)"
  by (cases rest) (auto simp: ends_before_def)

lemma parse_seq_stops: "ends_before i rest \<Longrightarrow> parse_seq node rest i = Inr (node, rest)"
  by (cases rest) (auto simp: ends_before_def)

lemma reads_scalar: "block_ok (YScalar s) \<Longrightarrow> reads_block i (YScalar s)"
  by (auto simp: reads_block_def unnumbered_Cons yaml_scalar_def)

lemma reads_all:
  "block_ok d \<Longrightarrow> reads_block i d"
  "entries_ok kvs \<Longrightarrow> reads_entries i kvs"
  "items_ok ds \<Longrightarrow> reads_items i ds"
proof (induction i d and i kvs and i ds rule: emit_emit_entries_emit_items.induct)
  case (3 i kvs)
  then have e: "reads_entries i kvs" and ok: "entries_ok kvs" "kvs \<noteq> []" "sorted (map fst kvs)" "distinct (map fst kvs)" by auto
  show ?case unfolding reads_block_def
  proof (intro allI impI)
    fix ls rest
    assume "unnumbered ls = emit i (YMap kvs)" and rest: "ends_before i rest"
    then have ls: "unnumbered ls = emit_entries i kvs" by simp
    obtain l us where l: "ls = l # us" "\<not> is_item (sl_text l)" "CHR '':'' \<in> set (sl_text l)"
      by (rule entries_first [OF ok(1,2) ls])
    then show "\<exists>n. parse_node (ls @ rest) i = Inr (n, rest) \<and> doc_of n = YMap kvs"
      using e [unfolded reads_entries_def, rule_format, OF ls rest, of "[]" "sl_lineno l"] ok parse_node_map [OF l(2,3)]
      by (auto simp del: parse_map.simps)
  qed
next
  case (4 i ds)
  then have e: "reads_items i ds" and ok: "items_ok ds" "ds \<noteq> []" by auto
  show ?case unfolding reads_block_def
  proof (intro allI impI)
    fix ls rest
    assume "unnumbered ls = emit i (YSeq ds)" and rest: "ends_before i rest"
    then have ls: "unnumbered ls = emit_items i ds" by simp
    obtain l us where l: "ls = l # us" "is_item (sl_text l)"
      by (rule items_first [OF ok ls])
    then show "\<exists>n. parse_node (ls @ rest) i = Inr (n, rest) \<and> doc_of n = YSeq ds"
      using e [unfolded reads_items_def, rule_format, OF ls rest, of "[]" "sl_lineno l"] parse_node_item [OF l(2)]
      by (auto simp del: parse_seq.simps)
  qed
next
  case (6 i k d kvs)
  have "reads_block (i + 2) d" if "block_ok d" using 6 that by (cases d) (auto simp: reads_scalar)
  then show ?case using 6 by (intro reads_entries_Cons) auto
next
  case (8 i d ds)
  then show ?case by (intro reads_items_Cons) auto
next
  case (5 i)
  then show ?case by (simp add: reads_entries_def parse_map_stops)
next
  case (7 i)
  then show ?case by (simp add: reads_items_def parse_seq_stops)
qed (auto simp: reads_scalar)

section \<open>From text\<close>

definition render :: "SrcLine list \<Rightarrow> string" where
  "render ls = concat (map (\<lambda>l. replicate (sl_indent l) (CHR '' '') @ sl_text l @ [CHR 0x0A]) ls)"

fun numbered :: "nat \<Rightarrow> SrcLine list \<Rightarrow> SrcLine list" where
  "numbered n [] = []"
| "numbered n (l # ls) = l\<lparr>sl_lineno := n + 1\<rparr> # numbered (n + 1) ls"

lemma tokenize_line_ok:
  assumes "trim_ok t"
  shows "tokenize_line n (replicate i (CHR '' '') @ t) = Inr (Some \<lparr>sl_indent = i, sl_lineno = n, sl_text = t\<rparr>)"
proof -
  let ?r = "replicate i (CHR '' '') @ t"
  have c: "strip_comment ?r = ?r"
    using assms unfolding strip_comment_def by (intro takeWhile_eq_all_conv [THEN iffD2]) (auto simp: trim_ok_def)
  have "hd t \<noteq> CHR '' ''" "hd t \<noteq> CHR 0x09" "t \<noteq> []" using assms by (auto simp: trim_ok_def is_blank_def)
  then have "takeWhile (\<lambda>c. c = CHR '' '') ?r = replicate i (CHR '' '')"
    "takeWhile (\<lambda>c. c = CHR '' '' \<or> c = CHR 0x09) ?r = replicate i (CHR '' '')"
    by (cases t; simp add: takeWhile_append)+
  then show ?thesis
    using assms c strip_blanks [of t i] by (simp add: tokenize_line_def trim_ok_def)
qed

lemma tokenize_loop_line:
  "CHR 0x0A \<notin> set t \<Longrightarrow> tokenize_loop n line (t @ CHR 0x0A # cs) out =
     (case tokenize_line (n + 1) (line @ t) of
        Inl e \<Rightarrow> Inl e
      | Inr None \<Rightarrow> tokenize_loop (n + 1) [] cs out
      | Inr (Some sl) \<Rightarrow> tokenize_loop (n + 1) [] cs (out @ [sl]))"
  by (induction t arbitrary: line) auto

lemma tokenize_line_blank: "tokenize_line n [] = Inr None"
  by (simp add: tokenize_line_def strip_comment_def rstrip_def)

lemma tokenize_render:
  "list_all (\<lambda>l. trim_ok (sl_text l)) ls \<Longrightarrow> tokenize_loop n [] (render ls) out = Inr (out @ numbered n ls)"
proof (induction ls arbitrary: n out)
  case (Cons l ls)
  have "CHR 0x0A \<notin> set (replicate (sl_indent l) (CHR '' '') @ sl_text l)" using Cons.prems by (auto simp: trim_ok_def)
  then show ?case
    using Cons tokenize_loop_line [of "replicate (sl_indent l) (CHR '' '') @ sl_text l" n "[]" "render ls" out]
    by (simp add: render_def tokenize_line_ok)
qed (simp add: render_def tokenize_line_blank)

lemma unnumbered_numbered: "unnumbered (numbered n ls) = unnumbered ls"
  by (induction ls arbitrary: n) auto

lemma trim_ok_entry: "key_ok k \<Longrightarrow> trim_ok (k @ '':'')" "key_ok k \<Longrightarrow> trim_ok s \<Longrightarrow> trim_ok (k @ CHR '':'' # CHR '' '' # s)"
  by (auto simp: key_ok_def trim_ok_def is_blank_def)

lemma emit_lines:
  "block_ok d \<Longrightarrow> list_all (\<lambda>l. trim_ok (sl_text l) \<and> sl_lineno l = 0) (emit i d)"
  "entries_ok kvs \<Longrightarrow> list_all (\<lambda>l. trim_ok (sl_text l) \<and> sl_lineno l = 0) (emit_entries i kvs)"
  "items_ok ds \<Longrightarrow> list_all (\<lambda>l. trim_ok (sl_text l) \<and> sl_lineno l = 0) (emit_items i ds)"
proof (induction i d and i kvs and i ds rule: emit_emit_entries_emit_items.induct)
  case (6 i k d kvs)
  then show ?case by (cases d) (auto simp: src_def trim_ok_entry)
next
  case (8 i d ds)
  have "trim_ok (''- '' @ t)" if "trim_ok t" for t using that by (auto simp: trim_ok_def is_blank_def)
  moreover have "trim_ok ''-''" by (simp add: trim_ok_def is_blank_def)
  ultimately have "list_all (\<lambda>l. trim_ok (sl_text l) \<and> sl_lineno l = 0) (dash i (emit (i + 2) d))"
    using 8 by (cases "emit (i + 2) d"; cases "d = YEmpty") (auto simp: src_def)
  then show ?case using 8 by simp
qed (auto simp: src_def)


definition sample_doc :: ydoc where
  "sample_doc = YMap
     [(''arenas'', YMap [(''allocation_granularity_mb'', YScalar ''4''),
        (''per_numa'', YSeq [YMap [(''gpu_windows'', YSeq [YMap [(''gpu'', YScalar ''0''), (''size_gb'', YScalar ''3'')]]),
                                   (''overflow_gb'', YScalar ''1''), (''size_gb'', YScalar ''4'')]])]),
      (''daemon'', YMap [(''socket_path'', YScalar ''/run/ss.sock'')]), (''metrics'', YEmpty)]"

lemma sample_doc_ok: "block_ok sample_doc"
  by (simp add: sample_doc_def key_ok_def trim_ok_def is_blank_def is_item_def less_char_def less_eq_char_def)


end
