(* ===== verification/Config_Load.thy ===== *)
theory Config_Load
  imports Yaml Config "HOL-Library.Log_Nat"
begin

text \<open>
  \<^verbatim>\<open>load_config\<close> of \<^verbatim>\<open>src/daemon/config.cpp\<close>: conversion of scalars and the sections of a configuration
  file. An exception is its message; a conversion to an integer that C++ leaves undefined is an outcome
  of its own. Warnings about unknown keys have no effect and are left out. What \<^verbatim>\<open>strtoll\<close> and \<^verbatim>\<open>strtod\<close>
  accept is written out, including the rounding to 53 bits.
\<close>

datatype config_error = ConfigError string | UndefinedConversion

type_synonym 'a checked = "config_error + 'a"

fun andthen :: "'a checked \<Rightarrow> ('a \<Rightarrow> 'b checked) \<Rightarrow> 'b checked" where
  "andthen (Inl e) f = Inl e"
| "andthen (Inr x) f = f x"

fun for_each :: "('a \<Rightarrow> 'c \<Rightarrow> 'c checked) \<Rightarrow> 'a list \<Rightarrow> 'c \<Rightarrow> 'c checked" where
  "for_each f [] c = Inr c"
| "for_each f (x # xs) c = andthen (f x c) (for_each f xs)"

definition kMiB :: u64 where
  "kMiB = 1048576"

definition kGiB :: u64 where
  "kGiB = 1073741824"

section \<open>Standard library\<close>

definition is_space :: "char \<Rightarrow> bool" where
  "is_space c \<longleftrightarrow> c = CHR '' '' \<or> (9 \<le> (of_char c :: nat) \<and> (of_char c :: nat) \<le> 13)"

definition to_lower :: "char \<Rightarrow> char" where
  "to_lower c = (if 65 \<le> (of_char c :: nat) \<and> (of_char c :: nat) \<le> 90 then char_of (of_char c + 32 :: nat) else c)"

text \<open>An optional sign: is it a minus, and what follows.\<close>

fun scan_sign :: "string \<Rightarrow> bool \<times> string" where
  "scan_sign [] = (False, [])"
| "scan_sign (c # cs) = (if c = CHR ''-'' then (True, cs) else if c = CHR ''+'' then (False, cs) else (False, c # cs))"

text \<open>\<^verbatim>\<open>std::stoll\<close>: the value and what is left of the text; \<open>None\<close>: it throws.\<close>

definition stoll :: "string \<Rightarrow> (int \<times> string) option" where
  "stoll s =
     (case scan_sign (dropWhile is_space s) of
        (neg, r) \<Rightarrow>
          let ds = takeWhile is_digit r; v = (if neg then - int (decimal ds) else int (decimal ds)) in
          if ds = [] \<or> v < - (2 ^ 63) \<or> 2 ^ 63 \<le> v then None else Some (v, dropWhile is_digit r))"

text \<open>Rounding to the nearest double, ties to even; \<open>None\<close>: out of range (\<^verbatim>\<open>ERANGE\<close>).\<close>

definition round_half_even :: "rat \<Rightarrow> int" where
  "round_half_even q =
     (let f = \<lfloor>q\<rfloor>; d = q - of_int f
      in if d < 1 / 2 \<or> (d = 1 / 2 \<and> even f) then f else f + 1)"

definition double_exponent :: "rat \<Rightarrow> int" where
  "double_exponent q =
     (let (n, d) = quotient_of q; e = int (floorlog 2 (nat n)) - int (floorlog 2 (nat d)) - 53
      in if q < 2 ^ 53 * 2 powi e then e else e + 1)"

definition double_of :: "rat \<Rightarrow> double option" where
  "double_of q =
     (if q = 0 then Some (Finite 0)
      else
        let e = double_exponent \<bar>q\<bar>; e' = max e (- 1074);
            r = of_int (round_half_even (\<bar>q\<bar> / 2 powi e')) * 2 powi e'
        in if 2 ^ 1024 \<le> r \<or> (e < - 1074 \<and> r \<noteq> \<bar>q\<bar>) then None
           else Some (Finite (if q < 0 then - r else r)))"

definition is_hexdigit :: "char \<Rightarrow> bool" where
  "is_hexdigit c \<longleftrightarrow> is_digit c \<or> (97 \<le> (of_char (to_lower c) :: nat) \<and> (of_char (to_lower c) :: nat) \<le> 102)"

definition hexdigit_value :: "char \<Rightarrow> nat" where
  "hexdigit_value c = (if is_digit c then digit_value c else of_char (to_lower c) - 87)"

text \<open>Digits with an optional fraction; \<open>None\<close>: not a single digit.\<close>

definition scan_fixed :: "(char \<Rightarrow> bool) \<Rightarrow> (char \<Rightarrow> nat) \<Rightarrow> nat \<Rightarrow> string \<Rightarrow> (rat \<times> string) option" where
  "scan_fixed isd val base s =
     (let ip = takeWhile isd s; r = dropWhile isd s;
          (fp, r') = (if r \<noteq> [] \<and> hd r = CHR ''.'' then (takeWhile isd (tl r), dropWhile isd (tl r)) else ([], r))
      in if ip = [] \<and> fp = [] then None
         else Some (of_nat (foldl (\<lambda>a c. base * a + val c) 0 (ip @ fp)) / of_nat base ^ length fp, r'))"

text \<open>An optional exponent behind the letter \<open>e\<close>; without digits it is not part of the number.\<close>

definition scan_exponent :: "char \<Rightarrow> string \<Rightarrow> int \<times> string" where
  "scan_exponent e s =
     (if s \<noteq> [] \<and> to_lower (hd s) = e then
        (case scan_sign (tl s) of
           (neg, r) \<Rightarrow>
             let ds = takeWhile is_digit r in
             if ds = [] then (0, s)
             else (if neg then - int (decimal ds) else int (decimal ds), dropWhile is_digit r))
      else (0, s))"

definition starts_with :: "string \<Rightarrow> string \<Rightarrow> bool" where
  "starts_with p s \<longleftrightarrow> map to_lower (take (length p) s) = p"

text \<open>The characters of \<^verbatim>\<open>nan(...)\<close>, if the parenthesis is closed.\<close>

definition skip_nan_tag :: "string \<Rightarrow> string" where
  "skip_nan_tag s =
     (let in_tag = (\<lambda>c. is_digit c \<or> c = CHR ''_'' \<or> (97 \<le> (of_char (to_lower c) :: nat) \<and> (of_char (to_lower c) :: nat) \<le> 122))
      in if s \<noteq> [] \<and> hd s = CHR ''('' then
           (let r = dropWhile in_tag (tl s) in if r \<noteq> [] \<and> hd r = CHR '')'' then tl r else s)
         else s)"

text \<open>\<^verbatim>\<open>strtod\<close> after blanks and sign: the magnitude.\<close>

definition scan_double :: "string \<Rightarrow> (double option \<times> string) option" where
  "scan_double s =
     (if starts_with ''infinity'' s then Some (Some PosInf, drop 8 s)
      else if starts_with ''inf'' s then Some (Some PosInf, drop 3 s)
      else if starts_with ''nan'' s then Some (Some NaN, skip_nan_tag (drop 3 s))
      else
        (case (if starts_with ''0x'' s then scan_fixed is_hexdigit hexdigit_value 16 (drop 2 s) else None) of
           Some (m, r) \<Rightarrow>
             (case scan_exponent (CHR ''p'') r of (e, r') \<Rightarrow> Some (double_of (m * 2 powi e), r'))
         | None \<Rightarrow>
             (case scan_fixed is_digit digit_value 10 s of
                None \<Rightarrow> None
              | Some (m, r) \<Rightarrow>
                  (case scan_exponent (CHR ''e'') r of (e, r') \<Rightarrow> Some (double_of (m * 10 powi e), r')))))"

fun negate :: "double \<Rightarrow> double" where
  "negate (Finite q) = Finite (- q)"
| "negate PosInf = NegInf"
| "negate NegInf = PosInf"
| "negate NaN = NaN"

definition stod :: "string \<Rightarrow> (double \<times> string) option" where
  "stod s =
     (case scan_sign (dropWhile is_space s) of
        (neg, r) \<Rightarrow>
          (case scan_double r of
             Some (Some v, rest) \<Rightarrow> Some (if neg then negate v else v, rest)
           | _ \<Rightarrow> None))"

section \<open>Scalar conversions\<close>

definition config_error_at :: "YamlNode \<Rightarrow> string \<Rightarrow> config_error" where
  "config_error_at n msg = ConfigError (at_line ''config error'' (yn_line n) msg)"

definition to_u64 :: "YamlNode \<Rightarrow> string \<Rightarrow> u64 checked" where
  "to_u64 n ctx =
     (if yn_kind n \<noteq> kScalar then Inl (config_error_at n (''expected integer for '' @ ctx))
      else case stoll (yn_scalar n) of
        Some (v, rest) \<Rightarrow>
          if rest \<noteq> [] \<or> v < 0
          then Inl (config_error_at n (''invalid integer '' @ quoted (yn_scalar n) @ '' for '' @ ctx))
          else Inr (of_int v)
      | None \<Rightarrow> Inl (config_error_at n (''invalid integer '' @ quoted (yn_scalar n) @ '' for '' @ ctx)))"

definition to_double :: "YamlNode \<Rightarrow> string \<Rightarrow> double checked" where
  "to_double n ctx =
     (if yn_kind n \<noteq> kScalar then Inl (config_error_at n (''expected number for '' @ ctx))
      else case stod (yn_scalar n) of
        Some (v, []) \<Rightarrow> Inr v
      | _ \<Rightarrow> Inl (config_error_at n (''invalid number '' @ quoted (yn_scalar n) @ '' for '' @ ctx)))"

definition to_bool :: "YamlNode \<Rightarrow> string \<Rightarrow> bool checked" where
  "to_bool n ctx =
     (if yn_kind n \<noteq> kScalar then Inl (config_error_at n (''expected bool for '' @ ctx))
      else
        let s = map to_lower (yn_scalar n) in
        if s = ''true'' \<or> s = ''yes'' \<or> s = ''on'' \<or> s = ''1'' then Inr True
        else if s = ''false'' \<or> s = ''no'' \<or> s = ''off'' \<or> s = ''0'' then Inr False
        else Inl (config_error_at n (''invalid bool '' @ quoted (yn_scalar n) @ '' for '' @ ctx)))"

definition to_str :: "YamlNode \<Rightarrow> string \<Rightarrow> string checked" where
  "to_str n ctx =
     (if yn_kind n \<noteq> kScalar then Inl (config_error_at n (''expected string for '' @ ctx)) else Inr (yn_scalar n))"

definition parse_target :: "string \<Rightarrow> YamlNode \<Rightarrow> DrainTarget checked" where
  "parse_target s n =
     (if s = ''pageable_then_nvme'' then Inr kPageableThenNvme
      else if s = ''pageable'' then Inr kPageableOnly
      else if s = ''nvme'' then Inr kNvmeOnly
      else Inl (config_error_at n (''unknown target_tier '' @ quoted s)))"

definition size_suffix :: "string \<Rightarrow> nat option" where
  "size_suffix suf =
     (if suf = [] \<or> suf = ''b'' then Some 1
      else if suf = ''kib'' \<or> suf = ''kb'' \<or> suf = ''k'' then Some (2 ^ 10)
      else if suf = ''mib'' \<or> suf = ''mb'' \<or> suf = ''m'' then Some (2 ^ 20)
      else if suf = ''gib'' \<or> suf = ''gb'' \<or> suf = ''g'' then Some (2 ^ 30)
      else if suf = ''tib'' \<or> suf = ''tb'' \<or> suf = ''t'' then Some (2 ^ 40)
      else None)"

text \<open>\<^verbatim>\<open>static_cast<uint64_t>\<close> of a double: defined when the truncated value fits.\<close>

fun cast_u64 :: "double \<Rightarrow> u64 checked" where
  "cast_u64 (Finite q) = (if - 1 < q \<and> q < 2 ^ 64 then Inr (of_int \<lfloor>max q 0\<rfloor>) else Inl UndefinedConversion)"
| "cast_u64 _ = Inl UndefinedConversion"

text \<open>The product with a power of two is exact, or infinite.\<close>

fun scale_double :: "nat \<Rightarrow> double \<Rightarrow> double" where
  "scale_double m (Finite q) =
     (let r = q * of_nat m in if 2 ^ 1024 \<le> r then PosInf else if r \<le> - (2 ^ 1024) then NegInf else Finite r)"
| "scale_double m d = d"

definition to_bytes :: "YamlNode \<Rightarrow> string \<Rightarrow> u64 checked" where
  "to_bytes n ctx =
     (if yn_kind n \<noteq> kScalar then Inl (config_error_at n (''expected size for '' @ ctx))
      else case stod (yn_scalar n) of
        None \<Rightarrow> Inl (config_error_at n (''invalid size '' @ quoted (yn_scalar n) @ '' for '' @ ctx))
      | Some (v, rest) \<Rightarrow>
          let trimmed = dropWhile (\<lambda>c. c = CHR '' '') (rev (dropWhile (\<lambda>c. c = CHR '' '') rest));
              suf = map to_lower (rev trimmed)
          in case size_suffix suf of
               None \<Rightarrow> Inl (config_error_at n (''unknown size suffix '' @ quoted suf @ '' for '' @ ctx))
             | Some mult \<Rightarrow> cast_u64 (scale_double mult v))"

definition parse_dedup_mode :: "string \<Rightarrow> u32" where
  "parse_dedup_mode s =
     (if s = ''disabled'' then 0 else if s = ''semantic_trusted'' then 1 else if s = ''hash_verified'' then 2
      else if s = ''sampled_hash'' then 3 else 1)"

definition parse_transport :: "string \<Rightarrow> u32" where
  "parse_transport s =
     (if s = ''tcp'' then 1 else if s = ''file'' then 2
      else if s = ''libfabric_send'' \<or> s = ''libfabric'' then 3
      else if s = ''libfabric_rdma_read'' then 4 else if s = ''libfabric_rdma_write'' then 5 else 1)"

section \<open>Sections\<close>

text \<open>Convert the value of a key and store it.\<close>

definition set_from :: "(YamlNode \<Rightarrow> string \<Rightarrow> 'a checked) \<Rightarrow> ('a \<Rightarrow> 'c) \<Rightarrow> string \<Rightarrow> YamlNode \<Rightarrow> 'c checked" where
  "set_from conv upd k v = andthen (conv v k) (\<lambda>x. Inr (upd x))"

text \<open>The loop over the entries of a section; a missing section has no entries.\<close>

definition in_section :: "string \<Rightarrow> (string \<times> YamlNode \<Rightarrow> DaemonConfig \<Rightarrow> DaemonConfig checked) \<Rightarrow> YamlNode \<Rightarrow>
    DaemonConfig \<Rightarrow> DaemonConfig checked" where
  "in_section name f yroot cfg =
     (case yaml_find yroot name of None \<Rightarrow> Inr cfg | Some d \<Rightarrow> for_each f (yn_map d) cfg)"

fun daemon_key :: "string \<times> YamlNode \<Rightarrow> DaemonConfig \<Rightarrow> DaemonConfig checked" where
  "daemon_key (k, v) cfg =
     (if k = ''socket_path'' then set_from to_str (\<lambda>x. cfg\<lparr>cfg_socket_path := x\<rparr>) k v
      else if k = ''control_shm_name'' then set_from to_str (\<lambda>x. cfg\<lparr>cfg_control_shm_name := x\<rparr>) k v
      else if k = ''heartbeat_timeout_ms'' then set_from to_u64 (\<lambda>x. cfg\<lparr>cfg_heartbeat_timeout_ms := x\<rparr>) k v
      else if k = ''completion_ring_max_ranks''
      then set_from to_u64 (\<lambda>x. cfg\<lparr>cfg_completion_ring_max_ranks := ucast x\<rparr>) k v
      else if k = ''completion_ring_capacity''
      then set_from to_u64 (\<lambda>x. cfg\<lparr>cfg_completion_ring_capacity := ucast x\<rparr>) k v
      else if k = ''ring_poll_us'' then set_from to_u64 (\<lambda>x. cfg\<lparr>cfg_ring_poll_us := ucast x\<rparr>) k v
      else Inr cfg)"

fun arenas_key :: "string \<times> YamlNode \<Rightarrow> DaemonConfig \<Rightarrow> DaemonConfig checked" where
  "arenas_key (k, v) cfg =
     (if k = ''registration_policy'' then set_from to_str (\<lambda>x. cfg\<lparr>cfg_registration_policy := x\<rparr>) k v
      else if k = ''registration_chunk_mb''
      then set_from to_u64 (\<lambda>x. cfg\<lparr>cfg_registration_chunk_bytes := x * kMiB\<rparr>) k v
      else if k = ''allocation_granularity_mb''
      then set_from to_u64 (\<lambda>x. cfg\<lparr>cfg_allocation_granularity_bytes := x * kMiB\<rparr>) k v
      else Inr cfg)"

fun gpu_window_key :: "string \<times> YamlNode \<Rightarrow> GpuWindowConfig \<Rightarrow> GpuWindowConfig checked" where
  "gpu_window_key (k, v) win =
     (if k = ''gpu'' then set_from to_u64 (\<lambda>x. win\<lparr>gwc_gpu := ucast x\<rparr>) k v
      else if k = ''size_gb'' then set_from to_u64 (\<lambda>x. win\<lparr>gwc_size_bytes := x * kGiB\<rparr>) k v
      else Inr win)"

definition load_window :: "YamlNode \<Rightarrow> NumaArenaConfig \<Rightarrow> NumaArenaConfig checked" where
  "load_window w arena =
     (if yn_kind w \<noteq> kMap then Inl (config_error_at w ''gpu_windows entry must be a mapping'')
      else andthen (for_each gpu_window_key (yn_map w) GpuWindowConfig_init)
             (\<lambda>win. Inr (arena\<lparr>nac_gpu_windows := nac_gpu_windows arena @ [win]\<rparr>)))"

fun arena_key :: "string \<times> YamlNode \<Rightarrow> NumaArenaConfig \<Rightarrow> NumaArenaConfig checked" where
  "arena_key (k, v) arena =
     (if k = ''numa_node'' then set_from to_u64 (\<lambda>x. arena\<lparr>nac_numa_node := ucast x\<rparr>) k v
      else if k = ''size_gb'' then set_from to_u64 (\<lambda>x. arena\<lparr>nac_size_bytes := x * kGiB\<rparr>) k v
      else if k = ''overflow_gb'' then set_from to_u64 (\<lambda>x. arena\<lparr>nac_overflow_bytes := x * kGiB\<rparr>) k v
      else Inr arena)"

definition load_arena :: "YamlNode \<Rightarrow> DaemonConfig \<Rightarrow> DaemonConfig checked" where
  "load_arena item cfg =
     (if yn_kind item \<noteq> kMap then Inl (config_error_at item ''per_numa entry must be a mapping'')
      else andthen (for_each arena_key (yn_map item) NumaArenaConfig_init)
             (\<lambda>arena. andthen
                (case yaml_find item ''gpu_windows'' of
                   None \<Rightarrow> Inr arena
                 | Some gw \<Rightarrow>
                     if yn_kind gw \<noteq> kSeq then Inl (config_error_at gw ''gpu_windows must be a list'')
                     else for_each load_window (yn_seq gw) arena)
                (\<lambda>arena. Inr (cfg\<lparr>cfg_per_numa := cfg_per_numa cfg @ [arena]\<rparr>))))"

definition load_arenas :: "YamlNode \<Rightarrow> DaemonConfig \<Rightarrow> DaemonConfig checked" where
  "load_arenas yroot cfg =
     (case yaml_find yroot ''arenas'' of
        None \<Rightarrow> Inr cfg
      | Some a \<Rightarrow> andthen (for_each arenas_key (yn_map a) cfg)
          (\<lambda>cfg. case yaml_find a ''per_numa'' of
             None \<Rightarrow> Inr cfg
           | Some pn \<Rightarrow>
               if yn_kind pn \<noteq> kSeq then Inl (config_error_at pn ''arenas.per_numa must be a list'')
               else for_each load_arena (yn_seq pn) cfg))"

fun drain_key :: "string \<times> YamlNode \<Rightarrow> DaemonConfig \<Rightarrow> DaemonConfig checked" where
  "drain_key (k, v) cfg =
     (if k = ''target_tier''
      then andthen (to_str v k) (\<lambda>s. andthen (parse_target s v) (\<lambda>t. Inr (cfg\<lparr>cfg_drain_target := t\<rparr>)))
      else if k = ''drain_on_d2h_complete'' then set_from to_bool (\<lambda>x. cfg\<lparr>cfg_drain_on_d2h_complete := x\<rparr>) k v
      else if k = ''normal_threshold'' then set_from to_double (\<lambda>x. cfg\<lparr>cfg_normal_threshold := x\<rparr>) k v
      else if k = ''priority_threshold'' then set_from to_double (\<lambda>x. cfg\<lparr>cfg_priority_threshold := x\<rparr>) k v
      else if k = ''aggressive_threshold'' then set_from to_double (\<lambda>x. cfg\<lparr>cfg_aggressive_threshold := x\<rparr>) k v
      else Inr cfg)"

fun nvme_key :: "string \<times> YamlNode \<Rightarrow> DaemonConfig \<Rightarrow> DaemonConfig checked" where
  "nvme_key (k, v) cfg =
     (if k = ''enabled'' then set_from to_bool (\<lambda>x. cfg\<lparr>cfg_nvme_enabled := x\<rparr>) k v
      else if k = ''path'' then set_from to_str (\<lambda>x. cfg\<lparr>cfg_nvme_path := x\<rparr>) k v
      else if k = ''io_engine'' then set_from to_str (\<lambda>x. cfg\<lparr>cfg_nvme_io_engine := x\<rparr>) k v
      else if k = ''direct_io'' then set_from to_bool (\<lambda>x. cfg\<lparr>cfg_nvme_direct_io := x\<rparr>) k v
      else if k = ''stripe'' then set_from to_bool (\<lambda>x. cfg\<lparr>cfg_nvme_stripe := x\<rparr>) k v
      else if k = ''stripe_count'' then set_from to_u64 (\<lambda>x. cfg\<lparr>cfg_nvme_stripe_count := ucast x\<rparr>) k v
      else if k = ''block_mb'' then set_from to_u64 (\<lambda>x. cfg\<lparr>cfg_nvme_block_bytes := x * 1024 * 1024\<rparr>) k v
      else if k = ''queue_depth'' then set_from to_u64 (\<lambda>x. cfg\<lparr>cfg_nvme_queue_depth := ucast x\<rparr>) k v
      else if k = ''stripe_dirs'' then Inr (cfg\<lparr>cfg_nvme_stripe_dirs := map yn_scalar (yn_seq v)\<rparr>)
      else Inr cfg)"

fun python_key :: "string \<times> YamlNode \<Rightarrow> DaemonConfig \<Rightarrow> DaemonConfig checked" where
  "python_key (k, v) cfg =
     (if k = ''default_invalidate'' then set_from to_str (\<lambda>x. cfg\<lparr>cfg_default_invalidate := x\<rparr>) k v
      else if k = ''require_own_storage'' then set_from to_bool (\<lambda>x. cfg\<lparr>cfg_require_own_storage := x\<rparr>) k v
      else if k = ''allow_views'' then set_from to_bool (\<lambda>x. cfg\<lparr>cfg_allow_views := x\<rparr>) k v
      else if k = ''unsafe_autograd'' then set_from to_bool (\<lambda>x. cfg\<lparr>cfg_unsafe_autograd := x\<rparr>) k v
      else Inr cfg)"

fun manager_key :: "string \<times> YamlNode \<Rightarrow> DaemonConfig \<Rightarrow> DaemonConfig checked" where
  "manager_key (k, v) cfg =
     (if k = ''enable_canonical_store'' then set_from to_bool (\<lambda>x. cfg\<lparr>cfg_v2_enable_canonical_store := x\<rparr>) k v
      else if k = ''enable_manifests'' then set_from to_bool (\<lambda>x. cfg\<lparr>cfg_v2_enable_manifests := x\<rparr>) k v
      else if k = ''enable_rollout_export'' then set_from to_bool (\<lambda>x. cfg\<lparr>cfg_v2_enable_rollout_export := x\<rparr>) k v
      else if k = ''control_tcp_port'' then set_from to_u64 (\<lambda>x. cfg\<lparr>cfg_v2_control_tcp_port := ucast x\<rparr>) k v
      else if k = ''daemon_socket'' then set_from to_str (\<lambda>x. cfg\<lparr>cfg_socket_path := x\<rparr>) k v
      else Inr cfg)"

fun namespace_key :: "string \<times> YamlNode \<Rightarrow> DaemonConfig \<Rightarrow> DaemonConfig checked" where
  "namespace_key (k, v) cfg =
     (if k = ''default_tenant_id'' then set_from to_u64 (\<lambda>x. cfg\<lparr>cfg_v2_default_tenant_id := x\<rparr>) k v
      else if k = ''require_job_registration''
      then set_from to_bool (\<lambda>x. cfg\<lparr>cfg_v2_require_job_registration := x\<rparr>) k v
      else if k = ''include_launch_epoch'' then set_from to_bool (\<lambda>x. cfg\<lparr>cfg_v2_include_launch_epoch := x\<rparr>) k v
      else Inr cfg)"

fun canonical_key :: "string \<times> YamlNode \<Rightarrow> DaemonConfig \<Rightarrow> DaemonConfig checked" where
  "canonical_key (k, v) cfg =
     (if k = ''dedup_default_mode''
      then set_from to_str (\<lambda>x. cfg\<lparr>cfg_v2_dedup_default_mode := parse_dedup_mode x\<rparr>) k v
      else if k = ''cross_job_dedup'' then set_from to_bool (\<lambda>x. cfg\<lparr>cfg_v2_cross_job_dedup := x\<rparr>) k v
      else if k = ''creating_policy''
      then set_from to_str (\<lambda>x. cfg\<lparr>cfg_v2_creating_policy := if x = ''duplicate_candidate_on_pressure'' then 1 else 0\<rparr>) k v
      else if k = ''duplicate_candidate_gpu_pressure_threshold''
      then set_from to_double (\<lambda>x. cfg\<lparr>cfg_v2_duplicate_candidate_gpu_pressure_threshold := x\<rparr>) k v
      else if k = ''sampled_hash_bytes_per_gib''
      then set_from to_u64 (\<lambda>x. cfg\<lparr>cfg_v2_sampled_hash_bytes_per_gib := x\<rparr>) k v
      else Inr cfg)"

fun manifest_key :: "string \<times> YamlNode \<Rightarrow> DaemonConfig \<Rightarrow> DaemonConfig checked" where
  "manifest_key (k, v) cfg =
     (if k = ''seal_requires_all_objects_valid''
      then set_from to_bool (\<lambda>x. cfg\<lparr>cfg_v2_seal_requires_all_objects_valid := x\<rparr>) k v
      else if k = ''retain_sealed_versions''
      then set_from to_u64 (\<lambda>x. cfg\<lparr>cfg_v2_retain_sealed_versions := ucast x\<rparr>) k v
      else Inr cfg)"

fun export_key :: "string \<times> YamlNode \<Rightarrow> DaemonConfig \<Rightarrow> DaemonConfig checked" where
  "export_key (k, v) cfg =
     (if k = ''default_transport'' then set_from to_str (\<lambda>x. cfg\<lparr>cfg_v2_default_transport := parse_transport x\<rparr>) k v
      else if k = ''fallback_transport''
      then set_from to_str (\<lambda>x. cfg\<lparr>cfg_v2_fallback_transport := parse_transport x\<rparr>) k v
      else if k = ''use_dedicated_export_buffers''
      then set_from to_bool (\<lambda>x. cfg\<lparr>cfg_v2_use_dedicated_export_buffers := x\<rparr>) k v
      else if k = ''require_export_refcount'' then set_from to_bool (\<lambda>x. cfg\<lparr>cfg_v2_require_export_refcount := x\<rparr>) k v
      else if k = ''max_concurrent_exports_per_job''
      then set_from to_u64 (\<lambda>x. cfg\<lparr>cfg_v2_max_concurrent_exports_per_job := ucast x\<rparr>) k v
      else Inr cfg)"

fun quota_key :: "string \<times> YamlNode \<Rightarrow> DaemonConfig \<Rightarrow> DaemonConfig checked" where
  "quota_key (k, v) cfg =
     (if k = ''max_pinned_bytes'' then set_from to_bytes (\<lambda>x. cfg\<lparr>cfg_v2_quota_max_pinned_bytes := x\<rparr>) k v
      else if k = ''max_pageable_bytes'' then set_from to_bytes (\<lambda>x. cfg\<lparr>cfg_v2_quota_max_pageable_bytes := x\<rparr>) k v
      else if k = ''max_nvme_bytes'' then set_from to_bytes (\<lambda>x. cfg\<lparr>cfg_v2_quota_max_nvme_bytes := x\<rparr>) k v
      else if k = ''max_inflight_d2h_bytes''
      then set_from to_bytes (\<lambda>x. cfg\<lparr>cfg_v2_quota_max_inflight_d2h_bytes := x\<rparr>) k v
      else if k = ''max_inflight_export_bytes''
      then set_from to_bytes (\<lambda>x. cfg\<lparr>cfg_v2_quota_max_inflight_export_bytes := x\<rparr>) k v
      else Inr cfg)"

definition load_quotas :: "YamlNode \<Rightarrow> DaemonConfig \<Rightarrow> DaemonConfig checked" where
  "load_quotas yroot cfg =
     (case yaml_find yroot ''quotas'' of
        None \<Rightarrow> Inr cfg
      | Some q \<Rightarrow>
          (case yaml_find q ''default'' of None \<Rightarrow> Inr cfg | Some def \<Rightarrow> for_each quota_key (yn_map def) cfg))"

definition load_sections :: "YamlNode \<Rightarrow> DaemonConfig checked" where
  "load_sections yroot =
     andthen (in_section ''daemon'' daemon_key yroot DaemonConfig_init) (\<lambda>cfg.
     andthen (load_arenas yroot cfg) (\<lambda>cfg.
     andthen (in_section ''drain_policy'' drain_key yroot cfg) (\<lambda>cfg.
     andthen (in_section ''nvme'' nvme_key yroot cfg) (\<lambda>cfg.
     andthen (in_section ''python_api'' python_key yroot cfg) (\<lambda>cfg.
     andthen (in_section ''manager'' manager_key yroot cfg) (\<lambda>cfg.
     andthen (in_section ''namespace'' namespace_key yroot cfg) (\<lambda>cfg.
     andthen (in_section ''canonical_store'' canonical_key yroot cfg) (\<lambda>cfg.
     andthen (in_section ''manifest'' manifest_key yroot cfg) (\<lambda>cfg.
     andthen (in_section ''export'' export_key yroot cfg) (load_quotas yroot))))))))))"

section \<open>Validation and the whole function\<close>

definition check_arena :: "NumaArenaConfig \<Rightarrow> DaemonConfig \<Rightarrow> DaemonConfig checked" where
  "check_arena arena cfg =
     (let win_total = fold (\<lambda>w acc. acc + gwc_size_bytes w) (nac_gpu_windows arena) 0;
          needed = win_total + nac_overflow_bytes arena;
          node = ''config: numa_node '' @ digits (unat (nac_numa_node arena))
      in if nac_size_bytes arena = 0 then Inl (ConfigError (node @ '' size_gb must be > 0''))
         else if needed > nac_size_bytes arena
         then Inl (ConfigError (node @ '' gpu_windows + overflow ('' @ digits (unat needed) @
                '' bytes) exceed arena size ('' @ digits (unat (nac_size_bytes arena)) @ '' bytes)''))
         else Inr cfg)"

definition validate :: "DaemonConfig \<Rightarrow> DaemonConfig checked" where
  "validate cfg =
     (if cfg_allocation_granularity_bytes cfg = 0
      then Inl (ConfigError ''config: allocation_granularity_mb must be > 0'')
      else if cfg_per_numa cfg = []
      then Inl (ConfigError ''config: at least one arenas.per_numa entry required'')
      else for_each check_arena (cfg_per_numa cfg) cfg)"

text \<open>The part of \<^verbatim>\<open>load_config\<close> that works on the content of the file.\<close>

definition load_content :: "string \<Rightarrow> string \<Rightarrow> DaemonConfig checked" where
  "load_content path content =
     (case tokenize content of
        Inl e \<Rightarrow> Inl (ConfigError e)
      | Inr lines \<Rightarrow>
          if lines = [] then Inl (ConfigError (''config: file '' @ quoted path @ '' is empty''))
          else case parse_node lines (sl_indent (hd lines)) of
            Inl e \<Rightarrow> Inl (ConfigError e)
          | Inr (yroot, rest) \<Rightarrow>
              if rest \<noteq> [] then
                Inl (ConfigError (at_line ''config parse error'' (sl_lineno (hd rest))
                  ''unexpected content / bad indentation''))
              else if yn_kind yroot \<noteq> kMap then Inl (ConfigError ''config: top-level must be a mapping'')
              else andthen (load_sections yroot) validate)"

text \<open>The file system is a parameter: the content of a file that can be opened.\<close>

definition load_config :: "(string \<Rightarrow> string option) \<Rightarrow> string \<Rightarrow> DaemonConfig checked" where
  "load_config read_file path =
     (if path = [] then Inr (default_smoke_config (256 * kMiB) 0 0)
      else case read_file path of
        None \<Rightarrow> Inl (ConfigError (''config: cannot open file '' @ quoted path))
      | Some content \<Rightarrow> load_content path content)"

section \<open>What is accepted\<close>

lemma check_arenas: "for_each check_arena xs cfg = Inr c \<longleftrightarrow> list_all arena_accepted xs \<and> c = cfg"
  by (induction xs) (auto simp: check_arena_def arena_accepted_def Let_def)

lemma validate_Inr: "validate cfg = Inr c \<longleftrightarrow> config_accepted cfg \<and> c = cfg"
  by (auto simp: validate_def config_accepted_def check_arenas)

lemma andthen_Inr: "andthen x f = Inr c \<longleftrightarrow> (\<exists>y. x = Inr y \<and> f y = Inr c)"
  by (cases x) auto

text \<open>
  C19. Whatever \<^verbatim>\<open>load_config\<close> returns, from a file or built in, has passed the validation: the granularity
  is not zero, there is an arena, and every arena has a size that is not below the (64-bit) sum of its
  windows and its overflow area.
\<close>

theorem load_config_accepted:
  assumes "load_config read_file path = Inr cfg"
  shows "config_accepted cfg"
proof (cases "path = []")
  case True
  then have "cfg = default_smoke_config (256 * kMiB) 0 0" using assms by (simp add: load_config_def)
  then show ?thesis
    by (simp add: default_smoke_config_def kMiB_def config_accepted_def arena_accepted_def Let_def)
next
  case False
  then show ?thesis
    using assms by (auto simp: load_config_def load_content_def andthen_Inr validate_Inr split: option.splits sum.splits if_splits)
qed

section \<open>Numbers are read exactly\<close>

lemma is_digit_not_space: "is_digit c \<Longrightarrow> \<not> is_space c"
  by (auto simp: is_digit_def is_space_def)

lemma digits_hd: "is_digit (hd (digits n))"
  by (rule digits_is_digit [of _ n]) simp

lemma scan_sign_digit: "is_digit c \<Longrightarrow> scan_sign (c # cs) = (False, c # cs)"
  by (auto simp: is_digit_def)

lemma skip_to_digits: "scan_sign (dropWhile is_space (digits n @ r)) = (False, digits n @ r)"
proof -
  obtain c cs where c: "digits n = c # cs" by (cases "digits n") auto
  then have "is_digit c" using digits_hd [of n] by simp
  then show ?thesis using c by (simp add: is_digit_not_space scan_sign_digit del: scan_sign.simps)
qed

lemma stoll_digits: "stoll (digits n) = (if n < 2 ^ 63 then Some (int n, []) else None)"
  using skip_to_digits [of n "[]"] by (auto simp: stoll_def Let_def)

lemma round_int: "round_half_even (of_int m) = m"
  by (simp add: round_half_even_def)

lemma double_of_nat:
  assumes "n < 2 ^ 53"
  shows "double_of (of_nat n) = Some (Finite (of_nat n))"
proof (cases "n = 0")
  case False
  let ?e = "double_exponent (of_nat n)"
  have q: "quotient_of (of_nat n) = (int n, 1)" using quotient_of_int [of "int n"] by simp
  have "floorlog 2 n \<le> 53" using assms False by (simp add: floorlog_le_iff)
  then have "int (floorlog 2 n) - int (floorlog 2 1) - 53 \<le> - 1" by (simp add: floorlog_def)
  then have "?e \<le> 0" by (auto simp: double_exponent_def q Let_def)
  then obtain k where k: "max ?e (- 1074) = - int k" by (metis (no_types) int_nat_eq linorder_not_le max_def minus_equation_iff
      nat_0_le neg_0_le_iff_le neg_le_0_iff_le verit_minus_simplify(4) zero_le_numeral)
  have div: "(of_nat n :: rat) / 2 powi (- int k) = of_int (int n * 2 ^ k)" by (simp add: power_int_minus field_simps)
  have r: "of_int (round_half_even ((of_nat n :: rat) / 2 powi (- int k))) * 2 powi (- int k) = (of_nat n :: rat)"
    unfolding div round_int by (simp add: power_int_minus field_simps)
  have "(of_nat n :: rat) < 2 ^ 53" using assms by (metis of_nat_less_iff of_nat_numeral of_nat_power)
  also have "\<dots> \<le> 2 ^ 1024" by simp
  finally show ?thesis using False r k by (simp add: double_of_def Let_def)
qed (simp add: double_of_def)

definition suffix_ok :: "string \<Rightarrow> bool" where
  "suffix_ok suf \<longleftrightarrow> size_suffix (map to_lower suf) \<noteq> None"

lemma to_lower_letter: "to_lower c = d \<Longrightarrow> 97 \<le> (of_char d :: nat) \<Longrightarrow> c = d \<or> c = char_of (of_char d - 32 :: nat)"
  by (auto simp: to_lower_def split: if_splits)

lemma suffix_first:
  assumes "suffix_ok suf" and "suf = c # cs"
  shows "to_lower c \<in> set ''bkmgt'' \<and> list_all (\<lambda>c. c \<noteq> CHR '' '') suf"
proof -
  have "map to_lower suf \<in> {''b'', ''kib'', ''kb'', ''k'', ''mib'', ''mb'', ''m'', ''gib'', ''gb'', ''g'', ''tib'', ''tb'', ''t''}"
    using assms by (auto simp: suffix_ok_def size_suffix_def split: if_splits)
  moreover have "to_lower (CHR '' '') = CHR '' ''" by (simp add: to_lower_def)
  ultimately show ?thesis
    using assms(2) by (auto simp: map_eq_Cons_conv)
qed

lemma starts_with_letter: "is_digit c \<Longrightarrow> p \<noteq> [] \<Longrightarrow> \<not> is_digit (hd p) \<Longrightarrow> \<not> starts_with p (c # cs)"
  by (cases p) (auto simp: starts_with_def to_lower_def is_digit_def split: if_splits)

lemma suffix_no_digit:
  assumes "suffix_ok suf" and "suf = c # cs"
  shows "\<not> is_digit c" "c \<noteq> CHR ''.''" "to_lower c \<noteq> CHR ''e''" "to_lower c \<noteq> CHR ''x''"
  using suffix_first [OF assms] by (auto simp: is_digit_def to_lower_def split: if_splits)

lemma not_hex:
  assumes "suffix_ok suf"
  shows "\<not> starts_with ''0x'' (digits n @ suf)"
proof (cases "digits n" rule: remdups_adj.cases)
  case (2 c)
  then show ?thesis using suffix_no_digit(4) [OF assms] by (cases suf) (auto simp: starts_with_def)
next
  case (3 c c' cs)
  then have "is_digit c'" using digits_is_digit [of c' n] by simp
  then show ?thesis using 3 by (auto simp: starts_with_def to_lower_def is_digit_def split: if_splits)
qed simp

lemma scale_exact:
  assumes "0 \<le> q * of_nat m" and "q * of_nat m < 2 ^ 1024"
  shows "scale_double m (Finite q) = Finite (q * of_nat m)"
proof -
  have "- (2 ^ 1024) < (0 :: rat)" by simp
  then have "\<not> 2 ^ 1024 \<le> q * of_nat m" "\<not> q * of_nat m \<le> - (2 ^ 1024)"
    using assms by linarith+
  then show ?thesis by (simp only: scale_double.simps Let_def if_False)
qed

lemma floor_max: "\<lfloor>max (rat_of_nat k) 0\<rfloor> = int k"
  by (simp add: max_def)

lemma scan_double_digits:
  assumes "suffix_ok suf"
  shows "scan_double (digits n @ suf) = Some (double_of (of_nat n), suf)"
proof -
  obtain c cs where c: "digits n @ suf = c # cs" "is_digit c" using digits_hd [of n] by (cases "digits n") auto
  then have l: "\<not> starts_with ''infinity'' (digits n @ suf)" "\<not> starts_with ''inf'' (digits n @ suf)"
    "\<not> starts_with ''nan'' (digits n @ suf)"
    using starts_with_letter [OF c(2)] by (auto simp: is_digit_def)
  have suf: "suf = [] \<or> \<not> is_digit (hd suf)" "\<not> (suf \<noteq> [] \<and> hd suf = CHR ''.'')"
    "\<not> (suf \<noteq> [] \<and> to_lower (hd suf) = CHR ''e'')"
    using suffix_no_digit [OF assms] by (atomize (full), cases suf) auto
  have "foldl (\<lambda>a c. 10 * a + digit_value c) 0 (digits n) = n" using decimal_digits [of n] by (simp add: decimal_def)
  then have "scan_fixed is_digit digit_value 10 (digits n @ suf) = Some (of_nat n, suf)"
    using suf by (auto simp: scan_fixed_def)
  moreover have "scan_exponent (CHR ''e'') suf = (0, suf)" using suf(3) by (auto simp: scan_exponent_def)
  ultimately show ?thesis using l not_hex [OF assms] by (simp add: scan_double_def)
qed



lemma sample_content:
  "case load_content ''c.yaml'' (render (emit 0 sample_doc)) of
     Inl e \<Rightarrow> False
   | Inr cfg \<Rightarrow> map nac_size_bytes (cfg_per_numa cfg) = [4 * kGiB] \<and> cfg_socket_path cfg = ''/run/ss.sock''"
  by code_simp

theorem load_config_accepted_witness:
  "\<exists>cfg. load_config (\<lambda>path. if path = ''c.yaml'' then Some (render (emit 0 sample_doc)) else None) ''c.yaml'' = Inr cfg \<and>
     map nac_size_bytes (cfg_per_numa cfg) = [4 * kGiB] \<and> config_accepted cfg"
proof -
  let ?rd = "\<lambda>path. if path = ''c.yaml'' then Some (render (emit 0 sample_doc)) else None"
  obtain cfg where "load_content ''c.yaml'' (render (emit 0 sample_doc)) = Inr cfg"
    and sizes: "map nac_size_bytes (cfg_per_numa cfg) = [4 * kGiB]"
    using sample_content by (cases "load_content ''c.yaml'' (render (emit 0 sample_doc))") (simp_all only: sum.case simp_thms)
  then have "load_config ?rd ''c.yaml'' = Inr cfg" by (simp add: load_config_def)
  then show ?thesis by (intro exI [of _ cfg] conjI sizes load_config_accepted [of ?rd "''c.yaml''" cfg])
qed


end
