(* ===== verification/Actions.thy ===== *)
theory Actions
  imports Messages Completion_Ring
begin

text \<open>
  The rank-side code as interaction with its surroundings. An action has returned, has thrown, or
  performs one call and goes on with the answer: an RPC, a CUDA call, a read of shared memory, a push
  into the completion ring, a callback into the embedding program. What is on the other side (the
  daemon, the CUDA runtime, the operating system) is open: a continuation takes every answer. Access
  to the agent's own state is one atomic step (\<open>Local\<close>), since other threads of the agent run between
  two steps. \<open>Stuck\<close> marks a loop that has used up its fuel.
\<close>

section \<open>Calls\<close>

datatype cuda_err = cudaSuccess | cudaErrorNotReady | cudaErrorHostMemoryAlreadyRegistered | cudaError string

datatype cuda_call =
    cudaSetDevice int
  | cudaStreamCreate
  | cudaStreamDestroy u64
  | cudaHostRegister u64 u64
  | cudaHostUnregister u64
  | cudaMemcpyD2H u64 u64 u64 u64
  | cudaMemcpyH2D u64 u64 u64 u64
  | cudaEventRecord u64 u64
  | cudaEventQuery u64
  | cudaEventSynchronize u64
  | cudaEventDestroy u64
  | cudaStreamSynchronize u64

text \<open>A word of the shared control region.\<close>

datatype shared =
    HeaderMagic | HeaderAbiVersion | HeaderNumSlots
  | SlotState u32
  | RingPresent u32 | RingOwner u32 | RingEpoch u32
  | RingHead | RingTail

datatype sys_call = CloseFd nat | Munmap u64 u64

datatype ('s, 'a) act =
    Done 'a
  | Throw string
  | Stuck
  | Rpc request "string + response \<Rightarrow> ('s, 'a) act"
  | Register RegisterRankRequest "string + RegisterRankResponse \<times> nat list \<Rightarrow> ('s, 'a) act"
  | Cuda cuda_call "cuda_err \<Rightarrow> ('s, 'a) act"
  | NewEvent "cuda_err \<Rightarrow> u64 \<Rightarrow> ('s, 'a) act"
  | Clock "u64 \<Rightarrow> ('s, 'a) act"
  | Sleep u64 "('s, 'a) act"
  | Read shared "u64 \<Rightarrow> ('s, 'a) act"
  | Push completion_entry "bool \<Rightarrow> ('s, 'a) act"
  | ReadHost u64 u64 "bytes \<Rightarrow> ('s, 'a) act"
  | Mmap nat u64 "string + u64 \<Rightarrow> ('s, 'a) act"
  | Sys sys_call "('s, 'a) act"
  | Invalidate u64 "('s, 'a) act"
  | Await "'s \<Rightarrow> bool" "('s, 'a) act"
  | Local "'s \<Rightarrow> ('s, 'a) act \<times> 's"

section \<open>Sequence, exceptions, state\<close>

text \<open>Go on with \<open>f\<close> after a return and with \<open>h\<close> after an exception.\<close>

primrec proceed :: "('s, 'a) act \<Rightarrow> ('a \<Rightarrow> ('s, 'b) act) \<Rightarrow> (string \<Rightarrow> ('s, 'b) act) \<Rightarrow> ('s, 'b) act" where
  "proceed (Done x) f h = f x"
| "proceed (Throw e) f h = h e"
| "proceed Stuck f h = Stuck"
| "proceed (Rpc q k) f h = Rpc q (\<lambda>r. proceed (k r) f h)"
| "proceed (Register q k) f h = Register q (\<lambda>r. proceed (k r) f h)"
| "proceed (Cuda c k) f h = Cuda c (\<lambda>e. proceed (k e) f h)"
| "proceed (NewEvent k) f h = NewEvent (\<lambda>e ev. proceed (k e ev) f h)"
| "proceed (Clock k) f h = Clock (\<lambda>t. proceed (k t) f h)"
| "proceed (Sleep n p) f h = Sleep n (proceed p f h)"
| "proceed (Read w k) f h = Read w (\<lambda>v. proceed (k v) f h)"
| "proceed (Push e k) f h = Push e (\<lambda>b. proceed (k b) f h)"
| "proceed (ReadHost p n k) f h = ReadHost p n (\<lambda>bs. proceed (k bs) f h)"
| "proceed (Mmap i n k) f h = Mmap i n (\<lambda>r. proceed (k r) f h)"
| "proceed (Sys c p) f h = Sys c (proceed p f h)"
| "proceed (Invalidate c p) f h = Invalidate c (proceed p f h)"
| "proceed (Await P p) f h = Await P (proceed p f h)"
| "proceed (Local g) f h = Local (\<lambda>s. map_prod (\<lambda>p. proceed p f h) id (g s))"

definition seq :: "('s, 'a) act \<Rightarrow> ('a \<Rightarrow> ('s, 'b) act) \<Rightarrow> ('s, 'b) act" where
  "seq p f = proceed p f Throw"

text \<open>\<^verbatim>\<open>try { p } catch (const std::exception& e) { h(e.what()) }\<close>\<close>

definition catching :: "('s, 'a) act \<Rightarrow> (string \<Rightarrow> ('s, 'a) act) \<Rightarrow> ('s, 'a) act" where
  "catching p h = proceed p Done h"

definition fetch :: "('s \<Rightarrow> ('s, 'a) act) \<Rightarrow> ('s, 'a) act" where
  "fetch k = Local (\<lambda>s. (k s, s))"

definition modify :: "('s \<Rightarrow> 's) \<Rightarrow> ('s, 'a) act \<Rightarrow> ('s, 'a) act" where
  "modify g p = Local (\<lambda>s. (p, g s))"

text \<open>An RPC whose failure is thrown; a response of another kind does not occur (it would not decode).\<close>

definition rpc :: "request \<Rightarrow> (response \<Rightarrow> ('s, 'a) act option) \<Rightarrow> ('s, 'a) act" where
  "rpc q k = Rpc q (\<lambda>r. case r of
     Inl e \<Rightarrow> Throw e
   | Inr rs \<Rightarrow> (case k rs of None \<Rightarrow> Throw ''unexpected response'' | Some p \<Rightarrow> p))"

text \<open>\<^verbatim>\<open>cudaGetErrorString\<close>; the texts of the named errors are left out.\<close>

fun error_string :: "cuda_err \<Rightarrow> string" where
  "error_string (cudaError msg) = msg"
| "error_string e = ''''"

text \<open>\<^verbatim>\<open>CUDA_CHECK(call)\<close>; the expression the macro puts into the message is left out.\<close>

definition cuda_check :: "cuda_call \<Rightarrow> ('s, 'a) act \<Rightarrow> ('s, 'a) act" where
  "cuda_check c p = Cuda c (\<lambda>e. if e = cudaSuccess then p else Throw (''CUDA error: '' @ error_string e))"

section \<open>Runs\<close>

text \<open>What can be seen of a run.\<close>

datatype obs =
    ORpc request "string + response"
  | ORegister RegisterRankRequest "string + RegisterRankResponse \<times> nat list"
  | OCuda cuda_call cuda_err
  | OEvent cuda_err u64
  | ORead shared u64
  | OPush completion_entry bool
  | OMmap nat u64 "string + u64"
  | OSys sys_call
  | OInvalidate u64

datatype 'a outcome = Returned 'a | Thrown string | OutOfFuel

text \<open>
  A run of one thread. Before each step on the agent's state other threads may have changed it within
  \<open>R\<close>. Times, sleeps and the bytes read from host memory leave no trace.
\<close>

inductive exec :: "('s \<Rightarrow> 's \<Rightarrow> bool) \<Rightarrow> ('s, 'a) act \<Rightarrow> 's \<Rightarrow> obs list \<Rightarrow> 'a outcome \<Rightarrow> 's \<Rightarrow> bool"
  for R :: "'s \<Rightarrow> 's \<Rightarrow> bool" where
  exec_Done: "exec R (Done x) s [] (Returned x) s"
| exec_Throw: "exec R (Throw e) s [] (Thrown e) s"
| exec_Stuck: "exec R Stuck s [] OutOfFuel s"
| exec_Rpc: "exec R (k r) s t out s' \<Longrightarrow> exec R (Rpc q k) s (ORpc q r # t) out s'"
| exec_Register: "exec R (k r) s t out s' \<Longrightarrow> exec R (Register q k) s (ORegister q r # t) out s'"
| exec_Cuda: "exec R (k e) s t out s' \<Longrightarrow> exec R (Cuda c k) s (OCuda c e # t) out s'"
| exec_NewEvent: "exec R (k e ev) s t out s' \<Longrightarrow> exec R (NewEvent k) s (OEvent e ev # t) out s'"
| exec_Clock: "exec R (k now) s t out s' \<Longrightarrow> exec R (Clock k) s t out s'"
| exec_Sleep: "exec R p s t out s' \<Longrightarrow> exec R (Sleep n p) s t out s'"
| exec_Read: "exec R (k v) s t out s' \<Longrightarrow> exec R (Read w k) s (ORead w v # t) out s'"
| exec_Push: "exec R (k b) s t out s' \<Longrightarrow> exec R (Push e k) s (OPush e b # t) out s'"
| exec_ReadHost: "exec R (k bs) s t out s' \<Longrightarrow> exec R (ReadHost p n k) s t out s'"
| exec_Mmap: "exec R (k r) s t out s' \<Longrightarrow> exec R (Mmap i n k) s (OMmap i n r # t) out s'"
| exec_Sys: "exec R p s t out s' \<Longrightarrow> exec R (Sys c p) s (OSys c # t) out s'"
| exec_Invalidate: "exec R p s t out s' \<Longrightarrow> exec R (Invalidate c p) s (OInvalidate c # t) out s'"
| exec_Await: "R s s1 \<Longrightarrow> P s1 \<Longrightarrow> exec R p s1 t out s' \<Longrightarrow> exec R (Await P p) s t out s'"
| exec_Local: "R s s1 \<Longrightarrow> g s1 = (p, s2) \<Longrightarrow> exec R p s2 t out s' \<Longrightarrow> exec R (Local g) s t out s'"

inductive_simps exec_simps:
  "exec R (Done x) s t out s'" "exec R (Throw e) s t out s'" "exec R Stuck s t out s'"
  "exec R (Rpc q k) s t out s'" "exec R (Register q' k') s t out s'" "exec R (Cuda c k'') s t out s'"
  "exec R (NewEvent ke) s t out s'" "exec R (Clock kc) s t out s'" "exec R (Sleep n p) s t out s'"
  "exec R (Read w kr) s t out s'" "exec R (Push en kp) s t out s'" "exec R (ReadHost ptr m kh) s t out s'"
  "exec R (Mmap i m km) s t out s'" "exec R (Sys sc p) s t out s'" "exec R (Invalidate ck p) s t out s'"
  "exec R (Await P p) s t out s'" "exec R (Local g) s t out s'"

end
