(* ===== verification/Action_Runs.thy ===== *)
theory Action_Runs
  imports Actions
begin

text \<open>
  How the runs of a sequence and of a \<^verbatim>\<open>try\<close> block are made of the runs of their parts.
\<close>

section \<open>Decomposition\<close>

definition splits where
  "splits R p f h s t out s' \<longleftrightarrow>
     (\<exists>t1 x s1 t2. exec R p s t1 (Returned x) s1 \<and> exec R (f x) s1 t2 out s' \<and> t = t1 @ t2) \<or>
     (\<exists>t1 e s1 t2. exec R p s t1 (Thrown e) s1 \<and> exec R (h e) s1 t2 out s' \<and> t = t1 @ t2) \<or>
     (exec R p s t OutOfFuel s' \<and> out = OutOfFuel)"

lemma splits_prefix:
  assumes "\<And>t out s'. exec R p s1 t out s' \<Longrightarrow> exec R p' s (os @ t) out s'" and "splits R p f h s1 t out s'"
  shows "splits R p' f h s (os @ t) out s'"
proof -
  consider (ret) t1 x s2 t2 where "exec R p s1 t1 (Returned x) s2" "exec R (f x) s2 t2 out s'" "t = t1 @ t2"
    | (exn) t1 e s2 t2 where "exec R p s1 t1 (Thrown e) s2" "exec R (h e) s2 t2 out s'" "t = t1 @ t2"
    | (fuel) "exec R p s1 t OutOfFuel s'" "out = OutOfFuel"
    using assms(2) unfolding splits_def by blast
  then show ?thesis
  proof cases
    case ret
    then have "exec R p' s (os @ t1) (Returned x) s2" "os @ t = (os @ t1) @ t2" using assms(1) by auto
    then show ?thesis using ret(2) unfolding splits_def by blast
  next
    case exn
    then have "exec R p' s (os @ t1) (Thrown e) s2" "os @ t = (os @ t1) @ t2" using assms(1) by auto
    then show ?thesis using exn(2) unfolding splits_def by blast
  next
    case fuel
    then show ?thesis using assms(1) unfolding splits_def by blast
  qed
qed

lemma splits_cons:
  "(\<And>t out s'. exec R p s1 t out s' \<Longrightarrow> exec R p' s (ob # t) out s') \<Longrightarrow> splits R p f h s1 t out s' \<Longrightarrow>
   splits R p' f h s (ob # t) out s'"
  using splits_prefix [of R p s1 p' s "[ob]"] by simp

lemma splits_same:
  "(\<And>t out s'. exec R p s1 t out s' \<Longrightarrow> exec R p' s t out s') \<Longrightarrow> splits R p f h s1 t out s' \<Longrightarrow>
   splits R p' f h s t out s'"
  using splits_prefix [of R p s1 p' s "[]"] by simp

lemma splits_local:
  assumes "R s s1" and "splits R (fst (g s1)) f h (snd (g s1)) t out s'"
  shows "splits R (Local g) f h s t out s'"
proof (rule splits_same [where p = "fst (g s1)" and ?s1.0 = "snd (g s1)"])
  show "exec R (Local g) s t' out' s''" if "exec R (fst (g s1)) (snd (g s1)) t' out' s''" for t' out' s''
    using exec_Local [where R = R and g = g and s = s and ?s1.0 = s1 and p = "fst (g s1)" and ?s2.0 = "snd (g s1)"]
      assms(1) that by simp
qed (rule assms(2))

lemma splits_await: "R s s1 \<Longrightarrow> P s1 \<Longrightarrow> splits R p f h s1 t out s' \<Longrightarrow> splits R (Await P p) f h s t out s'"
  by (rule splits_same) (rule exec_Await)

lemmas splits_intros = splits_cons [OF exec_Rpc] splits_cons [OF exec_Register] splits_cons [OF exec_Cuda]
  splits_same [OF exec_Sleep] splits_cons [OF exec_Read] splits_cons [OF exec_Push] splits_cons [OF exec_Mmap]
  splits_cons [OF exec_Sys] splits_cons [OF exec_Invalidate] splits_await

lemma exec_proceed: "exec R (proceed p f h) s t out s' \<Longrightarrow> splits R p f h s t out s'"
proof (induction p arbitrary: s t)
  case (Done x)
  then have "exec R (Done x) s [] (Returned x) s \<and> exec R (f x) s t out s' \<and> t = [] @ t" by (simp add: exec_Done)
  then show ?case unfolding splits_def by blast
next
  case (Throw e)
  then have "exec R (Throw e) s [] (Thrown e) s \<and> exec R (h e) s t out s' \<and> t = [] @ t" by (simp add: exec_Throw)
  then show ?case unfolding splits_def by blast
next
  case (Local g)
  from Local.prems obtain s1 where r: "R s s1" and e: "exec R (proceed (fst (g s1)) f h) (snd (g s1)) t out s'"
    by (auto simp: exec_simps map_prod_def split_beta)
  have "fst (g s1) \<in> Basic_BNFs.fsts (g s1)" by (cases "g s1") (simp add: prod_set_simps)
  then have "splits R (fst (g s1)) f h (snd (g s1)) t out s'" using Local.IH e by blast
  then show ?case using splits_local [where R = R and s = s and ?s1.0 = s1 and g = g] r by simp
next
  case (NewEvent k)
  then obtain e ev t' where t: "t = OEvent e ev # t'" and "exec R (proceed (k e ev) f h) s t' out s'"
    by (auto simp: exec_simps)
  then have "splits R (k e ev) f h s t' out s'" using NewEvent.IH [of "k e"] by blast
  then show ?case unfolding t using splits_cons [of R "k e ev" s "NewEvent k" s] exec_NewEvent [of R k e ev s] by blast
next
  case (Clock k)
  then obtain now where "exec R (proceed (k now) f h) s t out s'" by (auto simp: exec_simps)
  then have "splits R (k now) f h s t out s'" using Clock.IH by blast
  then show ?case using splits_same [of R "k now" s "Clock k" s] exec_Clock [of R k now s] by blast
next
  case (ReadHost ptr n k)
  then obtain bs where "exec R (proceed (k bs) f h) s t out s'" by (auto simp: exec_simps)
  then have "splits R (k bs) f h s t out s'" using ReadHost.IH by blast
  then show ?case using splits_same [of R "k bs" s "ReadHost ptr n k" s] exec_ReadHost [of R k bs s] by blast
qed (auto simp: exec_simps splits_def [of R Stuck] intro: splits_intros)

lemma exec_seq:
  assumes "exec R (seq p f) s t out s'"
  obtains (returned) t1 x s1 t2 where "exec R p s t1 (Returned x) s1" "exec R (f x) s1 t2 out s'" "t = t1 @ t2"
  | (thrown) e where "exec R p s t (Thrown e) s'" "out = Thrown e"
  | (fuel) "exec R p s t OutOfFuel s'" "out = OutOfFuel"
  using exec_proceed [OF assms [unfolded seq_def]] by (auto simp: splits_def exec_simps)

lemma exec_catching:
  assumes "exec R (catching p h) s t out s'"
  obtains (returned) x where "exec R p s t (Returned x) s'" "out = Returned x"
  | (thrown) t1 e s1 t2 where "exec R p s t1 (Thrown e) s1" "exec R (h e) s1 t2 out s'" "t = t1 @ t2"
  | (fuel) "exec R p s t OutOfFuel s'" "out = OutOfFuel"
  using exec_proceed [OF assms [unfolded catching_def]] by (auto simp: splits_def exec_simps)

end
