(* ===== verification/Agent.thy ===== *)
theory Agent
  imports Actions Canonical Control_Layout
begin

text \<open>
  The rank-side agent (\<^verbatim>\<open>src/agent/agent.cpp\<close>, \<^verbatim>\<open>agent.h\<close>): start-up, one-off registration of arenas with
  CUDA, eviction to and restore from the daemon's pinned memory, the reporting of completions through
  the ring, in batches or one by one, the rounds of the progress and of the heartbeat thread, and the
  canonical-object operations. Logging is left out.
\<close>

section \<open>Types\<close>

record AgentConfig =
  ac_cuda_device :: int
  ac_rank_id :: u32
  ac_local_rank :: u32
  ac_world_rank :: u32
  ac_numa_node :: int
  ac_eager_register :: bool
  ac_heartbeat_interval_ms :: u64
  ac_progress_poll_us :: u64

record TensorMeta =
  tm_tensor_id :: u64
  tm_version :: u64
  tm_name :: string

record OffloadTicket =
  ot_tensor_id :: u64
  ot_version :: u64
  ot_nbytes :: u64
  ot_lease_id :: u64
  ot_slot_id :: u32
  ot_ok :: bool
  ot_message :: string

record RestoreResult =
  rr_ok :: bool
  rr_message :: string

record CanonicalEvictResult =
  cer_ok :: bool
  cer_message :: string
  cer_action :: u32
  cer_object_id :: u64
  cer_did_d2h :: bool

definition CanonicalEvictResult_init :: CanonicalEvictResult where
  "CanonicalEvictResult_init = \<lparr>cer_ok = False, cer_message = '''', cer_action = 0, cer_object_id = 0, cer_did_d2h = False\<rparr>"

record ArenaMap =
  am_arena_id :: u64
  am_base :: u64
  am_size :: u64
  am_kind :: u32

record InflightD2H =
  fd_lease_id :: u64
  fd_tensor_id :: u64
  fd_version :: u64
  fd_slot_id :: u32
  fd_nbytes :: u64
  fd_ev :: u64
  fd_destructive :: bool
  fd_invalidate_cb :: bool
  fd_cookie :: u64
  fd_submit_ns :: u64
  fd_complete_seq :: u64

record InflightH2D =
  fh_lease_id :: u64
  fh_tensor_id :: u64
  fh_version :: u64
  fh_slot_id :: u32
  fh_nbytes :: u64
  fh_ev :: u64
  fh_keep_pinned :: bool
  fh_submit_ns :: u64
  fh_complete_seq :: u64

text \<open>\<^verbatim>\<open>struct OffloadAgent::Impl\<close>; \<open>ag_comp_ring\<close> says whether the pointer is set.\<close>

record agent =
  ag_device :: int
  ag_numa :: int
  ag_rank_id :: u32
  ag_rank_epoch :: u64
  ag_arenas :: "ArenaMap list"
  ag_arena_index :: "(u64, nat) table"
  ag_control :: "(u64 \<times> u64) option"
  ag_num_slots :: u32
  ag_comp_ring :: bool
  ag_ring_index :: u32
  ag_internal_stream :: u64
  ag_registered_chunks :: "u64 list"
  ag_registered_pinned_bytes :: u64
  ag_inflight_d2h :: "InflightD2H list"
  ag_inflight_h2d :: "InflightH2D list"
  ag_offloaded :: "(bytes, bool) table"
  ag_lease_of :: "(bytes, u64) table"
  ag_ring_push_seq :: "(bytes, u64) table"
  ag_inflight_d2h_bytes :: u64
  ag_inflight_h2d_bytes :: u64
  ag_evict_count :: u64
  ag_restore_count :: u64
  ag_d2h_completed :: u64
  ag_h2d_completed :: u64
  ag_submit_seq_ctr :: u64
  ag_complete_seq_ctr :: u64
  ag_stop :: bool
  ag_metrics :: counters
  ag_bw_samples :: "rat list"

type_synonym 'a code = "(agent, 'a) act"

definition kInternalStream :: u64 where
  "kInternalStream = NOT 0"

definition hash_host_bytes :: "bytes \<Rightarrow> u64 \<times> u64" where
  "hash_host_bytes bs =
     fold (\<lambda>b (h1, h2).
             let h1' = (h1 XOR ucast b) * 1099511628211;
                 h2' = (h2 XOR ucast b) * 1099511628211
             in (h1', push_bit 1 h2' OR drop_bit 63 h2'))
       bs (1469598103934665603, 1099511628211)"

definition tv_key :: "u64 \<Rightarrow> u64 \<Rightarrow> bytes" where
  "tv_key tensor_id version = le_bytes 8 tensor_id @ le_bytes 8 version"

section \<open>Arenas\<close>

definition arena_for :: "u64 \<Rightarrow> agent \<Rightarrow> ArenaMap option" where
  "arena_for ptr a = find (\<lambda>m. ptr \<ge> am_base m \<and> ptr < am_base m + am_size m) (ag_arenas a)"

text \<open>The registration of a whole arena; the mutex over it is that of the source's \<^verbatim>\<open>reg_mu\<close>.\<close>

definition ensure_registered :: "u64 \<Rightarrow> u64 \<Rightarrow> unit code" where
  "ensure_registered ptr nbytes =
     (if nbytes = 0 then Done ()
      else fetch (\<lambda>a. case arena_for ptr a of
        None \<Rightarrow> Throw ''ensure_registered: pointer not in any mapped arena''
      | Some m \<Rightarrow>
          if am_base m \<in> set (ag_registered_chunks a) then Done ()
          else Cuda (cudaHostRegister (am_base m) (am_size m)) (\<lambda>e.
            if e \<noteq> cudaSuccess \<and> e \<noteq> cudaErrorHostMemoryAlreadyRegistered
            then Throw (''cudaHostRegister(arena) failed: '' @ error_string e)
            else modify (\<lambda>a. a\<lparr>ag_registered_chunks := List.insert (am_base m) (ag_registered_chunks a),
                                ag_registered_pinned_bytes := ag_registered_pinned_bytes a + am_size m\<rparr>)
                   (Done ()))))"

definition slot_host_ptr :: "u64 \<Rightarrow> u64 \<Rightarrow> u64 code" where
  "slot_host_ptr arena_id arena_offset =
     fetch (\<lambda>a. case t_find (ag_arena_index a) arena_id of
       None \<Rightarrow> Throw ''slot references unknown arena_id''
     | Some i \<Rightarrow> Done (am_base (ag_arenas a ! i) + arena_offset))"

section \<open>Completions\<close>

definition make_d2h_completion :: "InflightD2H \<Rightarrow> u64 \<Rightarrow> BatchCompletion" where
  "make_d2h_completion r now =
     \<lparr>bcn_event_type = event_kD2HComplete, bcn_lease_id = fd_lease_id r, bcn_tensor_id = fd_tensor_id r,
      bcn_version = fd_version r, bcn_slot_id = fd_slot_id r, bcn_seq = fd_complete_seq r,
      bcn_timestamp_ns = now, bcn_keep_pinned = False\<rparr>"

definition make_h2d_completion :: "InflightH2D \<Rightarrow> u64 \<Rightarrow> BatchCompletion" where
  "make_h2d_completion r now =
     \<lparr>bcn_event_type = event_kH2DComplete, bcn_lease_id = fh_lease_id r, bcn_tensor_id = fh_tensor_id r,
      bcn_version = fh_version r, bcn_slot_id = fh_slot_id r, bcn_seq = fh_complete_seq r,
      bcn_timestamp_ns = now, bcn_keep_pinned = fh_keep_pinned r\<rparr>"

definition record_bw :: "u64 \<Rightarrow> u64 \<Rightarrow> (agent, unit) act" where
  "record_bw nbytes submit_ns =
     Clock (\<lambda>now.
       if now \<le> submit_ns then Done ()
       else
         let secs = of_nat (unat (now - submit_ns)) / 1000000000;
             mb = of_nat (unat nbytes) / (1024 * 1024)
         in modify (\<lambda>a. a\<lparr>ag_bw_samples := record_bandwidth_mbps (mb / secs) (ag_bw_samples a)\<rparr>) (Done ()))"

definition finalize_d2h :: "InflightD2H \<Rightarrow> unit code" where
  "finalize_d2h r =
     (let rest =
        Cuda (cudaEventDestroy (fd_ev r)) (\<lambda>_.
        modify (\<lambda>a. a\<lparr>ag_offloaded := t_put (tv_key (fd_tensor_id r) (fd_version r)) True (ag_offloaded a)\<rparr>)
        (modify (\<lambda>a. a\<lparr>ag_inflight_d2h_bytes := ag_inflight_d2h_bytes a - fd_nbytes r,
                        ag_d2h_completed := ag_d2h_completed a + 1,
                        ag_metrics := metric_add kD2HBytes (fd_nbytes r) (ag_metrics a)\<rparr>)
        (record_bw (fd_nbytes r) (fd_submit_ns r))))
      in if fd_destructive r \<and> fd_invalidate_cb r then Invalidate (fd_cookie r) rest else rest)"

definition finalize_h2d :: "InflightH2D \<Rightarrow> unit code" where
  "finalize_h2d r =
     Cuda (cudaEventDestroy (fh_ev r)) (\<lambda>_.
     modify (\<lambda>a. a\<lparr>ag_inflight_h2d_bytes := ag_inflight_h2d_bytes a - fh_nbytes r,
                     ag_h2d_completed := ag_h2d_completed a + 1,
                     ag_metrics := metric_add kH2DBytes (fh_nbytes r) (ag_metrics a)\<rparr>)
     (record_bw (fh_nbytes r) (fh_submit_ns r)))"

definition ring_push_d2h :: "InflightD2H \<Rightarrow> bool code" where
  "ring_push_d2h r =
     fetch (\<lambda>a. if \<not> ag_comp_ring a then Done False
       else Read RingTail (\<lambda>tail_before. Clock (\<lambda>now.
         Push \<lparr>ce_lease_id = fd_lease_id r, ce_tensor_id = fd_tensor_id r, ce_version = fd_version r,
               ce_slot_id = fd_slot_id r, ce_event_type = event_kD2HComplete, ce_timestamp_ns = now\<rparr> (\<lambda>pushed.
           if \<not> pushed then Done False
           else modify (\<lambda>a. a\<lparr>ag_ring_push_seq :=
                  t_put (tv_key (fd_tensor_id r) (fd_version r)) tail_before (ag_ring_push_seq a)\<rparr>) (Done True)))))"

definition ring_push_h2d :: "InflightH2D \<Rightarrow> bool code" where
  "ring_push_h2d r =
     fetch (\<lambda>a. if \<not> ag_comp_ring a then Done False
       else Clock (\<lambda>now.
         Push \<lparr>ce_lease_id = fh_lease_id r, ce_tensor_id = fh_tensor_id r, ce_version = fh_version r,
               ce_slot_id = fh_slot_id r, ce_event_type = event_kH2DComplete, ce_timestamp_ns = now\<rparr> Done))"

text \<open>The polling loop, for at most \<open>fuel\<close> rounds.\<close>

fun wait_ring_consumed :: "nat \<Rightarrow> u64 \<Rightarrow> unit code" where
  "wait_ring_consumed 0 s = Stuck"
| "wait_ring_consumed (Suc fuel) s =
     fetch (\<lambda>a. if \<not> ag_comp_ring a then Done ()
       else Read RingHead (\<lambda>head. if head \<le> s then Sleep 20000 (wait_ring_consumed fuel s) else Done ()))"

definition complete_d2h :: "InflightD2H \<Rightarrow> unit code" where
  "complete_d2h r =
     fetch (\<lambda>a. Clock (\<lambda>now.
       seq (catching
             (rpc (RqMarkD2HComplete
                \<lparr>dcq_rank_id = ag_rank_id a, dcq_rank_epoch = ag_rank_epoch a, dcq_lease_id = fd_lease_id r,
                 dcq_tensor_id = fd_tensor_id r, dcq_version = fd_version r, dcq_slot_id = fd_slot_id r,
                 dcq_complete_seq = fd_complete_seq r, dcq_timestamp_ns = now\<rparr>)
               (\<lambda>rs. case rs of RsMarkD2HComplete resp \<Rightarrow> Some (Done ()) | _ \<Rightarrow> None))
             (\<lambda>e. Done ()))
         (\<lambda>_. finalize_d2h r)))"

definition complete_h2d :: "InflightH2D \<Rightarrow> unit code" where
  "complete_h2d r =
     fetch (\<lambda>a. Clock (\<lambda>now.
       seq (catching
             (rpc (RqMarkH2DComplete
                \<lparr>hcq_rank_id = ag_rank_id a, hcq_rank_epoch = ag_rank_epoch a, hcq_lease_id = fh_lease_id r,
                 hcq_tensor_id = fh_tensor_id r, hcq_version = fh_version r, hcq_slot_id = fh_slot_id r,
                 hcq_keep_pinned = fh_keep_pinned r, hcq_complete_seq = fh_complete_seq r, hcq_timestamp_ns = now\<rparr>)
               (\<lambda>rs. case rs of RsMarkH2DComplete resp \<Rightarrow> Some (Done ()) | _ \<Rightarrow> None))
             (\<lambda>e. Done ()))
         (\<lambda>_. finalize_h2d r)))"

fun each :: "('x \<Rightarrow> unit code) \<Rightarrow> 'x list \<Rightarrow> unit code" where
  "each f [] = Done ()"
| "each f (x # xs) = seq (f x) (\<lambda>_. each f xs)"

text \<open>The completions of a list, each stamped when it is made.\<close>

fun make_all :: "('x \<Rightarrow> u64 \<Rightarrow> BatchCompletion) \<Rightarrow> 'x list \<Rightarrow> (BatchCompletion list \<Rightarrow> unit code) \<Rightarrow> unit code" where
  "make_all mk [] k = k []"
| "make_all mk (x # xs) k = Clock (\<lambda>now. make_all mk xs (\<lambda>cs. k (mk x now # cs)))"

text \<open>\<^verbatim>\<open>try { rpc->batch_complete(req); } catch (...) { log }\<close>\<close>

definition send_batch :: "BatchCompletion list \<Rightarrow> unit code" where
  "send_batch cs =
     fetch (\<lambda>a. catching
       (rpc (RqBatchComplete \<lparr>bcq_rank_id = ag_rank_id a, bcq_rank_epoch = ag_rank_epoch a, bcq_completions = cs\<rparr>)
         (\<lambda>rs. case rs of RsBatchComplete resp \<Rightarrow> Some (Done ()) | _ \<Rightarrow> None))
       (\<lambda>e. Done ()))"

text \<open>Publish to the ring; what does not fit is collected with its completion for the overflow batch.\<close>

fun publish :: "('x \<Rightarrow> bool code) \<Rightarrow> ('x \<Rightarrow> unit code) \<Rightarrow> ('x \<Rightarrow> u64 \<Rightarrow> BatchCompletion) \<Rightarrow> 'x list \<Rightarrow>
    (BatchCompletion list \<Rightarrow> 'x list \<Rightarrow> unit code) \<Rightarrow> unit code" where
  "publish push fin mk [] k = k [] []"
| "publish push fin mk (x # xs) k =
     seq (push x) (\<lambda>pushed.
       if pushed then seq (fin x) (\<lambda>_. publish push fin mk xs k)
       else Clock (\<lambda>now. publish push fin mk xs (\<lambda>cs over. k (mk x now # cs) (x # over))))"

definition flush_completions_batch :: "InflightD2H list \<Rightarrow> InflightH2D list \<Rightarrow> unit code" where
  "flush_completions_batch d2h h2d =
     (if d2h = [] \<and> h2d = [] then Done ()
      else fetch (\<lambda>a.
        if ag_comp_ring a then
          publish ring_push_d2h finalize_d2h make_d2h_completion d2h (\<lambda>cs of_d2h.
          publish ring_push_h2d finalize_h2d make_h2d_completion h2d (\<lambda>cs' of_h2d.
            if cs @ cs' \<noteq> [] then
              seq (send_batch (cs @ cs')) (\<lambda>_. seq (each finalize_d2h of_d2h) (\<lambda>_. each finalize_h2d of_h2d))
            else Done ()))
        else if length d2h + length h2d = 1 then
          (if d2h \<noteq> [] then complete_d2h (d2h ! 0) else complete_h2d (h2d ! 0))
        else
          make_all make_d2h_completion d2h (\<lambda>cs. make_all make_h2d_completion h2d (\<lambda>cs'.
            seq (send_batch (cs @ cs')) (\<lambda>_. seq (each finalize_d2h d2h) (\<lambda>_. each finalize_h2d h2d))))))"

section \<open>Background threads\<close>

text \<open>
  The loop over an in-flight list: finished records, records to keep; a record whose event failed is
  dropped. New records are appended behind those that were looked at.
\<close>

fun query_all :: "('x \<Rightarrow> u64) \<Rightarrow> ('x \<Rightarrow> unit code \<Rightarrow> unit code) \<Rightarrow> 'x list \<Rightarrow> ('x list \<Rightarrow> 'x list \<Rightarrow> unit code) \<Rightarrow> unit code" where
  "query_all ev failed [] k = k [] []"
| "query_all ev failed (x # xs) k =
     Cuda (cudaEventQuery (ev x)) (\<lambda>st.
       if st = cudaSuccess then query_all ev failed xs (\<lambda>fin keep. k (x # fin) keep)
       else if st = cudaErrorNotReady then query_all ev failed xs (\<lambda>fin keep. k fin (x # keep))
       else Cuda (cudaEventDestroy (ev x)) (\<lambda>_. failed x (query_all ev failed xs k)))"

definition d2h_failed :: "InflightD2H \<Rightarrow> unit code \<Rightarrow> unit code" where
  "d2h_failed r p = modify (\<lambda>a. a\<lparr>ag_inflight_d2h_bytes := ag_inflight_d2h_bytes a - fd_nbytes r\<rparr>) p"

definition h2d_failed :: "InflightH2D \<Rightarrow> unit code \<Rightarrow> unit code" where
  "h2d_failed r p = modify (\<lambda>a. a\<lparr>ag_inflight_h2d_bytes := ag_inflight_h2d_bytes a - fh_nbytes r\<rparr>) p"

text \<open>One round of \<^verbatim>\<open>progress_loop\<close>.\<close>

definition progress_round :: "AgentConfig \<Rightarrow> unit code" where
  "progress_round cfg =
     fetch (\<lambda>a0. query_all fd_ev d2h_failed (ag_inflight_d2h a0) (\<lambda>done_d2h keep_d2h.
       modify (\<lambda>a. a\<lparr>ag_inflight_d2h := keep_d2h @ drop (length (ag_inflight_d2h a0)) (ag_inflight_d2h a)\<rparr>)
       (fetch (\<lambda>a1. query_all fh_ev h2d_failed (ag_inflight_h2d a1) (\<lambda>done_h2d keep_h2d.
         modify (\<lambda>a. a\<lparr>ag_inflight_h2d := keep_h2d @ drop (length (ag_inflight_h2d a1)) (ag_inflight_h2d a)\<rparr>)
         (seq (flush_completions_batch done_d2h done_h2d) (\<lambda>_.
            Sleep ((if ac_progress_poll_us cfg = 0 then 200 else ac_progress_poll_us cfg) * 1000) (Done ()))))))))"

text \<open>Sleep in slices of 10 ms, \<open>n\<close> at most, unless the agent stops.\<close>

primrec heartbeat_sleep :: "nat \<Rightarrow> unit code \<Rightarrow> unit code" where
  "heartbeat_sleep 0 p = p"
| "heartbeat_sleep (Suc n) p = fetch (\<lambda>a. if ag_stop a then p else Sleep 10000000 (heartbeat_sleep n p))"

definition heartbeat_round :: "AgentConfig \<Rightarrow> unit code" where
  "heartbeat_round cfg =
     (let interval = (if ac_heartbeat_interval_ms cfg = 0 then 1000 else ac_heartbeat_interval_ms cfg)
      in heartbeat_sleep ((unat interval + 9) div 10)
        (fetch (\<lambda>a. if ag_stop a then Done ()
          else Clock (\<lambda>now. catching
            (rpc (RqHeartbeat \<lparr>hbq_rank_id = ag_rank_id a, hbq_rank_epoch = ag_rank_epoch a, hbq_timestamp_ns = now\<rparr>)
              (\<lambda>rs. case rs of RsHeartbeat resp \<Rightarrow> Some (Done ()) | _ \<Rightarrow> None))
            (\<lambda>e. Done ())))))"

definition drain_inflight_on_shutdown :: "unit code" where
  "drain_inflight_on_shutdown =
     Local (\<lambda>a.
       (seq (each (\<lambda>r. Cuda (cudaEventSynchronize (fd_ev r)) (\<lambda>_. complete_d2h r)) (ag_inflight_d2h a)) (\<lambda>_.
          each (\<lambda>r. Cuda (cudaEventSynchronize (fh_ev r)) (\<lambda>_. complete_h2d r)) (ag_inflight_h2d a)),
        a\<lparr>ag_inflight_d2h := [], ag_inflight_h2d := []\<rparr>))"

definition cleanup_mappings :: "unit code" where
  "cleanup_mappings =
     fetch (\<lambda>a.
       seq (each (\<lambda>m. if am_base m \<in> set (ag_registered_chunks a)
                      then Cuda (cudaHostUnregister (am_base m)) (\<lambda>_. Done ()) else Done ()) (ag_arenas a)) (\<lambda>_.
       seq (each (\<lambda>m. Sys (Munmap (am_base m) (am_size m)) (Done ())) (ag_arenas a)) (\<lambda>_.
       seq (case ag_control a of None \<Rightarrow> Done () | Some (base, len) \<Rightarrow> Sys (Munmap base len) (Done ())) (\<lambda>_.
         modify (\<lambda>a. a\<lparr>ag_registered_chunks := [], ag_arenas := [], ag_arena_index := [], ag_control := None\<rparr>) (Done ())))))"

text \<open>\<^verbatim>\<open>~Impl\<close>, after the threads have been joined.\<close>

definition agent_shutdown :: "unit code" where
  "agent_shutdown =
     modify (\<lambda>a. a\<lparr>ag_stop := True\<rparr>)
       (seq drain_inflight_on_shutdown (\<lambda>_.
        fetch (\<lambda>a. Cuda (cudaStreamDestroy (ag_internal_stream a)) (\<lambda>_. cleanup_mappings))))"

section \<open>Start-up\<close>

definition OFLD_MAGIC :: u64 where
  "OFLD_MAGIC = 0x4F464C44"

definition OFLD_ABI_VERSION :: u64 where
  "OFLD_ABI_VERSION = 1"

definition OFLD_ARENA_CONTROL :: u32 where
  "OFLD_ARENA_CONTROL = 2"

definition close_all :: "nat list \<Rightarrow> unit code" where
  "close_all fds = each (\<lambda>fd. Sys (CloseFd fd) (Done ())) fds"

fun map_arenas :: "nat list \<Rightarrow> ArenaFd list \<Rightarrow> unit code" where
  "map_arenas fds [] = Done ()"
| "map_arenas fds (af # afs) =
     (if unat (afd_fd_index af) \<ge> length fds then Throw ''arena fd_index out of range''
      else Mmap (at32 fds (afd_fd_index af)) (afd_size af) (\<lambda>r. case r of
        Inl e \<Rightarrow> Throw (''mmap arena failed: '' @ e)
      | Inr base \<Rightarrow>
          modify (\<lambda>a. a\<lparr>ag_arena_index := t_put (afd_arena_id af) (length (ag_arenas a)) (ag_arena_index a),
                          ag_arenas := ag_arenas a @ [\<lparr>am_arena_id = afd_arena_id af, am_base = base,
                                          am_size = afd_size af, am_kind = afd_kind af\<rparr>]\<rparr>)
            (map_arenas fds afs)))"

definition map_control :: "nat list \<Rightarrow> RegisterRankResponse \<Rightarrow> unit code" where
  "map_control fds resp =
     (if unat (rrs_control_fd_index resp) \<ge> length fds then Throw ''control fd_index out of range''
      else Mmap (at32 fds (rrs_control_fd_index resp)) (rrs_control_size resp) (\<lambda>r. case r of
        Inl e \<Rightarrow> Throw (''mmap control failed: '' @ e)
      | Inr base \<Rightarrow> modify (\<lambda>a. a\<lparr>ag_control := Some (base, rrs_control_size resp)\<rparr>) (Done ())))"

text \<open>The ring is used only if the control region says that it is this session's.\<close>

definition find_ring :: "u32 \<Rightarrow> unit code" where
  "find_ring ring_index =
     modify (\<lambda>a. a\<lparr>ag_ring_index := ring_index\<rparr>)
       (if ring_index = none32 then Done ()
        else Read (RingPresent ring_index) (\<lambda>present.
          if present = 0 then Done ()
          else Read (RingOwner ring_index) (\<lambda>owner. Read (RingEpoch ring_index) (\<lambda>epoch.
            modify (\<lambda>a. a\<lparr>ag_comp_ring := (owner = ucast (ag_rank_id a) \<and> epoch = ag_rank_epoch a)\<rparr>) (Done ())))))"

definition register_eagerly :: "AgentConfig \<Rightarrow> unit code" where
  "register_eagerly cfg =
     (if ac_eager_register cfg
      then fetch (\<lambda>a. each (\<lambda>m. if am_kind m = OFLD_ARENA_CONTROL then Done ()
                               else ensure_registered (am_base m) (am_size m)) (ag_arenas a))
      else Done ())"

text \<open>
  The constructor, from registration to the start of the threads. The process id and the node that
  \<^verbatim>\<open>gpu_numa_node\<close> finds for the device are given; the handle of the new stream is \<open>stream\<close>.
\<close>

definition agent_start :: "AgentConfig \<Rightarrow> u64 \<Rightarrow> int \<Rightarrow> u64 \<Rightarrow> unit code" where
  "agent_start cfg pid gpu_node stream =
     cuda_check (cudaSetDevice (ac_cuda_device cfg))
       (let numa = (if ac_numa_node cfg < 0 then (if gpu_node \<ge> 0 then gpu_node else 0) else ac_numa_node cfg) in
        modify (\<lambda>a. a\<lparr>ag_device := ac_cuda_device cfg, ag_rank_id := ac_rank_id cfg, ag_numa := numa\<rparr>)
        (Register \<lparr>rrq_rank_id = ac_rank_id cfg, rrq_local_rank = ac_local_rank cfg, rrq_world_rank = ac_world_rank cfg,
                   rrq_gpu_id = of_int (ac_cuda_device cfg), rrq_numa_node = of_int numa, rrq_pid = pid,
                   rrq_capabilities = 0\<rparr> (\<lambda>r. case r of
           Inl e \<Rightarrow> Throw e
         | Inr (resp, fds) \<Rightarrow>
             if \<not> rrs_ok resp then seq (close_all fds) (\<lambda>_. Throw (''RegisterRank rejected: '' @ rrs_message resp))
             else modify (\<lambda>a. a\<lparr>ag_rank_epoch := rrs_rank_epoch resp\<rparr>)
               (seq (catching (seq (map_arenas fds (rrs_arenas resp)) (\<lambda>_. map_control fds resp))
                      (\<lambda>e. seq (close_all fds) (\<lambda>_. seq cleanup_mappings (\<lambda>_. Throw e))))
                 (\<lambda>_. seq (close_all fds) (\<lambda>_.
                  Read HeaderMagic (\<lambda>magic.
                    if magic \<noteq> OFLD_MAGIC then seq cleanup_mappings (\<lambda>_. Throw ''control header magic mismatch'')
                    else Read HeaderAbiVersion (\<lambda>ver.
                      if ver \<noteq> OFLD_ABI_VERSION
                      then seq cleanup_mappings (\<lambda>_. Throw ''control header ABI version mismatch'')
                      else Read HeaderNumSlots (\<lambda>n.
                        modify (\<lambda>a. a\<lparr>ag_num_slots := ucast n\<rparr>)
                        (seq (find_ring (rrs_ring_index resp)) (\<lambda>_.
                          cuda_check cudaStreamCreate
                            (modify (\<lambda>a. a\<lparr>ag_internal_stream := stream\<rparr>) (register_eagerly cfg)))))))))))))"

section \<open>Evict\<close>

definition stream_of :: "u64 \<Rightarrow> agent \<Rightarrow> u64" where
  "stream_of stream a = (if stream = kInternalStream then ag_internal_stream a else stream)"

definition OffloadTicket_init :: "TensorMeta \<Rightarrow> u64 \<Rightarrow> OffloadTicket" where
  "OffloadTicket_init meta nbytes = \<lparr>ot_tensor_id = tm_tensor_id meta, ot_version = tm_version meta, ot_nbytes = nbytes,
     ot_lease_id = 0, ot_slot_id = 0, ot_ok = False, ot_message = ''''\<rparr>"

text \<open>\<^verbatim>\<open>MarkD2HSubmitted\<close>, best effort.\<close>

definition mark_d2h_submitted :: "u64 \<Rightarrow> u64 \<Rightarrow> u64 \<Rightarrow> u32 \<Rightarrow> u64 \<Rightarrow> unit code" where
  "mark_d2h_submitted lease_id tensor_id version slot_id submit_seq =
     fetch (\<lambda>a. Clock (\<lambda>now. catching
       (rpc (RqMarkD2HSubmitted
          \<lparr>dsq_rank_id = ag_rank_id a, dsq_rank_epoch = ag_rank_epoch a, dsq_lease_id = lease_id,
           dsq_tensor_id = tensor_id, dsq_version = version, dsq_slot_id = slot_id, dsq_submit_seq = submit_seq,
           dsq_timestamp_ns = now\<rparr>)
         (\<lambda>rs. case rs of RsMarkD2HSubmitted resp \<Rightarrow> Some (Done ()) | _ \<Rightarrow> None))
       (\<lambda>e. Done ())))"

definition next_submit_seq :: "(u64 \<Rightarrow> 'a code) \<Rightarrow> 'a code" where
  "next_submit_seq k = Local (\<lambda>a. (k (ag_submit_seq_ctr a), a\<lparr>ag_submit_seq_ctr := ag_submit_seq_ctr a + 1\<rparr>))"

definition next_complete_seq :: "(u64 \<Rightarrow> 'a code) \<Rightarrow> 'a code" where
  "next_complete_seq k = Local (\<lambda>a. (k (ag_complete_seq_ctr a), a\<lparr>ag_complete_seq_ctr := ag_complete_seq_ctr a + 1\<rparr>))"

text \<open>Launch a copy and record its event.\<close>

definition launch :: "cuda_call \<Rightarrow> u64 \<Rightarrow> (u64 \<Rightarrow> 'a code) \<Rightarrow> 'a code" where
  "launch copy s k =
     cuda_check copy
       (NewEvent (\<lambda>e ev. if e \<noteq> cudaSuccess then Throw (''CUDA error: '' @ error_string e)
          else cuda_check (cudaEventRecord ev s) (k ev)))"

text \<open>After the copy has been launched: wait for it, or leave it to the progress thread.\<close>

definition evict_finish ::
  "u64 \<Rightarrow> bool \<Rightarrow> TensorMeta \<Rightarrow> bool \<Rightarrow> u64 \<Rightarrow> bool \<Rightarrow> RequestOffloadResponse \<Rightarrow> u64 \<Rightarrow> u64 \<Rightarrow> OffloadTicket code" where
  "evict_finish nbytes destructive meta cb cookie wait resp submit_ns ev =
     modify (\<lambda>a. a\<lparr>ag_inflight_d2h_bytes := ag_inflight_d2h_bytes a + nbytes,
                     ag_metrics := metric_add kInflightD2HBytes nbytes (ag_metrics a)\<rparr>)
     (next_complete_seq (\<lambda>complete_seq.
       let r = \<lparr>fd_lease_id = ros_lease_id resp, fd_tensor_id = tm_tensor_id meta, fd_version = tm_version meta,
                 fd_slot_id = ros_slot_id resp, fd_nbytes = nbytes, fd_ev = ev, fd_destructive = destructive,
                 fd_invalidate_cb = cb, fd_cookie = cookie, fd_submit_ns = submit_ns, fd_complete_seq = complete_seq\<rparr>;
           t = (OffloadTicket_init meta nbytes)\<lparr>ot_ok := True, ot_lease_id := ros_lease_id resp,
                                                ot_slot_id := ros_slot_id resp\<rparr>
       in modify (\<lambda>a. a\<lparr>ag_lease_of := t_put (tv_key (tm_tensor_id meta) (tm_version meta)) (ros_lease_id resp) (ag_lease_of a)\<rparr>)
          (if wait then
             cuda_check (cudaEventSynchronize ev)
               (modify (\<lambda>a. a\<lparr>ag_metrics := metric_sub kInflightD2HBytes nbytes (ag_metrics a)\<rparr>)
                 (seq (complete_d2h r) (\<lambda>_. Done t)))
           else modify (\<lambda>a. a\<lparr>ag_inflight_d2h := ag_inflight_d2h a @ [r]\<rparr>) (Done t))))"

definition evict_submit ::
  "u64 \<Rightarrow> u64 \<Rightarrow> u64 \<Rightarrow> bool \<Rightarrow> TensorMeta \<Rightarrow> bool \<Rightarrow> u64 \<Rightarrow> bool \<Rightarrow> RequestOffloadResponse \<Rightarrow> u64 \<Rightarrow> OffloadTicket code" where
  "evict_submit dev_ptr nbytes s destructive meta cb cookie wait resp dst =
     next_submit_seq (\<lambda>submit_seq.
     seq (mark_d2h_submitted (ros_lease_id resp) (tm_tensor_id meta) (tm_version meta) (ros_slot_id resp) submit_seq) (\<lambda>_.
     Clock (\<lambda>submit_ns.
     launch (cudaMemcpyD2H dst dev_ptr nbytes s) s (evict_finish nbytes destructive meta cb cookie wait resp submit_ns))))"

text \<open>From the granted reservation on.\<close>

definition evict_copy ::
  "u64 \<Rightarrow> u64 \<Rightarrow> u64 \<Rightarrow> bool \<Rightarrow> TensorMeta \<Rightarrow> bool \<Rightarrow> u64 \<Rightarrow> bool \<Rightarrow> RequestOffloadResponse \<Rightarrow> OffloadTicket code" where
  "evict_copy dev_ptr nbytes s destructive meta cb cookie wait resp =
     modify (\<lambda>a. a\<lparr>ag_evict_count := ag_evict_count a + 1\<rparr>)
     (seq (slot_host_ptr (ros_arena_id resp) (ros_arena_offset resp)) (\<lambda>dst.
      seq (ensure_registered dst nbytes) (\<lambda>_.
        evict_submit dev_ptr nbytes s destructive meta cb cookie wait resp dst)))"

definition evict ::
  "u64 \<Rightarrow> u64 \<Rightarrow> u64 \<Rightarrow> bool \<Rightarrow> TensorMeta \<Rightarrow> bool \<Rightarrow> u64 \<Rightarrow> bool \<Rightarrow> OffloadTicket code" where
  "evict dev_ptr nbytes stream destructive meta cb cookie wait =
     fetch (\<lambda>a.
       rpc (RqRequestOffload
          \<lparr>roq_rank_id = ag_rank_id a, roq_rank_epoch = ag_rank_epoch a, roq_tensor_id = tm_tensor_id meta,
           roq_version = tm_version meta, roq_nbytes = nbytes, roq_gpu_id = of_int (ag_device a),
           roq_numa_node = of_int (ag_numa a), roq_alignment = 256, roq_priority = 0,
           roq_flags = OFLD_FLAG_ALLOW_OVERFLOW OR (if destructive then OFLD_FLAG_DESTRUCTIVE else 0),
           roq_debug_name = tm_name meta\<rparr>)
         (\<lambda>rs. case rs of
            RsRequestOffload resp \<Rightarrow> Some
              (if \<not> ros_ok resp \<or> ros_blocked resp then
                 Done ((OffloadTicket_init meta nbytes)
                   \<lparr>ot_message := if ros_ok resp then ''offload blocked (pinned pressure)'' else ros_message resp\<rparr>)
               else evict_copy dev_ptr nbytes (stream_of stream a) destructive meta cb cookie wait resp)
          | _ \<Rightarrow> None))"

definition is_offloaded :: "u64 \<Rightarrow> u64 \<Rightarrow> agent \<Rightarrow> bool" where
  "is_offloaded tensor_id version a = (t_find (ag_offloaded a) (tv_key tensor_id version) = Some True)"

definition wait_offloaded :: "u64 \<Rightarrow> u64 \<Rightarrow> unit code" where
  "wait_offloaded tensor_id version = Await (is_offloaded tensor_id version) (Done ())"

section \<open>Restore\<close>

definition restore_failed :: "string \<Rightarrow> RestoreResult" where
  "restore_failed msg = \<lparr>rr_ok = False, rr_message = msg\<rparr>"

text \<open>Wait for the daemon to have consumed the ring entry of this tensor's eviction.\<close>

definition await_ring :: "nat \<Rightarrow> u64 \<Rightarrow> u64 \<Rightarrow> unit code" where
  "await_ring fuel tensor_id version =
     fetch (\<lambda>a. if \<not> ag_comp_ring a then Done ()
       else case t_find (ag_ring_push_seq a) (tv_key tensor_id version) of
         None \<Rightarrow> Done () | Some s \<Rightarrow> wait_ring_consumed fuel s)"

definition timeout_ns :: u64 where
  "timeout_ns = 600000000000"

definition request_prefetch ::
  "RequestPrefetchRequest \<Rightarrow> (RequestPrefetchResponse \<Rightarrow> RestoreResult code) \<Rightarrow> RestoreResult code" where
  "request_prefetch pr k =
     rpc (RqRequestPrefetch pr) (\<lambda>rs. case rs of
       RsRequestPrefetch presp \<Rightarrow>
         Some (if \<not> pfs_ok presp then Done (restore_failed (pfs_message presp)) else k presp)
     | _ \<Rightarrow> None)"

text \<open>Ask again until the slot is ready, or for ten minutes.\<close>

fun await_ready :: "nat \<Rightarrow> RequestPrefetchRequest \<Rightarrow> u64 \<Rightarrow> (RequestPrefetchResponse \<Rightarrow> RestoreResult code) \<Rightarrow>
    RequestPrefetchResponse \<Rightarrow> RestoreResult code" where
  "await_ready 0 pr start k presp = Stuck"
| "await_ready (Suc fuel) pr start k presp =
     (if pfs_ready presp then k presp
      else Clock (\<lambda>now. if now - start > timeout_ns then Done (restore_failed ''restore: prefetch readiness timed out'')
        else Sleep 2000000 (request_prefetch pr (await_ready fuel pr start k))))"

definition mark_h2d_submitted :: "u64 \<Rightarrow> u64 \<Rightarrow> u64 \<Rightarrow> u32 \<Rightarrow> u64 \<Rightarrow> unit code" where
  "mark_h2d_submitted lease_id tensor_id version slot_id submit_seq =
     fetch (\<lambda>a. Clock (\<lambda>now. catching
       (rpc (RqMarkH2DSubmitted
          \<lparr>hsq_rank_id = ag_rank_id a, hsq_rank_epoch = ag_rank_epoch a, hsq_lease_id = lease_id,
           hsq_tensor_id = tensor_id, hsq_version = version, hsq_slot_id = slot_id, hsq_submit_seq = submit_seq,
           hsq_timestamp_ns = now\<rparr>)
         (\<lambda>rs. case rs of RsMarkH2DSubmitted resp \<Rightarrow> Some (Done ()) | _ \<Rightarrow> None))
       (\<lambda>e. Done ())))"

definition restore_finish :: "u64 \<Rightarrow> u64 \<Rightarrow> u64 \<Rightarrow> bool \<Rightarrow> RequestPrefetchResponse \<Rightarrow> u64 \<Rightarrow> u64 \<Rightarrow> RestoreResult code" where
  "restore_finish tensor_id resolved copy_bytes wait presp submit_ns ev =
     modify (\<lambda>a. a\<lparr>ag_inflight_h2d_bytes := ag_inflight_h2d_bytes a + copy_bytes,
                     ag_metrics := metric_add kInflightH2DBytes copy_bytes (ag_metrics a)\<rparr>)
     (next_complete_seq (\<lambda>complete_seq.
       let r = \<lparr>fh_lease_id = pfs_lease_id presp, fh_tensor_id = tensor_id, fh_version = resolved,
                 fh_slot_id = pfs_slot_id presp, fh_nbytes = copy_bytes, fh_ev = ev, fh_keep_pinned = False,
                 fh_submit_ns = submit_ns, fh_complete_seq = complete_seq\<rparr>
       in if wait then
            cuda_check (cudaEventSynchronize ev)
              (modify (\<lambda>a. a\<lparr>ag_metrics := metric_sub kInflightH2DBytes copy_bytes (ag_metrics a)\<rparr>)
                (seq (complete_h2d r) (\<lambda>_. Done \<lparr>rr_ok = True, rr_message = ''''\<rparr>)))
          else modify (\<lambda>a. a\<lparr>ag_inflight_h2d := ag_inflight_h2d a @ [r]\<rparr>)
                 (Done \<lparr>rr_ok = True, rr_message = ''''\<rparr>)))"

definition restore_submit ::
  "u64 \<Rightarrow> u64 \<Rightarrow> u64 \<Rightarrow> u64 \<Rightarrow> u64 \<Rightarrow> bool \<Rightarrow> RequestPrefetchResponse \<Rightarrow> u64 \<Rightarrow> RestoreResult code" where
  "restore_submit tensor_id resolved dev_ptr copy_bytes s wait presp src =
     next_submit_seq (\<lambda>submit_seq.
     seq (mark_h2d_submitted (pfs_lease_id presp) tensor_id resolved (pfs_slot_id presp) submit_seq) (\<lambda>_.
     Clock (\<lambda>submit_ns.
     launch (cudaMemcpyH2D dev_ptr src copy_bytes s) s (restore_finish tensor_id resolved copy_bytes wait presp submit_ns))))"

definition restore_copy ::
  "u64 \<Rightarrow> u64 \<Rightarrow> u64 \<Rightarrow> u64 \<Rightarrow> u64 \<Rightarrow> bool \<Rightarrow> RequestPrefetchResponse \<Rightarrow> RestoreResult code" where
  "restore_copy tensor_id version dev_ptr nbytes s wait presp =
     modify (\<lambda>a. a\<lparr>ag_restore_count := ag_restore_count a + 1\<rparr>)
     (let copy_bytes = (if pfs_nbytes presp \<noteq> 0 then pfs_nbytes presp else nbytes);
          resolved = (if pfs_version presp \<noteq> 0 then pfs_version presp else version) in
      seq (slot_host_ptr (pfs_arena_id presp) (pfs_arena_offset presp)) (\<lambda>src.
      seq (ensure_registered src copy_bytes) (\<lambda>_.
        restore_submit tensor_id resolved dev_ptr copy_bytes s wait presp src)))"

text \<open>The check of the slot in shared memory.\<close>

definition confirm_slot :: "RequestPrefetchResponse \<Rightarrow> RestoreResult code \<Rightarrow> RestoreResult code" where
  "confirm_slot presp p =
     fetch (\<lambda>a. if pfs_slot_id presp < ag_num_slots a then
         Read (SlotState (pfs_slot_id presp)) (\<lambda>st.
           if st \<noteq> ucast (slot_state_code OFLD_SLOT_PINNED_VALID)
           then Done (restore_failed ''restore: slot not PINNED_VALID at H2D time'') else p)
       else p)"

definition restore :: "nat \<Rightarrow> u64 \<Rightarrow> u64 \<Rightarrow> u64 \<Rightarrow> u64 \<Rightarrow> u64 \<Rightarrow> bool \<Rightarrow> RestoreResult code" where
  "restore fuel tensor_id version dev_ptr nbytes stream wait =
     seq (await_ring fuel tensor_id version) (\<lambda>_.
     fetch (\<lambda>a.
       let pr = \<lparr>pfq_rank_id = ag_rank_id a, pfq_rank_epoch = ag_rank_epoch a, pfq_tensor_id = tensor_id,
                 pfq_version = version, pfq_nbytes = nbytes, pfq_gpu_id = of_int (ag_device a),
                 pfq_numa_node = of_int (ag_numa a), pfq_priority = 0, pfq_flags = 0\<rparr>
       in request_prefetch pr (\<lambda>presp. Clock (\<lambda>start.
            await_ready fuel pr start (\<lambda>presp.
              confirm_slot presp (restore_copy tensor_id version dev_ptr nbytes (stream_of stream a) wait presp)) presp))))"

section \<open>Queries and release\<close>

definition assert_no_inflight :: "unit code" where
  "assert_no_inflight =
     fetch (\<lambda>a. if ag_inflight_d2h a \<noteq> [] \<or> ag_inflight_h2d a \<noteq> [] then
         Throw (''assert_no_inflight: transfers still in flight (d2h='' @ digits (length (ag_inflight_d2h a)) @
                '' h2d='' @ digits (length (ag_inflight_h2d a)) @ '')'')
       else Done ())"

definition location :: "u64 \<Rightarrow> u64 \<Rightarrow> string code" where
  "location tensor_id version =
     rpc (RqLocationQuery \<lparr>lqq_tensor_id = tensor_id, lqq_version = version\<rparr>) (\<lambda>rs. case rs of
       RsLocationQuery resp \<Rightarrow> Some (Done
         (if \<not> lqs_ok resp then ''none''
          else if lqs_location_kind resp = location_kind_code OFLD_LOC_GPU then ''gpu''
          else if lqs_location_kind resp = location_kind_code OFLD_LOC_PINNED then ''pinned''
          else if lqs_location_kind resp = location_kind_code OFLD_LOC_PAGEABLE then ''pageable''
          else if lqs_location_kind resp = location_kind_code OFLD_LOC_NVME then ''nvme''
          else ''none''))
     | _ \<Rightarrow> None)"

definition discard :: "u64 \<Rightarrow> u64 \<Rightarrow> unit code" where
  "discard tensor_id version =
     (let key = tv_key tensor_id version in
      fetch (\<lambda>a.
        let lease_id = (case t_find (ag_lease_of a) key of None \<Rightarrow> 0 | Some l \<Rightarrow> l) in
        seq (if lease_id = 0 then Done ()
             else catching
               (rpc (RqReleaseLease
                  \<lparr>rlq_rank_id = ag_rank_id a, rlq_rank_epoch = ag_rank_epoch a, rlq_lease_id = lease_id, rlq_slot_id = 0,
                   rlq_reason = ''discard tensor '' @ digits (unat tensor_id) @ '':'' @ digits (unat version)\<rparr>)
                 (\<lambda>rs. case rs of RsReleaseLease resp \<Rightarrow> Some (Done ()) | _ \<Rightarrow> None))
               (\<lambda>e. Done ()))
          (\<lambda>_. modify (\<lambda>a. a\<lparr>ag_offloaded := t_erase key (ag_offloaded a), ag_lease_of := t_erase key (ag_lease_of a)\<rparr>)
                 (Done ()))))"

record AgentSummary =
  as_rank_id :: u32
  as_gpu_id :: int
  as_numa_node :: int
  as_registered_pinned_bytes :: u64
  as_inflight_d2h_bytes :: u64
  as_inflight_h2d_bytes :: u64
  as_evict_count :: u64
  as_restore_count :: u64
  as_d2h_completed :: u64
  as_h2d_completed :: u64
  as_rank_epoch :: u64
  as_num_slots :: u64

definition summary :: "agent \<Rightarrow> AgentSummary" where
  "summary a = \<lparr>as_rank_id = ag_rank_id a, as_gpu_id = ag_device a, as_numa_node = ag_numa a,
     as_registered_pinned_bytes = ag_registered_pinned_bytes a, as_inflight_d2h_bytes = ag_inflight_d2h_bytes a,
     as_inflight_h2d_bytes = ag_inflight_h2d_bytes a, as_evict_count = ag_evict_count a,
     as_restore_count = ag_restore_count a, as_d2h_completed = ag_d2h_completed a, as_h2d_completed = ag_h2d_completed a,
     as_rank_epoch = ag_rank_epoch a, as_num_slots = ucast (ag_num_slots a)\<rparr>"

definition signed_digits :: "int \<Rightarrow> string" where
  "signed_digits v = (if v < 0 then CHR ''-'' # digits (nat (- v)) else digits (nat v))"

definition summary_string :: "agent \<Rightarrow> string" where
  "summary_string a =
     (let s = summary a; u = (\<lambda>v. digits (unat (v :: u64))); nl = [CHR 0x0A] in
      take 1023
       (''OffloadAgent rank='' @ digits (unat (as_rank_id s)) @ '' gpu='' @ signed_digits (as_gpu_id s) @
        '' numa='' @ signed_digits (as_numa_node s) @ '' epoch='' @ u (as_rank_epoch s) @ nl @
        ''  registered_pinned_bytes='' @ u (as_registered_pinned_bytes s) @ nl @
        ''  inflight: d2h='' @ u (as_inflight_d2h_bytes s) @ '' bytes  h2d='' @ u (as_inflight_h2d_bytes s) @ '' bytes'' @ nl @
        ''  counts: evict='' @ u (as_evict_count s) @ '' restore='' @ u (as_restore_count s) @
        '' d2h_done='' @ u (as_d2h_completed s) @ '' h2d_done='' @ u (as_h2d_completed s) @ nl @
        ''  slots='' @ u (as_num_slots s)))"

section \<open>Canonical objects\<close>

text \<open>The calls that only pass a request on.\<close>

definition agent_register_job :: "RegisterJobRequest \<Rightarrow> RegisterJobResponse code" where
  "agent_register_job req = rpc (RqRegisterJob req) (\<lambda>rs. case rs of RsRegisterJob resp \<Rightarrow> Some (Done resp) | _ \<Rightarrow> None)"

definition agent_seal_model_version :: "SealModelVersionRequest \<Rightarrow> SealModelVersionResponse code" where
  "agent_seal_model_version req = rpc (RqSealModelVersion req) (\<lambda>rs. case rs of RsSealModelVersion resp \<Rightarrow> Some (Done resp) | _ \<Rightarrow> None)"

definition agent_get_latest_sealed_version :: "GetLatestSealedVersionRequest \<Rightarrow> GetLatestSealedVersionResponse code" where
  "agent_get_latest_sealed_version req = rpc (RqGetLatestSealedVersion req) (\<lambda>rs. case rs of RsGetLatestSealedVersion resp \<Rightarrow> Some (Done resp) | _ \<Rightarrow> None)"

definition agent_get_manifest :: "GetManifestRequest \<Rightarrow> GetManifestResponse code" where
  "agent_get_manifest req = rpc (RqGetManifest req) (\<lambda>rs. case rs of RsGetManifest resp \<Rightarrow> Some (Done resp) | _ \<Rightarrow> None)"

definition agent_pull_tensor :: "PullTensorRequest \<Rightarrow> PullTensorResponse code" where
  "agent_pull_tensor req = rpc (RqPullTensor req) (\<lambda>rs. case rs of RsPullTensor resp \<Rightarrow> Some (Done resp) | _ \<Rightarrow> None)"

definition agent_drop_canonical_version :: "DropCanonicalVersionRequest \<Rightarrow> DropCanonicalVersionResponse code" where
  "agent_drop_canonical_version req = rpc (RqDropCanonicalVersion req) (\<lambda>rs. case rs of RsDropCanonicalVersion resp \<Rightarrow> Some (Done resp) | _ \<Rightarrow> None)"

definition release_canonical :: "ReleaseCanonicalRequest \<Rightarrow> ReleaseCanonicalResponse code" where
  "release_canonical r =
     fetch (\<lambda>a. rpc (RqReleaseCanonical (r\<lparr>rcq_rank_id := ag_rank_id a, rcq_rank_epoch := ag_rank_epoch a\<rparr>))
       (\<lambda>rs. case rs of RsReleaseCanonical resp \<Rightarrow> Some (Done resp) | _ \<Rightarrow> None))"

definition mark_canonical_complete ::
  "u64 \<Rightarrow> u64 \<Rightarrow> u32 \<Rightarrow> (string \<Rightarrow> CanonicalEvictResult code) \<Rightarrow> CanonicalEvictResult code \<Rightarrow> CanonicalEvictResult code" where
  "mark_canonical_complete lease_id syn_tid slot_id failed p =
     fetch (\<lambda>a. next_complete_seq (\<lambda>complete_seq. Clock (\<lambda>now.
       Rpc (RqMarkD2HComplete
            \<lparr>dcq_rank_id = ag_rank_id a, dcq_rank_epoch = ag_rank_epoch a, dcq_lease_id = lease_id,
             dcq_tensor_id = syn_tid, dcq_version = 1, dcq_slot_id = slot_id, dcq_complete_seq = complete_seq,
             dcq_timestamp_ns = now\<rparr>)
         (\<lambda>r. case r of
            Inl e \<Rightarrow> failed e
          | Inr (RsMarkD2HComplete dr) \<Rightarrow> p
          | Inr _ \<Rightarrow> failed ''unexpected response''))))"

definition commit_object ::
  "u64 \<Rightarrow> u64 \<Rightarrow> u32 \<Rightarrow> u64 \<times> u64 \<Rightarrow> (string \<Rightarrow> CanonicalEvictResult code) \<Rightarrow>
   (CommitCanonicalObjectResponse \<Rightarrow> CanonicalEvictResult code) \<Rightarrow> CanonicalEvictResult code" where
  "commit_object object_id lease_id slot_id h failed k =
     fetch (\<lambda>a.
       Rpc (RqCommitCanonicalObject
            \<lparr>ccq_rank_id = ag_rank_id a, ccq_rank_epoch = ag_rank_epoch a, ccq_object_id = object_id,
             ccq_lease_id = lease_id, ccq_slot_id = slot_id, ccq_content_hash_lo = fst h, ccq_content_hash_hi = snd h\<rparr>)
         (\<lambda>r. case r of
            Inl e \<Rightarrow> failed e
          | Inr (RsCommitCanonicalObject cres) \<Rightarrow> k cres
          | Inr _ \<Rightarrow> failed ''unexpected response''))"

text \<open>The create path: copy, complete, hash, commit.\<close>

definition canonical_commit ::
  "u64 \<Rightarrow> u64 \<Rightarrow> bool \<Rightarrow> u64 \<Rightarrow> bool \<Rightarrow> RequestCanonicalEvictResponse \<Rightarrow> CanonicalEvictResult code" where
  "canonical_commit dst nbytes gives_up cookie hash_on_commit resp =
     (let out = CanonicalEvictResult_init\<lparr>cer_action := ces_action resp, cer_object_id := ces_object_id resp\<rparr>;
          commit = (\<lambda>h. commit_object (ces_object_id resp) (ces_lease_id resp) (ces_slot_id resp) h
               (\<lambda>e. Done (out\<lparr>cer_message := ''commit rpc: '' @ e\<rparr>))
               (\<lambda>cres.
                  let out' = Done (out\<lparr>cer_ok := ccs_ok cres, cer_did_d2h := True, cer_message := ccs_message cres\<rparr>)
                  in if gives_up then Invalidate cookie out' else out'))
      in mark_canonical_complete (ces_lease_id resp) (ces_synthetic_tid resp) (ces_slot_id resp)
           (\<lambda>e. Done (out\<lparr>cer_message := ''d2h complete rpc: '' @ e\<rparr>))
           (if hash_on_commit then ReadHost dst nbytes (\<lambda>bs. commit (hash_host_bytes bs)) else commit (0, 0)))"

definition canonical_create ::
  "u64 \<Rightarrow> u64 \<Rightarrow> u64 \<Rightarrow> bool \<Rightarrow> bool \<Rightarrow> u64 \<Rightarrow> bool \<Rightarrow> RequestCanonicalEvictResponse \<Rightarrow> CanonicalEvictResult code" where
  "canonical_create dev_ptr nbytes s destructive cb cookie hash_on_commit resp =
     seq (slot_host_ptr (ces_arena_id resp) (ces_arena_offset resp)) (\<lambda>dst.
     seq (ensure_registered dst nbytes) (\<lambda>_.
     modify (\<lambda>a. a\<lparr>ag_evict_count := ag_evict_count a + 1\<rparr>)
     (next_submit_seq (\<lambda>submit_seq.
     seq (mark_d2h_submitted (ces_lease_id resp) (ces_synthetic_tid resp) 1 (ces_slot_id resp) submit_seq) (\<lambda>_.
     launch (cudaMemcpyD2H dst dev_ptr nbytes s) s (\<lambda>ev.
     cuda_check (cudaEventSynchronize ev)
     (cuda_check (cudaEventDestroy ev)
     (canonical_commit dst nbytes (destructive \<and> cb) cookie hash_on_commit resp))))))))"

definition canonical_evict ::
  "u64 \<Rightarrow> u64 \<Rightarrow> u64 \<Rightarrow> bool \<Rightarrow> RequestCanonicalEvictRequest \<Rightarrow> bool \<Rightarrow> u64 \<Rightarrow> bool \<Rightarrow> CanonicalEvictResult code" where
  "canonical_evict dev_ptr nbytes stream destructive in_req cb cookie hash_on_commit =
     fetch (\<lambda>a.
       let key = (ceq_key in_req)\<lparr>ck_nbytes := nbytes\<rparr>;
           key' = (if ck_shard_nbytes key = 0 then key\<lparr>ck_shard_nbytes := nbytes\<rparr> else key);
           req = in_req\<lparr>ceq_rank_id := ag_rank_id a, ceq_rank_epoch := ag_rank_epoch a,
                        ceq_gpu_id := of_int (ag_device a), ceq_numa_node := of_int (ag_numa a),
                        ceq_destructive := destructive, ceq_key := key'\<rparr>
       in rpc (RqRequestCanonicalEvict req) (\<lambda>rs. case rs of
            RsRequestCanonicalEvict resp \<Rightarrow> Some
              (let out = CanonicalEvictResult_init\<lparr>cer_action := ces_action resp, cer_message := ces_message resp\<rparr> in
               if \<not> ces_ok resp then Done out
               else if ces_action resp = attach_action_code ATTACH_ACTION_ATTACHED_EXISTING \<or>
                       ces_action resp = attach_action_code ATTACH_ACTION_WAIT_FOR_CREATOR then
                 (let done = Done (out\<lparr>cer_ok := True, cer_object_id := ces_object_id resp\<rparr>)
                  in if ces_action resp = attach_action_code ATTACH_ACTION_ATTACHED_EXISTING \<and> destructive \<and> cb
                     then Invalidate cookie done else done)
               else if ces_action resp \<noteq> attach_action_code ATTACH_ACTION_NEED_D2H_CREATE \<and>
                       ces_action resp \<noteq> attach_action_code ATTACH_ACTION_DUPLICATE_CANDIDATE
               then Done (out\<lparr>cer_object_id := ces_object_id resp\<rparr>)
               else canonical_create dev_ptr nbytes (stream_of stream a) destructive cb cookie hash_on_commit resp)
          | _ \<Rightarrow> None))"

text \<open>The hold is given back, whether or not that succeeds.\<close>

definition give_back_hold :: "u64 \<Rightarrow> RestoreResult \<Rightarrow> RestoreResult code" where
  "give_back_hold object_id r =
     fetch (\<lambda>a. Rpc (RqReleaseCanonicalRestore
         \<lparr>xrq_rank_id = ag_rank_id a, xrq_rank_epoch = ag_rank_epoch a, xrq_object_id = object_id\<rparr>) (\<lambda>_. Done r))"

text \<open>Ask until the object is resident or cannot be.\<close>

fun await_resident :: "nat \<Rightarrow> RequestCanonicalRestoreRequest \<Rightarrow> u64 \<Rightarrow>
    (RequestCanonicalRestoreResponse \<Rightarrow> RestoreResult code) \<Rightarrow> RestoreResult code" where
  "await_resident 0 rq start k = Stuck"
| "await_resident (Suc fuel) rq start k =
     Rpc (RqRequestCanonicalRestore rq) (\<lambda>r. case r of
       Inl e \<Rightarrow> Done (restore_failed (''canonical_restore rpc: '' @ e))
     | Inr (RsRequestCanonicalRestore resp) \<Rightarrow>
         if crs_ok resp \<or> \<not> crs_retriable resp then k resp
         else Clock (\<lambda>now. if now - start > timeout_ns
           then Done (restore_failed ''canonical_restore: object stuck transitioning'')
           else Sleep 2000000 (await_resident fuel rq start k))
     | Inr _ \<Rightarrow> Done (restore_failed (''canonical_restore rpc: '' @ ''unexpected response'')))"

definition canonical_copy :: "u64 \<Rightarrow> u64 \<Rightarrow> u64 \<Rightarrow> bool \<Rightarrow> RequestCanonicalRestoreResponse \<Rightarrow> RestoreResult code" where
  "canonical_copy dev_ptr nbytes s wait resp =
     catching
       (seq (slot_host_ptr (crs_arena_id resp) (crs_arena_offset resp)) (\<lambda>src.
        seq (ensure_registered src nbytes) (\<lambda>_.
        modify (\<lambda>a. a\<lparr>ag_restore_count := ag_restore_count a + 1\<rparr>)
        (cuda_check (cudaMemcpyH2D dev_ptr src nbytes s)
          (let ok = Done \<lparr>rr_ok = True, rr_message = ''ok''\<rparr>
           in if wait then cuda_check (cudaStreamSynchronize s) ok else ok)))))
       (\<lambda>e. Done (restore_failed (''canonical_restore H2D: '' @ e)))"

definition canonical_restore :: "nat \<Rightarrow> u64 \<Rightarrow> u64 \<Rightarrow> u64 \<Rightarrow> u64 \<Rightarrow> bool \<Rightarrow> RestoreResult code" where
  "canonical_restore fuel object_id dev_ptr nbytes stream wait =
     fetch (\<lambda>a. Clock (\<lambda>start.
       await_resident fuel
         \<lparr>crq_rank_id = ag_rank_id a, crq_rank_epoch = ag_rank_epoch a, crq_object_id = object_id,
          crq_gpu_id = of_int (ag_device a), crq_numa_node = of_int (ag_numa a)\<rparr> start
         (\<lambda>resp.
            if \<not> crs_ok resp then Done (restore_failed (crs_message resp))
            else if nbytes > crs_nbytes resp
            then give_back_hold object_id (restore_failed ''canonical_restore: dst larger than object'')
            else seq (canonical_copy dev_ptr nbytes (stream_of stream a) wait resp) (give_back_hold object_id))))"

end
