(* ===== verification/Agent_Runs.thy ===== *)
theory Agent_Runs
  imports Agent Action_Runs
begin

text \<open>
  The runs of the parts of the agent's operations: the calls each of them makes, in which order, and
  what they leave of the agent's state. \<open>R\<close> is what the agent's other threads may do meanwhile; they
  leave alone what the constructor has set up (\<open>stable\<close>).
\<close>

lemmas run_defs = fetch_def modify_def rpc_def cuda_check_def

section \<open>Pieces\<close>

lemma slot_host_ptr_runs:
  "exec R (slot_host_ptr arena off) a t out a' \<Longrightarrow>
   t = [] \<and> R a a' \<and>
   (case t_find (ag_arena_index a') arena of
      None \<Rightarrow> out = Thrown ''slot references unknown arena_id''
    | Some i \<Rightarrow> out = Returned (am_base (ag_arenas a' ! i) + off))"
  by (auto simp: slot_host_ptr_def run_defs exec_simps split: option.splits)

lemma ensure_registered_runs:
  assumes "exec R (ensure_registered p n) a t out a'"
  shows "(t = [] \<or> (\<exists>b l e. t = [OCuda (cudaHostRegister b l) e])) \<and>
    ((\<exists>e. out = Thrown e) \<or> out = Returned ())"
proof (cases "n = 0")
  case False
  then obtain a1 where e: "exec R (case arena_for p a1 of
        None \<Rightarrow> Throw ''ensure_registered: pointer not in any mapped arena''
      | Some m \<Rightarrow>
          if am_base m \<in> set (ag_registered_chunks a1) then Done ()
          else Cuda (cudaHostRegister (am_base m) (am_size m)) (\<lambda>e.
            if e \<noteq> cudaSuccess \<and> e \<noteq> cudaErrorHostMemoryAlreadyRegistered
            then Throw (''cudaHostRegister(arena) failed: '' @ error_string e)
            else modify (\<lambda>a. a\<lparr>ag_registered_chunks := List.insert (am_base m) (ag_registered_chunks a),
                                ag_registered_pinned_bytes := ag_registered_pinned_bytes a + am_size m\<rparr>)
                   (Done ()))) a1 t out a'"
    using assms by (auto simp: ensure_registered_def fetch_def exec_simps)
  show ?thesis
  proof (cases "arena_for p a1")
    case (Some m)
    show ?thesis
    proof (cases "am_base m \<in> set (ag_registered_chunks a1)")
      case False
      with e Some obtain er t' where "t = OCuda (cudaHostRegister (am_base m) (am_size m)) er # t'"
        "t' = [] \<and> ((\<exists>e. out = Thrown e) \<or> out = Returned ())"
        by (auto simp: exec_simps modify_def split: if_splits)
      then show ?thesis by auto
    qed (use e Some in \<open>simp add: exec_simps\<close>)
  qed (use e in \<open>simp add: exec_simps\<close>)
qed (use assms in \<open>simp add: ensure_registered_def exec_simps\<close>)

section \<open>What the constructor sets up\<close>

definition same_setup :: "agent \<Rightarrow> agent \<Rightarrow> bool" where
  "same_setup a b \<longleftrightarrow>
     ag_device b = ag_device a \<and> ag_numa b = ag_numa a \<and> ag_rank_id b = ag_rank_id a \<and>
     ag_rank_epoch b = ag_rank_epoch a \<and> ag_arenas b = ag_arenas a \<and> ag_arena_index b = ag_arena_index a \<and>
     ag_num_slots b = ag_num_slots a \<and> ag_comp_ring b = ag_comp_ring a \<and> ag_internal_stream b = ag_internal_stream a"

definition stable :: "(agent \<Rightarrow> agent \<Rightarrow> bool) \<Rightarrow> bool" where
  "stable R \<longleftrightarrow> (\<forall>a b. R a b \<longrightarrow> same_setup a b)"

lemma stableD: "stable R \<Longrightarrow> R a b \<Longrightarrow> same_setup a b"
  by (simp add: stable_def)

lemma stable_eq [simp]: "stable (=)"
  by (simp add: stable_def same_setup_def)

lemma same_setup_refl [simp]: "same_setup a a"
  by (simp add: same_setup_def)

lemma same_setup_trans [trans]: "same_setup a b \<Longrightarrow> same_setup b c \<Longrightarrow> same_setup a c"
  by (simp add: same_setup_def)

lemma same_setup_upd [simp]:
  "same_setup a (b\<lparr>ag_registered_chunks := x1\<rparr>) = same_setup a b" "same_setup a (b\<lparr>ag_registered_pinned_bytes := x2\<rparr>) = same_setup a b"
  "same_setup a (b\<lparr>ag_inflight_d2h := x3\<rparr>) = same_setup a b" "same_setup a (b\<lparr>ag_inflight_h2d := x4\<rparr>) = same_setup a b"
  "same_setup a (b\<lparr>ag_offloaded := x5\<rparr>) = same_setup a b" "same_setup a (b\<lparr>ag_lease_of := x6\<rparr>) = same_setup a b"
  "same_setup a (b\<lparr>ag_ring_push_seq := x7\<rparr>) = same_setup a b" "same_setup a (b\<lparr>ag_inflight_d2h_bytes := x8\<rparr>) = same_setup a b"
  "same_setup a (b\<lparr>ag_inflight_h2d_bytes := x8\<rparr>) = same_setup a b" "same_setup a (b\<lparr>ag_evict_count := x8\<rparr>) = same_setup a b"
  "same_setup a (b\<lparr>ag_restore_count := x8\<rparr>) = same_setup a b" "same_setup a (b\<lparr>ag_d2h_completed := x8\<rparr>) = same_setup a b"
  "same_setup a (b\<lparr>ag_h2d_completed := x8\<rparr>) = same_setup a b" "same_setup a (b\<lparr>ag_submit_seq_ctr := x8\<rparr>) = same_setup a b"
  "same_setup a (b\<lparr>ag_complete_seq_ctr := x8\<rparr>) = same_setup a b" "same_setup a (b\<lparr>ag_metrics := x9\<rparr>) = same_setup a b"
  "same_setup a (b\<lparr>ag_bw_samples := x10\<rparr>) = same_setup a b"
  by (simp_all add: same_setup_def)

definition host_ptr :: "u64 \<Rightarrow> u64 \<Rightarrow> agent \<Rightarrow> u64 option" where
  "host_ptr arena off a = map_option (\<lambda>i. am_base (ag_arenas a ! i) + off) (t_find (ag_arena_index a) arena)"

lemma host_ptr_setup: "same_setup a b \<Longrightarrow> host_ptr arena off b = host_ptr arena off a"
  by (simp add: host_ptr_def same_setup_def)

section \<open>Programs that stay within a relation\<close>

text \<open>Every step of the program on the agent's state is one of \<open>Q\<close>.\<close>

primrec staying :: "(agent \<Rightarrow> agent \<Rightarrow> bool) \<Rightarrow> 'a code \<Rightarrow> bool" where
  "staying Q (Done x) \<longleftrightarrow> True"
| "staying Q (Throw e) \<longleftrightarrow> True"
| "staying Q Stuck \<longleftrightarrow> True"
| "staying Q (Rpc q k) \<longleftrightarrow> (\<forall>r. staying Q (k r))"
| "staying Q (Register q k) \<longleftrightarrow> (\<forall>r. staying Q (k r))"
| "staying Q (Cuda c k) \<longleftrightarrow> (\<forall>r. staying Q (k r))"
| "staying Q (NewEvent k) \<longleftrightarrow> (\<forall>e ev. staying Q (k e ev))"
| "staying Q (Clock k) \<longleftrightarrow> (\<forall>r. staying Q (k r))"
| "staying Q (Sleep n p) \<longleftrightarrow> staying Q p"
| "staying Q (Read w k) \<longleftrightarrow> (\<forall>r. staying Q (k r))"
| "staying Q (Push e k) \<longleftrightarrow> (\<forall>r. staying Q (k r))"
| "staying Q (ReadHost ptr n k) \<longleftrightarrow> (\<forall>r. staying Q (k r))"
| "staying Q (Mmap i n k) \<longleftrightarrow> (\<forall>r. staying Q (k r))"
| "staying Q (Sys c p) \<longleftrightarrow> staying Q p"
| "staying Q (Invalidate c p) \<longleftrightarrow> staying Q p"
| "staying Q (Await P p) \<longleftrightarrow> staying Q p"
| "staying Q (Local g) \<longleftrightarrow> (\<forall>a. fst (map_prod (\<lambda>p. staying Q p) id (g a)) \<and> Q a (snd (g a)))"

declare staying.simps(17) [simp del]

lemma staying_Local [simp]: "staying Q (Local g) \<longleftrightarrow> (\<forall>a. staying Q (fst (g a)) \<and> Q a (snd (g a)))"
  by (simp add: staying.simps(17))

text \<open>
  What every step keeps, the program's own and those of other threads, the run keeps.
\<close>

locale kept =
  fixes Q :: "agent \<Rightarrow> agent \<Rightarrow> bool"
  assumes kept_refl: "Q a a" and kept_trans: "Q a b \<Longrightarrow> Q b c \<Longrightarrow> Q a c"
begin

lemma exec_kept:
  assumes "exec R p a t out a'" and "\<And>a b. R a b \<Longrightarrow> Q a b" and "staying Q p"
  shows "Q a a'"
  using assms
proof induction
  case (exec_Await a a1 P p t out a')
  then show ?case using kept_trans by (metis staying.simps(16))
next
  case (exec_Local a a1 g p a2 t out a')
  then have "Q a a1" "Q a1 a2" "staying Q p" by (auto dest: spec [of _ a1])
  then show ?case using exec_Local kept_trans by blast
qed (auto simp: kept_refl)

end

interpretation fixed: kept same_setup
  by unfold_locales (auto simp: same_setup_def)

abbreviation tame :: "'a code \<Rightarrow> bool" where
  "tame \<equiv> staying same_setup"

lemma exec_tame: "exec R p a t out a' \<Longrightarrow> stable R \<Longrightarrow> tame p \<Longrightarrow> same_setup a a'"
  by (erule fixed.exec_kept) (auto dest: stableD)

lemma staying_proceed: "staying Q p \<Longrightarrow> (\<And>x. staying Q (f x)) \<Longrightarrow> (\<And>e. staying Q (h e)) \<Longrightarrow> staying Q (proceed p f h)"
proof (induction p)
  case (Local g)
  have "staying Q (proceed (fst (g a)) f h)" for a
  proof -
    have "fst (g a) \<in> Basic_BNFs.fsts (g a)" by (cases "g a") (simp add: prod_set_simps)
    moreover have "staying Q (fst (g a))" using Local.prems(1) by simp
    ultimately show ?thesis using Local.IH [OF rangeI] Local.prems(2,3) by blast
  qed
  then show ?case using Local.prems by simp
qed auto

lemma staying_seq [simp, intro]: "staying Q p \<Longrightarrow> (\<And>x. staying Q (f x)) \<Longrightarrow> staying Q (seq p f)"
  unfolding seq_def by (rule staying_proceed) auto

lemma staying_catching [simp, intro]: "staying Q p \<Longrightarrow> (\<And>e. staying Q (h e)) \<Longrightarrow> staying Q (catching p h)"
  unfolding catching_def by (rule staying_proceed) auto

lemma staying_fetch [simp]: "(\<And>a. Q a a) \<Longrightarrow> staying Q (fetch k) \<longleftrightarrow> (\<forall>a. staying Q (k a))"
  by (simp add: fetch_def)

lemma staying_modify [simp]: "(\<And>a. Q a (g a)) \<Longrightarrow> staying Q (modify g p) \<longleftrightarrow> staying Q p"
  by (simp add: modify_def)

lemma staying_rpc: "(\<And>rs p. k rs = Some p \<Longrightarrow> staying Q p) \<Longrightarrow> staying Q (rpc q k)"
  by (auto simp: rpc_def split: sum.split option.split)

lemma staying_cuda_check [simp]: "staying Q p \<Longrightarrow> staying Q (cuda_check c p)"
  by (simp add: cuda_check_def)

lemma exec_modify:
  assumes "exec R (modify g p) a t out a'" and "stable R" and "\<And>a. same_setup a (g a)"
  obtains a1 where "same_setup a a1" "exec R p a1 t out a'"
proof -
  from assms(1) obtain a0 where "R a a0" "exec R p (g a0) t out a'" by (auto simp: modify_def exec_simps)
  then show ?thesis using that [of "g a0"] stableD [OF assms(2)] assms(3) same_setup_trans by blast
qed

lemma exec_fetch:
  assumes "exec R (fetch k) a t out a'" and "stable R"
  obtains a1 where "same_setup a a1" "exec R (k a1) a1 t out a'"
  using assms stableD [OF assms(2)] by (auto simp: fetch_def exec_simps)

lemma exec_rpc:
  assumes "exec R (rpc q k) a t out a'"
  obtains r t' where "t = ORpc q r # t'" "exec R (case r of Inl e \<Rightarrow> Throw e
    | Inr rs \<Rightarrow> (case k rs of None \<Rightarrow> Throw ''unexpected response'' | Some p \<Rightarrow> p)) a t' out a'"
  using assms by (auto simp: rpc_def exec_simps)

lemma exec_next_submit_seq:
  assumes "exec R (next_submit_seq k) a t out a'" and "stable R"
  obtains a1 sq where "same_setup a a1" "exec R (k sq) a1 t out a'"
proof -
  from assms(1) obtain a0 where "R a a0" "exec R (k (ag_submit_seq_ctr a0)) (a0\<lparr>ag_submit_seq_ctr := ag_submit_seq_ctr a0 + 1\<rparr>) t out a'"
    by (auto simp: next_submit_seq_def exec_simps)
  then show ?thesis
    using that [of "a0\<lparr>ag_submit_seq_ctr := ag_submit_seq_ctr a0 + 1\<rparr>" "ag_submit_seq_ctr a0"] stableD [OF assms(2), of a a0] by simp
qed

lemma exec_next_complete_seq:
  assumes "exec R (next_complete_seq k) a t out a'" and "stable R"
  obtains a1 sq where "same_setup a a1" "exec R (k sq) a1 t out a'"
proof -
  from assms(1) obtain a0 where "R a a0" "exec R (k (ag_complete_seq_ctr a0)) (a0\<lparr>ag_complete_seq_ctr := ag_complete_seq_ctr a0 + 1\<rparr>) t out a'"
    by (auto simp: next_complete_seq_def exec_simps)
  then show ?thesis
    using that [of "a0\<lparr>ag_complete_seq_ctr := ag_complete_seq_ctr a0 + 1\<rparr>" "ag_complete_seq_ctr a0"] stableD [OF assms(2), of a a0] by simp
qed

lemma exec_cuda_check:
  assumes "exec R (cuda_check c p) a t out a'"
  obtains (ok) t' where "t = OCuda c cudaSuccess # t'" "exec R p a t' out a'"
  | (failed) e msg where "t = [OCuda c e]" "out = Thrown msg"
  using assms by (auto simp: cuda_check_def exec_simps split: if_splits)

lemma tame_slot_host_ptr [simp]: "tame (slot_host_ptr x y)"
  by (simp add: slot_host_ptr_def split: option.split)

lemma tame_ensure_registered [simp]: "tame (ensure_registered x y)"
  by (simp add: ensure_registered_def split: option.split)

lemma tame_seqs [simp]:
  "(\<And>x. tame (k x)) \<Longrightarrow> tame (next_submit_seq k)" "(\<And>x. tame (k' x)) \<Longrightarrow> tame (next_complete_seq k')"
  by (simp_all add: next_submit_seq_def next_complete_seq_def)

lemma tame_launch [simp]: "(\<And>x. tame (k x)) \<Longrightarrow> tame (launch c s k)"
  by (simp add: launch_def)

lemma tame_marks [simp]:
  "tame (mark_d2h_submitted l tid v sl sq)" "tame (mark_h2d_submitted l tid v sl sq)"
  by (auto simp: mark_d2h_submitted_def mark_h2d_submitted_def intro!: staying_catching staying_rpc split: response.splits)

lemma tame_finalize [simp]: "tame (finalize_d2h r)" "tame (finalize_h2d r')"
  by (simp_all add: finalize_d2h_def finalize_h2d_def record_bw_def Let_def)

lemma tame_complete [simp]: "tame (complete_d2h r)" "tame (complete_h2d r')"
  by (auto simp: complete_d2h_def complete_h2d_def intro!: staying_seq staying_catching staying_rpc split: response.splits)

section \<open>Traces of the parts\<close>

definition registration :: "obs list \<Rightarrow> bool" where
  "registration t \<longleftrightarrow> t = [] \<or> (\<exists>b l e. t = [OCuda (cudaHostRegister b l) e])"

lemma host_ptr_run:
  assumes "stable R" and "exec R (slot_host_ptr arena off) a t (Returned p) a'"
  shows "t = [] \<and> host_ptr arena off a = Some p"
proof -
  have "t = []" "host_ptr arena off a' = Some p"
    using slot_host_ptr_runs [OF assms(2)] by (auto simp: host_ptr_def split: option.splits)
  then show ?thesis using host_ptr_setup exec_tame [OF assms(2,1)] by simp
qed

lemma registered_run: "exec R (ensure_registered p n) a t out a' \<Longrightarrow> registration t \<and> out \<noteq> OutOfFuel"
  using ensure_registered_runs [of R p n a t out a'] by (auto simp: registration_def)

definition acks :: "(response \<Rightarrow> unit code option) \<Rightarrow> bool" where
  "acks k \<longleftrightarrow> (\<forall>rs p. k rs = Some p \<longrightarrow> p = Done ())"

lemma acks_simps [simp]:
  "acks (\<lambda>rs. case rs of RsMarkD2HSubmitted resp \<Rightarrow> Some (Done ()) | _ \<Rightarrow> None)"
  "acks (\<lambda>rs. case rs of RsMarkH2DSubmitted resp \<Rightarrow> Some (Done ()) | _ \<Rightarrow> None)"
  "acks (\<lambda>rs. case rs of RsMarkD2HComplete resp \<Rightarrow> Some (Done ()) | _ \<Rightarrow> None)"
  "acks (\<lambda>rs. case rs of RsMarkH2DComplete resp \<Rightarrow> Some (Done ()) | _ \<Rightarrow> None)"
  "acks (\<lambda>rs. case rs of RsBatchComplete resp \<Rightarrow> Some (Done ()) | _ \<Rightarrow> None)"
  by (simp_all add: acks_def split: response.splits)

lemma best_effort_run:
  assumes "exec R (catching (rpc q k) (\<lambda>e. Done ())) a t out a'" and "acks k"
  shows "out = Returned () \<and> (\<exists>r. t = [ORpc q r])"
proof -
  have "(out' = Returned () \<or> (\<exists>e. out' = Thrown e)) \<and> (\<exists>r. t' = [ORpc q r])" if "exec R (rpc q k) a t' out' b" for t' out' b
  proof -
    from that obtain r u where t: "t' = ORpc q r # u"
      and e: "exec R (case r of Inl e \<Rightarrow> Throw e
        | Inr rs \<Rightarrow> (case k rs of None \<Rightarrow> Throw ''unexpected response'' | Some p \<Rightarrow> p)) a u out' b"
      by (auto simp: rpc_def exec_simps)
    have ack: "\<And>rs p. k rs = Some p \<Longrightarrow> p = Done ()" using assms(2) by (auto simp: acks_def)
    show ?thesis using t e by (auto simp: exec_simps split: sum.splits option.splits dest!: ack)
  qed
  with assms(1) show ?thesis by (cases rule: exec_catching) (fastforce simp: exec_simps)+
qed

lemma mark_d2h_submitted_run:
  assumes "stable R" and "exec R (mark_d2h_submitted l tid v sl sq) a t out a'"
  shows "out = Returned () \<and> (\<exists>now r. t = [ORpc (RqMarkD2HSubmitted
    \<lparr>dsq_rank_id = ag_rank_id a, dsq_rank_epoch = ag_rank_epoch a, dsq_lease_id = l, dsq_tensor_id = tid,
     dsq_version = v, dsq_slot_id = sl, dsq_submit_seq = sq, dsq_timestamp_ns = now\<rparr>) r])"
proof -
  from assms(2) obtain a1 now where "R a a1" and e: "exec R (catching
       (rpc (RqMarkD2HSubmitted
          \<lparr>dsq_rank_id = ag_rank_id a1, dsq_rank_epoch = ag_rank_epoch a1, dsq_lease_id = l,
           dsq_tensor_id = tid, dsq_version = v, dsq_slot_id = sl, dsq_submit_seq = sq,
           dsq_timestamp_ns = now\<rparr>)
         (\<lambda>rs. case rs of RsMarkD2HSubmitted resp \<Rightarrow> Some (Done ()) | _ \<Rightarrow> None))
       (\<lambda>e. Done ())) a1 t out a'"
    by (auto simp: mark_d2h_submitted_def fetch_def exec_simps)
  moreover from this(1) have "ag_rank_id a1 = ag_rank_id a" "ag_rank_epoch a1 = ag_rank_epoch a"
    using stableD [OF assms(1)] by (auto simp: same_setup_def)
  ultimately show ?thesis using best_effort_run [OF e] by auto
qed

lemma finalize_d2h_run:
  assumes "exec R (finalize_d2h r) a t out a'"
  shows "out = Returned () \<and>
    (\<exists>e. t = (if fd_destructive r \<and> fd_invalidate_cb r then [OInvalidate (fd_cookie r)] else []) @ [OCuda (cudaEventDestroy (fd_ev r)) e])"
  using assms
  by (auto simp: finalize_d2h_def record_bw_def modify_def exec_simps Let_def split: if_splits)

lemma finalize_h2d_run:
  assumes "exec R (finalize_h2d r) a t out a'"
  shows "out = Returned () \<and> (\<exists>e. t = [OCuda (cudaEventDestroy (fh_ev r)) e])"
  using assms by (auto simp: finalize_h2d_def record_bw_def modify_def exec_simps Let_def split: if_splits)

lemma complete_d2h_run:
  assumes "stable R" and "exec R (complete_d2h r) a t out a'"
  shows "out = Returned () \<and> (\<exists>now rp e. t = ORpc (RqMarkD2HComplete
      \<lparr>dcq_rank_id = ag_rank_id a, dcq_rank_epoch = ag_rank_epoch a, dcq_lease_id = fd_lease_id r,
       dcq_tensor_id = fd_tensor_id r, dcq_version = fd_version r, dcq_slot_id = fd_slot_id r,
       dcq_complete_seq = fd_complete_seq r, dcq_timestamp_ns = now\<rparr>) rp #
     (if fd_destructive r \<and> fd_invalidate_cb r then [OInvalidate (fd_cookie r)] else []) @ [OCuda (cudaEventDestroy (fd_ev r)) e])"
proof -
  from assms(2) obtain a1 now where "R a a1" and e: "exec R (seq (catching
             (rpc (RqMarkD2HComplete
                \<lparr>dcq_rank_id = ag_rank_id a1, dcq_rank_epoch = ag_rank_epoch a1, dcq_lease_id = fd_lease_id r,
                 dcq_tensor_id = fd_tensor_id r, dcq_version = fd_version r, dcq_slot_id = fd_slot_id r,
                 dcq_complete_seq = fd_complete_seq r, dcq_timestamp_ns = now\<rparr>)
               (\<lambda>rs. case rs of RsMarkD2HComplete resp \<Rightarrow> Some (Done ()) | _ \<Rightarrow> None))
             (\<lambda>e. Done ()))
         (\<lambda>_. finalize_d2h r)) a1 t out a'"
    by (auto simp: complete_d2h_def fetch_def exec_simps)
  have same: "ag_rank_id a1 = ag_rank_id a" "ag_rank_epoch a1 = ag_rank_epoch a"
    using stableD [OF assms(1) \<open>R a a1\<close>] by (auto simp: same_setup_def)
  from e show ?thesis
  proof (cases rule: exec_seq)
    case (returned t1 x a2 t2)
    have "\<exists>rp. t1 = [ORpc (RqMarkD2HComplete
      \<lparr>dcq_rank_id = ag_rank_id a, dcq_rank_epoch = ag_rank_epoch a, dcq_lease_id = fd_lease_id r,
       dcq_tensor_id = fd_tensor_id r, dcq_version = fd_version r, dcq_slot_id = fd_slot_id r,
       dcq_complete_seq = fd_complete_seq r, dcq_timestamp_ns = now\<rparr>) rp]"
      using best_effort_run [OF returned(1)] same by auto
    then show ?thesis using finalize_d2h_run [OF returned(2)] returned(3) by (elim exE conjE) simp
  qed (auto dest!: best_effort_run)
qed

section \<open>Evict\<close>

lemma launch_run:
  assumes "exec R (launch copy s k) a t out a'"
  shows "(\<exists>e. out = Thrown e) \<and> (\<forall>c. OInvalidate c \<notin> set t) \<or>
    (\<exists>ev t2. t = [OCuda copy cudaSuccess, OEvent cudaSuccess ev, OCuda (cudaEventRecord ev s) cudaSuccess] @ t2 \<and>
       exec R (k ev) a t2 out a')"
  using assms by (auto simp: launch_def cuda_check_def exec_simps split: if_splits)

text \<open>The trace of a completed synchronous eviction after its grant.\<close>

definition evict_trace ::
  "agent \<Rightarrow> u64 \<Rightarrow> u64 \<Rightarrow> u64 \<Rightarrow> bool \<Rightarrow> TensorMeta \<Rightarrow> u64 \<Rightarrow> RequestOffloadResponse \<Rightarrow> obs list \<Rightarrow> bool" where
  "evict_trace a dev_ptr nbytes s gives_up meta cookie resp t \<longleftrightarrow>
     (\<exists>reg dst sq now1 r1 ev cq now2 r2 e.
        registration reg \<and> host_ptr (ros_arena_id resp) (ros_arena_offset resp) a = Some dst \<and>
        t = reg @
          [ORpc (RqMarkD2HSubmitted
             \<lparr>dsq_rank_id = ag_rank_id a, dsq_rank_epoch = ag_rank_epoch a, dsq_lease_id = ros_lease_id resp,
              dsq_tensor_id = tm_tensor_id meta, dsq_version = tm_version meta, dsq_slot_id = ros_slot_id resp,
              dsq_submit_seq = sq, dsq_timestamp_ns = now1\<rparr>) r1,
           OCuda (cudaMemcpyD2H dst dev_ptr nbytes s) cudaSuccess, OEvent cudaSuccess ev,
           OCuda (cudaEventRecord ev s) cudaSuccess, OCuda (cudaEventSynchronize ev) cudaSuccess,
           ORpc (RqMarkD2HComplete
             \<lparr>dcq_rank_id = ag_rank_id a, dcq_rank_epoch = ag_rank_epoch a, dcq_lease_id = ros_lease_id resp,
              dcq_tensor_id = tm_tensor_id meta, dcq_version = tm_version meta, dcq_slot_id = ros_slot_id resp,
              dcq_complete_seq = cq, dcq_timestamp_ns = now2\<rparr>) r2] @
          (if gives_up then [OInvalidate cookie] else []) @ [OCuda (cudaEventDestroy ev) e])"

lemma registration_quiet: "registration t \<Longrightarrow> OInvalidate c \<notin> set t"
  by (auto simp: registration_def)

lemma evict_finish_run:
  assumes "stable R" and "exec R (evict_finish nbytes destructive meta cb cookie wait resp submit_ns ev) a t out a'"
  shows "(\<forall>c. OInvalidate c \<notin> set t) \<and> (wait \<longrightarrow> (\<exists>e. out = Thrown e)) \<or>
    wait \<and> (\<exists>tk. out = Returned tk \<and> ot_ok tk) \<and> (\<exists>cq now r e.
      t = [OCuda (cudaEventSynchronize ev) cudaSuccess, ORpc (RqMarkD2HComplete
             \<lparr>dcq_rank_id = ag_rank_id a, dcq_rank_epoch = ag_rank_epoch a, dcq_lease_id = ros_lease_id resp,
              dcq_tensor_id = tm_tensor_id meta, dcq_version = tm_version meta, dcq_slot_id = ros_slot_id resp,
              dcq_complete_seq = cq, dcq_timestamp_ns = now\<rparr>) r] @
          (if destructive \<and> cb then [OInvalidate cookie] else []) @ [OCuda (cudaEventDestroy ev) e])"
proof (cases wait)
  case True
  let ?r = "\<lambda>cq. \<lparr>fd_lease_id = ros_lease_id resp, fd_tensor_id = tm_tensor_id meta, fd_version = tm_version meta,
                 fd_slot_id = ros_slot_id resp, fd_nbytes = nbytes, fd_ev = ev, fd_destructive = destructive,
                 fd_invalidate_cb = cb, fd_cookie = cookie, fd_submit_ns = submit_ns, fd_complete_seq = cq\<rparr>"
  let ?tk = "(OffloadTicket_init meta nbytes)\<lparr>ot_ok := True, ot_lease_id := ros_lease_id resp, ot_slot_id := ros_slot_id resp\<rparr>"
  obtain a1 cq a2 a3 where "same_setup a a1" "same_setup a1 a2" "same_setup a2 a3" and run:
    "exec R (cuda_check (cudaEventSynchronize ev)
         (modify (\<lambda>a. a\<lparr>ag_metrics := metric_sub kInflightD2HBytes nbytes (ag_metrics a)\<rparr>)
           (seq (complete_d2h (?r cq)) (\<lambda>_. Done ?tk)))) a3 t out a'"
    using assms(2) True unfolding evict_finish_def Let_def
    by (elim exec_modify [OF _ assms(1)] exec_next_complete_seq [OF _ assms(1)]) auto
  then have a3: "same_setup a a3" using same_setup_trans by blast
  from run show ?thesis
  proof (cases rule: exec_cuda_check)
    case (ok t')
    from ok(2) obtain a4 where a4: "same_setup a a4" and run: "exec R (seq (complete_d2h (?r cq)) (\<lambda>_. Done ?tk)) a4 t' out a'"
      using a3 by (elim exec_modify [OF _ assms(1)]) (auto intro: same_setup_trans)
    from run have "exec R (complete_d2h (?r cq)) a4 t' (Returned ()) a' \<and> out = Returned ?tk"
      by (cases rule: exec_seq) (auto simp: exec_simps dest: complete_d2h_run [OF assms(1)])
    then have c: "exec R (complete_d2h (?r cq)) a4 t' (Returned ()) a'" and o: "out = Returned ?tk" by auto
    have ids: "ag_rank_id a4 = ag_rank_id a" "ag_rank_epoch a4 = ag_rank_epoch a" using a4 by (auto simp: same_setup_def)
    from complete_d2h_run [OF assms(1) c] obtain now rp e where "t' = ORpc (RqMarkD2HComplete
             \<lparr>dcq_rank_id = ag_rank_id a, dcq_rank_epoch = ag_rank_epoch a, dcq_lease_id = ros_lease_id resp,
              dcq_tensor_id = tm_tensor_id meta, dcq_version = tm_version meta, dcq_slot_id = ros_slot_id resp,
              dcq_complete_seq = cq, dcq_timestamp_ns = now\<rparr>) rp #
          (if destructive \<and> cb then [OInvalidate cookie] else []) @ [OCuda (cudaEventDestroy ev) e]"
      unfolding ids by auto
    then have "t = [OCuda (cudaEventSynchronize ev) cudaSuccess, ORpc (RqMarkD2HComplete
             \<lparr>dcq_rank_id = ag_rank_id a, dcq_rank_epoch = ag_rank_epoch a, dcq_lease_id = ros_lease_id resp,
              dcq_tensor_id = tm_tensor_id meta, dcq_version = tm_version meta, dcq_slot_id = ros_slot_id resp,
              dcq_complete_seq = cq, dcq_timestamp_ns = now\<rparr>) rp] @
          (if destructive \<and> cb then [OInvalidate cookie] else []) @ [OCuda (cudaEventDestroy ev) e]"
      using ok(1) by simp
    moreover have "ot_ok ?tk" by simp
    ultimately show ?thesis using True o by blast
  qed (use True in auto)
next
  case False
  then show ?thesis using assms(2)
    by (auto simp: evict_finish_def next_complete_seq_def modify_def exec_simps Let_def)
qed

lemma evict_submit_run:
  assumes "stable R" and "exec R (evict_submit dev_ptr nbytes s destructive meta cb cookie wait resp dst) a t out a'"
    and "host_ptr (ros_arena_id resp) (ros_arena_offset resp) a = Some dst" and "registration reg"
  shows "(\<forall>c. OInvalidate c \<notin> set t) \<and> (wait \<longrightarrow> (\<exists>e. out = Thrown e)) \<or>
    wait \<and> (\<exists>tk. out = Returned tk \<and> ot_ok tk) \<and> evict_trace a dev_ptr nbytes s (destructive \<and> cb) meta cookie resp (reg @ t)"
proof -
  from assms(2) obtain a1 sq where a1: "same_setup a a1" and
    "exec R (seq (mark_d2h_submitted (ros_lease_id resp) (tm_tensor_id meta) (tm_version meta) (ros_slot_id resp) sq) (\<lambda>_.
     Clock (\<lambda>submit_ns. launch (cudaMemcpyD2H dst dev_ptr nbytes s) s
       (evict_finish nbytes destructive meta cb cookie wait resp submit_ns)))) a1 t out a'"
    unfolding evict_submit_def by (elim exec_next_submit_seq [OF _ assms(1)])
  from this(2) show ?thesis
  proof (cases rule: exec_seq)
    case (returned t1 x a2 t2)
    have a2: "same_setup a a2" using a1 exec_tame [OF returned(1) assms(1)] same_setup_trans by simp
    obtain now1 r1 where t1: "t1 = [ORpc (RqMarkD2HSubmitted
             \<lparr>dsq_rank_id = ag_rank_id a, dsq_rank_epoch = ag_rank_epoch a, dsq_lease_id = ros_lease_id resp,
              dsq_tensor_id = tm_tensor_id meta, dsq_version = tm_version meta, dsq_slot_id = ros_slot_id resp,
              dsq_submit_seq = sq, dsq_timestamp_ns = now1\<rparr>) r1]"
      using mark_d2h_submitted_run [OF assms(1) returned(1)] a1 by (auto simp: same_setup_def)
    obtain ns where "exec R (launch (cudaMemcpyD2H dst dev_ptr nbytes s) s
        (evict_finish nbytes destructive meta cb cookie wait resp ns)) a2 t2 out a'"
      using returned(2) by (auto simp: exec_simps)
    from launch_run [OF this] show ?thesis
    proof (elim disjE exE conjE)
      fix ev t3
      assume t2: "t2 = [OCuda (cudaMemcpyD2H dst dev_ptr nbytes s) cudaSuccess, OEvent cudaSuccess ev,
          OCuda (cudaEventRecord ev s) cudaSuccess] @ t3"
        and fin: "exec R (evict_finish nbytes destructive meta cb cookie wait resp ns ev) a2 t3 out a'"
      have ids: "ag_rank_id a2 = ag_rank_id a" "ag_rank_epoch a2 = ag_rank_epoch a" using a2 by (auto simp: same_setup_def)
      from evict_finish_run [OF assms(1) fin] show ?thesis unfolding ids
      proof (elim disjE exE conjE)
        fix tk cq now r e
        assume t3: "t3 = [OCuda (cudaEventSynchronize ev) cudaSuccess, ORpc (RqMarkD2HComplete
             \<lparr>dcq_rank_id = ag_rank_id a, dcq_rank_epoch = ag_rank_epoch a, dcq_lease_id = ros_lease_id resp,
              dcq_tensor_id = tm_tensor_id meta, dcq_version = tm_version meta, dcq_slot_id = ros_slot_id resp,
              dcq_complete_seq = cq, dcq_timestamp_ns = now\<rparr>) r] @
          (if destructive \<and> cb then [OInvalidate cookie] else []) @ [OCuda (cudaEventDestroy ev) e]"
          and "wait" "out = Returned tk" "ot_ok tk"
        moreover have "evict_trace a dev_ptr nbytes s (destructive \<and> cb) meta cookie resp (reg @ t)"
          unfolding evict_trace_def
          by (rule exI [of _ reg], rule exI [of _ dst], rule exI [of _ sq], rule exI [of _ now1], rule exI [of _ r1],
              rule exI [of _ ev], rule exI [of _ cq], rule exI [of _ now], rule exI [of _ r], rule exI [of _ e])
            (simp add: assms(3,4) returned(3) t1 t2 t3)
        ultimately show ?thesis by simp
      qed (simp add: returned(3) t1 t2)
    qed (simp add: returned(3) t1)
  qed (auto dest: mark_d2h_submitted_run [OF assms(1)])
qed

lemma evict_copy_run:
  assumes "stable R" and "exec R (evict_copy dev_ptr nbytes s destructive meta cb cookie wait resp) a t out a'"
  shows "(\<forall>c. OInvalidate c \<notin> set t) \<and> (wait \<longrightarrow> (\<exists>e. out = Thrown e)) \<or>
    wait \<and> (\<exists>tk. out = Returned tk \<and> ot_ok tk) \<and> evict_trace a dev_ptr nbytes s (destructive \<and> cb) meta cookie resp t"
proof -
  from assms(2) obtain a1 where a1: "same_setup a a1" and
    "exec R (seq (slot_host_ptr (ros_arena_id resp) (ros_arena_offset resp)) (\<lambda>dst.
      seq (ensure_registered dst nbytes) (\<lambda>_.
        evict_submit dev_ptr nbytes s destructive meta cb cookie wait resp dst))) a1 t out a'"
    unfolding evict_copy_def by (elim exec_modify [OF _ assms(1)]) auto
  from this(2) show ?thesis
  proof (cases rule: exec_seq)
    case (returned t1 dst a2 t2)
    have a2: "same_setup a a2" using a1 exec_tame [OF returned(1) assms(1)] same_setup_trans by simp
    have h: "t1 = []" "host_ptr (ros_arena_id resp) (ros_arena_offset resp) a = Some dst"
      using host_ptr_run [OF assms(1) returned(1)] host_ptr_setup [OF a1] by auto
    from returned(2) show ?thesis
    proof (cases rule: exec_seq)
      case inner: (returned t3 x a3 t4)
      have a3: "same_setup a a3" using a2 exec_tame [OF inner(1) assms(1)] same_setup_trans by simp
      have reg: "registration t3" using registered_run [OF inner(1)] by simp
      have "host_ptr (ros_arena_id resp) (ros_arena_offset resp) a3 = Some dst" using h(2) host_ptr_setup [OF a3] by simp
      from evict_submit_run [OF assms(1) inner(2) this reg] show ?thesis
        using a3 reg h returned(3) inner(3) registration_quiet [OF reg]
        by (auto simp: evict_trace_def same_setup_def host_ptr_def)
    qed (auto simp: h returned(3) dest!: registered_run registration_quiet)
  qed (auto dest!: slot_host_ptr_runs split: option.splits)
qed

end
