(* ===== verification/Restore_Runs.thy ===== *)
theory Restore_Runs
  imports Agent_Runs
begin

text \<open>
  The runs of \<^verbatim>\<open>restore\<close>: polling for a ready slot, the check of the slot in shared memory, the copy to
  the device and its completion.
\<close>

section \<open>Polling\<close>

definition unready_poll :: "RequestPrefetchRequest \<Rightarrow> obs \<Rightarrow> bool" where
  "unready_poll pr ob \<longleftrightarrow>
     (\<exists>presp. ob = ORpc (RqRequestPrefetch pr) (Inr (RsRequestPrefetch presp)) \<and> pfs_ok presp \<and> \<not> pfs_ready presp)"

definition prefetch_call :: "RequestPrefetchRequest \<Rightarrow> obs \<Rightarrow> bool" where
  "prefetch_call pr ob \<longleftrightarrow> (\<exists>r. ob = ORpc (RqRequestPrefetch pr) r)"

text \<open>The polling ends with a ready slot, on which \<open>k\<close> runs, or without a success.\<close>

definition polled where
  "polled R pr k a t out a' \<longleftrightarrow>
     (\<exists>polls presp t2. t = polls @ ORpc (RqRequestPrefetch pr) (Inr (RsRequestPrefetch presp)) # t2 \<and>
        list_all (unready_poll pr) polls \<and> pfs_ok presp \<and> pfs_ready presp \<and> exec R (k presp) a t2 out a') \<or>
     (list_all (prefetch_call pr) t \<and> \<not> (\<exists>r. out = Returned r \<and> rr_ok r))"

lemma polled_cons: "unready_poll pr ob \<Longrightarrow> polled R pr k a t out a' \<Longrightarrow> polled R pr k a (ob # t) out a'"
proof -
  assume ob: "unready_poll pr ob" and "polled R pr k a t out a'"
  then consider polls presp t2 where "t = polls @ ORpc (RqRequestPrefetch pr) (Inr (RsRequestPrefetch presp)) # t2"
      "list_all (unready_poll pr) polls" "pfs_ok presp" "pfs_ready presp" "exec R (k presp) a t2 out a'"
    | "list_all (prefetch_call pr) t" "\<not> (\<exists>r. out = Returned r \<and> rr_ok r)"
    unfolding polled_def by blast
  then show ?thesis
  proof cases
    case (1 polls presp t2)
    then have "ob # t = (ob # polls) @ ORpc (RqRequestPrefetch pr) (Inr (RsRequestPrefetch presp)) # t2 \<and>
      list_all (unready_poll pr) (ob # polls)" using ob by simp
    then show ?thesis using 1 unfolding polled_def by blast
  next
    case 2
    then have "list_all (prefetch_call pr) (ob # t)" using ob by (auto simp: unready_poll_def prefetch_call_def)
    then show ?thesis using 2 unfolding polled_def by blast
  qed
qed

definition step_polled where
  "step_polled R pr k presp a t out a' \<longleftrightarrow>
     pfs_ready presp \<and> exec R (k presp) a t out a' \<or> \<not> pfs_ready presp \<and> polled R pr k a t out a' \<or>
     t = [] \<and> \<not> (\<exists>r. out = Returned r \<and> rr_ok r)"

lemma request_prefetch_run:
  assumes run: "exec R (request_prefetch pr K) a t out a'"
    and cont: "\<And>presp t'. pfs_ok presp \<Longrightarrow> exec R (K presp) a t' out a' \<Longrightarrow> step_polled R pr k presp a t' out a'"
  shows "polled R pr k a t out a'"
proof -
  from run obtain r t' where t: "t = ORpc (RqRequestPrefetch pr) r # t'"
    and *: "exec R (case r of Inl e \<Rightarrow> Throw e | Inr rs \<Rightarrow>
       (case (case rs of RsRequestPrefetch presp \<Rightarrow>
           Some (if \<not> pfs_ok presp then Done (restore_failed (pfs_message presp)) else K presp) | _ \<Rightarrow> None) of
          None \<Rightarrow> Throw ''unexpected response'' | Some p \<Rightarrow> p)) a t' out a'"
    by (auto simp: request_prefetch_def rpc_def exec_simps)
  show ?thesis
  proof (cases "\<exists>presp. r = Inr (RsRequestPrefetch presp) \<and> pfs_ok presp")
    case True
    then obtain presp where r: "r = Inr (RsRequestPrefetch presp)" and ok: "pfs_ok presp" by blast
    then have "exec R (K presp) a t' out a'" using * by simp
    from cont [OF ok this] consider "pfs_ready presp" "exec R (k presp) a t' out a'"
      | "\<not> pfs_ready presp" "polled R pr k a t' out a'" | "t' = []" "\<not> (\<exists>r. out = Returned r \<and> rr_ok r)"
      unfolding step_polled_def by blast
    then show ?thesis
    proof cases
      case 1
      then have "t = [] @ ORpc (RqRequestPrefetch pr) (Inr (RsRequestPrefetch presp)) # t' \<and> list_all (unready_poll pr) []"
        using t r by simp
      then show ?thesis using ok 1 unfolding polled_def by blast
    next
      case 2
      then have "unready_poll pr (ORpc (RqRequestPrefetch pr) r)" using r ok by (simp add: unready_poll_def)
      then show ?thesis using 2 t polled_cons by simp
    next
      case 3
      then show ?thesis using t by (simp add: polled_def prefetch_call_def)
    qed
  next
    case False
    then have "t' = [] \<and> \<not> (\<exists>r. out = Returned r \<and> rr_ok r)"
      using * by (auto simp: exec_simps restore_failed_def split: sum.splits response.splits)
    then show ?thesis using t by (simp add: polled_def prefetch_call_def)
  qed
qed

lemma await_ready_run: "exec R (await_ready fuel pr start k presp) a t out a' \<Longrightarrow> step_polled R pr k presp a t out a'"
proof (induction fuel arbitrary: presp t)
  case (Suc fuel)
  show ?case
  proof (cases "pfs_ready presp")
    case False
    then consider "t = []" "\<not> (\<exists>r. out = Returned r \<and> rr_ok r)"
      | "exec R (request_prefetch pr (await_ready fuel pr start k)) a t out a'"
      using Suc.prems by (auto simp: exec_simps restore_failed_def split: if_splits)
    then show ?thesis
    proof cases
      case 2
      from request_prefetch_run [OF this Suc.IH] show ?thesis using False by (simp add: step_polled_def)
    qed (simp add: step_polled_def)
  qed (use Suc.prems in \<open>simp add: step_polled_def\<close>)
qed (simp add: exec_simps step_polled_def)

section \<open>The copy\<close>

lemma mark_h2d_submitted_run:
  assumes "stable R" and "exec R (mark_h2d_submitted l tid v sl sq) a t out a'"
  shows "out = Returned () \<and> (\<exists>now r. t = [ORpc (RqMarkH2DSubmitted
    \<lparr>hsq_rank_id = ag_rank_id a, hsq_rank_epoch = ag_rank_epoch a, hsq_lease_id = l, hsq_tensor_id = tid,
     hsq_version = v, hsq_slot_id = sl, hsq_submit_seq = sq, hsq_timestamp_ns = now\<rparr>) r])"
proof -
  from assms(2) obtain a1 now where "R a a1" and e: "exec R (catching
       (rpc (RqMarkH2DSubmitted
          \<lparr>hsq_rank_id = ag_rank_id a1, hsq_rank_epoch = ag_rank_epoch a1, hsq_lease_id = l,
           hsq_tensor_id = tid, hsq_version = v, hsq_slot_id = sl, hsq_submit_seq = sq,
           hsq_timestamp_ns = now\<rparr>)
         (\<lambda>rs. case rs of RsMarkH2DSubmitted resp \<Rightarrow> Some (Done ()) | _ \<Rightarrow> None))
       (\<lambda>e. Done ())) a1 t out a'"
    by (auto simp: mark_h2d_submitted_def fetch_def exec_simps)
  moreover from this(1) have "ag_rank_id a1 = ag_rank_id a" "ag_rank_epoch a1 = ag_rank_epoch a"
    using stableD [OF assms(1)] by (auto simp: same_setup_def)
  ultimately show ?thesis using best_effort_run [OF e] by auto
qed

definition h2d_completion :: "agent \<Rightarrow> InflightH2D \<Rightarrow> u64 \<Rightarrow> MarkH2DCompleteRequest" where
  "h2d_completion a r now = \<lparr>hcq_rank_id = ag_rank_id a, hcq_rank_epoch = ag_rank_epoch a, hcq_lease_id = fh_lease_id r,
     hcq_tensor_id = fh_tensor_id r, hcq_version = fh_version r, hcq_slot_id = fh_slot_id r,
     hcq_keep_pinned = fh_keep_pinned r, hcq_complete_seq = fh_complete_seq r, hcq_timestamp_ns = now\<rparr>"

lemma complete_h2d_run:
  assumes "stable R" and "exec R (complete_h2d r) a t out a'"
  shows "out = Returned () \<and>
    (\<exists>now rp e. t = [ORpc (RqMarkH2DComplete (h2d_completion a r now)) rp, OCuda (cudaEventDestroy (fh_ev r)) e])"
proof -
  from assms(2) obtain a1 now where "R a a1" and e: "exec R (seq (catching
             (rpc (RqMarkH2DComplete (h2d_completion a1 r now))
               (\<lambda>rs. case rs of RsMarkH2DComplete resp \<Rightarrow> Some (Done ()) | _ \<Rightarrow> None))
             (\<lambda>e. Done ()))
         (\<lambda>_. finalize_h2d r)) a1 t out a'"
    by (auto simp: complete_h2d_def fetch_def exec_simps h2d_completion_def)
  have same: "h2d_completion a1 r now = h2d_completion a r now"
    using stableD [OF assms(1) \<open>R a a1\<close>] by (auto simp: same_setup_def h2d_completion_def)
  from e show ?thesis
  proof (cases rule: exec_seq)
    case (returned t1 x a2 t2)
    have "\<exists>rp. t1 = [ORpc (RqMarkH2DComplete (h2d_completion a r now)) rp]"
      using best_effort_run [OF returned(1)] same by auto
    then show ?thesis using finalize_h2d_run [OF returned(2)] returned(3) by fastforce
  qed (auto dest!: best_effort_run)
qed

text \<open>The copies between device and host in a trace.\<close>

fun is_copy :: "cuda_call \<Rightarrow> bool" where
  "is_copy (cudaMemcpyD2H _ _ _ _) = True"
| "is_copy (cudaMemcpyH2D _ _ _ _) = True"
| "is_copy _ = False"

definition copies :: "obs list \<Rightarrow> cuda_call set" where
  "copies t = {c. is_copy c \<and> (\<exists>e. OCuda c e \<in> set t)}"

lemma copies_simps [simp]:
  "copies [] = {}" "copies (t @ u) = copies t \<union> copies u"
  "copies (OCuda c e # t) = (if is_copy c then {c} else {}) \<union> copies t"
  "copies (ORpc q r # t) = copies t" "copies (OEvent er ev # t) = copies t" "copies (ORead w v # t) = copies t"
  "copies (OInvalidate ck # t) = copies t"
  by (auto simp: copies_def)

lemma registration_copies [simp]: "registration t \<Longrightarrow> copies t = {}"
  by (auto simp: registration_def)

lemma launch_copies:
  assumes "exec R (launch copy s k) a t out a'"
  shows "(\<exists>e. out = Thrown e) \<and> copies t \<subseteq> {copy} \<or>
    (\<exists>ev t2. t = [OCuda copy cudaSuccess, OEvent cudaSuccess ev, OCuda (cudaEventRecord ev s) cudaSuccess] @ t2 \<and>
       exec R (k ev) a t2 out a')"
  using assms by (auto simp: launch_def cuda_check_def exec_simps split: if_splits)

text \<open>The trace of a completed synchronous restore after the slot has been confirmed.\<close>

definition restore_trace ::
  "agent \<Rightarrow> u64 \<Rightarrow> u64 \<Rightarrow> u64 \<Rightarrow> u64 \<Rightarrow> u64 \<Rightarrow> RequestPrefetchResponse \<Rightarrow> obs list \<Rightarrow> bool" where
  "restore_trace a tensor_id resolved dev_ptr copy_bytes s presp t \<longleftrightarrow>
     (\<exists>reg src sq now1 r1 ev cq now2 r2 e.
        registration reg \<and> host_ptr (pfs_arena_id presp) (pfs_arena_offset presp) a = Some src \<and>
        t = reg @
          [ORpc (RqMarkH2DSubmitted
             \<lparr>hsq_rank_id = ag_rank_id a, hsq_rank_epoch = ag_rank_epoch a, hsq_lease_id = pfs_lease_id presp,
              hsq_tensor_id = tensor_id, hsq_version = resolved, hsq_slot_id = pfs_slot_id presp,
              hsq_submit_seq = sq, hsq_timestamp_ns = now1\<rparr>) r1,
           OCuda (cudaMemcpyH2D dev_ptr src copy_bytes s) cudaSuccess, OEvent cudaSuccess ev,
           OCuda (cudaEventRecord ev s) cudaSuccess, OCuda (cudaEventSynchronize ev) cudaSuccess,
           ORpc (RqMarkH2DComplete
             \<lparr>hcq_rank_id = ag_rank_id a, hcq_rank_epoch = ag_rank_epoch a, hcq_lease_id = pfs_lease_id presp,
              hcq_tensor_id = tensor_id, hcq_version = resolved, hcq_slot_id = pfs_slot_id presp,
              hcq_keep_pinned = False, hcq_complete_seq = cq, hcq_timestamp_ns = now2\<rparr>) r2,
           OCuda (cudaEventDestroy ev) e])"

definition finish_trace :: "agent \<Rightarrow> u64 \<Rightarrow> u64 \<Rightarrow> RequestPrefetchResponse \<Rightarrow> u64 \<Rightarrow> obs list \<Rightarrow> bool" where
  "finish_trace a tensor_id resolved presp ev t \<longleftrightarrow>
     (\<exists>cq now r e. t =
        [OCuda (cudaEventSynchronize ev) cudaSuccess,
         ORpc (RqMarkH2DComplete
             \<lparr>hcq_rank_id = ag_rank_id a, hcq_rank_epoch = ag_rank_epoch a, hcq_lease_id = pfs_lease_id presp,
              hcq_tensor_id = tensor_id, hcq_version = resolved, hcq_slot_id = pfs_slot_id presp,
              hcq_keep_pinned = False, hcq_complete_seq = cq, hcq_timestamp_ns = now\<rparr>) r,
         OCuda (cudaEventDestroy ev) e])"

text \<open>How such an operation ends: by an exception, in the background, or complete.\<close>

definition ends_with :: "bool \<Rightarrow> RestoreResult outcome \<Rightarrow> bool \<Rightarrow> bool" where
  "ends_with wait out whole \<longleftrightarrow>
     (\<exists>e. out = Thrown e) \<or> (\<exists>r. out = Returned r \<and> rr_ok r) \<and> (wait \<longrightarrow> whole)"

lemma restore_finish_run:
  assumes st: "stable R" and run: "exec R (restore_finish tid resolved cb wait presp ns ev) a t out a'"
  shows "copies t = {} \<and> ends_with wait out (finish_trace a tid resolved presp ev t)"
proof -
  let ?r = "\<lambda>cq. \<lparr>fh_lease_id = pfs_lease_id presp, fh_tensor_id = tid, fh_version = resolved,
                 fh_slot_id = pfs_slot_id presp, fh_nbytes = cb, fh_ev = ev, fh_keep_pinned = False,
                 fh_submit_ns = ns, fh_complete_seq = cq\<rparr>"
  let ?ok = "\<lparr>rr_ok = True, rr_message = ''''\<rparr>"
  obtain a1 cq a2 where "same_setup a a1" "same_setup a1 a2" and fin:
    "exec R (if wait then
            cuda_check (cudaEventSynchronize ev)
              (modify (\<lambda>a. a\<lparr>ag_metrics := metric_sub kInflightH2DBytes cb (ag_metrics a)\<rparr>)
                (seq (complete_h2d (?r cq)) (\<lambda>_. Done ?ok)))
          else modify (\<lambda>a. a\<lparr>ag_inflight_h2d := ag_inflight_h2d a @ [?r cq]\<rparr>) (Done ?ok)) a2 t out a'"
    using run unfolding restore_finish_def Let_def
    by (elim exec_modify [OF _ st] exec_next_complete_seq [OF _ st]) auto
  then have a2: "same_setup a a2" using same_setup_trans by blast
  show ?thesis
  proof (cases wait)
    case True
    with fin have "exec R (cuda_check (cudaEventSynchronize ev)
              (modify (\<lambda>a. a\<lparr>ag_metrics := metric_sub kInflightH2DBytes cb (ag_metrics a)\<rparr>)
                (seq (complete_h2d (?r cq)) (\<lambda>_. Done ?ok)))) a2 t out a'" by simp
    then show ?thesis
    proof (cases rule: exec_cuda_check)
      case (ok t')
      from ok(2) obtain a3 where a3: "same_setup a a3" and s: "exec R (seq (complete_h2d (?r cq)) (\<lambda>_. Done ?ok)) a3 t' out a'"
        using a2 by (elim exec_modify [OF _ st]) (auto intro: same_setup_trans)
      from s have c: "exec R (complete_h2d (?r cq)) a3 t' (Returned ()) a'" and o: "out = Returned ?ok"
        by (auto simp: exec_simps dest: complete_h2d_run [OF st] elim!: exec_seq)
      from complete_h2d_run [OF st c] obtain now r e where
        "t' = [ORpc (RqMarkH2DComplete (h2d_completion a3 (?r cq) now)) r, OCuda (cudaEventDestroy ev) e]" by auto
      moreover have "h2d_completion a3 (?r cq) now = h2d_completion a (?r cq) now"
        using a3 by (simp add: h2d_completion_def same_setup_def)
      ultimately show ?thesis using ok(1) o by (auto simp: ends_with_def finish_trace_def h2d_completion_def)
    qed (auto simp: ends_with_def)
  next
    case False
    then show ?thesis using fin by (auto simp: ends_with_def modify_def exec_simps)
  qed
qed

lemma restore_submit_run:
  assumes st: "stable R" and run: "exec R (restore_submit tid resolved dev_ptr cb s wait presp src) a t out a'"
    and src: "host_ptr (pfs_arena_id presp) (pfs_arena_offset presp) a = Some src" and reg: "registration reg"
  shows "copies t \<subseteq> {cudaMemcpyH2D dev_ptr src cb s} \<and>
    ends_with wait out (restore_trace a tid resolved dev_ptr cb s presp (reg @ t))"
proof -
  from run obtain a1 sq where a1: "same_setup a a1" and
    "exec R (seq (mark_h2d_submitted (pfs_lease_id presp) tid resolved (pfs_slot_id presp) sq) (\<lambda>_.
     Clock (\<lambda>ns. launch (cudaMemcpyH2D dev_ptr src cb s) s (restore_finish tid resolved cb wait presp ns)))) a1 t out a'"
    unfolding restore_submit_def by (elim exec_next_submit_seq [OF _ st])
  from this(2) show ?thesis
  proof (cases rule: exec_seq)
    case (returned t1 x a2 t2)
    have a2: "same_setup a a2" using a1 exec_tame [OF returned(1) st] same_setup_trans by simp
    obtain now1 r1 where t1: "t1 = [ORpc (RqMarkH2DSubmitted
             \<lparr>hsq_rank_id = ag_rank_id a, hsq_rank_epoch = ag_rank_epoch a, hsq_lease_id = pfs_lease_id presp,
              hsq_tensor_id = tid, hsq_version = resolved, hsq_slot_id = pfs_slot_id presp,
              hsq_submit_seq = sq, hsq_timestamp_ns = now1\<rparr>) r1]"
      using mark_h2d_submitted_run [OF st returned(1)] a1 by (auto simp: same_setup_def)
    obtain ns where "exec R (launch (cudaMemcpyH2D dev_ptr src cb s) s (restore_finish tid resolved cb wait presp ns)) a2 t2 out a'"
      using returned(2) by (auto simp: exec_simps)
    from launch_copies [OF this] consider (thrown) e where "out = Thrown e" "copies t2 \<subseteq> {cudaMemcpyH2D dev_ptr src cb s}"
      | (launched) ev t3 where "t2 = [OCuda (cudaMemcpyH2D dev_ptr src cb s) cudaSuccess, OEvent cudaSuccess ev,
          OCuda (cudaEventRecord ev s) cudaSuccess] @ t3" "exec R (restore_finish tid resolved cb wait presp ns ev) a2 t3 out a'"
      by blast
    then show ?thesis
    proof cases
      case thrown
      then show ?thesis by (simp add: returned(3) t1 ends_with_def)
    next
      case (launched ev t3)
      have ids: "ag_rank_id a2 = ag_rank_id a" "ag_rank_epoch a2 = ag_rank_epoch a" using a2 by (auto simp: same_setup_def)
      have fin: "copies t3 = {}" "ends_with wait out (finish_trace a tid resolved presp ev t3)"
        using restore_finish_run [OF st launched(2)] by (auto simp: finish_trace_def ids)
      have "restore_trace a tid resolved dev_ptr cb s presp (reg @ t)" if "finish_trace a tid resolved presp ev t3"
      proof -
        from that obtain cq now r e where t3: "t3 =
          [OCuda (cudaEventSynchronize ev) cudaSuccess,
           ORpc (RqMarkH2DComplete
             \<lparr>hcq_rank_id = ag_rank_id a, hcq_rank_epoch = ag_rank_epoch a, hcq_lease_id = pfs_lease_id presp,
              hcq_tensor_id = tid, hcq_version = resolved, hcq_slot_id = pfs_slot_id presp,
              hcq_keep_pinned = False, hcq_complete_seq = cq, hcq_timestamp_ns = now\<rparr>) r,
           OCuda (cudaEventDestroy ev) e]" unfolding finish_trace_def by blast
        show ?thesis unfolding restore_trace_def
          by (rule exI [of _ reg], rule exI [of _ src], rule exI [of _ sq], rule exI [of _ now1], rule exI [of _ r1],
              rule exI [of _ ev], rule exI [of _ cq], rule exI [of _ now], rule exI [of _ r], rule exI [of _ e])
            (simp add: reg src returned(3) t1 launched(1) t3)
      qed
      then show ?thesis using fin by (auto simp: returned(3) t1 launched(1) ends_with_def)
    qed
  qed (auto dest: mark_h2d_submitted_run [OF st])
qed

lemma restore_copy_run:
  assumes st: "stable R" and run: "exec R (restore_copy tid ver dev_ptr n s wait presp) a t out a'"
  defines "cb \<equiv> if pfs_nbytes presp \<noteq> 0 then pfs_nbytes presp else n"
    and "resolved \<equiv> if pfs_version presp \<noteq> 0 then pfs_version presp else ver"
  shows "(\<forall>c \<in> copies t. \<exists>src. host_ptr (pfs_arena_id presp) (pfs_arena_offset presp) a = Some src \<and>
      c = cudaMemcpyH2D dev_ptr src cb s) \<and>
    ends_with wait out (restore_trace a tid resolved dev_ptr cb s presp t)"
proof -
  from run obtain a1 where a1: "same_setup a a1" and
    "exec R (seq (slot_host_ptr (pfs_arena_id presp) (pfs_arena_offset presp)) (\<lambda>src.
      seq (ensure_registered src cb) (\<lambda>_. restore_submit tid resolved dev_ptr cb s wait presp src))) a1 t out a'"
    unfolding restore_copy_def Let_def cb_def resolved_def by (elim exec_modify [OF _ st]) auto
  from this(2) show ?thesis
  proof (cases rule: exec_seq)
    case (returned t1 src a2 t2)
    have a2: "same_setup a a2" using a1 exec_tame [OF returned(1) st] same_setup_trans by simp
    have h: "t1 = []" "host_ptr (pfs_arena_id presp) (pfs_arena_offset presp) a = Some src"
      using host_ptr_run [OF st returned(1)] host_ptr_setup [OF a1] by auto
    from returned(2) show ?thesis
    proof (cases rule: exec_seq)
      case inner: (returned t3 x a3 t4)
      have a3: "same_setup a a3" using a2 exec_tame [OF inner(1) st] same_setup_trans by simp
      have reg: "registration t3" using registered_run [OF inner(1)] by simp
      have "host_ptr (pfs_arena_id presp) (pfs_arena_offset presp) a3 = Some src" using h(2) host_ptr_setup [OF a3] by simp
      from restore_submit_run [OF st inner(2) this reg] have
        "copies t4 \<subseteq> {cudaMemcpyH2D dev_ptr src cb s}"
        "ends_with wait out (restore_trace a3 tid resolved dev_ptr cb s presp t)"
        by (auto simp: h returned(3) inner(3))
      moreover have "restore_trace a3 tid resolved dev_ptr cb s presp t = restore_trace a tid resolved dev_ptr cb s presp t"
        using a3 by (simp add: restore_trace_def host_ptr_setup same_setup_def host_ptr_def)
      ultimately show ?thesis using h reg by (auto simp: returned(3) inner(3))
    qed (auto simp: h returned(3) ends_with_def dest!: registered_run)
  qed (auto simp: ends_with_def dest!: slot_host_ptr_runs split: option.splits)
qed

lemma confirm_slot_run:
  assumes "stable R" and "exec R (confirm_slot presp p) a t out a'"
  shows "copies t = {} \<and> (\<exists>r. out = Returned r \<and> \<not> rr_ok r) \<and> pfs_slot_id presp < ag_num_slots a \<and>
      (\<exists>v. v \<noteq> ucast (slot_state_code OFLD_SLOT_PINNED_VALID) \<and> t = [ORead (SlotState (pfs_slot_id presp)) v]) \<or>
    (\<exists>a1 t2. same_setup a a1 \<and> exec R p a1 t2 out a' \<and>
       t = (if pfs_slot_id presp < ag_num_slots a
            then [ORead (SlotState (pfs_slot_id presp)) (ucast (slot_state_code OFLD_SLOT_PINNED_VALID))] else []) @ t2)"
proof -
  from assms(2) obtain a1 where a1: "same_setup a a1" and e: "exec R (if pfs_slot_id presp < ag_num_slots a1 then
         Read (SlotState (pfs_slot_id presp)) (\<lambda>st.
           if st \<noteq> ucast (slot_state_code OFLD_SLOT_PINNED_VALID)
           then Done (restore_failed ''restore: slot not PINNED_VALID at H2D time'') else p)
       else p) a1 t out a'"
    using stableD [OF assms(1)] by (auto simp: confirm_slot_def fetch_def exec_simps)
  have "ag_num_slots a1 = ag_num_slots a" using a1 by (simp add: same_setup_def)
  then show ?thesis using e a1 by (auto simp: exec_simps restore_failed_def split: if_splits)
qed

section \<open>Restore\<close>

definition prefetch_request :: "agent \<Rightarrow> u64 \<Rightarrow> u64 \<Rightarrow> u64 \<Rightarrow> RequestPrefetchRequest" where
  "prefetch_request a tensor_id version nbytes =
     \<lparr>pfq_rank_id = ag_rank_id a, pfq_rank_epoch = ag_rank_epoch a, pfq_tensor_id = tensor_id, pfq_version = version,
      pfq_nbytes = nbytes, pfq_gpu_id = of_int (ag_device a), pfq_numa_node = of_int (ag_numa a), pfq_priority = 0,
      pfq_flags = 0\<rparr>"

lemma wait_ring_run:
  "stable R \<Longrightarrow> exec R (wait_ring_consumed fuel sq) a t out a' \<Longrightarrow>
   copies t = {} \<and> (out = Returned () \<or> out = OutOfFuel) \<and> (\<not> ag_comp_ring a \<longrightarrow> t = [])"
proof (induction fuel arbitrary: a t)
  case (Suc fuel)
  from Suc.prems(2) obtain a1 where a1: "same_setup a a1" and e: "exec R (if \<not> ag_comp_ring a1 then Done ()
       else Read RingHead (\<lambda>head. if head \<le> sq then Sleep 20000 (wait_ring_consumed fuel sq) else Done ())) a1 t out a'"
    using stableD [OF Suc.prems(1)] by (auto simp: fetch_def exec_simps)
  show ?case
  proof (cases "ag_comp_ring a1")
    case True
    then obtain v t' where t: "t = ORead RingHead v # t'" and
      "if v \<le> sq then exec R (wait_ring_consumed fuel sq) a1 t' out a' else out = Returned () \<and> t' = []"
      using e by (auto simp: exec_simps split: if_splits)
    then have "copies t' = {} \<and> (out = Returned () \<or> out = OutOfFuel)" using Suc.IH Suc.prems(1) by (auto split: if_splits)
    then show ?thesis using t True a1 by (auto simp: same_setup_def)
  qed (use e a1 in \<open>auto simp: exec_simps same_setup_def\<close>)
qed (simp add: exec_simps)

lemma await_ring_run:
  assumes "stable R" and "exec R (await_ring fuel tid ver) a t out a'"
  shows "copies t = {} \<and> (out = Returned () \<or> out = OutOfFuel) \<and> (\<not> ag_comp_ring a \<longrightarrow> t = [])"
proof -
  from assms(2) obtain a1 where a1: "same_setup a a1" and e: "exec R (if \<not> ag_comp_ring a1 then Done ()
       else case t_find (ag_ring_push_seq a1) (tv_key tid ver) of
         None \<Rightarrow> Done () | Some s \<Rightarrow> wait_ring_consumed fuel s) a1 t out a'"
    using stableD [OF assms(1)] by (auto simp: await_ring_def fetch_def exec_simps)
  then show ?thesis using wait_ring_run [OF assms(1)]
    by (cases "t_find (ag_ring_push_seq a1) (tv_key tid ver)") (auto simp: exec_simps same_setup_def split: if_splits)
qed

lemma tame_wait_ring [simp]: "tame (wait_ring_consumed fuel sq)"
  by (induction fuel) auto

lemma tame_await_ring [simp]: "tame (await_ring fuel tid ver)"
  by (simp add: await_ring_def split: option.split)

lemma restore_run:
  assumes st: "stable R" and run: "exec R (restore fuel tid ver dev_ptr n stream wait) a t out a'"
  shows "(\<exists>heads t1 a1. t = heads @ t1 \<and> copies heads = {} \<and> (\<not> ag_comp_ring a \<longrightarrow> heads = []) \<and> same_setup a a1 \<and>
     polled R (prefetch_request a tid ver n)
       (\<lambda>presp. confirm_slot presp (restore_copy tid ver dev_ptr n (stream_of stream a) wait presp)) a1 t1 out a') \<or>
     copies t = {} \<and> out = OutOfFuel"
proof -
  let ?k = "\<lambda>a presp. confirm_slot presp (restore_copy tid ver dev_ptr n (stream_of stream a) wait presp)"
  let ?p = "fetch (\<lambda>a. let pr = prefetch_request a tid ver n in
       request_prefetch pr (\<lambda>presp. Clock (\<lambda>start. await_ready fuel pr start (?k a) presp)))"
  from run have "exec R (seq (await_ring fuel tid ver) (\<lambda>_. ?p)) a t out a'" by (simp add: restore_def prefetch_request_def)
  then show ?thesis
  proof (cases rule: exec_seq)
    case (returned heads x a0 t1)
    have a0: "same_setup a a0" using exec_tame [OF returned(1) st] by simp
    obtain a1 where "same_setup a0 a1" and e: "exec R (request_prefetch (prefetch_request a1 tid ver n)
        (\<lambda>presp. Clock (\<lambda>start. await_ready fuel (prefetch_request a1 tid ver n) start (?k a1) presp))) a1 t1 out a'"
      using returned(2) stableD [OF st] by (auto simp: fetch_def exec_simps Let_def)
    then have a1: "same_setup a a1" using a0 same_setup_trans by blast
    have "prefetch_request a1 tid ver n = prefetch_request a tid ver n" "stream_of stream a1 = stream_of stream a"
      using a1 by (simp_all add: prefetch_request_def stream_of_def same_setup_def)
    note e = e [unfolded this]
    have "polled R (prefetch_request a tid ver n) (?k a) a1 t1 out a'"
      by (rule request_prefetch_run [OF e]) (auto simp: exec_simps intro: await_ready_run)
    then show ?thesis using returned(3) await_ring_run [OF st returned(1)] a1 by blast
  qed (auto dest: await_ring_run [OF st])
qed

end
