(* ===== verification/Action_Play.thy ===== *)
theory Action_Play
  imports Actions
begin

text \<open>
  An interpreter for actions: the answers of the surroundings are given as a list, and the run it
  computes is one of the runs of \<open>exec\<close>. It is used to evaluate operations on concrete inputs.
\<close>

datatype answer =
    ARpc "string + response"
  | ARegister "string + RegisterRankResponse \<times> nat list"
  | ACuda cuda_err
  | AEvent cuda_err u64
  | AClock u64
  | ARead u64
  | APush bool
  | AHost bytes
  | AMmap "string + u64"

definition note_obs :: "obs \<Rightarrow> (obs list \<times> 'a outcome \<times> 's) option \<Rightarrow> (obs list \<times> 'a outcome \<times> 's) option" where
  "note_obs ob r = map_option (\<lambda>(t, rest). (ob # t, rest)) r"

lemma note_obs_simps [simp]: "note_obs ob None = None" "note_obs ob (Some (t, out, s)) = Some (ob # t, out, s)"
  by (simp_all add: note_obs_def)

primrec play :: "('s, 'a) act \<Rightarrow> answer list \<Rightarrow> 's \<Rightarrow> (obs list \<times> 'a outcome \<times> 's) option" where
  "play (Done x) ans s = Some ([], Returned x, s)"
| "play (Throw e) ans s = Some ([], Thrown e, s)"
| "play Stuck ans s = Some ([], OutOfFuel, s)"
| "play (Rpc q k) ans s = (case ans of ARpc r # ans' \<Rightarrow> note_obs (ORpc q r) (play (k r) ans' s) | _ \<Rightarrow> None)"
| "play (Register q k) ans s = (case ans of ARegister r # ans' \<Rightarrow> note_obs (ORegister q r) (play (k r) ans' s) | _ \<Rightarrow> None)"
| "play (Cuda c k) ans s = (case ans of ACuda e # ans' \<Rightarrow> note_obs (OCuda c e) (play (k e) ans' s) | _ \<Rightarrow> None)"
| "play (NewEvent k) ans s = (case ans of AEvent e ev # ans' \<Rightarrow> note_obs (OEvent e ev) (play (k e ev) ans' s) | _ \<Rightarrow> None)"
| "play (Clock k) ans s = (case ans of AClock now # ans' \<Rightarrow> play (k now) ans' s | _ \<Rightarrow> None)"
| "play (Sleep n p) ans s = play p ans s"
| "play (Read w k) ans s = (case ans of ARead v # ans' \<Rightarrow> note_obs (ORead w v) (play (k v) ans' s) | _ \<Rightarrow> None)"
| "play (Push e k) ans s = (case ans of APush b # ans' \<Rightarrow> note_obs (OPush e b) (play (k b) ans' s) | _ \<Rightarrow> None)"
| "play (ReadHost ptr n k) ans s = (case ans of AHost bs # ans' \<Rightarrow> play (k bs) ans' s | _ \<Rightarrow> None)"
| "play (Mmap i n k) ans s = (case ans of AMmap r # ans' \<Rightarrow> note_obs (OMmap i n r) (play (k r) ans' s) | _ \<Rightarrow> None)"
| "play (Sys c p) ans s = note_obs (OSys c) (play p ans s)"
| "play (Invalidate c p) ans s = note_obs (OInvalidate c) (play p ans s)"
| "play (Await P p) ans s = (if P s then play p ans s else None)"
| "play (Local g) ans s = (case map_prod (\<lambda>p. play p) id (g s) of (k, s') \<Rightarrow> k ans s')"

declare play.simps(17) [simp del]

lemma play_Local [simp]: "play (Local g) ans s = (case g s of (p, s') \<Rightarrow> play p ans s')"
  by (simp add: play.simps(17) split_beta)



lemma note_obs_Some: "note_obs ob r = Some (t, out, s) \<longleftrightarrow> (\<exists>u. t = ob # u \<and> r = Some (u, out, s))"
  by (auto simp: note_obs_def)

lemma play_exec: "play p ans s = Some (t, out, s') \<Longrightarrow> exec (=) p s t out s'"
proof (induction p arbitrary: ans s t)
  case (Local g)
  obtain p s1 where g: "g s = (p, s1)" by fastforce
  then have "p \<in> Basic_BNFs.fsts (g s)" by (simp add: prod_set_simps)
  then have "exec (=) p s1 t out s'" using Local.IH [OF rangeI [of g s], of p ans s1 t] Local.prems g by simp
  then show ?case using exec_Local [of "(=)" s s g p s1] g by simp
next
  case (NewEvent k)
  then obtain e ev ans' u where a: "ans = AEvent e ev # ans'" "t = OEvent e ev # u" "play (k e ev) ans' s = Some (u, out, s')"
    by (auto simp: note_obs_Some split: list.splits answer.splits)
  have "exec (=) (k e ev) s u out s'" using NewEvent.IH [of "k e" "k e ev"] a(3) by blast
  then show ?case using a by (simp add: exec_NewEvent)
next
  case (Clock k)
  then obtain now ans' where a: "play (k now) ans' s = Some (t, out, s')"
    by (auto split: list.splits answer.splits)
  have "exec (=) (k now) s t out s'" using Clock.IH [of "k now"] a by blast
  then show ?case by (rule exec_Clock)
next
  case (ReadHost ptr n k)
  then obtain bs ans' where a: "play (k bs) ans' s = Some (t, out, s')"
    by (auto split: list.splits answer.splits)
  have "exec (=) (k bs) s t out s'" using ReadHost.IH [of "k bs"] a by blast
  then show ?case by (rule exec_ReadHost)
qed (auto simp: note_obs_Some exec_simps split: list.splits answer.splits if_splits)

end
