(* ===== verification/Agent_Samples.thy ===== *)
theory Agent_Samples
  imports Agent Action_Play
begin

text \<open>A connected agent with one mapped arena, and concrete answers of the daemon and of CUDA.\<close>

definition sample_arena_map :: ArenaMap where
  "sample_arena_map = \<lparr>am_arena_id = 0, am_base = 0x7f0000000000, am_size = 0x10000, am_kind = 0\<rparr>"

definition sample_agent :: agent where
  "sample_agent =
     \<lparr>ag_device = 0, ag_numa = 0, ag_rank_id = 3, ag_rank_epoch = 1, ag_arenas = [sample_arena_map],
      ag_arena_index = [(0, 0)], ag_control = None, ag_num_slots = 16, ag_comp_ring = False, ag_ring_index = none32,
      ag_internal_stream = 5, ag_registered_chunks = [], ag_registered_pinned_bytes = 0, ag_inflight_d2h = [],
      ag_inflight_h2d = [], ag_offloaded = [], ag_lease_of = [], ag_ring_push_seq = [], ag_inflight_d2h_bytes = 0,
      ag_inflight_h2d_bytes = 0, ag_evict_count = 0, ag_restore_count = 0, ag_d2h_completed = 0,
      ag_h2d_completed = 0, ag_submit_seq_ctr = 0, ag_complete_seq_ctr = 0, ag_stop = False,
      ag_metrics = (\<lambda>m. 0), ag_bw_samples = []\<rparr>"

text \<open>A run that \<open>play\<close> computes, with what it ends in.\<close>

lemma play_ends:
  assumes "map_option (\<lambda>(t, out, s'). (t, out)) (play p ans s) = Some (t, out)"
  obtains s' where "exec (=) p s t out s'"
  using assms play_exec by fastforce

end
