(* ===== verification/Agent_Protocol.thy ===== *)
theory Agent_Protocol
  imports Restore_Runs Agent_Samples "HOL-Library.Sublist"
begin

text \<open>
  What the agent's operations do towards the daemon and the device, in every run: the order of the
  calls, which copies are started, when a tensor is given up, and which completions are reported.
  \<open>R\<close> is what the agent's other threads may do meanwhile.
\<close>

section \<open>Restore holds\<close>

text \<open>The grants and releases of a restore hold on an object in a trace.\<close>

fun grants_hold :: "u64 \<Rightarrow> obs \<Rightarrow> bool" where
  "grants_hold oid (ORpc (RqRequestCanonicalRestore rq) (Inr (RsRequestCanonicalRestore resp))) \<longleftrightarrow>
     crq_object_id rq = oid \<and> crs_ok resp"
| "grants_hold oid _ \<longleftrightarrow> False"

fun releases_hold :: "u64 \<Rightarrow> obs \<Rightarrow> bool" where
  "releases_hold oid (ORpc (RqReleaseCanonicalRestore rq) _) \<longleftrightarrow> xrq_object_id rq = oid"
| "releases_hold oid _ \<longleftrightarrow> False"

definition hold_events :: "u64 \<Rightarrow> obs list \<Rightarrow> obs list" where
  "hold_events oid t = filter (\<lambda>ob. grants_hold oid ob \<or> releases_hold oid ob) t"

lemma hold_events_simps [simp]:
  "hold_events oid [] = []" "hold_events oid (t1 @ t2) = hold_events oid t1 @ hold_events oid t2"
  "hold_events oid (OCuda c e # t) = hold_events oid t"
  "hold_events oid (ob # t) = (if grants_hold oid ob \<or> releases_hold oid ob then [ob] else []) @ hold_events oid t"
  by (simp_all add: hold_events_def)

lemma canonical_copy_runs:
  assumes "exec R (canonical_copy dp n s wait resp) a t out a'"
  shows "hold_events oid t = [] \<and> (\<exists>r. out = Returned r \<and>
     (rr_ok r \<longrightarrow> (\<exists>src. OCuda (cudaMemcpyH2D dp src n s) cudaSuccess \<in> set t)))"
  using assms unfolding canonical_copy_def
  by (auto elim!: exec_catching exec_seq dest!: slot_host_ptr_runs ensure_registered_runs
      simp: run_defs exec_simps restore_failed_def Let_def split: if_splits option.splits)

lemma await_resident_runs:
  assumes "exec R (await_resident fuel rq start k) a t out a'"
  shows "out = OutOfFuel \<and> hold_events oid t = [] \<or> (\<exists>msg. out = Returned (restore_failed msg) \<and> hold_events oid t = []) \<or>
    (\<exists>t1 resp t2. t = t1 @ ORpc (RqRequestCanonicalRestore rq) (Inr (RsRequestCanonicalRestore resp)) # t2 \<and>
       hold_events oid t1 = [] \<and> exec R (k resp) a t2 out a')"
  using assms
proof (induction fuel arbitrary: t)
  case (Suc fuel)
  then obtain r t' where t: "t = ORpc (RqRequestCanonicalRestore rq) r # t'" by (auto simp: exec_simps)
  show ?case
  proof (cases "\<exists>resp. r = Inr (RsRequestCanonicalRestore resp)")
    case True
    then obtain resp where r: "r = Inr (RsRequestCanonicalRestore resp)" by blast
    show ?thesis
    proof (cases "crs_ok resp \<or> \<not> crs_retriable resp")
      case True
      then have "exec R (k resp) a t' out a'" using Suc.prems t r by (auto simp: exec_simps)
      then show ?thesis using t r by (metis append_Nil hold_events_simps(1))
    next
      case False
      then have "(\<exists>msg. out = Returned (restore_failed msg) \<and> t' = []) \<or> exec R (await_resident fuel rq start k) a t' out a'"
        using Suc.prems t r by (auto simp: exec_simps split: if_splits)
      then show ?thesis
      proof
        assume "exec R (await_resident fuel rq start k) a t' out a'"
        moreover have "hold_events oid (ORpc (RqRequestCanonicalRestore rq) r # u) = hold_events oid u" for u
          using False r by simp
        ultimately show ?thesis using Suc.IH [of t'] unfolding t by (metis append_Cons)
      qed (use t r False in auto)
    qed
  next
    case False
    then have "\<not> grants_hold oid (ORpc (RqRequestCanonicalRestore rq) r)"
      by (cases "(oid, ORpc (RqRequestCanonicalRestore rq) r)" rule: grants_hold.cases) auto
    then show ?thesis using False Suc.prems t
      by (cases r) (auto simp: exec_simps split: response.splits)
  qed
qed (simp add: exec_simps)

lemma released:
  assumes "exec R (if \<not> crs_ok resp then Done (restore_failed (crs_message resp))
            else if n > crs_nbytes resp
            then give_back_hold oid (restore_failed msg)
            else seq (canonical_copy dp n s0 wait resp) (give_back_hold oid)) a t out a'"
  shows "\<not> crs_ok resp \<and> out = Returned (restore_failed (crs_message resp)) \<and> t = [] \<or>
    (\<exists>r rel t3. crs_ok resp \<and> out = Returned r \<and> t = t3 @ [rel] \<and> releases_hold oid rel \<and> hold_events oid t3 = [] \<and>
       (rr_ok r \<longrightarrow> (\<exists>src s. OCuda (cudaMemcpyH2D dp src n s) cudaSuccess \<in> set t3)))"
proof (cases "crs_ok resp \<and> n \<le> crs_nbytes resp")
  case True
  then have "exec R (seq (canonical_copy dp n s0 wait resp) (give_back_hold oid)) a t out a'"
    using assms by (simp add: not_less split: if_splits)
  then show ?thesis
  proof (cases rule: exec_seq)
    case (returned t1 r a1 t2)
    then obtain rel where "t2 = [rel]" "releases_hold oid rel" "out = Returned r"
      by (auto simp: give_back_hold_def run_defs exec_simps)
    then show ?thesis using True returned canonical_copy_runs [OF returned(1), of oid] by fastforce
  qed (auto dest: canonical_copy_runs [where oid = oid])
next
  case False
  then show ?thesis using assms
    by (auto simp: exec_simps give_back_hold_def run_defs restore_failed_def not_le split: if_splits)
qed

text \<open>
  C27. The holds a canonical restore takes on an object are given back: in every run the daemon's grants
  and the agent's releases of the hold on this object are none, or one grant followed by one release;
  the operation never ends with an exception; when it reports success the copy to the device has been
  started between the two; and as long as it only polls, no hold is taken.
\<close>

theorem canonical_restore_balanced:
  assumes "exec R (canonical_restore fuel oid dp n stream wait) a t out a'"
  shows "out = OutOfFuel \<and> hold_events oid t = [] \<or>
    (\<exists>r. out = Returned r \<and>
       (hold_events oid t = [] \<and> \<not> rr_ok r \<or>
        (\<exists>g rel. grants_hold oid g \<and> releases_hold oid rel \<and> hold_events oid t = [g, rel] \<and>
           (rr_ok r \<longrightarrow> (\<exists>src s. subseq [g, OCuda (cudaMemcpyH2D dp src n s) cudaSuccess, rel] t)))))"
proof -
  let ?k = "\<lambda>a1 resp. if \<not> crs_ok resp then Done (restore_failed (crs_message resp))
            else if n > crs_nbytes resp
            then give_back_hold oid (restore_failed ''canonical_restore: dst larger than object'')
            else seq (canonical_copy dp n (stream_of stream a1) wait resp) (give_back_hold oid)"
  from assms obtain a1 rq start where "exec R (await_resident fuel rq start (?k a1)) a1 t out a'"
    and rq: "crq_object_id rq = oid"
    by (auto simp: canonical_restore_def run_defs exec_simps)
  from await_resident_runs [OF this(1), of oid] consider
      "out = OutOfFuel" "hold_events oid t = []"
    | msg where "out = Returned (restore_failed msg)" "hold_events oid t = []"
    | t1 resp t2 where "t = t1 @ ORpc (RqRequestCanonicalRestore rq) (Inr (RsRequestCanonicalRestore resp)) # t2"
        "hold_events oid t1 = []" "exec R (?k a1 resp) a1 t2 out a'"
    by blast
  then show ?thesis
  proof cases
    case (3 t1 resp t2)
    let ?g = "ORpc (RqRequestCanonicalRestore rq) (Inr (RsRequestCanonicalRestore resp))"
    consider "\<not> crs_ok resp" "out = Returned (restore_failed (crs_message resp))" "t2 = []"
      | r rel t3 where "crs_ok resp" "out = Returned r" "t2 = t3 @ [rel]" "releases_hold oid rel" "hold_events oid t3 = []"
          "rr_ok r \<Longrightarrow> \<exists>src s. OCuda (cudaMemcpyH2D dp src n s) cudaSuccess \<in> set t3"
      using released [OF 3(3)] by blast
    then show ?thesis
    proof cases
      case 1
      then show ?thesis using 3 by (simp add: restore_failed_def)
    next
      case (2 r rel t3)
      have g: "grants_hold oid ?g" using 2 rq by simp
      then have h: "hold_events oid t = [?g, rel]" using 2 3 by simp
      have "\<exists>src s. subseq [?g, OCuda (cudaMemcpyH2D dp src n s) cudaSuccess, rel] t" if ok: "rr_ok r"
      proof -
        obtain src s where "OCuda (cudaMemcpyH2D dp src n s) cudaSuccess \<in> set t3" using 2(6) [OF ok] by blast
        then have "subseq ([?g] @ [OCuda (cudaMemcpyH2D dp src n s) cudaSuccess] @ [rel]) ((t1 @ [?g]) @ t3 @ [rel])"
          by (intro list_emb_append_mono) (auto simp: subseq_singleton_left intro: list_emb_append2)
        then show ?thesis using 2 3 by auto
      qed
      then show ?thesis using g h 2 by blast
    qed
  qed (auto simp: restore_failed_def)
qed

definition sample_grant :: RequestCanonicalRestoreResponse where
  "sample_grant = RequestCanonicalRestoreResponse_init\<lparr>crs_ok := True, crs_nbytes := 4096\<rparr>"

definition sample_restore_trace :: "obs list" where
  "sample_restore_trace =
     [ORpc (RqRequestCanonicalRestore \<lparr>crq_rank_id = 3, crq_rank_epoch = 1, crq_object_id = 7, crq_gpu_id = 0, crq_numa_node = 0\<rparr>)
        (Inr (RsRequestCanonicalRestore sample_grant)),
      OCuda (cudaHostRegister 0x7f0000000000 0x10000) cudaSuccess,
      OCuda (cudaMemcpyH2D 64 0x7f0000000000 4096 5) cudaSuccess, OCuda (cudaStreamSynchronize 5) cudaSuccess,
      ORpc (RqReleaseCanonicalRestore \<lparr>xrq_rank_id = 3, xrq_rank_epoch = 1, xrq_object_id = 7\<rparr>) (Inl ''closed'')]"

lemma sample_restore_run:
  "\<exists>a'. exec (=) (canonical_restore 1 7 64 4096 kInternalStream True) sample_agent sample_restore_trace
     (Returned \<lparr>rr_ok = True, rr_message = ''ok''\<rparr>) a'"
proof -
  have "map_option (\<lambda>(t, out, s'). (t, out)) (play (canonical_restore 1 7 64 4096 kInternalStream True)
     [AClock 0, ARpc (Inr (RsRequestCanonicalRestore sample_grant)), ACuda cudaSuccess, ACuda cudaSuccess,
      ACuda cudaSuccess, ARpc (Inl ''closed'')] sample_agent) =
     Some (sample_restore_trace, Returned \<lparr>rr_ok = True, rr_message = ''ok''\<rparr>)"
    by code_simp
  then show ?thesis by (rule play_ends) blast
qed

theorem canonical_restore_balanced_witness:
  "\<exists>g rel. grants_hold 7 g \<and> releases_hold 7 rel \<and> hold_events 7 sample_restore_trace = [g, rel] \<and>
     (\<exists>src s. subseq [g, OCuda (cudaMemcpyH2D 64 src 4096 s) cudaSuccess, rel] sample_restore_trace)"
proof -
  obtain a' where "exec (=) (canonical_restore 1 7 64 4096 kInternalStream True) sample_agent sample_restore_trace
     (Returned \<lparr>rr_ok = True, rr_message = ''ok''\<rparr>) a'" using sample_restore_run by blast
  from canonical_restore_balanced [OF this] show ?thesis by auto
qed

section \<open>Giving up a tensor\<close>

definition offload_request :: "agent \<Rightarrow> u64 \<Rightarrow> bool \<Rightarrow> TensorMeta \<Rightarrow> RequestOffloadRequest" where
  "offload_request a nbytes destructive meta =
     \<lparr>roq_rank_id = ag_rank_id a, roq_rank_epoch = ag_rank_epoch a, roq_tensor_id = tm_tensor_id meta,
      roq_version = tm_version meta, roq_nbytes = nbytes, roq_gpu_id = of_int (ag_device a),
      roq_numa_node = of_int (ag_numa a), roq_alignment = 256, roq_priority = 0,
      roq_flags = OFLD_FLAG_ALLOW_OVERFLOW OR (if destructive then OFLD_FLAG_DESTRUCTIVE else 0),
      roq_debug_name = tm_name meta\<rparr>"

lemma evict_run:
  assumes st: "stable R" and run: "exec R (evict dev_ptr n stream destructive meta cb cookie wait) a t out a'"
  shows "(\<exists>r. t = [ORpc (RqRequestOffload (offload_request a n destructive meta)) r]) \<and> \<not> (\<exists>tk. out = Returned tk \<and> ot_ok tk) \<or>
    (\<exists>resp t2. t = ORpc (RqRequestOffload (offload_request a n destructive meta)) (Inr (RsRequestOffload resp)) # t2 \<and>
       ros_ok resp \<and> \<not> ros_blocked resp \<and>
       ((\<forall>c. OInvalidate c \<notin> set t2) \<and> (wait \<longrightarrow> (\<exists>e. out = Thrown e)) \<or>
        wait \<and> (\<exists>tk. out = Returned tk \<and> ot_ok tk) \<and>
          evict_trace a dev_ptr n (stream_of stream a) (destructive \<and> cb) meta cookie resp t2))"
proof -
  let ?k = "\<lambda>a rs. case rs of
            RsRequestOffload resp \<Rightarrow> Some
              (if \<not> ros_ok resp \<or> ros_blocked resp then
                 Done ((OffloadTicket_init meta n)
                   \<lparr>ot_message := if ros_ok resp then ''offload blocked (pinned pressure)'' else ros_message resp\<rparr>)
               else evict_copy dev_ptr n (stream_of stream a) destructive meta cb cookie wait resp)
          | _ \<Rightarrow> None"
  have "exec R (fetch (\<lambda>a. rpc (RqRequestOffload (offload_request a n destructive meta)) (?k a))) a t out a'"
    using run by (simp add: evict_def offload_request_def)
  then obtain a1 where a1: "same_setup a a1"
    and e1: "exec R (rpc (RqRequestOffload (offload_request a1 n destructive meta)) (?k a1)) a1 t out a'"
    by (elim exec_fetch [OF _ st])
  then obtain r t2 where t: "t = ORpc (RqRequestOffload (offload_request a1 n destructive meta)) r # t2"
    and e: "exec R (case r of Inl e \<Rightarrow> Throw e | Inr rs \<Rightarrow>
       (case ?k a1 rs of None \<Rightarrow> Throw ''unexpected response'' | Some p \<Rightarrow> p)) a1 t2 out a'"
    by (elim exec_rpc)
  have same: "offload_request a1 n destructive meta = offload_request a n destructive meta"
    "stream_of stream a1 = stream_of stream a"
    using a1 by (simp_all add: offload_request_def stream_of_def same_setup_def)
  show ?thesis
  proof (cases "\<exists>resp. r = Inr (RsRequestOffload resp) \<and> ros_ok resp \<and> \<not> ros_blocked resp")
    case True
    then obtain resp where r: "r = Inr (RsRequestOffload resp)" "ros_ok resp" "\<not> ros_blocked resp" by blast
    then have "exec R (evict_copy dev_ptr n (stream_of stream a) destructive meta cb cookie wait resp) a1 t2 out a'"
      using e same by simp
    from evict_copy_run [OF st this]
    have "(\<forall>c. OInvalidate c \<notin> set t2) \<and> (wait \<longrightarrow> (\<exists>e. out = Thrown e)) \<or>
      wait \<and> (\<exists>tk. out = Returned tk \<and> ot_ok tk) \<and>
        evict_trace a dev_ptr n (stream_of stream a) (destructive \<and> cb) meta cookie resp t2"
      using a1 by (simp add: evict_trace_def host_ptr_setup same_setup_def host_ptr_def)
    then show ?thesis using r t same(1) by simp
  next
    case False
    then have "t2 = [] \<and> \<not> (\<exists>tk. out = Returned tk \<and> ot_ok tk)"
      using e by (auto simp: exec_simps OffloadTicket_init_def split: sum.splits response.splits)
    then show ?thesis using t same(1) by simp
  qed
qed


text \<open>A grant of the daemon, the tensor, and the answers to a synchronous eviction of it.\<close>

definition sample_reservation :: RequestOffloadResponse where
  "sample_reservation = \<lparr>ros_ok = True, ros_message = ''ok'', ros_lease_id = 9, ros_slot_id = 2, ros_arena_id = 0,
     ros_arena_offset = 0x2000, ros_capacity = 0x2000, ros_state = slot_state_code OFLD_SLOT_RESERVED_D2H, ros_blocked = False\<rparr>"

definition sample_meta :: TensorMeta where
  "sample_meta = \<lparr>tm_tensor_id = 21, tm_version = 4, tm_name = ''w''\<rparr>"

definition sample_evict_answers :: "bool \<Rightarrow> answer list" where
  "sample_evict_answers ok =
     [ARpc (Inr (RsRequestOffload sample_reservation)), ACuda cudaSuccess, AClock 10,
      ARpc (Inr (RsMarkD2HSubmitted \<lparr>dss_ok = True, dss_message = ''ok''\<rparr>)), AClock 11,
      ACuda cudaSuccess, AEvent cudaSuccess 77, ACuda cudaSuccess, ACuda cudaSuccess, AClock 12,
      ARpc (Inr (RsMarkD2HComplete
        \<lparr>dcs_ok = ok, dcs_message = (if ok then ''ok'' else ''rejected''), dcs_latest_version = ok, dcs_drain_enqueued = False\<rparr>)),
      ACuda cudaSuccess, AClock 11]"

definition sample_evict_trace :: "bool \<Rightarrow> obs list" where
  "sample_evict_trace ok =
     [ORpc (RqRequestOffload (offload_request sample_agent 5000 True sample_meta)) (Inr (RsRequestOffload sample_reservation)),
      OCuda (cudaHostRegister 0x7f0000000000 0x10000) cudaSuccess,
      ORpc (RqMarkD2HSubmitted
        \<lparr>dsq_rank_id = 3, dsq_rank_epoch = 1, dsq_lease_id = 9, dsq_tensor_id = 21, dsq_version = 4, dsq_slot_id = 2,
         dsq_submit_seq = 0, dsq_timestamp_ns = 10\<rparr>) (Inr (RsMarkD2HSubmitted \<lparr>dss_ok = True, dss_message = ''ok''\<rparr>)),
      OCuda (cudaMemcpyD2H 0x7f0000002000 0x500 5000 5) cudaSuccess, OEvent cudaSuccess 77,
      OCuda (cudaEventRecord 77 5) cudaSuccess, OCuda (cudaEventSynchronize 77) cudaSuccess,
      ORpc (RqMarkD2HComplete
        \<lparr>dcq_rank_id = 3, dcq_rank_epoch = 1, dcq_lease_id = 9, dcq_tensor_id = 21, dcq_version = 4, dcq_slot_id = 2,
         dcq_complete_seq = 0, dcq_timestamp_ns = 12\<rparr>)
        (Inr (RsMarkD2HComplete
          \<lparr>dcs_ok = ok, dcs_message = (if ok then ''ok'' else ''rejected''), dcs_latest_version = ok, dcs_drain_enqueued = False\<rparr>)),
      OInvalidate 33, OCuda (cudaEventDestroy 77) cudaSuccess]"

definition sample_ticket :: OffloadTicket where
  "sample_ticket = \<lparr>ot_tensor_id = 21, ot_version = 4, ot_nbytes = 5000, ot_lease_id = 9, ot_slot_id = 2, ot_ok = True,
     ot_message = ''''\<rparr>"

lemma sample_agent_evict:
  "\<exists>a'. exec (=) (evict 0x500 5000 kInternalStream True sample_meta True 33 True) sample_agent (sample_evict_trace ok)
     (Returned sample_ticket) a'"
proof (cases ok)
  case True
  have "map_option (\<lambda>(t, out, s'). (t, out)) (play (evict 0x500 5000 kInternalStream True sample_meta True 33 True)
     (sample_evict_answers True) sample_agent) = Some (sample_evict_trace True, Returned sample_ticket)"
    by code_simp
  then show ?thesis using True by (elim play_ends) auto
next
  case False
  have "map_option (\<lambda>(t, out, s'). (t, out)) (play (evict 0x500 5000 kInternalStream True sample_meta True 33 True)
     (sample_evict_answers False) sample_agent) = Some (sample_evict_trace False, Returned sample_ticket)"
    by code_simp
  then show ?thesis using False by (elim play_ends) auto
qed



section \<open>Reading a slot\<close>

definition slot_check :: "agent \<Rightarrow> RequestPrefetchResponse \<Rightarrow> obs list" where
  "slot_check a presp =
     (if pfs_slot_id presp < ag_num_slots a
      then [ORead (SlotState (pfs_slot_id presp)) (ucast (slot_state_code OFLD_SLOT_PINNED_VALID))] else [])"


definition sample_ready :: RequestPrefetchResponse where
  "sample_ready = \<lparr>pfs_ok = True, pfs_message = ''ok'', pfs_lease_id = 10, pfs_slot_id = 2, pfs_arena_id = 0,
     pfs_arena_offset = 0x2000, pfs_nbytes = 5000, pfs_state = slot_state_code OFLD_SLOT_PINNED_VALID, pfs_ready = True,
     pfs_version = 4\<rparr>"

definition sample_h2d_trace :: "u64 \<Rightarrow> obs list" where
  "sample_h2d_trace n =
     [ORpc (RqRequestPrefetch (prefetch_request sample_agent 21 4 n)) (Inr (RsRequestPrefetch sample_ready)),
      ORead (SlotState 2) (ucast (slot_state_code OFLD_SLOT_PINNED_VALID)),
      OCuda (cudaHostRegister 0x7f0000000000 0x10000) cudaSuccess,
      ORpc (RqMarkH2DSubmitted
        \<lparr>hsq_rank_id = 3, hsq_rank_epoch = 1, hsq_lease_id = 10, hsq_tensor_id = 21, hsq_version = 4, hsq_slot_id = 2,
         hsq_submit_seq = 0, hsq_timestamp_ns = 20\<rparr>) (Inl ''closed''),
      OCuda (cudaMemcpyH2D 0x900 0x7f0000002000 5000 5) cudaSuccess, OEvent cudaSuccess 78,
      OCuda (cudaEventRecord 78 5) cudaSuccess]"

lemma sample_h2d_run:
  "\<exists>a'. exec (=) (restore 1 21 4 0x900 n kInternalStream False) sample_agent (sample_h2d_trace n)
     (Returned \<lparr>rr_ok = True, rr_message = ''''\<rparr>) a'"
proof -
  have "map_option (\<lambda>(t, out, s'). (t, out)) (play (restore 1 21 4 0x900 n kInternalStream False)
     [ARpc (Inr (RsRequestPrefetch sample_ready)), AClock 0, ARead (ucast (slot_state_code OFLD_SLOT_PINNED_VALID)),
      ACuda cudaSuccess, AClock 20, ARpc (Inl ''closed''), AClock 21, ACuda cudaSuccess, AEvent cudaSuccess 78, ACuda cudaSuccess]
     sample_agent) = Some (sample_h2d_trace n, Returned \<lparr>rr_ok = True, rr_message = ''''\<rparr>)"
    by code_simp
  then show ?thesis by (elim play_ends) auto
qed



end
