(* ===== verification/Completion_Reports.thy ===== *)
theory Completion_Reports
  imports Restore_Runs Agent_Samples "HOL-Library.Multiset" "HOL-Library.Sublist"
begin

text \<open>
  The reporting of finished transfers: through the shared ring, in a batch, or by a call of its own,
  every transfer of a round is reported to the daemon exactly once, its event is destroyed exactly
  once, and the tensor is given up exactly when this was asked for.
\<close>

section \<open>What a trace has done\<close>

datatype deed = Reported u32 u64 | Destroyed u64 | GaveUp u64

definition deeds :: "obs \<Rightarrow> deed list" where
  "deeds ob =
     (case ob of
        OPush e b \<Rightarrow> if b then [Reported (ce_event_type e) (ce_lease_id e)] else []
      | ORpc q r \<Rightarrow>
          (case q of
             RqBatchComplete m \<Rightarrow> map (\<lambda>c. Reported (bcn_event_type c) (bcn_lease_id c)) (bcq_completions m)
           | RqMarkD2HComplete m \<Rightarrow> [Reported event_kD2HComplete (dcq_lease_id m)]
           | RqMarkH2DComplete m \<Rightarrow> [Reported event_kH2DComplete (hcq_lease_id m)]
           | _ \<Rightarrow> [])
      | OCuda c e \<Rightarrow> (case c of cudaEventDestroy ev \<Rightarrow> [Destroyed ev] | _ \<Rightarrow> [])
      | OInvalidate c \<Rightarrow> [GaveUp c]
      | _ \<Rightarrow> [])"

definition tally :: "obs list \<Rightarrow> deed multiset" where
  "tally t = mset (concat (map deeds t))"

lemma tally_simps [simp]:
  "tally [] = {#}" "tally (ob # t) = mset (deeds ob) + tally t" "tally (t @ u) = tally t + tally u"
  by (simp_all add: tally_def)

text \<open>What is due for a record: the report, and the rest.\<close>

definition due_d2h :: "InflightD2H \<Rightarrow> deed multiset" where
  "due_d2h r = {#Destroyed (fd_ev r)#} + (if fd_destructive r \<and> fd_invalidate_cb r then {#GaveUp (fd_cookie r)#} else {#})"

definition due_h2d :: "InflightH2D \<Rightarrow> deed multiset" where
  "due_h2d r = {#Destroyed (fh_ev r)#}"

definition report_d2h :: "InflightD2H \<Rightarrow> deed" where
  "report_d2h r = Reported event_kD2HComplete (fd_lease_id r)"

definition report_h2d :: "InflightH2D \<Rightarrow> deed" where
  "report_h2d r = Reported event_kH2DComplete (fh_lease_id r)"

definition settled :: "InflightD2H list \<Rightarrow> InflightH2D list \<Rightarrow> deed multiset" where
  "settled d2h h2d = (\<Sum>r\<leftarrow>d2h. add_mset (report_d2h r) (due_d2h r)) + (\<Sum>r\<leftarrow>h2d. add_mset (report_h2d r) (due_h2d r))"

section \<open>The parts\<close>

lemma finalize_d2h_tally: "exec R (finalize_d2h r) a t out a' \<Longrightarrow> out = Returned () \<and> tally t = due_d2h r"
  by (drule finalize_d2h_run) (auto simp: due_d2h_def deeds_def)

lemma finalize_h2d_tally: "exec R (finalize_h2d r) a t out a' \<Longrightarrow> out = Returned () \<and> tally t = due_h2d r"
  by (drule finalize_h2d_run) (auto simp: due_h2d_def deeds_def)

lemma ring_push_d2h_tally:
  assumes "exec R (ring_push_d2h r) a t out a'"
  shows "\<exists>b. out = Returned b \<and> tally t = (if b then {#report_d2h r#} else {#})"
proof -
  from assms consider "out = Returned False" "t = []"
    | v e b where "out = Returned b" "t = [ORead RingTail v, OPush e b]" "ce_lease_id e = fd_lease_id r"
        "ce_event_type e = event_kD2HComplete"
    by (auto simp: ring_push_d2h_def fetch_def modify_def exec_simps split: if_splits)
  then show ?thesis by cases (auto simp: deeds_def report_d2h_def)
qed

lemma ring_push_h2d_tally:
  assumes "exec R (ring_push_h2d r) a t out a'"
  shows "\<exists>b. out = Returned b \<and> tally t = (if b then {#report_h2d r#} else {#})"
proof -
  from assms consider "out = Returned False" "t = []"
    | e b where "out = Returned b" "t = [OPush e b]" "ce_lease_id e = fh_lease_id r"
        "ce_event_type e = event_kH2DComplete"
    by (auto simp: ring_push_h2d_def fetch_def exec_simps split: if_splits)
  then show ?thesis by cases (auto simp: deeds_def report_h2d_def)
qed

text \<open>A step that settles what is due, and one that may report.\<close>

definition settles where
  "settles R f d \<longleftrightarrow> (\<forall>x a t out a'. exec R (f x) a t out a' \<longrightarrow> out = Returned () \<and> tally t = d x)"

definition may_report where
  "may_report R push rep \<longleftrightarrow>
     (\<forall>x a t out a'. exec R (push x) a t out a' \<longrightarrow> (\<exists>b. out = Returned b \<and> tally t = (if b then {#rep x#} else {#})))"

definition makes where
  "makes mk rep \<longleftrightarrow> (\<forall>x now. Reported (bcn_event_type (mk x now)) (bcn_lease_id (mk x now)) = rep x)"

lemma settles_laws: "settles R finalize_d2h due_d2h" "settles R finalize_h2d due_h2d"
  using finalize_d2h_tally finalize_h2d_tally unfolding settles_def by blast+

lemma may_report_laws: "may_report R ring_push_d2h report_d2h" "may_report R ring_push_h2d report_h2d"
  using ring_push_d2h_tally ring_push_h2d_tally unfolding may_report_def by blast+

lemma makes_laws: "makes make_d2h_completion report_d2h" "makes make_h2d_completion report_h2d"
  by (simp_all add: makes_def make_d2h_completion_def report_d2h_def make_h2d_completion_def report_h2d_def)

lemma send_batch_tally:
  assumes "exec R (send_batch cs) a t out a'"
  shows "out = Returned () \<and> tally t = mset (map (\<lambda>c. Reported (bcn_event_type c) (bcn_lease_id c)) cs)"
proof -
  from assms obtain a1 where "exec R (catching
       (rpc (RqBatchComplete \<lparr>bcq_rank_id = ag_rank_id a1, bcq_rank_epoch = ag_rank_epoch a1, bcq_completions = cs\<rparr>)
         (\<lambda>rs. case rs of RsBatchComplete resp \<Rightarrow> Some (Done ()) | _ \<Rightarrow> None))
       (\<lambda>e. Done ())) a1 t out a'"
    by (auto simp: send_batch_def fetch_def exec_simps)
  from best_effort_run [OF this acks_simps(5)] show ?thesis by (auto simp: deeds_def)
qed

lemma each_tally:
  assumes "settles R f d"
  shows "exec R (each f xs) a t out a' \<Longrightarrow> out = Returned () \<and> tally t = (\<Sum>x\<leftarrow>xs. d x)"
proof (induction xs arbitrary: a t)
  case (Cons x xs)
  have fin: "out = Returned () \<and> tally t = d x" if "exec R (f x) a t out a'" for a t out a'
    using assms that unfolding settles_def by blast
  from Cons.prems have "exec R (seq (f x) (\<lambda>_. each f xs)) a t out a'" by simp
  then show ?case
  proof (cases rule: exec_seq)
    case (returned t1 u a1 t2)
    then show ?thesis using Cons.IH [OF returned(2)] fin [OF returned(1)] by simp
  qed (auto dest: fin)
qed (simp add: exec_simps)

text \<open>Publication: what has gone into the ring is settled, the rest comes back with its completions.\<close>

lemma publish_tally:
  assumes "may_report R push rep" and "settles R fin d" and "makes mk rep"
  shows "exec R (publish push fin mk xs k) a t out a' \<Longrightarrow>
    \<exists>cs over t1 a1 t2. t = t1 @ t2 \<and> exec R (k cs over) a1 t2 out a' \<and>
      map (\<lambda>c. Reported (bcn_event_type c) (bcn_lease_id c)) cs = map rep over \<and> length cs = length over \<and>
      tally t1 + (\<Sum>x\<leftarrow>over. add_mset (rep x) (d x)) = (\<Sum>x\<leftarrow>xs. add_mset (rep x) (d x))"
proof (induction xs arbitrary: k a t)
  case Nil
  then show ?case by (intro exI [of _ "[]"] exI [of _ a] exI [of _ t]) simp
next
  case (Cons x xs)
  have push: "\<exists>b. out = Returned b \<and> tally t = (if b then {#rep x#} else {#})" if "exec R (push x) a t out a'" for a t out a'
    using assms(1) that unfolding may_report_def by blast
  have fin: "out = Returned () \<and> tally t = d x" if "exec R (fin x) a t out a'" for a t out a'
    using assms(2) that unfolding settles_def by blast
  have mk: "Reported (bcn_event_type (mk x now)) (bcn_lease_id (mk x now)) = rep x" for now
    using assms(3) by (simp add: makes_def)
  from Cons.prems have "exec R (seq (push x) (\<lambda>pushed.
       if pushed then seq (fin x) (\<lambda>_. publish push fin mk xs k)
       else Clock (\<lambda>now. publish push fin mk xs (\<lambda>cs over. k (mk x now # cs) (x # over))))) a t out a'" by simp
  then show ?case
  proof (cases rule: exec_seq)
    case (returned t1 b a1 t2)
    have t1: "tally t1 = (if b then {#rep x#} else {#})" using push [OF returned(1)] by auto
    show ?thesis
    proof (cases b)
      case True
      then have "exec R (seq (fin x) (\<lambda>_. publish push fin mk xs k)) a1 t2 out a'" using returned(2) by simp
      then show ?thesis
      proof (cases rule: exec_seq)
        case inner: (returned t3 u a2 t4)
        from Cons.IH [OF inner(2)] obtain cs over t5 a3 t6 where *: "t4 = t5 @ t6" "exec R (k cs over) a3 t6 out a'"
          "map (\<lambda>c. Reported (bcn_event_type c) (bcn_lease_id c)) cs = map rep over" "length cs = length over"
          "tally t5 + (\<Sum>x\<leftarrow>over. add_mset (rep x) (d x)) = (\<Sum>x\<leftarrow>xs. add_mset (rep x) (d x))" by blast
        have "t = (t1 @ t3 @ t5) @ t6" using * returned(3) inner(3) by simp
        moreover have "tally (t1 @ t3 @ t5) + (\<Sum>x\<leftarrow>over. add_mset (rep x) (d x)) = (\<Sum>x\<leftarrow>x # xs. add_mset (rep x) (d x))"
          using *(5) t1 True fin [OF inner(1)] by (simp add: ac_simps)
        ultimately show ?thesis using *(2-4) by blast
      qed (auto dest: fin)
    next
      case False
      then obtain now where "exec R (publish push fin mk xs (\<lambda>cs over. k (mk x now # cs) (x # over))) a1 t2 out a'"
        using returned(2) by (auto simp: exec_simps)
      from Cons.IH [OF this] obtain cs over t5 a3 t6 where *: "t2 = t5 @ t6" "exec R (k (mk x now # cs) (x # over)) a3 t6 out a'"
        "map (\<lambda>c. Reported (bcn_event_type c) (bcn_lease_id c)) cs = map rep over" "length cs = length over"
        "tally t5 + (\<Sum>x\<leftarrow>over. add_mset (rep x) (d x)) = (\<Sum>x\<leftarrow>xs. add_mset (rep x) (d x))" by blast
      have "t = (t1 @ t5) @ t6" using * returned(3) by simp
      moreover have "tally (t1 @ t5) + (\<Sum>x\<leftarrow>x # over. add_mset (rep x) (d x)) = (\<Sum>x\<leftarrow>x # xs. add_mset (rep x) (d x))"
        using *(5) t1 False by (simp add: ac_simps)
      moreover have "map (\<lambda>c. Reported (bcn_event_type c) (bcn_lease_id c)) (mk x now # cs) = map rep (x # over)"
        "length (mk x now # cs) = length (x # over)"
        using *(3,4) mk by auto
      ultimately show ?thesis using *(2) by blast
    qed
  qed (auto dest: push)
qed

lemma make_all_tally:
  "exec R (make_all mk xs k) a t out a' \<Longrightarrow>
   \<exists>cs. exec R (k cs) a t out a' \<and> list_all2 (\<lambda>x c. \<exists>now. c = mk x now) xs cs"
proof (induction xs arbitrary: k)
  case (Cons x xs)
  then obtain now where "exec R (make_all mk xs (\<lambda>cs. k (mk x now # cs))) a t out a'" by (auto simp: exec_simps)
  from Cons.IH [OF this] obtain cs where "exec R (k (mk x now # cs)) a t out a'" "list_all2 (\<lambda>x c. \<exists>now. c = mk x now) xs cs"
    by blast
  then show ?case by (intro exI [of _ "mk x now # cs"]) auto
qed simp

lemma made_reports:
  "makes mk rep \<Longrightarrow> list_all2 (\<lambda>x c. \<exists>now. c = mk x now) xs cs \<Longrightarrow>
   map (\<lambda>c. Reported (bcn_event_type c) (bcn_lease_id c)) cs = map rep xs"
  by (rotate_tac, induction xs cs rule: list_all2_induct) (auto simp: makes_def)

lemma sum_list_reports: "(\<Sum>x\<leftarrow>xs. add_mset (rep x) (d x)) = mset (map rep xs) + (\<Sum>x\<leftarrow>xs. d x)"
  by (induction xs) simp_all

lemma batch_tally:
  assumes "exec R (seq (send_batch cs) (\<lambda>_. seq (each finalize_d2h d2h) (\<lambda>_. each finalize_h2d h2d))) a t out a'"
    and "map (\<lambda>c. Reported (bcn_event_type c) (bcn_lease_id c)) cs = map report_d2h d2h @ map report_h2d h2d"
  shows "out = Returned () \<and> tally t = settled d2h h2d"
  using assms(1)
proof (cases rule: exec_seq)
  case (returned t1 x a1 t2)
  note b = send_batch_tally [OF returned(1)]
  from returned(2) show ?thesis
  proof (cases rule: exec_seq)
    case inner: (returned t3 y a2 t4)
    have "tally t3 = (\<Sum>r\<leftarrow>d2h. due_d2h r)" using each_tally [OF settles_laws(1) inner(1)] by simp
    moreover have "out = Returned () \<and> tally t4 = (\<Sum>r\<leftarrow>h2d. due_h2d r)" using each_tally [OF settles_laws(2) inner(2)] by simp
    ultimately show ?thesis
      using b assms(2) by (simp add: settled_def sum_list_reports returned(3) inner(3) ac_simps del: map_map)
  next
    case (thrown e)
    then show ?thesis using each_tally [OF settles_laws(1) thrown(1)] by simp
  next
    case fuel
    then show ?thesis using each_tally [OF settles_laws(1) fuel(1)] by simp
  qed
qed (auto dest: send_batch_tally)

lemma complete_d2h_tally:
  "stable R \<Longrightarrow> exec R (complete_d2h r) a t out a' \<Longrightarrow> out = Returned () \<and> tally t = add_mset (report_d2h r) (due_d2h r)"
  by (drule (1) complete_d2h_run) (auto simp: due_d2h_def report_d2h_def deeds_def)

lemma complete_h2d_tally:
  "stable R \<Longrightarrow> exec R (complete_h2d r) a t out a' \<Longrightarrow> out = Returned () \<and> tally t = add_mset (report_h2d r) (due_h2d r)"
  by (drule (1) complete_h2d_run) (auto simp: due_h2d_def report_h2d_def deeds_def h2d_completion_def)

lemma flush_tally:
  assumes st: "stable R" and run: "exec R (flush_completions_batch d2h h2d) a t out a'"
  shows "out = Returned () \<and> tally t = settled d2h h2d"
proof (cases "d2h = [] \<and> h2d = []")
  case False
  with run obtain a1 where r: "exec R (if ag_comp_ring a1 then
          publish ring_push_d2h finalize_d2h make_d2h_completion d2h (\<lambda>cs of_d2h.
          publish ring_push_h2d finalize_h2d make_h2d_completion h2d (\<lambda>cs' of_h2d.
            if cs @ cs' \<noteq> [] then
              seq (send_batch (cs @ cs')) (\<lambda>_. seq (each finalize_d2h of_d2h) (\<lambda>_. each finalize_h2d of_h2d))
            else Done ()))
        else if length d2h + length h2d = 1 then
          (if d2h \<noteq> [] then complete_d2h (d2h ! 0) else complete_h2d (h2d ! 0))
        else
          make_all make_d2h_completion d2h (\<lambda>cs. make_all make_h2d_completion h2d (\<lambda>cs'.
            seq (send_batch (cs @ cs')) (\<lambda>_. seq (each finalize_d2h d2h) (\<lambda>_. each finalize_h2d h2d))))) a1 t out a'"
    unfolding flush_completions_batch_def by (simp only: if_False) (elim exec_fetch [OF _ st])
  consider (ring) "ag_comp_ring a1" | (one) "\<not> ag_comp_ring a1" "length d2h + length h2d = 1"
    | (batch) "\<not> ag_comp_ring a1" "length d2h + length h2d \<noteq> 1" by blast
  then show ?thesis
  proof cases
    case ring
    with r have "exec R (publish ring_push_d2h finalize_d2h make_d2h_completion d2h (\<lambda>cs of_d2h.
          publish ring_push_h2d finalize_h2d make_h2d_completion h2d (\<lambda>cs' of_h2d.
            if cs @ cs' \<noteq> [] then
              seq (send_batch (cs @ cs')) (\<lambda>_. seq (each finalize_d2h of_d2h) (\<lambda>_. each finalize_h2d of_h2d))
            else Done ()))) a1 t out a'" by simp
    from publish_tally [OF may_report_laws(1) settles_laws(1) makes_laws(1) this] obtain cs over t1 a2 t2 where
      A: "t = t1 @ t2" "map (\<lambda>c. Reported (bcn_event_type c) (bcn_lease_id c)) cs = map report_d2h over" "length cs = length over"
        "tally t1 + (\<Sum>r\<leftarrow>over. add_mset (report_d2h r) (due_d2h r)) = (\<Sum>r\<leftarrow>d2h. add_mset (report_d2h r) (due_d2h r))"
      and B: "exec R (publish ring_push_h2d finalize_h2d make_h2d_completion h2d (\<lambda>cs' of_h2d.
            if cs @ cs' \<noteq> [] then
              seq (send_batch (cs @ cs')) (\<lambda>_. seq (each finalize_d2h over) (\<lambda>_. each finalize_h2d of_h2d))
            else Done ())) a2 t2 out a'"
      by (elim exE conjE) (rule that)
    from publish_tally [OF may_report_laws(2) settles_laws(2) makes_laws(2) B] obtain cs' over' t3 a3 t4 where
      C: "t2 = t3 @ t4" "map (\<lambda>c. Reported (bcn_event_type c) (bcn_lease_id c)) cs' = map report_h2d over'" "length cs' = length over'"
        "tally t3 + (\<Sum>r\<leftarrow>over'. add_mset (report_h2d r) (due_h2d r)) = (\<Sum>r\<leftarrow>h2d. add_mset (report_h2d r) (due_h2d r))"
      and D: "exec R (if cs @ cs' \<noteq> [] then
              seq (send_batch (cs @ cs')) (\<lambda>_. seq (each finalize_d2h over) (\<lambda>_. each finalize_h2d over'))
            else Done ()) a3 t4 out a'"
      by (elim exE conjE) (rule that)
    have "out = Returned () \<and> tally t4 = settled over over'"
    proof (cases "cs @ cs' = []")
      case True
      then have "over = []" "over' = []" using A(3) C(3) by auto
      then show ?thesis using D True by (simp add: exec_simps settled_def)
    next
      case False
      then have "exec R (seq (send_batch (cs @ cs')) (\<lambda>_. seq (each finalize_d2h over) (\<lambda>_. each finalize_h2d over'))) a3 t4 out a'"
        using D by simp
      then show ?thesis by (rule batch_tally) (simp only: map_append A(2) C(2))
    qed
    moreover have "tally t1 + tally t3 + settled over over' = settled d2h h2d"
      unfolding settled_def A(4) [symmetric] C(4) [symmetric] by (simp add: ac_simps)
    ultimately show ?thesis using A(1) C(1) by (simp add: ac_simps)
  next
    case one
    then consider x where "d2h = [x]" "h2d = []" | y where "d2h = []" "h2d = [y]"
      by (cases d2h; cases h2d) auto
    then show ?thesis
      using r one by cases (auto simp: settled_def dest!: complete_d2h_tally [OF st] complete_h2d_tally [OF st])
  next
    case batch
    then have "exec R (make_all make_d2h_completion d2h (\<lambda>cs. make_all make_h2d_completion h2d (\<lambda>cs'.
            seq (send_batch (cs @ cs')) (\<lambda>_. seq (each finalize_d2h d2h) (\<lambda>_. each finalize_h2d h2d))))) a1 t out a'"
      using r by simp
    from make_all_tally [OF this] obtain cs where cs: "list_all2 (\<lambda>x c. \<exists>now. c = make_d2h_completion x now) d2h cs"
      and e: "exec R (make_all make_h2d_completion h2d (\<lambda>cs'.
            seq (send_batch (cs @ cs')) (\<lambda>_. seq (each finalize_d2h d2h) (\<lambda>_. each finalize_h2d h2d)))) a1 t out a'" by blast
    from make_all_tally [OF e] obtain cs' where cs': "list_all2 (\<lambda>x c. \<exists>now. c = make_h2d_completion x now) h2d cs'"
      and "exec R (seq (send_batch (cs @ cs')) (\<lambda>_. seq (each finalize_d2h d2h) (\<lambda>_. each finalize_h2d h2d))) a1 t out a'" by blast
    then show ?thesis
      by (elim batch_tally) (simp only: map_append made_reports [OF makes_laws(1) cs] made_reports [OF makes_laws(2) cs'])
  qed
qed (use run in \<open>simp add: flush_completions_batch_def exec_simps settled_def\<close>)

section \<open>A round of the progress thread\<close>

text \<open>
  What the loop over the events finds: the finished records, those to keep, and those that failed;
  a finished record's event has been reported complete, a failed one's has been destroyed.
\<close>

definition sorted_out where
  "sorted_out ev xs fin keep bad t \<longleftrightarrow>
     mset xs = mset fin + mset keep + mset bad \<and> tally t = (\<Sum>x\<leftarrow>bad. {#Destroyed (ev x)#}) \<and>
     (\<forall>x \<in> set fin. OCuda (cudaEventQuery (ev x)) cudaSuccess \<in> set t) \<and>
     (\<forall>x \<in> set keep. OCuda (cudaEventQuery (ev x)) cudaErrorNotReady \<in> set t) \<and>
     (\<forall>x \<in> set bad. \<exists>e. e \<noteq> cudaSuccess \<and> e \<noteq> cudaErrorNotReady \<and> OCuda (cudaEventQuery (ev x)) e \<in> set t)"

text \<open>The other threads add records behind those in flight and remove none.\<close>

definition grows :: "agent \<Rightarrow> agent \<Rightarrow> bool" where
  "grows a b \<longleftrightarrow> (\<exists>xs ys. ag_inflight_d2h b = ag_inflight_d2h a @ xs \<and> ag_inflight_h2d b = ag_inflight_h2d a @ ys)"

definition only_adds :: "(agent \<Rightarrow> agent \<Rightarrow> bool) \<Rightarrow> bool" where
  "only_adds R \<longleftrightarrow> (\<forall>a b. R a b \<longrightarrow> grows a b)"

lemma only_addsD: "only_adds R \<Longrightarrow> R a b \<Longrightarrow> grows a b"
  by (simp add: only_adds_def)

interpretation flying: kept grows
  by unfold_locales (auto simp: grows_def)

lemma fetch_step:
  assumes "exec R (fetch k) a t out a'"
  obtains a1 where "R a a1" "exec R (k a1) a1 t out a'"
  using assms by (auto simp: fetch_def exec_simps)

lemma modify_step:
  assumes "exec R (modify g p) a t out a'"
  obtains a1 where "R a a1" "exec R p (g a1) t out a'"
  using assms by (auto simp: modify_def exec_simps)

lemma grows_refl [simp]: "grows a a"
  by (simp add: grows_def)

lemma grows_trans: "grows a b \<Longrightarrow> grows b c \<Longrightarrow> grows a c"
  by (rule flying.kept_trans)

lemma grows_same: "ag_inflight_d2h b = ag_inflight_d2h a \<Longrightarrow> ag_inflight_h2d b = ag_inflight_h2d a \<Longrightarrow> grows a b"
  by (simp add: grows_def)

lemma staying_finalize [simp]: "staying grows (finalize_d2h r)" "staying grows (finalize_h2d r')"
  by (simp_all add: finalize_d2h_def finalize_h2d_def record_bw_def Let_def grows_same)

lemma staying_ring_push [simp]: "staying grows (ring_push_d2h r)" "staying grows (ring_push_h2d r')"
  by (simp_all add: ring_push_d2h_def ring_push_h2d_def grows_same)

lemma staying_send_batch [simp]: "staying grows (send_batch cs)"
  by (auto simp: send_batch_def intro!: staying_catching staying_rpc split: response.splits)

lemma staying_complete [simp]: "staying grows (complete_d2h r)" "staying grows (complete_h2d r')"
  by (auto simp: complete_d2h_def complete_h2d_def intro!: staying_seq staying_catching staying_rpc split: response.splits)

lemma staying_each [simp]: "(\<And>x. staying Q (f x)) \<Longrightarrow> staying Q (each f xs)"
  by (induction xs) auto

lemma staying_make_all: "(\<And>cs. staying Q (k cs)) \<Longrightarrow> staying Q (make_all mk xs k)"
  by (induction xs arbitrary: k) auto

lemma staying_publish:
  "(\<And>x. staying Q (push x)) \<Longrightarrow> (\<And>x. staying Q (fin x)) \<Longrightarrow> (\<And>cs over. staying Q (k cs over)) \<Longrightarrow>
   staying Q (publish push fin mk xs k)"
  by (induction xs arbitrary: k) auto

lemma staying_flush [simp]: "staying grows (flush_completions_batch d2h h2d)"
  by (auto simp: flush_completions_batch_def intro!: staying_publish staying_make_all staying_seq)

definition resumes where
  "resumes R failed \<longleftrightarrow> (\<forall>x p a t out a'. exec R (failed x p) a t out a' \<longrightarrow> (\<exists>a1. grows a a1 \<and> exec R p a1 t out a'))"

lemma query_all_run:
  assumes "resumes R failed"
  shows "exec R (query_all ev failed xs k) a t out a' \<Longrightarrow>
    \<exists>fin keep bad t1 a1 t2. t = t1 @ t2 \<and> exec R (k fin keep) a1 t2 out a' \<and> sorted_out ev xs fin keep bad t1 \<and> grows a a1"
proof (induction xs arbitrary: k a t)
  case Nil
  have "sorted_out ev [] [] [] [] []" by (simp add: sorted_out_def)
  then show ?case using Nil by (intro exI [of _ "[]"] exI [of _ a] exI [of _ t]) simp
next
  case (Cons x xs)
  from Cons.prems obtain st u where t: "t = OCuda (cudaEventQuery (ev x)) st # u" and e: "exec R
       (if st = cudaSuccess then query_all ev failed xs (\<lambda>fin keep. k (x # fin) keep)
       else if st = cudaErrorNotReady then query_all ev failed xs (\<lambda>fin keep. k fin (x # keep))
       else Cuda (cudaEventDestroy (ev x)) (\<lambda>_. failed x (query_all ev failed xs k))) a u out a'"
    by (auto simp: exec_simps)
  have q: "tally (OCuda (cudaEventQuery (ev x)) st # v) = tally v" for v by (simp add: deeds_def)
  consider (fin) "st = cudaSuccess" | (keep) "st = cudaErrorNotReady" | (bad) "st \<noteq> cudaSuccess" "st \<noteq> cudaErrorNotReady" by blast
  then show ?case
  proof cases
    case fin
    with e have "exec R (query_all ev failed xs (\<lambda>fin keep. k (x # fin) keep)) a u out a'" by simp
    from Cons.IH [OF this] obtain f kp b t1 a1 t2 where *: "u = t1 @ t2" "exec R (k (x # f) kp) a1 t2 out a'"
      "sorted_out ev xs f kp b t1" "grows a a1" by blast
    from *(3) have "sorted_out ev (x # xs) (x # f) kp b (OCuda (cudaEventQuery (ev x)) st # t1)"
      using fin unfolding sorted_out_def q by auto
    then show ?thesis using t * by (metis append_Cons)
  next
    case keep
    with e have "exec R (query_all ev failed xs (\<lambda>fin keep. k fin (x # keep))) a u out a'" by simp
    from Cons.IH [OF this] obtain f kp b t1 a1 t2 where *: "u = t1 @ t2" "exec R (k f (x # kp)) a1 t2 out a'"
      "sorted_out ev xs f kp b t1" "grows a a1" by blast
    from *(3) have "sorted_out ev (x # xs) f (x # kp) b (OCuda (cudaEventQuery (ev x)) st # t1)"
      using keep unfolding sorted_out_def q by auto
    then show ?thesis using t * by (metis append_Cons)
  next
    case bad
    with e obtain e' v where u: "u = OCuda (cudaEventDestroy (ev x)) e' # v"
      and "exec R (failed x (query_all ev failed xs k)) a v out a'" by (auto simp: exec_simps)
    from this(2) assms obtain a0 where a0: "grows a a0" "exec R (query_all ev failed xs k) a0 v out a'"
      unfolding resumes_def by blast
    from Cons.IH [OF a0(2)] obtain f kp b t1 a1 t2 where v: "v = t1 @ t2" "exec R (k f kp) a1 t2 out a'"
      "sorted_out ev xs f kp b t1" "grows a0 a1" by blast
    let ?t = "OCuda (cudaEventQuery (ev x)) st # OCuda (cudaEventDestroy (ev x)) e' # t1"
    from v(3) have "sorted_out ev (x # xs) f kp (x # b) ?t"
      using bad unfolding sorted_out_def q by (auto simp: deeds_def)
    moreover have "t = ?t @ t2" using t u v(1) by simp
    ultimately show ?thesis using v(2) grows_trans [OF a0(1) v(4)] by blast
  qed
qed

lemma failed_resumes:
  assumes "only_adds R"
  shows "resumes R d2h_failed" "resumes R h2d_failed"
proof -
  have "\<exists>a1. grows a a1 \<and> exec R p a1 t out a'"
    if "exec R (modify g p) a t out a'" and g: "\<And>a. grows a (g a)" for g :: "agent \<Rightarrow> agent" and p :: "unit code" and a t out a'
  proof -
    from that(1) obtain a0 where "R a a0" "exec R p (g a0) t out a'" by (auto simp: modify_def exec_simps)
    then show ?thesis using grows_trans [OF only_addsD [OF assms] g] by blast
  qed
  then show "resumes R d2h_failed" "resumes R h2d_failed"
    by (auto simp: resumes_def d2h_failed_def h2d_failed_def grows_same)
qed

text \<open>The end of a round: the finished transfers are reported, then the thread sleeps.\<close>

lemma round_end_run:
  assumes "stable R" and "only_adds R" and e: "exec R (seq (flush_completions_batch d h) (\<lambda>_. Sleep n (Done ()))) a t out a'"
  shows "out = Returned () \<and> tally t = settled d h \<and> grows a a'"
proof -
  have "staying grows (seq (flush_completions_batch d h) (\<lambda>_. Sleep n (Done ())))" by (intro staying_seq) simp_all
  then have "grows a a'" using flying.exec_kept [OF e] only_addsD [OF assms(2)] by blast
  moreover from e have "out = Returned () \<and> tally t = settled d h"
  proof (cases rule: exec_seq)
    case (returned t5 x a5 t6)
    then show ?thesis using flush_tally [OF assms(1) returned(1)] by (auto simp: exec_simps)
  next
    case (thrown m)
    then show ?thesis using flush_tally [OF assms(1) thrown(1)] by simp
  next
    case fuel
    then show ?thesis using flush_tally [OF assms(1) fuel(1)] by simp
  qed
  ultimately show ?thesis by simp
qed

text \<open>
  C30. One round of the progress thread, while other threads may add transfers. The records in flight
  fall into three groups, finished, still running, and failed, by what CUDA answers for their events.
  The round returns, and what it has done is exactly this: each finished transfer is reported to the
  daemon once, through the ring, a batch or a call of its own, its event is destroyed once and its
  tensor is given up if this was asked for; of a failed one only the event is destroyed; nothing is done
  for the rest, which stays in flight, with what was added, in its order.
\<close>

theorem progress_round_settles:
  assumes "stable R" and "only_adds R" and "exec R (progress_round cfg) a t out a'"
  shows "\<exists>flying_d flying_h fin_d keep_d bad_d fin_h keep_h bad_h tq1 tq2 tf new_d new_h.
    prefix (ag_inflight_d2h a) flying_d \<and> prefix (ag_inflight_h2d a) flying_h \<and>
    t = tq1 @ tq2 @ tf \<and> out = Returned () \<and>
    sorted_out fd_ev flying_d fin_d keep_d bad_d tq1 \<and> sorted_out fh_ev flying_h fin_h keep_h bad_h tq2 \<and>
    tally tf = settled fin_d fin_h \<and>
    ag_inflight_d2h a' = keep_d @ new_d \<and> ag_inflight_h2d a' = keep_h @ new_h"
proof -
  note res = failed_resumes [OF assms(2)]
  let ?rest = "\<lambda>d h. seq (flush_completions_batch d h) (\<lambda>_.
            Sleep ((if ac_progress_poll_us cfg = 0 then 200 else ac_progress_poll_us cfg) * 1000) (Done ()))"
  let ?second = "\<lambda>d a1. query_all fh_ev h2d_failed (ag_inflight_h2d a1) (\<lambda>done_h2d keep_h2d.
         modify (\<lambda>a. a\<lparr>ag_inflight_h2d := keep_h2d @ drop (length (ag_inflight_h2d a1)) (ag_inflight_h2d a)\<rparr>)
         (?rest d done_h2d))"
  from assms(3) obtain a0 where a0: "R a a0" and e0: "exec R (query_all fd_ev d2h_failed (ag_inflight_d2h a0) (\<lambda>done_d2h keep_d2h.
       modify (\<lambda>a. a\<lparr>ag_inflight_d2h := keep_d2h @ drop (length (ag_inflight_d2h a0)) (ag_inflight_d2h a)\<rparr>)
       (fetch (?second done_d2h)))) a0 t out a'"
    unfolding progress_round_def by (rule fetch_step)
  from query_all_run [OF res(1) e0] obtain fd kd bd tq1 a1 t2 where
    A: "t = tq1 @ t2" "sorted_out fd_ev (ag_inflight_d2h a0) fd kd bd tq1" "grows a0 a1" and
    e1: "exec R (modify (\<lambda>a. a\<lparr>ag_inflight_d2h := kd @ drop (length (ag_inflight_d2h a0)) (ag_inflight_d2h a)\<rparr>)
       (fetch (?second fd))) a1 t2 out a'"
    by (elim exE conjE) (rule that)
  from e1 obtain b1 where b1: "R a1 b1" and e2: "exec R (fetch (?second fd))
      (b1\<lparr>ag_inflight_d2h := kd @ drop (length (ag_inflight_d2h a0)) (ag_inflight_d2h b1)\<rparr>) t2 out a'"
    by (rule modify_step)
  let ?a2 = "b1\<lparr>ag_inflight_d2h := kd @ drop (length (ag_inflight_d2h a0)) (ag_inflight_d2h b1)\<rparr>"
  have "grows a0 b1" using A(3) only_addsD [OF assms(2) b1] grows_trans by blast
  then obtain xs ys where b1d: "ag_inflight_d2h ?a2 = kd @ xs" "ag_inflight_h2d ?a2 = ag_inflight_h2d a0 @ ys"
    by (auto simp: grows_def)
  from e2 obtain a3 where a3: "R ?a2 a3" and e3: "exec R (?second fd a3) a3 t2 out a'"
    by (rule fetch_step)
  from query_all_run [OF res(2) e3] obtain fh kh bh tq2 a4 t3 where
    B: "t2 = tq2 @ t3" "sorted_out fh_ev (ag_inflight_h2d a3) fh kh bh tq2" "grows a3 a4" and
    e4: "exec R (modify (\<lambda>a. a\<lparr>ag_inflight_h2d := kh @ drop (length (ag_inflight_h2d a3)) (ag_inflight_h2d a)\<rparr>)
         (?rest fd fh)) a4 t3 out a'"
    by (elim exE conjE) (rule that)
  from e4 obtain b4 where b4: "R a4 b4" and e5: "exec R (?rest fd fh)
      (b4\<lparr>ag_inflight_h2d := kh @ drop (length (ag_inflight_h2d a3)) (ag_inflight_h2d b4)\<rparr>) t3 out a'"
    by (rule modify_step)
  let ?a5 = "b4\<lparr>ag_inflight_h2d := kh @ drop (length (ag_inflight_h2d a3)) (ag_inflight_h2d b4)\<rparr>"
  have "grows a3 b4" using B(3) only_addsD [OF assms(2) b4] grows_trans by blast
  then obtain us vs where b4d: "ag_inflight_h2d ?a5 = kh @ vs" "ag_inflight_d2h ?a5 = ag_inflight_d2h a3 @ us"
    by (auto simp: grows_def)
  note C = round_end_run [OF assms(1,2) e5]
  have "prefix (ag_inflight_d2h a) (ag_inflight_d2h a0)" "prefix (ag_inflight_h2d a) (ag_inflight_h2d a0)"
    using only_addsD [OF assms(2) a0] by (auto simp: grows_def)
  moreover have "prefix (ag_inflight_h2d a0) (ag_inflight_h2d a3)" "\<exists>zs. ag_inflight_d2h a3 = kd @ zs"
    using only_addsD [OF assms(2) a3] b1d by (auto simp: grows_def)
  moreover from this(2) have "\<exists>new_d new_h. ag_inflight_d2h a' = kd @ new_d \<and> ag_inflight_h2d a' = kh @ new_h"
    using C b4d by (auto simp: grows_def)
  moreover have "t = tq1 @ tq2 @ t3" using A(1) B(1) by simp
  ultimately show ?thesis using A(2) B(2) C prefix_order.trans by blast
qed

definition sample_d2h :: InflightD2H where
  "sample_d2h = \<lparr>fd_lease_id = 9, fd_tensor_id = 21, fd_version = 4, fd_slot_id = 2, fd_nbytes = 5000, fd_ev = 77,
     fd_destructive = True, fd_invalidate_cb = True, fd_cookie = 33, fd_submit_ns = 10, fd_complete_seq = 0\<rparr>"

definition sample_h2d :: InflightH2D where
  "sample_h2d = \<lparr>fh_lease_id = 12, fh_tensor_id = 22, fh_version = 1, fh_slot_id = 4, fh_nbytes = 100, fh_ev = 80,
     fh_keep_pinned = False, fh_submit_ns = 10, fh_complete_seq = 1\<rparr>"

definition busy_agent :: agent where
  "busy_agent = sample_agent\<lparr>ag_inflight_d2h := [sample_d2h], ag_inflight_h2d := [sample_h2d]\<rparr>"

definition sample_round_trace :: "obs list" where
  "sample_round_trace =
     [OCuda (cudaEventQuery 77) cudaSuccess, OCuda (cudaEventQuery 80) (cudaError ''illegal address''),
      OCuda (cudaEventDestroy 80) cudaSuccess,
      ORpc (RqMarkD2HComplete
        \<lparr>dcq_rank_id = 3, dcq_rank_epoch = 1, dcq_lease_id = 9, dcq_tensor_id = 21, dcq_version = 4, dcq_slot_id = 2,
         dcq_complete_seq = 0, dcq_timestamp_ns = 12\<rparr>) (Inl ''closed''),
      OInvalidate 33, OCuda (cudaEventDestroy 77) cudaSuccess]"

definition sample_agent_config :: AgentConfig where
  "sample_agent_config = \<lparr>ac_cuda_device = 0, ac_rank_id = 3, ac_local_rank = 0, ac_world_rank = 0, ac_numa_node = 0,
     ac_eager_register = False, ac_heartbeat_interval_ms = 0, ac_progress_poll_us = 0\<rparr>"

lemma sample_round_run:
  "\<exists>a'. exec (=) (progress_round sample_agent_config) busy_agent sample_round_trace (Returned ()) a'"
proof -
  have "map_option (\<lambda>(t, out, s'). (t, out)) (play (progress_round sample_agent_config)
     [ACuda cudaSuccess, ACuda (cudaError ''illegal address''), ACuda cudaSuccess, AClock 12, ARpc (Inl ''closed''),
      ACuda cudaSuccess, AClock 5] busy_agent) = Some (sample_round_trace, Returned ())"
    by code_simp
  then show ?thesis by (elim play_ends) auto
qed

theorem progress_round_settles_witness:
  "\<exists>flying_d fin_d keep_d bad_d tq1 tq2 tf. prefix [sample_d2h] flying_d \<and> sample_round_trace = tq1 @ tq2 @ tf \<and>
     sorted_out fd_ev flying_d fin_d keep_d bad_d tq1"
proof -
  obtain a' where run: "exec (=) (progress_round sample_agent_config) busy_agent sample_round_trace (Returned ()) a'"
    using sample_round_run by blast
  have "only_adds (=)" by (simp add: only_adds_def)
  from progress_round_settles [OF stable_eq this run] show ?thesis
    unfolding busy_agent_def by (elim exE conjE) (simp, blast)
qed

end
