(* ===== verification/Completion_Paths.thy ===== *)
theory Completion_Paths
  imports Handlers Samples
begin

text \<open>
  Completions reach the daemon through a shared-memory ring or in a batch over the socket. The two paths
  are written separately; here they are shown to have the same effect.
\<close>

named_theorems ring_free

abbreviation on_rings :: "ring list \<Rightarrow> daemon \<Rightarrow> daemon" where
  "on_rings r s \<equiv> s\<lparr>d_rings := r\<rparr>"

section \<open>The rings do not matter to a completion\<close>

lemma on_rings_reads [ring_free]:
  "epoch_valid rank ep (on_rings r s) = epoch_valid rank ep s"
  "find_lease k (on_rings r s) = find_lease k s"
  "slot_state b (on_rings r s) = slot_state b s"
  "creating_canonical t (on_rings r s) = creating_canonical t s"
  "should_drain (on_rings r s) = should_drain s"
  "cold_copy t b (on_rings r s) = cold_copy t b s"
  "now_real_ns (on_rings r s) = now_real_ns s"
  by (simp_all add: epoch_valid_def find_lease_def slot_state_def creating_canonical_def find_object_def
      should_drain_def cold_copy_def now_real_ns_def Let_def)

lemma on_rings_writes [ring_free]:
  "m_add m v (on_rings r s) = on_rings r (m_add m v s)"
  "m_inc m (on_rings r s) = on_rings r (m_inc m s)"
  "m_sub m v (on_rings r s) = on_rings r (m_sub m v s)"
  "upd_run b c f (on_rings r s) = on_rings r (upd_run b c f s)"
  "put_location k l (on_rings r s) = on_rings r (put_location k l s)"
  "erase_lease k (on_rings r s) = on_rings r (erase_lease k s)"
  by (simp_all add: m_inc_def m_add_def m_sub_def upd_run_def put_location_def erase_lease_def)

lemma on_rings_runs [ring_free]:
  "set_run_state b c st (on_rings r s) = on_rings r (set_run_state b c st s)"
  "complete_run b c q st (on_rings r s) = on_rings r (complete_run b c q st s)"
  "free_slots b c (on_rings r s) = on_rings r (free_slots b c s)"
  "enqueue_drain L (on_rings r s) = on_rings r (enqueue_drain L s)"
  by (simp_all add: set_run_state_def complete_run_def free_slots_def enqueue_drain_def Let_def
      upd_run_def now_real_ns_def m_inc_def m_add_def m_sub_def)

lemma on_rings_location [ring_free]:
  "update_location_if_latest t v k sl c n (on_rings r s) =
   map_prod id (on_rings r) (update_location_if_latest t v k sl c n s)"
  by (simp add: update_location_if_latest_def Let_def ring_free split: option.split)

lemma on_rings_d2h [ring_free]:
  "apply_d2h_complete rank ep l t v sl q (on_rings r s) =
   map_prod id (on_rings r) (apply_d2h_complete rank ep l t v sl q s)"
  by (simp add: apply_d2h_complete_def Let_def ring_free case_prod_beta split: option.split)

lemma on_rings_h2d [ring_free]:
  "apply_h2d_complete rank ep l t v sl kp q (on_rings r s) =
   map_prod id (on_rings r) (apply_h2d_complete rank ep l t v sl kp q s)"
proof (cases "find_lease l s")
  case None
  then show ?thesis by (simp add: apply_h2d_complete_def ring_free)
next
  case (Some L)
  let ?s = "m_add kH2DBytes (ls_nbytes L) (m_sub kInflightH2DBytes (ls_nbytes L)
    (upd_run sl (ls_slot_count L) (\<lambda>k e. e\<lparr>se_complete_seq := q\<rparr>) s))"
  show ?thesis
    by (cases "t_find (d_locations ?s) t"; cases "snd (cold_copy t sl ?s)")
      (simp_all add: apply_h2d_complete_def Let_def Some ring_free case_prod_beta)
qed

section \<open>A ring entry as a batch entry\<close>

text \<open>A ring entry carries no sequence number and no wish to keep the pinned copy.\<close>

definition batch_entry :: "completion_entry \<Rightarrow> BatchCompletion" where
  "batch_entry e = \<lparr>bcn_event_type = ce_event_type e, bcn_lease_id = ce_lease_id e, bcn_tensor_id = ce_tensor_id e,
     bcn_version = ce_version e, bcn_slot_id = ce_slot_id e, bcn_seq = 0,
     bcn_timestamp_ns = ce_timestamp_ns e, bcn_keep_pinned = False\<rparr>"

lemma ring_entry_as_batch: "apply_ring_completion rank ep e s = snd (apply_batch_entry rank ep (batch_entry e) s)"
  by (simp add: apply_ring_completion_def apply_batch_entry_def batch_entry_def case_prod_beta)

lemma on_rings_batch_entry:
  "apply_batch_entry rank ep c (on_rings r s) = map_prod id (on_rings r) (apply_batch_entry rank ep c s)"
  by (simp add: apply_batch_entry_def ring_free case_prod_beta)

lemma on_rings_batch:
  "batch_loop rank ep cs a b (on_rings r s) = map_prod id (on_rings r) (batch_loop rank ep cs a b s)"
proof (induction cs arbitrary: a b s)
  case (Cons c cs)
  show ?case by (cases "apply_batch_entry rank ep c s") (simp add: on_rings_batch_entry Cons)
qed simp

lemma batch_rings: "d_rings (snd (batch_loop rank ep cs a b s)) = d_rings s"
  using arg_cong [OF on_rings_batch [of rank ep cs a b "d_rings s" s], of "\<lambda>x. d_rings (snd x)"] by simp

lemma batch_counts: "snd (batch_loop rank ep cs a b s) = snd (batch_loop rank ep cs a' b' s)"
proof (induction cs arbitrary: a b a' b' s)
  case (Cons c cs)
  obtain ok s1 where "apply_batch_entry rank ep c s = (ok, s1)" by (cases "apply_batch_entry rank ep c s")
  then show ?case using Cons [of _ _ s1] by (cases ok) simp_all
qed simp

lemma drain_ring_batch:
  assumes "unat i < length (d_rings s)" and "ring_ok (at32 (d_rings s) i)"
  shows "\<exists>h. drain_ring n i rank ep s =
      set_ring i h (snd (batch_loop rank ep (map batch_entry (take n (ring_abs (at32 (d_rings s) i)))) 0 0 s)) \<and>
    ring_ok h \<and> ring_abs h = drop n (ring_abs (at32 (d_rings s) i))"
  using assms
proof (induction n arbitrary: s)
  case 0
  then show ?case by (intro exI [of _ "at32 (d_rings s) i"]) (simp add: set_ring_def)
next
  case (Suc n)
  let ?h = "at32 (d_rings s) i"
  show ?case
  proof (cases "ring_abs ?h")
    case Nil
    then show ?thesis using Suc.prems rq.pop_empty [of ?h]
      by (intro exI [of _ ?h]) (simp add: set_ring_def)
  next
    case (Cons e es)
    let ?h1 = "?h\<lparr>rh_head := rh_head ?h + 1\<rparr>"
    have pop: "ring_pop ?h = Some (e, ?h1)" "ring_ok ?h1" "ring_abs ?h1 = es"
      using ring_pop_item [OF Suc.prems(2) Cons] ring_abs_Cons(3) [OF Cons] by simp_all
    let ?r = "(d_rings s)[unat i := ?h1]"
    obtain ok s1 where b: "apply_batch_entry rank ep (batch_entry e) s = (ok, s1)" by (cases "apply_batch_entry rank ep (batch_entry e) s")
    have s1: "d_rings s1 = d_rings s" using batch_rings [of rank ep "[batch_entry e]" 0 0 s] b by (simp split: if_splits)
    have step: "apply_ring_completion rank ep e (set_ring i ?h1 s) = on_rings ?r s1"
      by (simp add: ring_entry_as_batch set_ring_def on_rings_batch_entry b)
    obtain h where h: "drain_ring n i rank ep (on_rings ?r s1) =
        set_ring i h (snd (batch_loop rank ep (map batch_entry (take n es)) 0 0 (on_rings ?r s1)))"
      "ring_ok h" "ring_abs h = drop n es"
      using Suc.IH [of "on_rings ?r s1"] Suc.prems(1) pop by auto
    let ?t = "snd (batch_loop rank ep (map batch_entry (take n es)) 0 0 s1)"
    have "set_ring i h (on_rings ?r ?t) = set_ring i h ?t"
      by (simp add: set_ring_def batch_rings s1)
    then have "drain_ring (Suc n) i rank ep s = set_ring i h ?t" using pop step h(1) by (simp add: on_rings_batch)
    moreover have "snd (batch_loop rank ep (map batch_entry (take (Suc n) (e # es))) 0 0 s) = ?t"
      using b batch_counts [of rank ep "map batch_entry (take n es)" 1 0 s1 0 0]
        batch_counts [of rank ep "map batch_entry (take n es)" 0 1 s1 0 0] by simp
    ultimately show ?thesis using h(2,3) Cons by (intro exI [of _ h]) simp
  qed
qed

text \<open>
  C31. Taking up to \<open>n\<close> entries from a well-formed ring has, on everything but the ring, the effect of a
  BatchComplete request of the ring's owner with the first \<open>n\<close> pending entries in order; the ring keeps
  the others.
\<close>

theorem ring_drain_is_batch:
  assumes "unat i < length (d_rings s)" and "ring_ok (at32 (d_rings s) i)"
  shows "\<exists>h. drain_ring n i rank ep s =
      set_ring i h (snd (handle_batch_complete
        \<lparr>bcq_rank_id = rank, bcq_rank_epoch = ep,
         bcq_completions = map batch_entry (take n (ring_abs (at32 (d_rings s) i)))\<rparr> s)) \<and>
    ring_ok h \<and> ring_abs h = drop n (ring_abs (at32 (d_rings s) i))"
  using drain_ring_batch [OF assms, of n rank ep] by (simp add: handle_batch_complete_def case_prod_beta)

definition ringed_daemon :: daemon where
  "ringed_daemon = sample_registered\<lparr>d_rings := [snd (ring_push (sample_ring 5) sample_entry)]\<rparr>"

lemma ringed_ok: "ring_ok (snd (ring_push (sample_ring 5) sample_entry))"
  using rq.push_room [OF sample_ring_ok, of 5 sample_entry] rq.push_full [OF sample_ring_ok, of 5 sample_entry] sample_ring_ok
  by (metis linorder_not_less snd_conv)

theorem ring_drain_is_batch_witness:
  "(0 :: nat) < length (d_rings ringed_daemon) \<and> ring_ok (d_rings ringed_daemon ! 0) \<and>
   (\<exists>h. drain_ring 256 0 0 1 ringed_daemon =
      set_ring 0 h (snd (handle_batch_complete
        \<lparr>bcq_rank_id = 0, bcq_rank_epoch = 1,
         bcq_completions = map batch_entry (take 256 (ring_abs (d_rings ringed_daemon ! 0)))\<rparr> ringed_daemon)) \<and>
    ring_ok h \<and> ring_abs h = drop 256 (ring_abs (d_rings ringed_daemon ! 0)))"
  using ring_drain_is_batch [of 0 ringed_daemon 256 0 1] ringed_ok by (simp add: ringed_daemon_def)

end
