(* ===== verification/Identity.thy ===== *)
theory Identity
  imports Canonical
begin

text \<open>
  The identity of canonical objects: the text that names a shard determines all fields that identify it.
\<close>

section \<open>Keys\<close>

lemma append_u64_cut: "append_u64 v @ r = append_u64 w @ r' \<longleftrightarrow> v = w \<and> r = r'"
proof
  assume eq: "append_u64 v @ r = append_u64 w @ r'"
  have cut: "takeWhile is_digit (append_u64 x @ y) = digits (unat x)" for x y
    by (simp add: append_u64_def Let_def takeWhile_digits is_digit_def)
  have "digits (unat v) = digits (unat w)" using cut [of v r] cut [of w r'] eq by simp
  then have "v = w" by (simp add: word_unat_eq_iff)
  then show "v = w \<and> r = r'" using eq by simp
qed simp

lemma append_i64_cut: "append_i64 i @ r = append_i64 j @ r' \<longleftrightarrow> i = j \<and> r = r'"
proof
  assume eq: "append_i64 i @ r = append_i64 j @ r'"
  have cut: "takeWhile is_digit (digits n @ '':'' @ y) = digits n" for n y by (simp add: takeWhile_digits is_digit_def)
  have hd: "hd (digits n @ y) \<noteq> CHR ''-''" for n y
    using digits_is_digit [of "hd (digits n)" n] digits_not_Nil [of n] by (auto simp: is_digit_def)
  have sign: "i < 0 \<longleftrightarrow> j < 0"
    using arg_cong [OF eq, of hd] hd [of "nat i" "'':'' @ r"] hd [of "nat j" "'':'' @ r'"]
    by (simp add: append_i64_def split: if_splits)
  have "i = j"
  proof (cases "i < 0")
    case True
    then have "digits (nat (- i)) @ '':'' @ r = digits (nat (- j)) @ '':'' @ r'" using eq sign by (simp add: append_i64_def)
    then have "digits (nat (- i)) = digits (nat (- j))" using cut by metis
    then show ?thesis using True sign by simp
  next
    case False
    then have "digits (nat i) @ '':'' @ r = digits (nat j) @ '':'' @ r'" using eq sign by (simp add: append_i64_def)
    then have "digits (nat i) = digits (nat j)" using cut by metis
    then show ?thesis using False sign by simp
  qed
  then show "i = j \<and> r = r'" using eq by simp
qed simp

lemma ucast_32_64_inject: "(ucast (x :: u32) :: u64) = ucast y \<longleftrightarrow> x = y"
proof
  assume eq: "(ucast x :: u64) = ucast y"
  have "unat (ucast z :: u64) = unat z" for z :: u32 by (simp add: unsigned_ucast_eq take_bit_word_eq_self)
  then show "x = y" using eq by (metis word_unat_eq_iff)
qed simp

lemma sint_inject: "sint x = sint y \<longleftrightarrow> x = y" for x y :: "'a :: len word"
  by (auto intro: signed_word_eqI)

text \<open>The fields that identify a shard: all but the two texts for display.\<close>

definition key_identity :: "CanonicalTensorKeyWire \<Rightarrow> CanonicalTensorKeyWire" where
  "key_identity k = k\<lparr>ck_job := (ck_job k)\<lparr>jk_job_name := ''''\<rparr>, ck_param_fqn_debug := ''''\<rparr>"

text \<open>
  C32. Deduplication goes by \<^verbatim>\<open>canonical_key_string\<close>: two keys have the same text exactly if they agree on
  every field but the job's name and the parameter's display name. So distinct shards never share an
  object, also where a 20-digit number loses its separator in the buffer of \<^verbatim>\<open>append_u64\<close>.
\<close>

theorem canonical_key_faithful:
  "canonical_key_string k = canonical_key_string k' \<longleftrightarrow> key_identity k = key_identity k'"
proof -
  have last: "append_u64 v = append_u64 w \<longleftrightarrow> v = w" for v w using append_u64_cut [of v "[]" w "[]"] by simp
  show ?thesis
    by (cases k; cases k'; cases "ck_job k"; cases "ck_job k'")
      (simp add: canonical_key_string_def key_identity_def append_u64_cut append_i64_cut last ucast_32_64_inject sint_inject)
qed

end
