(* ===== verification/Device_World.thy ===== *)
theory Device_World
  imports Agent_Runs Safety
begin

text \<open>
  The surroundings of an agent put together: the daemon, the memory of a device, and the streams on which
  CUDA performs copies in order, some time after they were launched. A served trace is one whose calls are
  answered by these: an RPC by the daemon's handler, a read of a slot's state by the shared table, the
  wait for an event only after everything in front of it has been performed. In between, copies are
  performed and the daemon's other threads run; these are left open, except that they keep the daemon's
  invariant and leave one given tensor aside.
\<close>

section \<open>Copies\<close>

text \<open>Where the rank's address space shows the arenas: arena and offset of a host address.\<close>

type_synonym placing = "u64 \<Rightarrow> nat \<times> nat"

type_synonym device = "u64 \<Rightarrow> u8"

datatype stream_op = CopyOut u64 u64 u64 | CopyIn u64 u64 u64 | Mark u64

record world =
  w_daemon :: daemon
  w_device :: device
  w_streams :: "u64 \<Rightarrow> stream_op list"

definition store_byte :: "nat \<times> nat \<Rightarrow> u8 \<Rightarrow> (nat \<Rightarrow> nat \<Rightarrow> u8) \<Rightarrow> nat \<Rightarrow> nat \<Rightarrow> u8" where
  "store_byte place b m = m(fst place := (m (fst place))(snd place := b))"

fun perform :: "placing \<Rightarrow> stream_op \<Rightarrow> world \<Rightarrow> world" where
  "perform vm (CopyOut dst src n) w =
     w\<lparr>w_daemon := (w_daemon w)\<lparr>d_mem := fold (\<lambda>i. store_byte (vm (dst + of_nat i)) (w_device w (src + of_nat i)))
                                       [0..<unat n] (d_mem (w_daemon w))\<rparr>\<rparr>"
| "perform vm (CopyIn dst src n) w =
     w\<lparr>w_device := fold (\<lambda>i g. g(dst + of_nat i := case vm (src + of_nat i) of (x, y) \<Rightarrow> d_mem (w_daemon w) x y))
                     [0..<unat n] (w_device w)\<rparr>"
| "perform vm (Mark ev) w = w"

definition enqueue :: "u64 \<Rightarrow> stream_op \<Rightarrow> world \<Rightarrow> world" where
  "enqueue st p w = w\<lparr>w_streams := (w_streams w)(st := w_streams w st @ [p])\<rparr>"

definition device_bytes :: "u64 \<Rightarrow> u64 \<Rightarrow> device \<Rightarrow> bytes" where
  "device_bytes p n g = map (\<lambda>i. g (p + of_nat i)) [0..<unat n]"

lemma fold_store_bytes:
  assumes "\<And>i. i < n \<Longrightarrow> f i = (x, y + i)"
  shows "fold (\<lambda>i. store_byte (f i) (b i)) [0..<n] m x' y' =
    (if x' = x \<and> y \<le> y' \<and> y' < y + n then b (y' - y) else m x' y')"
  using assms by (induction n) (auto simp: store_byte_def less_Suc_eq)

lemma fold_device:
  fixes p :: u64
  assumes "n \<le> 2 ^ 64"
  shows "i < n \<Longrightarrow> fold (\<lambda>i g. g(p + of_nat i := b i)) [0..<n] g (p + of_nat i) = b i"
  using assms
proof (induction n)
  case (Suc n)
  show ?case
  proof (cases "i = n")
    case False
    then have "i < n" using Suc.prems by simp
    moreover have "unat (of_nat j :: u64) = j" if "j \<le> n" for j
      using that Suc.prems(2) by (simp add: unsigned_of_nat take_bit_nat_eq_self)
    from this [of i] this [of n] have "(of_nat i :: u64) \<noteq> of_nat n" using \<open>i < n\<close> by auto
    ultimately show ?thesis using Suc by simp
  qed simp
qed simp

text \<open>A copy to the host puts the device's bytes into the slot; a copy to the device gets a slot's bytes there.\<close>

lemma copied_out:
  assumes "\<And>i. i < unat n \<Longrightarrow> vm (dst + of_nat i) = (x, y + i)"
  shows "mem_read (x, y) (unat n) (w_daemon (perform vm (CopyOut dst src n) w)) = device_bytes src n (w_device w)"
  using fold_store_bytes [of "unat n" "\<lambda>i. vm (dst + of_nat i)" x y, OF assms]
  by (simp add: mem_read_def device_bytes_def)

lemma copied_in:
  assumes "\<And>i. i < unat n \<Longrightarrow> vm (src + of_nat i) = (x, y + i)"
  shows "device_bytes dst n (w_device (perform vm (CopyIn dst src n) w)) = mem_read (x, y) (unat n) (w_daemon w)"
proof -
  have "unat n \<le> 2 ^ 64" using less_imp_le [OF unat_less_u64 [of n]] by simp
  then show ?thesis using assms by (simp add: mem_read_def device_bytes_def fold_device)
qed

section \<open>Other threads\<close>

text \<open>The slots a tensor occupies, with the number of bytes.\<close>

definition occupies :: "u64 \<Rightarrow> u32 \<Rightarrow> u64 \<Rightarrow> daemon \<Rightarrow> bool" where
  "occupies tid b n d \<longleftrightarrow>
     (\<exists>k L. t_find (d_leases d) k = Some L \<and> ls_tensor_id L = tid \<and> ls_base_slot L = b \<and> ls_nbytes L = n) \<or>
     (\<exists>l. t_find (d_locations d) tid = Some l \<and> loc_slot_id l = b \<and> loc_nbytes l = n)"

text \<open>
  A step that leaves a tensor aside: sessions and slot plan stay, the tensor's location and leases stay and
  get no company, and the slots it occupies keep their state and bytes.
\<close>

definition aside :: "u64 \<Rightarrow> daemon \<Rightarrow> daemon \<Rightarrow> bool" where
  "aside tid d d' \<longleftrightarrow>
     d_sessions d' = d_sessions d \<and> same_plan d d' \<and> t_find (d_locations d') tid = t_find (d_locations d) tid \<and>
     (\<forall>k L. t_find (d_leases d) k = Some L \<and> ls_tensor_id L = tid \<longrightarrow> t_find (d_leases d') k = Some L) \<and>
     (\<forall>k L. (k, L) \<in> set (d_leases d') \<and> ls_tensor_id L = tid \<longrightarrow> (k, L) \<in> set (d_leases d)) \<and>
     (\<forall>b n. occupies tid b n d \<longrightarrow> slot_state b d' = slot_state b d \<and>
        mem_read (slot_addr b d) (unat n) d' = mem_read (slot_addr b d) (unat n) d)"

section \<open>Served traces\<close>

inductive silent :: "placing \<Rightarrow> daemon \<Rightarrow> u64 \<Rightarrow> world \<Rightarrow> world \<Rightarrow> bool" for vm s0 tid where
  perform_next: "w_streams w st = p # ps \<Longrightarrow>
    silent vm s0 tid w (perform vm p (w\<lparr>w_streams := (w_streams w)(st := ps)\<rparr>))"
| others: "daemon_ok s0 d \<Longrightarrow> aside tid (w_daemon w) d \<Longrightarrow> silent vm s0 tid w (w\<lparr>w_daemon := d\<rparr>)"

text \<open>The windows in which a handler has released the mutex.\<close>

definition windows_aside :: "daemon \<Rightarrow> u64 \<Rightarrow> (io_env \<times> (daemon \<Rightarrow> daemon)) list \<Rightarrow> bool" where
  "windows_aside s0 tid ws \<longleftrightarrow>
     (\<forall>(env, others) \<in> set ws. \<forall>d. daemon_ok s0 d \<longrightarrow> daemon_ok s0 (others d) \<and> aside tid d (others d))"

text \<open>What the program does in the callback with the memory that was given up is its own affair.\<close>

inductive answers :: "daemon \<Rightarrow> u64 \<Rightarrow> world \<Rightarrow> obs \<Rightarrow> world \<Rightarrow> bool" for s0 tid where
  by_daemon: "run_task ws (handle_request q (w_daemon w)) = Some (Ret (r, fds), d) \<Longrightarrow> windows_aside s0 tid ws \<Longrightarrow>
    answers s0 tid w (ORpc q (Inr r)) (w\<lparr>w_daemon := d\<rparr>)"
| copy_out: "answers s0 tid w (OCuda (cudaMemcpyD2H dst src n st) cudaSuccess) (enqueue st (CopyOut dst src n) w)"
| copy_in: "answers s0 tid w (OCuda (cudaMemcpyH2D dst src n st) cudaSuccess) (enqueue st (CopyIn dst src n) w)"
| new_event: "(\<And>st. Mark ev \<notin> set (w_streams w st)) \<Longrightarrow> answers s0 tid w (OEvent cudaSuccess ev) w"
| record_event: "answers s0 tid w (OCuda (cudaEventRecord ev st) cudaSuccess) (enqueue st (Mark ev) w)"
| event_passed: "(\<And>st. Mark ev \<notin> set (w_streams w st)) \<Longrightarrow>
    answers s0 tid w (OCuda (cudaEventSynchronize ev) cudaSuccess) w"
| destroyed: "answers s0 tid w (OCuda (cudaEventDestroy ev) e) w"
| registered: "answers s0 tid w (OCuda (cudaHostRegister p l) e) w"
| slot_read: "answers s0 tid w (ORead (SlotState i) (ucast (slot_state_code (slot_state i (w_daemon w))))) w"
| given_up: "answers s0 tid w (OInvalidate c) (w\<lparr>w_device := g\<rparr>)"
| cuda_failed: "e \<noteq> cudaSuccess \<Longrightarrow> answers s0 tid w (OCuda c e) w"
| no_event: "e \<noteq> cudaSuccess \<Longrightarrow> answers s0 tid w (OEvent e ev) w"

inductive_simps answers_simps:
  "answers s0 tid w (ORpc q r) w'"
  "answers s0 tid w (OCuda (cudaMemcpyD2H dst src n st) e) w'" "answers s0 tid w (OCuda (cudaMemcpyH2D dst src n st) e) w'"
  "answers s0 tid w (OEvent e ev) w'" "answers s0 tid w (OCuda (cudaEventRecord ev st) e) w'"
  "answers s0 tid w (OCuda (cudaEventSynchronize ev) e) w'" "answers s0 tid w (OCuda (cudaEventDestroy ev) e) w'"
  "answers s0 tid w (OCuda (cudaHostRegister p l) e) w'" "answers s0 tid w (ORead (SlotState i) v) w'"
  "answers s0 tid w (OInvalidate c) w'"

inductive serves :: "placing \<Rightarrow> daemon \<Rightarrow> u64 \<Rightarrow> world \<Rightarrow> obs list \<Rightarrow> world \<Rightarrow> bool" for vm s0 tid where
  serves_Nil: "serves vm s0 tid w [] w"
| serves_silent: "silent vm s0 tid w w1 \<Longrightarrow> serves vm s0 tid w1 t w' \<Longrightarrow> serves vm s0 tid w t w'"
| serves_Cons: "answers s0 tid w ob w1 \<Longrightarrow> serves vm s0 tid w1 t w' \<Longrightarrow> serves vm s0 tid w (ob # t) w'"

text \<open>Assertions that hold over silent steps.\<close>

definition lasting :: "placing \<Rightarrow> daemon \<Rightarrow> u64 \<Rightarrow> (world \<Rightarrow> bool) \<Rightarrow> bool" where
  "lasting vm s0 tid P \<longleftrightarrow> (\<forall>w w'. P w \<longrightarrow> silent vm s0 tid w w' \<longrightarrow> P w')"

lemma serves_end: "serves vm s0 tid w t w' \<Longrightarrow> t = [] \<Longrightarrow> lasting vm s0 tid P \<Longrightarrow> P w \<Longrightarrow> P w'"
  by (induction rule: serves.induct) (auto simp: lasting_def)

lemma serves_step:
  "serves vm s0 tid w u w' \<Longrightarrow> u = ob # t \<Longrightarrow> lasting vm s0 tid P \<Longrightarrow> P w \<Longrightarrow>
   \<exists>w1 w2. P w1 \<and> answers s0 tid w1 ob w2 \<and> serves vm s0 tid w2 t w'"
proof (induction arbitrary: ob t rule: serves.induct)
  case (serves_silent w w1 t w')
  then show ?case unfolding lasting_def by blast
qed blast+

section \<open>Stages of a transfer\<close>

text \<open>An assertion about daemon and device that the other threads leave true.\<close>

definition lasts :: "daemon \<Rightarrow> u64 \<Rightarrow> (daemon \<Rightarrow> device \<Rightarrow> bool) \<Rightarrow> bool" where
  "lasts s0 tid I \<longleftrightarrow> (\<forall>d g d'. I d g \<longrightarrow> daemon_ok s0 d' \<longrightarrow> aside tid d d' \<longrightarrow> I d' g)"

definition resting :: "(daemon \<Rightarrow> device \<Rightarrow> bool) \<Rightarrow> world \<Rightarrow> bool" where
  "resting I w \<longleftrightarrow> I (w_daemon w) (w_device w) \<and> w_streams w = (\<lambda>_. [])"

lemma resting_lasting: "lasts s0 tid I \<Longrightarrow> lasting vm s0 tid (resting I)"
  by (auto simp: lasting_def resting_def lasts_def elim!: silent.cases)

text \<open>
  A copy \<open>c\<close> and the event behind it on an otherwise idle device: \<open>I\<close> holds throughout, and \<open>D\<close> once the copy
  has been performed.
\<close>

definition streaming :: "u64 \<Rightarrow> stream_op list \<Rightarrow> (daemon \<Rightarrow> device \<Rightarrow> bool) \<Rightarrow> (daemon \<Rightarrow> device \<Rightarrow> bool) \<Rightarrow> world \<Rightarrow> bool" where
  "streaming st ps I D w \<longleftrightarrow> I (w_daemon w) (w_device w) \<and>
     (\<exists>k \<le> length ps. w_streams w = (\<lambda>_. [])(st := drop k ps) \<and> (0 < k \<longrightarrow> D (w_daemon w) (w_device w)))"

definition effects :: "placing \<Rightarrow> stream_op \<Rightarrow> (daemon \<Rightarrow> device \<Rightarrow> bool) \<Rightarrow> (daemon \<Rightarrow> device \<Rightarrow> bool) \<Rightarrow> bool" where
  "effects vm c I D \<longleftrightarrow> (\<forall>w. I (w_daemon w) (w_device w) \<longrightarrow>
     I (w_daemon (perform vm c w)) (w_device (perform vm c w)) \<and> D (w_daemon (perform vm c w)) (w_device (perform vm c w)))"

lemma perform_streams [simp]: "w_streams (perform vm p w) = w_streams w"
  by (cases p) simp_all

lemma streaming_lasting:
  assumes "lasts s0 tid I" and "lasts s0 tid D" and eff: "effects vm c I D"
  shows "lasting vm s0 tid (streaming st (c # map Mark evs) I D)"
  unfolding lasting_def
proof (intro allI impI)
  fix w w' assume s: "streaming st (c # map Mark evs) I D w" and "silent vm s0 tid w w'"
  from this(2) show "streaming st (c # map Mark evs) I D w'"
  proof cases
    case (perform_next st' p ps)
    from s obtain k where k: "k \<le> length (c # map Mark evs)" "w_streams w = (\<lambda>_. [])(st := drop k (c # map Mark evs))"
      "0 < k \<longrightarrow> D (w_daemon w) (w_device w)" and I: "I (w_daemon w) (w_device w)"
      by (auto simp: streaming_def)
    then have st: "st' = st" and dr: "drop k (c # map Mark evs) = p # ps" using perform_next by (auto split: if_splits)
    then have k': "k < length (c # map Mark evs)" and p: "p = (c # map Mark evs) ! k" and ps: "ps = drop (Suc k) (c # map Mark evs)"
      by (metis drop_all linorder_not_le list.distinct(1), metis drop_eq_Nil2 hd_drop_conv_nth linorder_not_le list.distinct(1) list.sel(1),
          metis drop_Suc list.sel(3) tl_drop)
    have str: "w_streams w' = (\<lambda>_. [])(st := drop (Suc k) (c # map Mark evs))" using perform_next k(2) st ps by simp
    have "I (w_daemon w') (w_device w') \<and> D (w_daemon w') (w_device w')"
    proof (cases k)
      case 0
      then have "p = c" using p by simp
      then show ?thesis using perform_next(1) eff I unfolding effects_def by simp
    next
      case (Suc j)
      then have "p = Mark (evs ! j)" using p k' by simp
      then show ?thesis using perform_next(1) I k(3) Suc by simp
    qed
    then show ?thesis using str k' unfolding streaming_def by (intro conjI exI [of _ "Suc k"]) simp_all
  next
    case (others d)
    then show ?thesis using s assms(1,2) by (auto simp: streaming_def lasts_def)
  qed
qed

text \<open>Launching a copy, recording the event, and the event's completion.\<close>

lemma launched: "resting I w \<Longrightarrow> streaming st [c] I D (enqueue st c w)"
  by (auto simp: resting_def streaming_def enqueue_def intro!: exI [of _ 0])

lemma recorded:
  assumes "streaming st [c] I D w"
  shows "streaming st [c, Mark ev] I D (enqueue st (Mark ev) w)"
proof -
  from assms obtain k where "k \<le> 1" "w_streams w = (\<lambda>_. [])(st := drop k [c])" "0 < k \<longrightarrow> D (w_daemon w) (w_device w)"
    "I (w_daemon w) (w_device w)" by (auto simp: streaming_def)
  then show ?thesis unfolding streaming_def enqueue_def
    by (intro conjI exI [of _ k]) (auto simp: le_Suc_eq)
qed

lemma passed:
  assumes "streaming st [c, Mark ev] I D w" and "\<And>st. Mark ev \<notin> set (w_streams w st)"
  shows "resting (\<lambda>d g. I d g \<and> D d g) w"
proof -
  from assms(1) obtain k where "k \<le> Suc (Suc 0)" "w_streams w = (\<lambda>_. [])(st := drop k [c, Mark ev])" "0 < k \<longrightarrow> D (w_daemon w) (w_device w)"
    "I (w_daemon w) (w_device w)" unfolding streaming_def by auto
  moreover have "k = 2" using calculation(1,2) assms(2) [of st] by (auto simp: numeral_2_eq_2 le_Suc_eq)
  ultimately show ?thesis by (simp add: resting_def fun_upd_idem)
qed

text \<open>The calls of \<^verbatim>\<open>launch\<close> and the wait for its event, served from a resting device.\<close>

lemma served_copy:
  assumes "serves vm s0 tid w (OCuda call cudaSuccess # OEvent cudaSuccess ev # OCuda (cudaEventRecord ev st) cudaSuccess #
      OCuda (cudaEventSynchronize ev) cudaSuccess # t) w'"
    and call: "\<And>w w1. answers s0 tid w (OCuda call cudaSuccess) w1 \<longleftrightarrow> w1 = enqueue st c w"
    and "resting I w" and "lasts s0 tid I" and "lasts s0 tid D" and "effects vm c I D"
  shows "\<exists>w1. resting (\<lambda>d g. I d g \<and> D d g) w1 \<and> serves vm s0 tid w1 t w'"
proof -
  note lasting = resting_lasting [OF assms(4)] streaming_lasting [OF assms(4-6)]
  from serves_step [OF assms(1) refl lasting(1) assms(3)] call launched
  obtain w1 where "streaming st [c] I D w1" and s1: "serves vm s0 tid w1 (OEvent cudaSuccess ev #
      OCuda (cudaEventRecord ev st) cudaSuccess # OCuda (cudaEventSynchronize ev) cudaSuccess # t) w'" by metis
  then have "streaming st (c # map Mark []) I D w1" by simp
  from serves_step [OF s1 refl lasting(2) this] obtain w2 where "streaming st (c # map Mark []) I D w2"
    and s2: "serves vm s0 tid w2 (OCuda (cudaEventRecord ev st) cudaSuccess # OCuda (cudaEventSynchronize ev) cudaSuccess # t) w'"
    by (auto simp: answers_simps)
  from serves_step [OF s2 refl lasting(2) this(1)] obtain w2' where "streaming st [c] I D w2'"
    and s3: "serves vm s0 tid (enqueue st (Mark ev) w2') (OCuda (cudaEventSynchronize ev) cudaSuccess # t) w'"
    by (auto simp: answers_simps)
  then have "streaming st (c # map Mark [ev]) I D (enqueue st (Mark ev) w2')" using recorded by simp
  from serves_step [OF s3 refl lasting(2) this] obtain w3 where "streaming st [c, Mark ev] I D w3"
    "\<And>st. Mark ev \<notin> set (w_streams w3 st)" "serves vm s0 tid w3 t w'"
    by (auto simp: answers_simps)
  then show ?thesis using passed by blast
qed

lemma served_registration:
  assumes "serves vm s0 tid w (reg @ t) w'" and "registration reg" and "lasts s0 tid I" and "resting I w"
  shows "\<exists>w1. resting I w1 \<and> serves vm s0 tid w1 t w'"
proof (cases "reg = []")
  case False
  then obtain b l e where "reg = [OCuda (cudaHostRegister b l) e]" using assms(2) by (auto simp: registration_def)
  then show ?thesis
    using serves_step [OF assms(1) _ resting_lasting [OF assms(3)] assms(4)] by (auto simp: answers_simps)
qed (use assms in auto)

text \<open>A call that the daemon answers.\<close>

lemma served_rpc:
  assumes "serves vm s0 tid w (ORpc q r # t) w'" and "lasts s0 tid I" and "resting I w"
  shows "\<exists>w1 ws rs fds d. r = Inr rs \<and> resting I w1 \<and> run_task ws (handle_request q (w_daemon w1)) = Some (Ret (rs, fds), d) \<and>
    windows_aside s0 tid ws \<and> serves vm s0 tid (w1\<lparr>w_daemon := d\<rparr>) t w'"
  using serves_step [OF assms(1) refl resting_lasting [OF assms(2)] assms(3)] unfolding answers_simps by blast

end
