(* ===== verification/Lease_Steps.thy ===== *)
theory Lease_Steps
  imports Device_World Agent_Protocol
begin

text \<open>
  The daemon's part in the transfer of one tensor: from the grant of slots to the stored version and on to the
  lease of a reader, each handler as a step between assertions about the tensor's lease, its slots and
  the bytes there. The allocation may release the mutex and force drains of other tensors.
\<close>

section \<open>Runs of tasks\<close>

lemma run_then_task:
  "run_task ws (then_task t f s) = Some (Ret y, s') \<Longrightarrow>
   \<exists>ws1 ws2 x s1. ws = ws1 @ ws2 \<and> run_task ws1 (t, s) = Some (Ret x, s1) \<and> run_task ws2 (f x s1) = Some (Ret y, s')"
proof (induction ws arbitrary: t s)
  case Nil
  then show ?case by (cases t) (auto simp: then_task_Unlock)
next
  case (Cons w ws)
  show ?case
  proof (cases t)
    case (Ret x)
    then show ?thesis using Cons.prems
      by (intro exI [of _ "[]"] exI [of _ "w # ws"] exI [of _ x] exI [of _ s]) simp
  next
    case (Unlock k)
    obtain env h where w: "w = (env, h)" by (cases w)
    obtain t1 s1 where k: "k env (h s) = (t1, s1)" by (cases "k env (h s)")
    then have "run_task ws (then_task t1 f s1) = Some (Ret y, s')"
      using Cons.prems Unlock w by (simp add: then_task_Unlock)
    from Cons.IH [OF this] obtain ws1 ws2 x s2 where
      "ws = ws1 @ ws2" "run_task ws1 (t1, s1) = Some (Ret x, s2)" "run_task ws2 (f x s2) = Some (Ret y, s')" by blast
    then show ?thesis using Unlock w k
      by (intro exI [of _ "(env, h) # ws1"] exI [of _ ws2] exI [of _ x] exI [of _ s2]) simp
  qed (use Cons.prems in simp)
qed

lemma run_bnd:
  "run_task ws (bnd p f s) = Some (Ret y, s') \<Longrightarrow>
   \<exists>ws1 ws2 x s1. ws = ws1 @ ws2 \<and> run_task ws1 (p s) = Some (Ret x, s1) \<and> run_task ws2 (f x s1) = Some (Ret y, s')"
  using run_then_task [of ws "fst (p s)" f "snd (p s)" y s'] by (simp add: bnd_def split_beta)

lemma run_reply:
  "run_task ws (reply wrap p s) = Some (Ret (rs, fds), s') \<Longrightarrow>
   \<exists>ws1 x. set ws1 \<subseteq> set ws \<and> run_task ws1 (p s) = Some (Ret x, s') \<and> rs = wrap x"
  unfolding reply_def by (drule run_bnd) (auto simp: ret_def)

text \<open>The other threads keep \<open>I\<close> in the windows of a run.\<close>

definition windows_keep :: "(daemon \<Rightarrow> bool) \<Rightarrow> (io_env \<times> (daemon \<Rightarrow> daemon)) list \<Rightarrow> bool" where
  "windows_keep I ws \<longleftrightarrow> (\<forall>(env, h) \<in> set ws. \<forall>d. I d \<longrightarrow> I (h d))"

lemma run_good: "run_task ws r = Some (Ret x, s') \<Longrightarrow> good I Q r \<Longrightarrow> windows_keep I ws \<Longrightarrow> I s' \<and> Q x"
proof (induction ws r rule: run_task.induct)
  case (4 env h ws k s)
  have "I (h s)" using 4(3,4) by (auto simp: good_def windows_keep_def)
  then have "good I Q (k env (h s))" using 4(3) safe_resumed [of I Q k "h s" env]
    by (metis fst_conv good_def prod.collapse)
  moreover have "windows_keep I ws" using 4(4) by (simp add: windows_keep_def)
  ultimately show ?case using 4(1,2) by simp
qed (auto simp: good_def)

lemma good_both: "good I Q r \<Longrightarrow> good J Q' r \<Longrightarrow> good (\<lambda>s. I s \<and> J s) (\<lambda>x. Q x \<and> Q' x) r"
proof -
  have "safe I Q t \<Longrightarrow> safe J Q' t \<Longrightarrow> safe (\<lambda>s. I s \<and> J s) (\<lambda>x. Q x \<and> Q' x) t" for t
  proof (induction rule: safe.induct)
    case (safe_Unlock k)
    then show ?case by (intro safe.safe_Unlock) (auto elim!: safe_UnlockE)
  qed (auto intro: safe.intros)
  then show "good I Q r \<Longrightarrow> good J Q' r \<Longrightarrow> good (\<lambda>s. I s \<and> J s) (\<lambda>x. Q x \<and> Q' x) r" by (simp add: good_def)
qed

section \<open>An allocation leaves the tensor alone\<close>

text \<open>
  What has to be so for a new version \<open>v\<close> of a tensor: the daemon knows no later version, and no prefetch of
  this one is under way.
\<close>

definition no_news :: "u64 \<Rightarrow> u64 \<Rightarrow> daemon \<Rightarrow> bool" where
  "no_news tid v d \<longleftrightarrow>
     (\<forall>(k, L) \<in> set (d_leases d). ls_tensor_id L = tid \<longrightarrow> ls_version L \<le> v \<and> \<not> (ls_is_prefetch L \<and> ls_version L = v)) \<and>
     (\<forall>l. t_find (d_locations d) tid = Some l \<longrightarrow> loc_version l \<le> v)"

definition calm :: "(u32, Session) table \<Rightarrow> u64 \<Rightarrow> u64 \<Rightarrow> daemon \<Rightarrow> bool" where
  "calm S tid v d \<longleftrightarrow> d_sessions d = S \<and> no_news tid v d"

lemma calm_statements [simp]:
  "calm S tid v (m_add m n s) = calm S tid v s" "calm S tid v (m_sub m n s) = calm S tid v s"
  "calm S tid v (m_inc m s) = calm S tid v s" "calm S tid v (upd_run b c f s) = calm S tid v s"
  "calm S tid v (set_run_state b c st s) = calm S tid v s" "calm S tid v (set_slot_state i st s) = calm S tid v s"
  "calm S tid v (free_slots b c s) = calm S tid v s"
  "calm S tid v (put_cold k ce s) = calm S tid v s" "calm S tid v (s\<lparr>d_next_cold_ref := cr\<rparr>) = calm S tid v s"
  "calm S tid v (s\<lparr>d_next_lease_id := nl\<rparr>) = calm S tid v s" "calm S tid v (submit_run b c q st s) = calm S tid v s"
  "calm S tid v (complete_run b c q st s) = calm S tid v s" "calm S tid v (s\<lparr>d_mem := mm\<rparr>) = calm S tid v s"
  by (simp_all add: calm_def no_news_def m_add_def m_sub_def m_inc_def upd_run_def set_run_state_def set_slot_state_def
      free_slots_def put_cold_def submit_run_def complete_run_def)

lemma calm_tables: "same_tables s s' \<Longrightarrow> calm S tid v s' = calm S tid v s"
  by (simp add: calm_def no_news_def same_tables_def)

lemma calm_erase_lease: "calm S tid v s \<Longrightarrow> calm S tid v (erase_lease k s)"
  by (auto simp: calm_def no_news_def erase_lease_def t_erase_def AList.delete_eq)

lemma calm_put_lease:
  "calm S tid v s \<Longrightarrow> \<not> ls_is_prefetch L \<Longrightarrow> (ls_tensor_id L = tid \<Longrightarrow> ls_version L \<le> v) \<Longrightarrow> calm S tid v (put_lease k L s)"
  by (fastforce simp: calm_def no_news_def put_lease_def dest!: t_put_set)

lemma calm_update_location:
  "calm S tid v s \<Longrightarrow> (t = tid \<Longrightarrow> vv \<le> v) \<Longrightarrow> calm S tid v (snd (update_location_if_latest t vv k b cr nb s))"
  by (auto simp: update_location_if_latest_def Let_def put_location_def calm_def no_news_def m_inc_def m_add_def
      split: option.split)

lemma calm_lease: "calm S tid v s \<Longrightarrow> find_lease k s = Some L \<Longrightarrow> ls_tensor_id L = tid \<Longrightarrow> ls_version L \<le> v"
  by (auto simp: calm_def no_news_def find_lease_def dest!: t_find_in_set)

lemma calm_drain_to_cold: "calm S tid v s \<Longrightarrow> calm S tid v (snd (do_drain_to_cold env b nb s))"
  using calm_tables [OF nvme_write_tables, of S tid v env "mem_read (slot_addr b s) (unat nb) s" nb s]
  by (auto simp: do_drain_to_cold_def record_transfer_def Let_def split_beta calm_def no_news_def m_add_def)

lemma force_drain_calm:
  assumes s: "calm S tid v s"
  shows "good (calm S tid v) (\<lambda>_. True) (force_drain_one s)"
proof -
  have io: "calm S tid v (snd (do_drain_to_cold env b nb s1)) \<and> True" if "calm S tid v s1" for env b nb s1
    using that calm_drain_to_cold by simp
  have commit: "calm S tid v (commit_drain b c t vv nb lid cold s1)"
    if "calm S tid v s1" "t = tid \<Longrightarrow> vv \<le> v" for b c t vv nb lid cold s1
    using that unfolding commit_drain_def Let_def by (simp add: calm_erase_lease calm_update_location)
  obtain L s0 where L: "lease_at (oldest_lease s) s = (L, s0)" by (cases "lease_at (oldest_lease s) s")
  then have s0: "calm S tid v s0" and ver: "ls_tensor_id L = tid \<Longrightarrow> ls_version L \<le> v"
    using s calm_put_lease [OF s, of Lease_init] calm_lease [OF s]
    by (auto simp: lease_at_def Lease_init_def split: option.splits)
  show ?thesis
    unfolding force_drain_one_def Let_def L prod.case
    using s s0 ver by (auto intro!: good_bnd_any good_unlocked [where Q = "\<lambda>_. True"] good_ret commit io)
qed

lemma alloc_calm: "calm S tid v s \<Longrightarrow> good (calm S tid v) (\<lambda>_. True) (alloc_draining n g nu nb fl s)"
proof (induction n arbitrary: s)
  case (Suc n)
  obtain got s1 where a: "allocate_slots g nu nb fl s = (got, s1)" by fastforce
  then have "calm S tid v s1" using Suc.prems allocate_slots_state [OF a] by auto
  then show ?case using a by (auto intro!: good_ret good_bnd [OF force_drain_calm] Suc.IH split: option.split)
qed (simp add: good_ret)

lemma aside_calm: "calm S tid v d \<Longrightarrow> aside tid d d' \<Longrightarrow> calm S tid v d'"
  by (fastforce simp: calm_def no_news_def aside_def)

lemma windows_calm: "windows_aside s0 tid ws \<Longrightarrow> windows_keep (\<lambda>d. daemon_ok s0 d \<and> calm S tid v d) ws"
  unfolding windows_aside_def windows_keep_def using aside_calm by blast

section \<open>The slots of a lease\<close>

lemma nth_beyond: "length xs = length ys \<Longrightarrow> length xs \<le> i \<Longrightarrow> xs ! i = ys ! i"
proof (induction xs ys arbitrary: i rule: list_induct2)
  case (Cons x xs y ys)
  then show ?case by (cases i) simp_all
qed simp

lemma slot_addr_plan: "same_plan d d' \<Longrightarrow> slot_addr b d' = slot_addr b d"
proof -
  assume "same_plan d d'"
  then have eq: "map geometry (d_slots d') = map geometry (d_slots d)" by (simp add: same_plan_def)
  then have len: "length (d_slots d') = length (d_slots d)" by (rule map_eq_imp_length_eq)
  have "geometry (at32 (d_slots d') b) = geometry (at32 (d_slots d) b)"
  proof (cases "unat b < length (d_slots d)")
    case True
    then show ?thesis using eq len by (metis nth_map)
  next
    case False
    then show ?thesis using nth_beyond [OF len, of "unat b"] len by simp
  qed
  then show ?thesis by (simp add: slot_addr_def geometry_def Let_def)
qed

lemma plan_between: "daemon_ok s0 d \<Longrightarrow> daemon_ok s0 d' \<Longrightarrow> same_plan d d'"
  by (simp add: daemon_ok_def same_plan_def)

text \<open>The bytes that a lease stands for.\<close>

definition contents :: "Lease \<Rightarrow> daemon \<Rightarrow> bytes" where
  "contents L d = mem_read (slot_addr (ls_base_slot L) d) (unat (ls_nbytes L)) d"

text \<open>A daemon that holds the lease, with the slots in state \<open>st\<close>.\<close>

definition leased :: "daemon \<Rightarrow> (u32, Session) table \<Rightarrow> Lease \<Rightarrow> slot_state \<Rightarrow> daemon \<Rightarrow> bool" where
  "leased s0 S L st d \<longleftrightarrow>
     daemon_ok s0 d \<and> d_sessions d = S \<and> find_lease (ls_lease_id L) d = Some L \<and> slot_state (ls_base_slot L) d = st"

lemma aside_leased:
  assumes "leased s0 S L st d" and "daemon_ok s0 d'" and "aside (ls_tensor_id L) d d'"
  shows "leased s0 S L st d'" and "contents L d' = contents L d"
proof -
  have "occupies (ls_tensor_id L) (ls_base_slot L) (ls_nbytes L) d"
    using assms(1) by (auto simp: leased_def occupies_def find_lease_def)
  then have keep: "slot_state (ls_base_slot L) d' = slot_state (ls_base_slot L) d"
    "mem_read (slot_addr (ls_base_slot L) d) (unat (ls_nbytes L)) d' = contents L d"
    using assms(3) by (auto simp: aside_def contents_def)
  have "find_lease (ls_lease_id L) d' = Some L"
    using assms(1,3) by (auto simp: leased_def aside_def find_lease_def)
  then show "leased s0 S L st d'" using assms keep(1) by (simp add: leased_def aside_def)
  show "contents L d' = contents L d"
    using keep(2) slot_addr_plan [of d d'] assms(3) by (simp add: contents_def aside_def)
qed

text \<open>Every lease of the daemon covers its bytes.\<close>

lemma leased_run:
  assumes "leased s0 S L st d" and "sized s0 (ls_nbytes L)" and "gran s0 \<noteq> 0"
  shows "run_fits (ls_base_slot L) (ls_slot_count L) (d_slots d)" and "0 < unat (ls_slot_count L)"
proof -
  have ok: "daemon_ok s0 d" and L: "t_find (d_leases d) (ls_lease_id L) = Some L"
    using assms(1) by (simp_all add: leased_def find_lease_def)
  note row = ok_rows(1) [OF ok t_find_in_set [OF L]]
  then show "run_fits (ls_base_slot L) (ls_slot_count L) (d_slots d)" using in_table [OF ok] by (auto simp: lease_ok_def)
  have "0 < unat (slots_for_bytes (ls_nbytes L) s0)"
    using slots_cover [of s0 "ls_nbytes L"] assms(2,3) by (auto simp: sized_def unat_gt_0 intro: gr0I)
  then show "0 < unat (ls_slot_count L)" using row by (auto simp: lease_ok_def)
qed

section \<open>The daemon's part\<close>

lemma lease_tables [simp]:
  "find_lease k (m_add m n d) = find_lease k d" "find_lease k (m_sub m n d) = find_lease k d"
  "find_lease k (upd_run b c f d) = find_lease k d" "find_lease k (put_location t l d) = find_lease k d"
  "find_lease k (m_inc m d) = find_lease k d" "find_lease k (put_lease k' L d) = (if k = k' then Some L else find_lease k d)"
  "d_sessions (m_add m n d) = d_sessions d" "d_sessions (m_sub m n d) = d_sessions d"
  "d_sessions (upd_run b c f d) = d_sessions d" "d_sessions (put_location t l d) = d_sessions d"
  "d_sessions (m_inc m d) = d_sessions d" "d_sessions (put_lease k' L d) = d_sessions d"
  by (auto simp: find_lease_def m_add_def m_sub_def m_inc_def upd_run_def put_location_def put_lease_def)

lemma mem_tables [simp]:
  "d_mem (m_add m n d) = d_mem d" "d_mem (m_sub m n d) = d_mem d" "d_mem (upd_run b c f d) = d_mem d"
  "d_mem (put_location t l d) = d_mem d" "d_mem (m_inc m d) = d_mem d" "d_mem (put_lease k L d) = d_mem d"
  by (simp_all add: m_add_def m_sub_def m_inc_def upd_run_def put_location_def put_lease_def)

lemma slot_state_tables [simp]:
  "slot_state i (m_add m n d) = slot_state i d" "slot_state i (m_sub m n d) = slot_state i d"
  "slot_state i (put_location t l d) = slot_state i d" "slot_state i (m_inc m d) = slot_state i d"
  "slot_state i (put_lease k L d) = slot_state i d"
  by (simp_all add: slot_state_def m_add_def m_sub_def m_inc_def put_location_def put_lease_def)

lemma slot_state_run:
  assumes "run_fits b c (d_slots d)" and "0 < unat c" and "\<And>k e. se_state (f k e) = st"
  shows "slot_state b (upd_run b c f d) = st"
  using assms by (simp add: slot_state_def upd_run_def for_run_nth in_run_base)

lemma contents_mem: "daemon_ok s0 d \<Longrightarrow> daemon_ok s0 d' \<Longrightarrow> d_mem d' = d_mem d \<Longrightarrow> contents L d' = contents L d"
  using slot_addr_plan [OF plan_between, of s0 d d'] by (simp add: contents_def mem_read_def)

lemma granted:
  assumes "grant_offload req b c pid d = (resp, d')" and "run_fits b c (d_slots d)" and "0 < unat c"
  defines "L \<equiv> \<lparr>ls_lease_id = d_next_lease_id d, ls_base_slot = b, ls_slot_count = c, ls_tensor_id = roq_tensor_id req,
     ls_version = roq_version req, ls_owner_rank = roq_rank_id req, ls_owner_pid = pid, ls_rank_epoch = roq_rank_epoch req,
     ls_nbytes = roq_nbytes req, ls_is_prefetch = False\<rparr>"
  shows "find_lease (ls_lease_id L) d' = Some L" and "slot_state b d' = OFLD_SLOT_RESERVED_D2H"
    and "d_sessions d' = d_sessions d" and "calm S tid v d \<Longrightarrow> (roq_tensor_id req = tid \<Longrightarrow> roq_version req \<le> v) \<Longrightarrow> calm S tid v d'"
    and "ros_lease_id resp = ls_lease_id L" and "ros_slot_id resp = b"
    and "(unat (ros_arena_id resp), unat (ros_arena_offset resp)) = slot_addr b d'"
proof -
  let ?f = "\<lambda>k e. touch (now_real_ns (d\<lparr>d_next_lease_id := d_next_lease_id d + 1\<rparr>)) OFLD_SLOT_RESERVED_D2H
          (e\<lparr>se_tensor_id := roq_tensor_id req, se_version := roq_version req, se_lease_id := d_next_lease_id d,
             se_owner_rank := ucast (roq_rank_id req), se_owner_pid := pid, se_rank_epoch := roq_rank_epoch req,
             se_nbytes := (if k = 0 then roq_nbytes req else se_capacity e), se_flags := roq_flags req\<rparr>)"
  have d': "d' = m_inc kLeasesGranted (put_lease (ls_lease_id L) L (m_add kUsedPinnedBytes (ucast c * gran d)
      (upd_run b c ?f (d\<lparr>d_next_lease_id := d_next_lease_id d + 1\<rparr>))))"
    and r: "ros_lease_id resp = ls_lease_id L" "ros_slot_id resp = b" "ros_arena_id resp = se_arena_id (at32 (d_slots d') b)"
      "ros_arena_offset resp = se_arena_offset (at32 (d_slots d') b)"
    using assms(1) by (auto simp: grant_offload_def Let_def reserve_run_def L_def)
  show "find_lease (ls_lease_id L) d' = Some L" "d_sessions d' = d_sessions d" by (simp_all add: d')
  show "slot_state b d' = OFLD_SLOT_RESERVED_D2H"
    unfolding d' slot_state_tables by (rule slot_state_run) (use assms in simp_all)
  show "calm S tid v d \<Longrightarrow> (roq_tensor_id req = tid \<Longrightarrow> roq_version req \<le> v) \<Longrightarrow> calm S tid v d'"
    unfolding d' calm_statements by (rule calm_put_lease) (simp_all add: L_def)
  show "ros_lease_id resp = ls_lease_id L" "ros_slot_id resp = b"
    "(unat (ros_arena_id resp), unat (ros_arena_offset resp)) = slot_addr b d'"
    by (simp_all add: r slot_addr_def Let_def)
qed

lemma offload_step:
  assumes run: "run_task ws (handle_request_offload req d) = Some (Ret resp, d')" and ok: "ros_ok resp"
    and ws: "windows_aside s0 (roq_tensor_id req) ws" and d: "daemon_ok s0 d" "calm S (roq_tensor_id req) (roq_version req) d"
    and size: "sized s0 (roq_nbytes req)" "gran s0 \<noteq> 0"
  shows "\<exists>L. leased s0 S L OFLD_SLOT_RESERVED_D2H d' \<and> calm S (roq_tensor_id req) (roq_version req) d' \<and>
    ls_tensor_id L = roq_tensor_id req \<and> ls_version L = roq_version req \<and> ls_owner_rank L = roq_rank_id req \<and>
    ls_nbytes L = roq_nbytes req \<and> ls_lease_id L = ros_lease_id resp \<and> ls_base_slot L = ros_slot_id resp \<and>
    slot_addr (ros_slot_id resp) d' = (unat (ros_arena_id resp), unat (ros_arena_offset resp))"
proof -
  let ?tid = "roq_tensor_id req" and ?v = "roq_version req" and ?n = "roq_nbytes req"
  let ?d1 = "m_inc kOffloadRequests d"
  let ?I = "\<lambda>d. daemon_ok s0 d \<and> calm S ?tid ?v d"
  have d1: "daemon_ok s0 ?d1" "calm S ?tid ?v ?d1" using d dk.counters by simp_all
  have n: "slots_for_bytes ?n ?d1 = slots_for_bytes ?n s0" using dk.sizes [OF d1(1)] .
  have final: "daemon_ok s0 d'"
    using run_good [OF run dk.request_offload [OF d(1)]] ws by (auto simp: windows_aside_def windows_keep_def)
  let ?rest = "\<lambda>got s2. case got of
                None \<Rightarrow>
                  ret (RequestOffloadResponse_init\<lparr>ros_ok := False, ros_blocked := True,
                         ros_message := ''no pinned capacity (blocked / backpressure)''\<rparr>)
                    (m_inc kBlockedReservations s2)
              | Some (base, ncount) \<Rightarrow>
                  if \<not> list_all (\<lambda>i. slot_state i s2 = OFLD_SLOT_FREE) (run_ids base (slots_for_bytes ?n ?d1)) then
                    ret (RequestOffloadResponse_init\<lparr>ros_ok := False, ros_message := ''slot overlap prevented''\<rparr>)
                      (m_inc kSlotOverlapPrevented s2)
                  else locked (grant_offload req base (slots_for_bytes ?n ?d1) (session_pid (roq_rank_id req) ?d1)) s2"
  have "run_task ws (bnd (alloc_draining 65 (roq_gpu_id req) (roq_numa_node req) ?n (roq_flags req)) ?rest ?d1) =
      Some (Ret resp, d')"
    using run ok by (auto simp: handle_request_offload_def RequestOffloadResponse_init_def ret_def Let_def split: if_splits)
  from run_bnd [OF this] obtain ws1 ws2 got s1 where "ws = ws1 @ ws2"
    and alloc: "run_task ws1 (alloc_draining 65 (roq_gpu_id req) (roq_numa_node req) ?n (roq_flags req) ?d1) = Some (Ret got, s1)"
    and rest: "run_task ws2 (?rest got s1) = Some (Ret resp, d')" by blast
  have "windows_keep ?I ws1" using windows_calm [of s0 ?tid ws1] ws \<open>ws = ws1 @ ws2\<close> by (auto simp: windows_aside_def)
  from run_good [OF alloc good_both [OF dk.alloc_draining [OF d1(1)] alloc_calm [OF d1(2)]] this]
  have s1: "daemon_ok s0 s1" "calm S ?tid ?v s1"
    and got: "\<And>b c. got = Some (b, c) \<Longrightarrow> window_run s0 b c \<and> c = slots_for_bytes ?n s0" by auto
  from rest ok obtain b c where bc: "got = Some (b, c)" and g: "grant_offload req b c (session_pid (roq_rank_id req) ?d1) s1 = (resp, d')"
    using got by (auto simp: n ret_def locked_def RequestOffloadResponse_init_def split: option.splits if_splits prod.splits)
  have fits: "run_fits b c (d_slots s1)" using in_table [OF s1(1)] got [OF bc] by blast
  have pos: "0 < unat c"
    using slots_cover [of s0 ?n] size got [OF bc] by (auto simp: sized_def unat_gt_0 intro: gr0I)
  note G = granted [OF g fits pos]
  show ?thesis
    using G(1-3) G(4) [OF s1(2)] G(5-7) final s1(2)
    by (intro exI [of _ "\<lparr>ls_lease_id = d_next_lease_id s1, ls_base_slot = b, ls_slot_count = c, ls_tensor_id = ?tid,
        ls_version = ?v, ls_owner_rank = roq_rank_id req, ls_owner_pid = session_pid (roq_rank_id req) ?d1,
        ls_rank_epoch = roq_rank_epoch req, ls_nbytes = ?n, ls_is_prefetch = False\<rparr>"]) (simp add: leased_def calm_def)
qed

text \<open>The session of the rank that makes the requests.\<close>

definition session_of :: "(u32, Session) table \<Rightarrow> u32 \<Rightarrow> u64 \<Rightarrow> bool" where
  "session_of S rank ep \<longleftrightarrow> (\<exists>ss. t_find S rank = Some ss \<and> ss_alive ss \<and> ss_rank_epoch ss = ep)"

lemma session_valid: "session_of (d_sessions d) rank ep \<Longrightarrow> epoch_valid rank ep d"
  by (auto simp: session_of_def epoch_valid_def)

text \<open>Requests that name the lease as it is.\<close>

definition submits :: "(u32, Session) table \<Rightarrow> Lease \<Rightarrow> MarkD2HSubmittedRequest \<Rightarrow> bool" where
  "submits S L q \<longleftrightarrow> session_of S (dsq_rank_id q) (dsq_rank_epoch q) \<and> dsq_lease_id q = ls_lease_id L \<and>
     dsq_rank_id q = ls_owner_rank L \<and> dsq_slot_id q = ls_base_slot L"

definition completes :: "(u32, Session) table \<Rightarrow> Lease \<Rightarrow> MarkD2HCompleteRequest \<Rightarrow> bool" where
  "completes S L q \<longleftrightarrow> session_of S (dcq_rank_id q) (dcq_rank_epoch q) \<and> dcq_lease_id q = ls_lease_id L \<and>
     dcq_rank_id q = ls_owner_rank L \<and> dcq_slot_id q = ls_base_slot L \<and> dcq_tensor_id q = ls_tensor_id L \<and>
     dcq_version q = ls_version L"

lemma submitted_step:
  assumes "leased s0 S L OFLD_SLOT_RESERVED_D2H d" and "calm S tid v d" and "submits S L q"
    and "run_fits (ls_base_slot L) (ls_slot_count L) (d_slots d)" and "0 < unat (ls_slot_count L)"
  shows "leased s0 S L OFLD_SLOT_D2H_IN_FLIGHT (snd (handle_mark_d2h_submitted q d)) \<and>
    calm S tid v (snd (handle_mark_d2h_submitted q d))"
proof -
  have ok: "daemon_ok s0 (snd (handle_mark_d2h_submitted q d))" using assms(1) dk.d2h_submitted by (simp add: leased_def)
  have valid: "epoch_valid (dsq_rank_id q) (dsq_rank_epoch q) d" using assms(1,3) session_valid [of d] by (auto simp: leased_def submits_def)
  let ?d = "submit_run (ls_base_slot L) (ls_slot_count L) (dsq_submit_seq q) OFLD_SLOT_D2H_IN_FLIGHT d"
  have d': "snd (handle_mark_d2h_submitted q d) = m_add kInflightD2HBytes (ls_nbytes L) ?d"
    using assms(1,3) valid by (simp add: handle_mark_d2h_submitted_def leased_def submits_def)
  have "slot_state (ls_base_slot L) ?d = OFLD_SLOT_D2H_IN_FLIGHT"
    unfolding submit_run_def by (rule slot_state_run) (use assms in simp_all)
  then show ?thesis using assms(1,2) ok unfolding d' by (simp add: leased_def submit_run_def)
qed

definition resident :: "Lease \<Rightarrow> Location" where
  "resident L = \<lparr>loc_tensor_id = ls_tensor_id L, loc_version = ls_version L, loc_kind = OFLD_LOC_PINNED,
     loc_slot_id = ls_base_slot L, loc_cold_ref = 0, loc_nbytes = ls_nbytes L\<rparr>"

lemma completed_step:
  assumes "leased s0 S L OFLD_SLOT_D2H_IN_FLIGHT d" and "calm S (ls_tensor_id L) (ls_version L) d"
    and "completes S L q"
    and "run_fits (ls_base_slot L) (ls_slot_count L) (d_slots d)" and "0 < unat (ls_slot_count L)"
    and "\<not> cfg_drain_on_d2h_complete (d_cfg s0)"
  shows "leased s0 S L OFLD_SLOT_PINNED_VALID (snd (handle_mark_d2h_complete q d)) \<and>
    calm S (ls_tensor_id L) (ls_version L) (snd (handle_mark_d2h_complete q d)) \<and>
    t_find (d_locations (snd (handle_mark_d2h_complete q d))) (ls_tensor_id L) = Some (resident L) \<and>
    d_mem (snd (handle_mark_d2h_complete q d)) = d_mem d"
proof -
  let ?d1 = "complete_run (ls_base_slot L) (ls_slot_count L) (dcq_complete_seq q) OFLD_SLOT_PINNED_VALID d"
  let ?d2 = "m_add kD2HBytes (ls_nbytes L) (m_sub kInflightD2HBytes (ls_nbytes L) ?d1)"
  have ok: "daemon_ok s0 (snd (handle_mark_d2h_complete q d))" using assms(1) dk.mark_d2h_complete by (simp add: leased_def)
  have valid: "epoch_valid (dcq_rank_id q) (dcq_rank_epoch q) d"
    using assms(1,3) session_valid [of d] by (auto simp: leased_def completes_def)
  have older: "loc_version l \<le> ls_version L" if "t_find (d_locations ?d2) (ls_tensor_id L) = Some l" for l
    using that assms(2) by (simp add: calm_def no_news_def m_add_def m_sub_def complete_run_def upd_run_def)
  have up: "update_location_if_latest (ls_tensor_id L) (ls_version L) OFLD_LOC_PINNED (ls_base_slot L) 0 (ls_nbytes L) ?d2 =
      (True, put_location (ls_tensor_id L) (resident L) ?d2)"
    using older by (auto simp: update_location_if_latest_def resident_def Let_def not_less split: option.split)
  have "d_cfg d = d_cfg s0" using assms(1) by (simp add: leased_def daemon_ok_def same_plan_def)
  then have nodrain: "\<not> should_drain (put_location (ls_tensor_id L) (resident L) ?d2)"
    using assms(6) by (simp add: should_drain_def put_location_def m_add_def m_sub_def complete_run_def upd_run_def)
  have d': "snd (handle_mark_d2h_complete q d) = put_location (ls_tensor_id L) (resident L) ?d2"
    using assms(1,3) valid up nodrain
    by (simp add: handle_mark_d2h_complete_def apply_d2h_complete_def leased_def completes_def Let_def split_beta)
  have "slot_state (ls_base_slot L) ?d1 = OFLD_SLOT_PINNED_VALID"
    unfolding complete_run_def by (rule slot_state_run) (use assms in simp_all)
  moreover have "calm S (ls_tensor_id L) (ls_version L) (put_location (ls_tensor_id L) (resident L) ?d2)"
    using calm_update_location [of S "ls_tensor_id L" "ls_version L" ?d2 "ls_tensor_id L" "ls_version L" OFLD_LOC_PINNED
        "ls_base_slot L" 0 "ls_nbytes L"] assms(2) up by simp
  ultimately show ?thesis using assms(1) ok unfolding d'
    by (simp add: leased_def complete_run_def) (simp add: put_location_def)
qed

text \<open>A prefetch of the resident version is answered at once, with a lease on the same slots.\<close>

definition reader :: "RequestPrefetchRequest \<Rightarrow> Lease \<Rightarrow> daemon \<Rightarrow> Lease" where
  "reader q L d = prefetch_lease q (d_next_lease_id d) (ls_base_slot L) (slots_for_bytes (ls_nbytes L) d) (ls_version L)
     (session_pid (pfq_rank_id q) d) (ls_nbytes L)"

lemma prefetch_step:
  assumes d: "daemon_ok s0 d" "calm S (ls_tensor_id L) (ls_version L) d"
    and loc: "t_find (d_locations d) (ls_tensor_id L) = Some (resident L)"
    and st: "slot_state (ls_base_slot L) d = OFLD_SLOT_PINNED_VALID" and S: "session_of S (pfq_rank_id q) (pfq_rank_epoch q)"
    and q: "pfq_tensor_id q = ls_tensor_id L" "pfq_version q = 0 \<or> pfq_version q = ls_version L"
  shows "\<exists>d'. handle_request_prefetch q d = (Ret (prefetch_reply ''ok'' (d_next_lease_id d) (ls_base_slot L) (ls_nbytes L)
      OFLD_SLOT_PINNED_VALID True (ls_version L) d'), d') \<and>
    leased s0 S (reader q L d) OFLD_SLOT_PINNED_VALID d' \<and> d_mem d' = d_mem d"
proof -
  let ?d1 = "m_inc kPrefetchRequests d"
  let ?d' = "put_lease (d_next_lease_id d) (reader q L d) (?d1\<lparr>d_next_lease_id := d_next_lease_id d + 1\<rparr>)"
  have valid: "epoch_valid (pfq_rank_id q) (pfq_rank_epoch q) d" using d(2) S session_valid by (simp add: calm_def)
  have no_twin: "prefetch_twin (ls_tensor_id L) (ls_version L) ?d1 = None"
    using d(2) by (auto simp: prefetch_twin_def find_None_iff calm_def no_news_def m_inc_def m_add_def)
  have run: "handle_request_prefetch q d = (Ret (prefetch_reply ''ok'' (d_next_lease_id d) (ls_base_slot L) (ls_nbytes L)
      OFLD_SLOT_PINNED_VALID True (ls_version L) ?d'), ?d')"
    using valid loc st q no_twin
    by (auto simp: handle_request_prefetch_def prefetch_found_def resident_def reader_def Let_def ret_def session_pid_def
        m_inc_def m_add_def slot_state_def slots_for_bytes_def)
  have "daemon_ok s0 ?d'" using dk.request_prefetch [OF d(1), of q] run by (simp add: good_def)
  then have "leased s0 S (reader q L d) OFLD_SLOT_PINNED_VALID ?d'"
    using d(2) st by (auto simp: leased_def calm_def reader_def prefetch_lease_def find_lease_def put_lease_def m_inc_def
        m_add_def slot_state_def)
  then show ?thesis using run by (intro exI [of _ ?d']) (simp add: put_lease_def m_inc_def m_add_def)
qed

lemma h2d_submitted_step:
  assumes "leased s0 S L st d"
  shows "\<exists>st'. leased s0 S L st' (snd (handle_mark_h2d_submitted q d)) \<and> d_mem (snd (handle_mark_h2d_submitted q d)) = d_mem d"
proof -
  have "daemon_ok s0 (snd (handle_mark_h2d_submitted q d))" using assms dk.h2d_submitted by (simp add: leased_def)
  then show ?thesis using assms
    by (auto simp: leased_def handle_mark_h2d_submitted_def submit_run_def split: option.split)
qed

end
