(* ===== verification/Round_Trip.thy ===== *)
theory Round_Trip
  imports Lease_Steps
begin

text \<open>
  Eviction and restore end to end: agent, daemon and device together return a tensor's bytes.
\<close>

section \<open>Eviction, served\<close>

text \<open>The rank's address space shows the daemon's arenas where the agent has mapped them.\<close>

definition mapped :: "placing \<Rightarrow> agent \<Rightarrow> daemon \<Rightarrow> bool" where
  "mapped vm a s0 \<longleftrightarrow>
     (\<forall>arena off p i. host_ptr arena off a = Some p \<and> unat arena < length (d_arenas s0) \<and>
        unat off + i < unat (ar_size (d_arenas s0 ! unat arena)) \<longrightarrow> vm (p + of_nat i) = (unat arena, unat off + i))"

lemma mapped_lease:
  assumes "config_plannable cfg" and "init_daemon cfg clock files = Some s0" and "mapped vm a s0"
    and L: "leased s0 S L st d" "sized s0 (ls_nbytes L)" and "slot_addr (ls_base_slot L) d = (unat arena, unat off)"
    and "host_ptr arena off a = Some p" and "i < unat (ls_nbytes L)"
  shows "vm (p + of_nat i) = (unat arena, unat off + i)"
proof -
  have ok: "daemon_ok s0 d" and f: "t_find (d_leases d) (ls_lease_id L) = Some L"
    using L by (simp_all add: leased_def find_lease_def)
  have plan: "same_plan s0 d" using ok by (simp add: daemon_ok_def)
  have "window_run s0 (ls_base_slot L) (slots_for_bytes (ls_nbytes L) s0)"
    using ok_rows(1) [OF ok t_find_in_set [OF f]] by (auto simp: lease_ok_def)
  then have "in_arena d (ls_base_slot L) (ls_nbytes L)" using sized_in_arena [OF assms(1,2) plan] L(2) by blast
  moreover have "d_arenas d = d_arenas s0" using plan by (simp add: same_plan_def)
  ultimately show ?thesis using assms(3,6-8) unfolding mapped_def in_arena_def slot_addr_def Let_def by auto
qed

lemma lasts_basic [intro]:
  "lasts s0 tid (\<lambda>d g. Q g)" "lasts s0 tid (\<lambda>d g. daemon_ok s0 d)" "lasts s0 tid (\<lambda>d g. calm S tid v d)"
  "lasts s0 tid (\<lambda>d g. t_find (d_locations d) tid = l)"
  by (simp_all add: lasts_def) (auto simp: aside_def intro: aside_calm)

lemma lasts_conj [intro]: "lasts s0 tid I \<Longrightarrow> lasts s0 tid J \<Longrightarrow> lasts s0 tid (\<lambda>d g. I d g \<and> J d g)"
  by (simp add: lasts_def) blast

lemma lasts_ex [intro]: "(\<And>x. lasts s0 tid (I x)) \<Longrightarrow> lasts s0 tid (\<lambda>d g. \<exists>x. I x d g)"
  by (simp add: lasts_def) blast

lemma lasts_lease [intro]:
  assumes "ls_tensor_id L = tid"
  shows "lasts s0 tid (\<lambda>d g. leased s0 S L st d)" and "lasts s0 tid (\<lambda>d g. leased s0 S L st d \<and> contents L d = bs)"
  unfolding lasts_def using aside_leased [of s0 S L st] assms by metis+

lemma run_reply_locked: "run_task ws (reply wrap (locked f) d) = Some (Ret (rs, fds), d') \<Longrightarrow> d' = snd (f d)"
  by (drule run_reply) (auto simp: locked_def split: prod.splits)

text \<open>A tensor that the daemon holds in pinned memory, with its bytes.\<close>

definition stored :: "daemon \<Rightarrow> (u32, Session) table \<Rightarrow> Lease \<Rightarrow> bytes \<Rightarrow> daemon \<Rightarrow> bool" where
  "stored s0 S L bs d \<longleftrightarrow> leased s0 S L OFLD_SLOT_PINNED_VALID d \<and> calm S (ls_tensor_id L) (ls_version L) d \<and>
     t_find (d_locations d) (ls_tensor_id L) = Some (resident L) \<and> contents L d = bs"

lemma lasts_stored: "ls_tensor_id L = tid \<Longrightarrow> lasts s0 tid (\<lambda>d g. stored s0 S L bs d)"
proof -
  assume L: "ls_tensor_id L = tid"
  have "stored s0 S L bs d \<longleftrightarrow> (leased s0 S L OFLD_SLOT_PINNED_VALID d \<and> contents L d = bs) \<and> calm S tid (ls_version L) d \<and>
      t_find (d_locations d) tid = Some (resident L)" for d using L by (auto simp: stored_def)
  then show ?thesis using L by (simp only:) (intro lasts_conj lasts_basic lasts_lease)
qed

text \<open>The end of an eviction: the callback and the destruction of the event.\<close>

lemma served_tail:
  assumes "serves vm s0 tid w t w'" and "lasts s0 tid (\<lambda>d g. Q d)" and "resting (\<lambda>d g. Q d) w"
    and "\<forall>ob \<in> set t. (\<exists>c. ob = OInvalidate c) \<or> (\<exists>ev e. ob = OCuda (cudaEventDestroy ev) e)"
  shows "resting (\<lambda>d g. Q d) w'"
  using assms(1,3,4)
proof (induction rule: serves.induct)
  case (serves_silent w w1 t w')
  then show ?case using resting_lasting [OF assms(2), of vm] by (simp add: lasting_def)
next
  case (serves_Cons w ob w1 t w')
  then have "resting (\<lambda>d g. Q d) w1" by (auto simp: answers_simps resting_def)
  then show ?case using serves_Cons by simp
qed simp

lemma plannable_gran: "config_plannable cfg \<Longrightarrow> init_daemon cfg clock files = Some s0 \<Longrightarrow> gran s0 \<noteq> 0"
  by (auto simp: init_daemon_def Let_def config_plannable_def config_accepted_def split: option.splits)

lemma leased_mem: "leased s0 S L st (d\<lparr>d_mem := m\<rparr>) = leased s0 S L st d"
proof -
  have "daemon_ok s0 (d\<lparr>d_mem := m\<rparr>) = daemon_ok s0 d"
    using dk.frame [of s0 d "d\<lparr>d_mem := m\<rparr>"] dk.frame [of s0 "d\<lparr>d_mem := m\<rparr>" d] by (auto simp: same_tables_def)
  then show ?thesis by (simp add: leased_def find_lease_def slot_state_def)
qed

text \<open>The copy out of the device fills the slots of the lease.\<close>

lemma out_effects:
  assumes vm: "\<And>i. i < unat (ls_nbytes L) \<Longrightarrow> vm (dst + of_nat i) = (x, y + i)"
    and addr: "\<And>d. leased s0 S L st d \<Longrightarrow> slot_addr (ls_base_slot L) d = (x, y)"
  shows "effects vm (CopyOut dst p (ls_nbytes L))
    (\<lambda>d g. leased s0 S L st d \<and> calm S tid v d \<and> device_bytes p (ls_nbytes L) g = bs)
    (\<lambda>d g. leased s0 S L st d \<and> contents L d = bs)"
  unfolding effects_def
proof (intro allI impI, elim conjE)
  fix w :: world assume L: "leased s0 S L st (w_daemon w)" and c: "calm S tid v (w_daemon w)"
    and bs: "device_bytes p (ls_nbytes L) (w_device w) = bs"
  let ?w = "perform vm (CopyOut dst p (ls_nbytes L)) w"
  have L': "leased s0 S L st (w_daemon ?w)" using L by (simp add: leased_mem)
  moreover have "contents L (w_daemon ?w) = bs"
    using copied_out [of "ls_nbytes L" vm dst x y p w, OF vm] addr [OF L'] bs by (simp add: contents_def)
  ultimately show "(leased s0 S L st (w_daemon ?w) \<and> calm S tid v (w_daemon ?w) \<and>
      device_bytes p (ls_nbytes L) (w_device ?w) = bs) \<and> leased s0 S L st (w_daemon ?w) \<and> contents L (w_daemon ?w) = bs"
    using c bs by simp
qed

text \<open>A lease that covers its bytes, at a place of the rank's address space.\<close>

definition placed :: "placing \<Rightarrow> daemon \<Rightarrow> (u32, Session) table \<Rightarrow> Lease \<Rightarrow> u64 \<Rightarrow> bool" where
  "placed vm s0 S L p \<longleftrightarrow> sized s0 (ls_nbytes L) \<and> gran s0 \<noteq> 0 \<and>
     (\<exists>x y. (\<forall>st d. leased s0 S L st d \<longrightarrow> slot_addr (ls_base_slot L) d = (x, y)) \<and>
            (\<forall>i < unat (ls_nbytes L). vm (p + of_nat i) = (x, y + i)))"

lemma placed_lease:
  assumes "config_plannable cfg" and "init_daemon cfg clock files = Some s0" and "mapped vm a s0"
    and L: "leased s0 S L st d" "sized s0 (ls_nbytes L)" and addr: "slot_addr (ls_base_slot L) d = (unat arena, unat off)"
    and "host_ptr arena off a = Some p"
  shows "placed vm s0 S L p"
proof -
  have "slot_addr (ls_base_slot L) d' = (unat arena, unat off)" if "leased s0 S L st' d'" for st' d'
    using slot_addr_plan [OF plan_between, of s0 d d' "ls_base_slot L"] that L(1) addr by (simp add: leased_def)
  then show ?thesis
    using mapped_lease [OF assms(1-6)] assms(7) L(2) plannable_gran [OF assms(1,2)] unfolding placed_def by blast
qed

text \<open>From the lease to the stored tensor.\<close>

lemma out_served:
  assumes pl: "placed vm s0 S L dst" and nodrain: "\<not> cfg_drain_on_d2h_complete (d_cfg s0)"
    and q: "submits S L qs" "completes S L qc" and n: "ls_nbytes L = n" "ls_tensor_id L = tid" "ls_version L = v"
    and served: "serves vm s0 tid w (ORpc (RqMarkD2HSubmitted qs) r1 # OCuda (cudaMemcpyD2H dst p n st) cudaSuccess #
      OEvent cudaSuccess ev # OCuda (cudaEventRecord ev st) cudaSuccess # OCuda (cudaEventSynchronize ev) cudaSuccess #
      ORpc (RqMarkD2HComplete qc) r2 # t) w'"
    and start: "resting (\<lambda>d g. leased s0 S L OFLD_SLOT_RESERVED_D2H d \<and> calm S tid v d \<and> device_bytes p n g = bs) w"
  shows "\<exists>w1. resting (\<lambda>d g. stored s0 S L bs d) w1 \<and> serves vm s0 tid w1 t w'"
proof -
  let ?I = "\<lambda>st d g. leased s0 S L st d \<and> calm S tid v d \<and> device_bytes p n g = bs"
  let ?D = "\<lambda>d g. leased s0 S L OFLD_SLOT_D2H_IN_FLIGHT d \<and> contents L d = bs"
  have I: "lasts s0 tid (?I st)" for st using n by (intro lasts_conj lasts_basic lasts_lease)
  have D: "lasts s0 tid ?D" using n(2) by (rule lasts_lease)
  have fits: "run_fits (ls_base_slot L) (ls_slot_count L) (d_slots d)" "0 < unat (ls_slot_count L)" if "leased s0 S L st d" for st d
    using leased_run [OF that] pl by (simp_all add: placed_def)
  from served_rpc [OF served I start] obtain w1 d1 ws rs fds where w1: "resting (?I OFLD_SLOT_RESERVED_D2H) w1"
    and r1: "run_task ws (handle_request (RqMarkD2HSubmitted qs) (w_daemon w1)) = Some (Ret (rs, fds), d1)"
    and s1: "serves vm s0 tid (w1\<lparr>w_daemon := d1\<rparr>) (OCuda (cudaMemcpyD2H dst p n st) cudaSuccess #
      OEvent cudaSuccess ev # OCuda (cudaEventRecord ev st) cudaSuccess # OCuda (cudaEventSynchronize ev) cudaSuccess #
      ORpc (RqMarkD2HComplete qc) r2 # t) w'" by blast
  have "d1 = snd (handle_mark_d2h_submitted qs (w_daemon w1))" using run_reply_locked r1 by simp
  then have w1': "resting (?I OFLD_SLOT_D2H_IN_FLIGHT) (w1\<lparr>w_daemon := d1\<rparr>)"
    using w1 submitted_step [OF _ _ q(1)] fits by (auto simp: resting_def)
  obtain x y where "\<And>i. i < unat (ls_nbytes L) \<Longrightarrow> vm (dst + of_nat i) = (x, y + i)"
    "\<And>d. leased s0 S L OFLD_SLOT_D2H_IN_FLIGHT d \<Longrightarrow> slot_addr (ls_base_slot L) d = (x, y)"
    using pl by (auto simp: placed_def)
  note eff = out_effects [OF this, where p = p and tid = tid and v = v and bs = bs, unfolded n]
  have call: "answers s0 tid w (OCuda (cudaMemcpyD2H dst p n st) cudaSuccess) w1 \<longleftrightarrow> w1 = enqueue st (CopyOut dst p n) w" for w w1
    by (auto simp: answers_simps)
  from served_copy [OF s1 call w1' I D eff] obtain w2 where w2: "resting (\<lambda>d g. ?I OFLD_SLOT_D2H_IN_FLIGHT d g \<and> ?D d g) w2"
    and s2: "serves vm s0 tid w2 (ORpc (RqMarkD2HComplete qc) r2 # t) w'" by blast
  from served_rpc [OF s2 lasts_conj [OF I D] w2] obtain w3 d3 ws3 rs3 fds3 where
    w3: "resting (\<lambda>d g. ?I OFLD_SLOT_D2H_IN_FLIGHT d g \<and> ?D d g) w3"
    and r3: "run_task ws3 (handle_request (RqMarkD2HComplete qc) (w_daemon w3)) = Some (Ret (rs3, fds3), d3)"
    and s3: "serves vm s0 tid (w3\<lparr>w_daemon := d3\<rparr>) t w'" by blast
  have d3: "d3 = snd (handle_mark_d2h_complete qc (w_daemon w3))" using run_reply_locked r3 by simp
  have "leased s0 S L OFLD_SLOT_PINNED_VALID d3 \<and> calm S tid v d3 \<and> t_find (d_locations d3) tid = Some (resident L) \<and>
      d_mem d3 = d_mem (w_daemon w3)"
    using w3 completed_step [of s0 S L "w_daemon w3" qc, OF _ _ q(2) fits nodrain] n unfolding d3 resting_def by blast
  moreover from this w3 have "contents L d3 = bs"
    using contents_mem [of s0 "w_daemon w3" d3 L] by (auto simp: resting_def leased_def)
  ultimately have "resting (\<lambda>d g. stored s0 S L bs d) (w3\<lparr>w_daemon := d3\<rparr>)"
    using w3 n by (simp add: resting_def stored_def)
  then show ?thesis using s3 by blast
qed

text \<open>From the grant to the end of an eviction: the daemon then stores what was on the device.\<close>

lemma granted_served:
  assumes size: "sized s0 n" "gran s0 \<noteq> 0" and ok: "ros_ok resp"
    and served: "serves vm s0 (tm_tensor_id meta) w
      (ORpc (RqRequestOffload (offload_request a n destructive meta)) (Inr (RsRequestOffload resp)) # t) w'"
    and start: "resting (\<lambda>d g. daemon_ok s0 d \<and> calm S (tm_tensor_id meta) (tm_version meta) d \<and> device_bytes p n g = bs) w"
  shows "\<exists>L w1. ls_tensor_id L = tm_tensor_id meta \<and> ls_version L = tm_version meta \<and> ls_nbytes L = n \<and>
    ls_owner_rank L = ag_rank_id a \<and> ls_lease_id L = ros_lease_id resp \<and> ls_base_slot L = ros_slot_id resp \<and>
    slot_addr (ls_base_slot L) (w_daemon w1) = (unat (ros_arena_id resp), unat (ros_arena_offset resp)) \<and>
    resting (\<lambda>d g. leased s0 S L OFLD_SLOT_RESERVED_D2H d \<and> calm S (tm_tensor_id meta) (tm_version meta) d \<and>
      device_bytes p n g = bs) w1 \<and> serves vm s0 (tm_tensor_id meta) w1 t w'"
proof -
  let ?tid = "tm_tensor_id meta" and ?v = "tm_version meta" and ?q = "offload_request a n destructive meta"
  have "lasts s0 ?tid (\<lambda>d g. daemon_ok s0 d \<and> calm S ?tid ?v d \<and> device_bytes p n g = bs)" by (intro lasts_conj lasts_basic)
  from served_rpc [OF served this start] obtain w1 ws fds d1 where
    w1: "resting (\<lambda>d g. daemon_ok s0 d \<and> calm S ?tid ?v d \<and> device_bytes p n g = bs) w1"
    and run: "run_task ws (handle_request (RqRequestOffload ?q) (w_daemon w1)) = Some (Ret (RsRequestOffload resp, fds), d1)"
    and ws: "windows_aside s0 ?tid ws" and s1: "serves vm s0 ?tid (w1\<lparr>w_daemon := d1\<rparr>) t w'" by auto
  obtain ws1 where sub: "set ws1 \<subseteq> set ws" and run1: "run_task ws1 (handle_request_offload ?q (w_daemon w1)) = Some (Ret resp, d1)"
    using run_reply [of ws RsRequestOffload "handle_request_offload ?q" "w_daemon w1" "RsRequestOffload resp" fds d1] run by auto
  have ws1: "windows_aside s0 ?tid ws1" using ws sub by (auto simp: windows_aside_def)
  have q: "roq_tensor_id ?q = ?tid" "roq_version ?q = ?v" "roq_nbytes ?q = n" "roq_rank_id ?q = ag_rank_id a"
    by (simp_all add: offload_request_def)
  obtain L where "leased s0 S L OFLD_SLOT_RESERVED_D2H d1" "calm S ?tid ?v d1"
    "ls_tensor_id L = ?tid" "ls_version L = ?v" "ls_owner_rank L = ag_rank_id a" "ls_nbytes L = n"
    "ls_lease_id L = ros_lease_id resp" "ls_base_slot L = ros_slot_id resp"
    "slot_addr (ls_base_slot L) d1 = (unat (ros_arena_id resp), unat (ros_arena_offset resp))"
    using offload_step [OF run1 ok, of s0 S] ws1 w1 size unfolding q resting_def by auto
  then show ?thesis using s1 w1 by (intro exI [of _ L] exI [of _ "w1\<lparr>w_daemon := d1\<rparr>"]) (simp add: resting_def)
qed

lemma evict_served:
  assumes cfg: "config_plannable cfg" "init_daemon cfg clock files = Some s0" and map: "mapped vm a s0"
    and nodrain: "\<not> cfg_drain_on_d2h_complete (d_cfg s0)" and size: "sized s0 n"
    and S: "session_of S (ag_rank_id a) (ag_rank_epoch a)"
    and tr: "evict_trace a p n st gives_up meta cookie resp t" and ok: "ros_ok resp"
    and served: "serves vm s0 (tm_tensor_id meta) w
      (ORpc (RqRequestOffload (offload_request a n destructive meta)) (Inr (RsRequestOffload resp)) # t) w'"
    and start: "resting (\<lambda>d g. daemon_ok s0 d \<and> calm S (tm_tensor_id meta) (tm_version meta) d \<and> device_bytes p n g = bs) w"
  shows "\<exists>L. ls_tensor_id L = tm_tensor_id meta \<and> ls_version L = tm_version meta \<and> ls_nbytes L = n \<and>
    resting (\<lambda>d g. stored s0 S L bs d) w'"
proof -
  let ?tid = "tm_tensor_id meta"
  from granted_served [OF size plannable_gran [OF cfg] ok served start] obtain L w1 where
    L: "ls_tensor_id L = ?tid" "ls_version L = tm_version meta" "ls_nbytes L = n" "ls_owner_rank L = ag_rank_id a"
      "ls_lease_id L = ros_lease_id resp" "ls_base_slot L = ros_slot_id resp"
      "slot_addr (ls_base_slot L) (w_daemon w1) = (unat (ros_arena_id resp), unat (ros_arena_offset resp))"
    and w1: "resting (\<lambda>d g. leased s0 S L OFLD_SLOT_RESERVED_D2H d \<and> calm S ?tid (tm_version meta) d \<and> device_bytes p n g = bs) w1"
    and s1: "serves vm s0 ?tid w1 t w'" by blast
  from tr obtain reg dst qs r1 ev qc r2 e where reg: "registration reg"
    and dst: "host_ptr (ros_arena_id resp) (ros_arena_offset resp) a = Some dst" and q: "submits S L qs" "completes S L qc"
    and t: "t = reg @ [ORpc (RqMarkD2HSubmitted qs) r1, OCuda (cudaMemcpyD2H dst p n st) cudaSuccess, OEvent cudaSuccess ev,
           OCuda (cudaEventRecord ev st) cudaSuccess, OCuda (cudaEventSynchronize ev) cudaSuccess,
           ORpc (RqMarkD2HComplete qc) r2] @ (if gives_up then [OInvalidate cookie] else []) @ [OCuda (cudaEventDestroy ev) e]"
    unfolding evict_trace_def using S L by (fastforce simp: submits_def completes_def)
  have "lasts s0 ?tid (\<lambda>d g. leased s0 S L OFLD_SLOT_RESERVED_D2H d \<and> calm S ?tid (tm_version meta) d \<and> device_bytes p n g = bs)"
    using L(1) by (intro lasts_conj lasts_basic lasts_lease)
  from served_registration [OF s1 [unfolded t] reg this w1] obtain w2 where
    w2: "resting (\<lambda>d g. leased s0 S L OFLD_SLOT_RESERVED_D2H d \<and> calm S ?tid (tm_version meta) d \<and> device_bytes p n g = bs) w2"
    and s2: "serves vm s0 ?tid w2 ([ORpc (RqMarkD2HSubmitted qs) r1, OCuda (cudaMemcpyD2H dst p n st) cudaSuccess, OEvent cudaSuccess ev,
           OCuda (cudaEventRecord ev st) cudaSuccess, OCuda (cudaEventSynchronize ev) cudaSuccess,
           ORpc (RqMarkD2HComplete qc) r2] @ (if gives_up then [OInvalidate cookie] else []) @ [OCuda (cudaEventDestroy ev) e]) w'" by blast
  have "placed vm s0 S L dst" using placed_lease [OF cfg map _ _ L(7) dst] w1 size L(3) by (auto simp: resting_def)
  from out_served [OF this nodrain q L(3,1,2) s2 [simplified append_Cons append_Nil] w2] obtain w3 where
    w3: "resting (\<lambda>d g. stored s0 S L bs d) w3"
    and s3: "serves vm s0 ?tid w3 ((if gives_up then [OInvalidate cookie] else []) @ [OCuda (cudaEventDestroy ev) e]) w'" by blast
  have "resting (\<lambda>d g. stored s0 S L bs d) w'"
    using served_tail [OF s3 lasts_stored [OF L(1)] w3] by simp
  then show ?thesis using L(1-3) by blast
qed

section \<open>Restore, served\<close>

lemma await_no_ring:
  "stable R \<Longrightarrow> exec R (await_ring fuel tid v) a t out a' \<Longrightarrow> \<not> ag_comp_ring a \<Longrightarrow> t = [] \<and> out = Returned ()"
  by (auto simp: await_ring_def fetch_def exec_simps same_setup_def dest!: stableD split: if_splits)

lemma restore_start:
  assumes st: "stable R" and run: "exec R (restore fuel tid v dev n stream wait) a t out a'"
    and ring: "\<not> ag_comp_ring a" and fuel: "0 < fuel"
  shows "\<exists>r t' a1. t = ORpc (RqRequestPrefetch (prefetch_request a tid v n)) r # t' \<and> same_setup a a1 \<and>
    (\<forall>presp. r = Inr (RsRequestPrefetch presp) \<and> pfs_ok presp \<and> pfs_ready presp \<longrightarrow>
       exec R (confirm_slot presp (restore_copy tid v dev n (stream_of stream a) wait presp)) a1 t' out a')"
proof -
  let ?k = "\<lambda>a presp. confirm_slot presp (restore_copy tid v dev n (stream_of stream a) wait presp)"
  let ?p = "\<lambda>a. request_prefetch (prefetch_request a tid v n)
      (\<lambda>presp. Clock (\<lambda>start. await_ready fuel (prefetch_request a tid v n) start (?k a) presp))"
  from run have "exec R (seq (await_ring fuel tid v) (\<lambda>_. fetch ?p)) a t out a'" by (simp add: restore_def prefetch_request_def Let_def)
  then obtain a1 where a1: "same_setup a a1" and e: "exec R (fetch ?p) a1 t out a'"
  proof (cases rule: exec_seq)
    case (returned t1 x a0 t2)
    then show ?thesis using that exec_tame [OF returned(1) st] await_no_ring [OF st returned(1) ring] by simp
  qed (use await_no_ring [OF st _ ring] in blast)+
  from e obtain a2 where "same_setup a1 a2" and e2: "exec R (?p a2) a2 t out a'" by (elim exec_fetch [OF _ st])
  then have a2: "same_setup a a2" using a1 same_setup_trans by blast
  have same: "prefetch_request a2 tid v n = prefetch_request a tid v n" "stream_of stream a2 = stream_of stream a"
    using a2 by (simp_all add: prefetch_request_def stream_of_def same_setup_def)
  obtain m where m: "fuel = Suc m" using fuel by (cases fuel) auto
  let ?c = "\<lambda>rs. case rs of RsRequestPrefetch presp \<Rightarrow> Some (if \<not> pfs_ok presp then Done (restore_failed (pfs_message presp))
      else Clock (\<lambda>start. await_ready fuel (prefetch_request a tid v n) start (?k a) presp)) | _ \<Rightarrow> None"
  have "exec R (rpc (RqRequestPrefetch (prefetch_request a tid v n)) ?c) a2 t out a'"
    using e2 unfolding same request_prefetch_def .
  then obtain r t' where t: "t = ORpc (RqRequestPrefetch (prefetch_request a tid v n)) r # t'"
    and e3: "exec R (case r of Inl e \<Rightarrow> Throw e | Inr rs \<Rightarrow>
       (case ?c rs of None \<Rightarrow> Throw ''unexpected response'' | Some p \<Rightarrow> p)) a2 t' out a'" by (elim exec_rpc)
  have "exec R (?k a presp) a2 t' out a'" if "r = Inr (RsRequestPrefetch presp)" "pfs_ok presp" "pfs_ready presp" for presp
    using e3 that by (simp add: exec_simps m)
  then show ?thesis using t a2 by blast
qed

lemma prefetch_served:
  assumes served: "serves vm s0 tid w (ORpc (RqRequestPrefetch q) r # t) w'"
    and start: "resting (\<lambda>d g. stored s0 S L bs d) w" and L: "ls_tensor_id L = tid" and S: "session_of S (pfq_rank_id q) (pfq_rank_epoch q)"
    and q: "pfq_tensor_id q = tid" "pfq_version q = 0 \<or> pfq_version q = ls_version L"
  shows "\<exists>presp L' w1. r = Inr (RsRequestPrefetch presp) \<and> pfs_ok presp \<and> pfs_ready presp \<and> pfs_nbytes presp = ls_nbytes L \<and>
    ls_tensor_id L' = tid \<and> ls_nbytes L' = ls_nbytes L \<and> ls_base_slot L' = pfs_slot_id presp \<and>
    slot_addr (ls_base_slot L') (w_daemon w1) = (unat (pfs_arena_id presp), unat (pfs_arena_offset presp)) \<and>
    resting (\<lambda>d g. leased s0 S L' OFLD_SLOT_PINNED_VALID d \<and> contents L' d = bs) w1 \<and> serves vm s0 tid w1 t w'"
proof -
  from served_rpc [OF served lasts_stored [OF L] start] obtain w1 ws rs fds d1 where r: "r = Inr rs"
    and w1: "resting (\<lambda>d g. stored s0 S L bs d) w1"
    and run: "run_task ws (handle_request (RqRequestPrefetch q) (w_daemon w1)) = Some (Ret (rs, fds), d1)"
    and s1: "serves vm s0 tid (w1\<lparr>w_daemon := d1\<rparr>) t w'" by blast
  let ?d = "w_daemon w1" and ?L = "reader q L (w_daemon w1)"
  have ok: "daemon_ok s0 ?d" "calm S (ls_tensor_id L) (ls_version L) ?d"
    "t_find (d_locations ?d) (ls_tensor_id L) = Some (resident L)" "slot_state (ls_base_slot L) ?d = OFLD_SLOT_PINNED_VALID"
    and bs: "contents L ?d = bs"
    using w1 by (simp_all add: resting_def stored_def leased_def)
  from prefetch_step [OF ok S q(1) [folded L] q(2)] obtain d2 where
    h: "handle_request_prefetch q ?d = (Ret (prefetch_reply ''ok'' (d_next_lease_id ?d) (ls_base_slot L) (ls_nbytes L)
      OFLD_SLOT_PINNED_VALID True (ls_version L) d2), d2)"
    and d2: "leased s0 S ?L OFLD_SLOT_PINNED_VALID d2" "d_mem d2 = d_mem ?d" by blast
  have rs: "rs = RsRequestPrefetch (prefetch_reply ''ok'' (d_next_lease_id ?d) (ls_base_slot L) (ls_nbytes L)
      OFLD_SLOT_PINNED_VALID True (ls_version L) d2)" and d1: "d1 = d2"
    using run h by (auto simp: reply_def bnd_def ret_def)
  have f: "ls_tensor_id ?L = tid" "ls_nbytes ?L = ls_nbytes L" "ls_base_slot ?L = ls_base_slot L"
    using q(1) by (simp_all add: reader_def prefetch_lease_def)
  have "contents ?L d2 = bs"
    using contents_mem [OF ok(1) _ d2(2), of ?L] d2(1) bs f by (simp add: leased_def contents_def)
  then show ?thesis
    using r rs d1 d2(1) f s1 w1
    by (intro exI [of _ "prefetch_reply ''ok'' (d_next_lease_id ?d) (ls_base_slot L) (ls_nbytes L)
      OFLD_SLOT_PINNED_VALID True (ls_version L) d2"] exI [of _ ?L] exI [of _ "w1\<lparr>w_daemon := d1\<rparr>"])
      (simp add: prefetch_reply_def slot_addr_def Let_def resting_def)
qed

text \<open>The copy into the device takes the bytes of the lease there.\<close>

lemma in_effects:
  assumes pl: "placed vm s0 S L src"
  shows "effects vm (CopyIn dev src (ls_nbytes L)) (\<lambda>d g. \<exists>st. leased s0 S L st d \<and> contents L d = bs)
    (\<lambda>d g. device_bytes dev (ls_nbytes L) g = bs)"
  unfolding effects_def
proof (intro allI impI)
  fix w :: world assume "\<exists>st. leased s0 S L st (w_daemon w) \<and> contents L (w_daemon w) = bs"
  then obtain st where L: "leased s0 S L st (w_daemon w)" and bs: "contents L (w_daemon w) = bs" by blast
  obtain x y where vm: "\<And>i. i < unat (ls_nbytes L) \<Longrightarrow> vm (src + of_nat i) = (x, y + i)"
    and addr: "slot_addr (ls_base_slot L) (w_daemon w) = (x, y)" using pl L unfolding placed_def by blast
  have "device_bytes dev (ls_nbytes L) (w_device (perform vm (CopyIn dev src (ls_nbytes L)) w)) = bs"
    using copied_in [of "ls_nbytes L" vm src x y dev w, OF vm] addr bs by (simp add: contents_def)
  then show "(\<exists>st. leased s0 S L st (w_daemon (perform vm (CopyIn dev src (ls_nbytes L)) w)) \<and>
        contents L (w_daemon (perform vm (CopyIn dev src (ls_nbytes L)) w)) = bs) \<and>
      device_bytes dev (ls_nbytes L) (w_device (perform vm (CopyIn dev src (ls_nbytes L)) w)) = bs"
    using L bs by auto
qed

lemma in_served:
  assumes pl: "placed vm s0 S L src" and n: "ls_nbytes L = n" "ls_tensor_id L = tid"
    and served: "serves vm s0 tid w (ORpc (RqMarkH2DSubmitted qs) r1 # OCuda (cudaMemcpyH2D dev src n st) cudaSuccess #
      OEvent cudaSuccess ev # OCuda (cudaEventRecord ev st) cudaSuccess # OCuda (cudaEventSynchronize ev) cudaSuccess #
      ORpc (RqMarkH2DComplete qc) r2 # OCuda (cudaEventDestroy ev) e # []) w'"
    and start: "resting (\<lambda>d g. \<exists>st. leased s0 S L st d \<and> contents L d = bs) w"
  shows "device_bytes dev n (w_device w') = bs"
proof -
  let ?I = "\<lambda>d (g :: device). \<exists>st. leased s0 S L st d \<and> contents L d = bs"
  let ?D = "\<lambda>(d :: daemon) g. device_bytes dev n g = bs"
  have I: "lasts s0 tid ?I" using n by (intro lasts_ex lasts_lease)
  have D: "lasts s0 tid ?D" by (rule lasts_basic)
  from served_rpc [OF served I start] obtain w1 d1 ws rs fds where w1: "resting ?I w1"
    and r1: "run_task ws (handle_request (RqMarkH2DSubmitted qs) (w_daemon w1)) = Some (Ret (rs, fds), d1)"
    and s1: "serves vm s0 tid (w1\<lparr>w_daemon := d1\<rparr>) (OCuda (cudaMemcpyH2D dev src n st) cudaSuccess #
      OEvent cudaSuccess ev # OCuda (cudaEventRecord ev st) cudaSuccess # OCuda (cudaEventSynchronize ev) cudaSuccess #
      ORpc (RqMarkH2DComplete qc) r2 # OCuda (cudaEventDestroy ev) e # []) w'" by blast
  have d1: "d1 = snd (handle_mark_h2d_submitted qs (w_daemon w1))" using run_reply_locked r1 by simp
  obtain st1 where L1: "leased s0 S L st1 (w_daemon w1)" "contents L (w_daemon w1) = bs" using w1 by (auto simp: resting_def)
  obtain st2 where "leased s0 S L st2 d1" "d_mem d1 = d_mem (w_daemon w1)" using h2d_submitted_step [OF L1(1)] unfolding d1 by blast
  moreover from this have "contents L d1 = bs"
    using contents_mem [of s0 "w_daemon w1" d1 L] L1 by (simp add: leased_def)
  ultimately have w1': "resting ?I (w1\<lparr>w_daemon := d1\<rparr>)" using w1 by (auto simp: resting_def)
  have call: "answers s0 tid w (OCuda (cudaMemcpyH2D dev src n st) cudaSuccess) w1 \<longleftrightarrow> w1 = enqueue st (CopyIn dev src n) w" for w w1
    by (auto simp: answers_simps)
  from served_copy [OF s1 call w1' I D in_effects [OF pl, of dev bs, unfolded n]] obtain w2 where
    w2: "resting ?D w2" and s2: "serves vm s0 tid w2 (ORpc (RqMarkH2DComplete qc) r2 # OCuda (cudaEventDestroy ev) e # []) w'"
    by (auto simp: resting_def)
  from served_rpc [OF s2 D w2] obtain w3 d3 where "resting ?D w3"
    and s3: "serves vm s0 tid (w3\<lparr>w_daemon := d3\<rparr>) (OCuda (cudaEventDestroy ev) e # []) w'" by blast
  then have "resting ?D (w3\<lparr>w_daemon := d3\<rparr>)" by (simp add: resting_def)
  from serves_step [OF s3 refl resting_lasting [OF D] this] obtain w4 where "resting ?D w4" "serves vm s0 tid w4 [] w'"
    by (auto simp: answers_simps)
  then show ?thesis using serves_end [OF _ refl resting_lasting [OF D]] by (auto simp: resting_def)
qed

lemma restored_trace:
  assumes tr: "restore_trace a tid resolved dev n st presp t" and served: "serves vm s0 tid w t w'"
    and start: "resting (\<lambda>d g. \<exists>st. leased s0 S L st d \<and> contents L d = bs) w"
    and L: "ls_tensor_id L = tid" "ls_nbytes L = n"
    and place: "\<And>src. host_ptr (pfs_arena_id presp) (pfs_arena_offset presp) a = Some src \<Longrightarrow> placed vm s0 S L src"
  shows "device_bytes dev n (w_device w') = bs"
proof -
  from tr obtain reg src qs r1 ev qc r2 e where reg: "registration reg"
    and src: "host_ptr (pfs_arena_id presp) (pfs_arena_offset presp) a = Some src"
    and t: "t = reg @ ORpc (RqMarkH2DSubmitted qs) r1 # OCuda (cudaMemcpyH2D dev src n st) cudaSuccess #
      OEvent cudaSuccess ev # OCuda (cudaEventRecord ev st) cudaSuccess # OCuda (cudaEventSynchronize ev) cudaSuccess #
      ORpc (RqMarkH2DComplete qc) r2 # OCuda (cudaEventDestroy ev) e # []"
    unfolding restore_trace_def by auto
  have "lasts s0 tid (\<lambda>d g. \<exists>st. leased s0 S L st d \<and> contents L d = bs)" using L by (intro lasts_ex lasts_lease)
  from served_registration [OF served [unfolded t] reg this start] obtain w1 where
    "resting (\<lambda>d g. \<exists>st. leased s0 S L st d \<and> contents L d = bs) w1"
    and "serves vm s0 tid w1 (ORpc (RqMarkH2DSubmitted qs) r1 # OCuda (cudaMemcpyH2D dev src n st) cudaSuccess #
      OEvent cudaSuccess ev # OCuda (cudaEventRecord ev st) cudaSuccess # OCuda (cudaEventSynchronize ev) cudaSuccess #
      ORpc (RqMarkH2DComplete qc) r2 # OCuda (cudaEventDestroy ev) e # []) w'" by blast
  then show ?thesis using in_served [OF place [OF src] L(2,1)] by blast
qed

lemma restore_served:
  assumes cfg: "config_plannable cfg" "init_daemon cfg clock files = Some s0" and map: "mapped vm a s0"
    and st: "stable R" and ring: "\<not> ag_comp_ring a" and fuel: "0 < fuel"
    and S: "session_of S (ag_rank_id a) (ag_rank_epoch a)" and size: "sized s0 (ls_nbytes L)"
    and ver: "v = 0 \<or> v = ls_version L" and L: "ls_tensor_id L = tid"
    and run: "exec R (restore fuel tid v dev n stream True) a t out a'" and served: "serves vm s0 tid w t w'"
    and start: "resting (\<lambda>d g. stored s0 S L bs d) w"
  shows "(\<exists>e. out = Thrown e) \<or>
    (\<exists>r. out = Returned r \<and> rr_ok r \<and> device_bytes dev (ls_nbytes L) (w_device w') = bs)"
proof -
  from restore_start [OF st run ring fuel] obtain r t1 a1 where t: "t = ORpc (RqRequestPrefetch (prefetch_request a tid v n)) r # t1"
    and a1: "same_setup a a1"
    and go: "\<And>presp. r = Inr (RsRequestPrefetch presp) \<Longrightarrow> pfs_ok presp \<Longrightarrow> pfs_ready presp \<Longrightarrow>
       exec R (confirm_slot presp (restore_copy tid v dev n (stream_of stream a) True presp)) a1 t1 out a'" by blast
  have q: "session_of S (pfq_rank_id (prefetch_request a tid v n)) (pfq_rank_epoch (prefetch_request a tid v n))"
    "pfq_tensor_id (prefetch_request a tid v n) = tid"
    "pfq_version (prefetch_request a tid v n) = 0 \<or> pfq_version (prefetch_request a tid v n) = ls_version L"
    using S ver by (simp_all add: prefetch_request_def)
  from prefetch_served [OF served [unfolded t] start L q] obtain presp L' w1 where p: "r = Inr (RsRequestPrefetch presp)"
    "pfs_ok presp" "pfs_ready presp" "pfs_nbytes presp = ls_nbytes L" and L': "ls_tensor_id L' = tid" "ls_nbytes L' = ls_nbytes L"
    "ls_base_slot L' = pfs_slot_id presp"
    "slot_addr (ls_base_slot L') (w_daemon w1) = (unat (pfs_arena_id presp), unat (pfs_arena_offset presp))"
    and w1: "resting (\<lambda>d g. leased s0 S L' OFLD_SLOT_PINNED_VALID d \<and> contents L' d = bs) w1"
    and s1: "serves vm s0 tid w1 t1 w'" by blast
  note last = lasts_lease(2) [OF L'(1)]
  have read: "val = ucast (slot_state_code OFLD_SLOT_PINNED_VALID) \<and>
      (\<exists>w2. resting (\<lambda>d g. leased s0 S L' OFLD_SLOT_PINNED_VALID d \<and> contents L' d = bs) w2 \<and> serves vm s0 tid w2 t2 w')"
    if "t1 = ORead (SlotState (pfs_slot_id presp)) val # t2" for val t2
    using serves_step [OF s1 that resting_lasting [OF last] w1] L'(3) by (auto simp: answers_simps resting_def leased_def)
  consider (bad) val where "val \<noteq> ucast (slot_state_code OFLD_SLOT_PINNED_VALID)" "t1 = [ORead (SlotState (pfs_slot_id presp)) val]"
    | (good) a2 t2 where "same_setup a1 a2" "exec R (restore_copy tid v dev n (stream_of stream a) True presp) a2 t2 out a'"
      "t1 = ORead (SlotState (pfs_slot_id presp)) (ucast (slot_state_code OFLD_SLOT_PINNED_VALID)) # t2 \<or> t1 = t2"
    using confirm_slot_run [OF st go [OF p(1-3)]] by (auto split: if_splits)
  then show ?thesis
  proof cases
    case bad
    then show ?thesis using read by blast
  next
    case (good a2 t2)
    obtain w2 where w2: "resting (\<lambda>d g. leased s0 S L' OFLD_SLOT_PINNED_VALID d \<and> contents L' d = bs) w2"
      and s2: "serves vm s0 tid w2 t2 w'" using good(3) read s1 w1 by blast
    have a2: "same_setup a a2" using a1 good(1) same_setup_trans by blast
    have "slot_addr (ls_base_slot L') (w_daemon w2) = (unat (pfs_arena_id presp), unat (pfs_arena_offset presp))"
      using slot_addr_plan [OF plan_between, of s0 "w_daemon w1" "w_daemon w2"] L'(4) w1 w2 by (auto simp: resting_def leased_def)
    then have place: "placed vm s0 S L' src" if "host_ptr (pfs_arena_id presp) (pfs_arena_offset presp) a2 = Some src" for src
      using placed_lease [OF cfg map] w2 L'(2) size that host_ptr_setup [OF a2] by (auto simp: resting_def)
    have "ls_nbytes L \<noteq> 0" using size by (auto simp: sized_def)
    then consider e where "out = Thrown e" | r resolved where "out = Returned r" "rr_ok r"
        "restore_trace a2 tid resolved dev (ls_nbytes L) (stream_of stream a) presp t2"
      using restore_copy_run [OF st good(2)] p(4) unfolding ends_with_def by auto
    then show ?thesis
    proof cases
      case (2 r resolved)
      then show ?thesis using restored_trace [OF 2(3) s2 _ L'(1,2) place] w2 by (auto simp: resting_def)
    qed blast
  qed
qed

section \<open>The round trip\<close>

lemma tame_evict: "tame (evict p n stream destructive meta cb cookie wait)"
  by (auto simp: evict_def evict_copy_def evict_submit_def evict_finish_def Let_def intro!: staying_rpc split: response.splits)


section \<open>A round trip on the small daemon\<close>

lemma perform_set_streams: "perform vm c (w\<lparr>w_streams := x\<rparr>) = (perform vm c w)\<lparr>w_streams := x\<rparr>"
  by (cases c) simp_all

text \<open>A copy on an idle device may be performed as soon as its event has been recorded.\<close>

lemma copy_serves:
  assumes "answers s0 tid w (OCuda call cudaSuccess) (enqueue st c w)" and "w_streams w = (\<lambda>_. [])" and "c \<noteq> Mark ev"
    and "serves vm s0 tid (perform vm c w) t w'"
  shows "serves vm s0 tid w (OCuda call cudaSuccess # OEvent cudaSuccess ev # OCuda (cudaEventRecord ev st) cudaSuccess #
    OCuda (cudaEventSynchronize ev) cudaSuccess # t) w'"
proof -
  let ?w1 = "enqueue st c w" let ?w2 = "enqueue st (Mark ev) ?w1" let ?w3 = "perform vm c (?w2\<lparr>w_streams := (\<lambda>_. [])(st := [Mark ev])\<rparr>)"
  have e1: "answers s0 tid ?w1 (OEvent cudaSuccess ev) ?w1"
    using assms(2,3) by (intro new_event) (simp add: enqueue_def)
  have p1: "silent vm s0 tid ?w2 ?w3"
    using perform_next [of ?w2 st c "[Mark ev]" vm s0 tid] assms(2) by (simp add: enqueue_def)
  have p2: "silent vm s0 tid ?w3 (perform vm c w)"
    using perform_next [of ?w3 st "Mark ev" "[]" vm s0 tid] assms(2)
    by (simp add: enqueue_def perform_set_streams fun_upd_idem) (metis assms(2) perform_set_streams perform_streams world.surjective world.update_convs(3))
  have e2: "answers s0 tid (perform vm c w) (OCuda (cudaEventSynchronize ev) cudaSuccess) (perform vm c w)"
    using assms(2) by (intro event_passed) simp
  show ?thesis
    by (intro serves_Cons [OF assms(1)] serves_Cons [OF e1] serves_Cons [OF record_event] serves_silent [OF p1]
        serves_silent [OF p2] serves_Cons [OF e2] assms(4))
qed

lemma rpc_serves:
  assumes "handle_request q (w_daemon w) = (Ret (r, fds), d)" and "serves vm s0 tid (w\<lparr>w_daemon := d\<rparr>) t w'"
  shows "serves vm s0 tid w (ORpc q (Inr r) # t) w'"
  by (rule serves_Cons [OF by_daemon [of "[]"] assms(2)]) (simp_all add: assms(1) windows_aside_def)

lemma rpc_serves_next:
  assumes "handle_request q d1 = (Ret (r, fds), d)" "serves vm s0 tid (w\<lparr>w_daemon := d\<rparr>) t w'"
  shows "serves vm s0 tid (w\<lparr>w_daemon := d1\<rparr>) (ORpc q (Inr r) # t) w'"
  by (rule rpc_serves [where d = d and fds = fds]) (simp_all add: assms)

lemma locked_requests:
  "handle_request (RqMarkD2HSubmitted m1) d =
     (Ret (RsMarkD2HSubmitted (fst (handle_mark_d2h_submitted m1 d)), []), snd (handle_mark_d2h_submitted m1 d))"
  "handle_request (RqMarkD2HComplete m2) d =
     (Ret (RsMarkD2HComplete (fst (handle_mark_d2h_complete m2 d)), []), snd (handle_mark_d2h_complete m2 d))"
  "handle_request (RqMarkH2DSubmitted m3) d =
     (Ret (RsMarkH2DSubmitted (fst (handle_mark_h2d_submitted m3 d)), []), snd (handle_mark_h2d_submitted m3 d))"
  "handle_request (RqMarkH2DComplete m4) d =
     (Ret (RsMarkH2DComplete (fst (handle_mark_h2d_complete m4 d)), []), snd (handle_mark_h2d_complete m4 d))"
  by (simp_all add: reply_def bnd_def locked_def ret_def split_beta)

text \<open>The agent of rank 7, the tensor, the grant, and the device.\<close>

definition pinned_agent :: agent where
  "pinned_agent = sample_agent\<lparr>ag_rank_id := 7, ag_num_slots := 4\<rparr>"

definition pinned_meta :: TensorMeta where
  "pinned_meta = \<lparr>tm_tensor_id = 42, tm_version = 3, tm_name = ''w''\<rparr>"

definition pinned_grant :: RequestOffloadResponse where
  "pinned_grant = \<lparr>ros_ok = True, ros_message = ''ok'', ros_lease_id = 1, ros_slot_id = 0, ros_arena_id = 0,
     ros_arena_offset = 0, ros_capacity = 8192, ros_state = 1, ros_blocked = False\<rparr>"

definition pinned_ready :: "u64 \<Rightarrow> RequestPrefetchResponse" where
  "pinned_ready l = \<lparr>pfs_ok = True, pfs_message = ''ok'', pfs_lease_id = l, pfs_slot_id = 0, pfs_arena_id = 0,
     pfs_arena_offset = 0, pfs_nbytes = 5000, pfs_state = slot_state_code OFLD_SLOT_PINNED_VALID, pfs_ready = True,
     pfs_version = 3\<rparr>"

definition arena_view :: placing where
  "arena_view p = (0, unat (p - 0x7f0000000000))"

lemma arena_mapped: "mapped arena_view pinned_agent sample_daemon"
  unfolding mapped_def
proof (intro allI impI, elim conjE)
  fix arena off p i assume p: "host_ptr arena off pinned_agent = Some p" and l: "unat arena < length (d_arenas sample_daemon)"
    and b: "unat off + i < unat (ar_size (d_arenas sample_daemon ! unat arena))"
  have a: "unat arena = 0" using l by simp
  then have "p = 0x7f0000000000 + off"
    using p by (auto simp: host_ptr_def pinned_agent_def sample_agent_def sample_arena_map_def t_find_def split: if_splits)
  moreover have "unat (off + of_nat i) = unat off + i" using b a by (simp add: unat_add_of_nat)
  ultimately show "arena_view (p + of_nat i) = (unat arena, unat off + i)" using a by (simp add: arena_view_def add.assoc)
qed

definition evict_answers :: "MarkD2HSubmittedResponse \<Rightarrow> MarkD2HCompleteResponse \<Rightarrow> answer list" where
  "evict_answers r1 r2 =
     [ARpc (Inr (RsRequestOffload pinned_grant)), ACuda cudaSuccess, AClock 10, ARpc (Inr (RsMarkD2HSubmitted r1)), AClock 11,
      ACuda cudaSuccess, AEvent cudaSuccess 77, ACuda cudaSuccess, ACuda cudaSuccess, AClock 12,
      ARpc (Inr (RsMarkD2HComplete r2)), ACuda cudaSuccess, AClock 11]"

abbreviation evict_call :: "OffloadTicket code" where
  "evict_call \<equiv> evict 0x500 5000 kInternalStream True pinned_meta True 33 True"

abbreviation restore_call :: "RestoreResult code" where
  "restore_call \<equiv> restore 1 42 3 0x9000 5000 kInternalStream True"

text \<open>The agent after the eviction, up to its statistics.\<close>

definition evicted_agent :: "counters \<Rightarrow> agent" where
  "evicted_agent m = pinned_agent
     \<lparr>ag_registered_chunks := [0x7f0000000000], ag_registered_pinned_bytes := 0x10000,
      ag_offloaded := [(tv_key 42 3, True)], ag_lease_of := [(tv_key 42 3, 1)], ag_evict_count := 1, ag_d2h_completed := 1,
      ag_submit_seq_ctr := 1, ag_complete_seq_ctr := 1, ag_metrics := m\<rparr>"

definition agent_data where
  "agent_data a =
     (ag_device a, ag_numa a, ag_rank_id a, ag_rank_epoch a, ag_arenas a, ag_arena_index a, ag_control a, ag_num_slots a,
      ag_comp_ring a, ag_ring_index a, ag_internal_stream a, ag_registered_chunks a, ag_registered_pinned_bytes a,
      ag_inflight_d2h a, ag_inflight_h2d a, ag_offloaded a, ag_lease_of a, ag_ring_push_seq a, ag_inflight_d2h_bytes a,
      ag_inflight_h2d_bytes a, ag_evict_count a, ag_restore_count a, ag_d2h_completed a, ag_h2d_completed a,
      ag_submit_seq_ctr a, ag_complete_seq_ctr a, ag_stop a, ag_bw_samples a)"

lemma agent_data_eq: "agent_data a = agent_data (evicted_agent m) \<Longrightarrow> a = evicted_agent (ag_metrics a)"
  by (simp add: agent_data_def evicted_agent_def pinned_agent_def sample_agent_def)

definition mark_submitted :: MarkD2HSubmittedRequest where
  "mark_submitted = \<lparr>dsq_rank_id = 7, dsq_rank_epoch = 1, dsq_lease_id = 1, dsq_tensor_id = 42, dsq_version = 3, dsq_slot_id = 0,
     dsq_submit_seq = 0, dsq_timestamp_ns = 10\<rparr>"

definition mark_complete :: MarkD2HCompleteRequest where
  "mark_complete = \<lparr>dcq_rank_id = 7, dcq_rank_epoch = 1, dcq_lease_id = 1, dcq_tensor_id = 42, dcq_version = 3, dcq_slot_id = 0,
     dcq_complete_seq = 0, dcq_timestamp_ns = 12\<rparr>"

definition evicted_trace :: "MarkD2HSubmittedResponse \<Rightarrow> MarkD2HCompleteResponse \<Rightarrow> obs list" where
  "evicted_trace r1 r2 =
     [ORpc (RqRequestOffload (offload_request pinned_agent 5000 True pinned_meta)) (Inr (RsRequestOffload pinned_grant)),
      OCuda (cudaHostRegister 0x7f0000000000 0x10000) cudaSuccess,
      ORpc (RqMarkD2HSubmitted mark_submitted) (Inr (RsMarkD2HSubmitted r1)),
      OCuda (cudaMemcpyD2H 0x7f0000000000 0x500 5000 5) cudaSuccess, OEvent cudaSuccess 77,
      OCuda (cudaEventRecord 77 5) cudaSuccess, OCuda (cudaEventSynchronize 77) cudaSuccess,
      ORpc (RqMarkD2HComplete mark_complete) (Inr (RsMarkD2HComplete r2)),
      OInvalidate 33, OCuda (cudaEventDestroy 77) cudaSuccess]"

definition pinned_ticket :: OffloadTicket where
  "pinned_ticket = \<lparr>ot_tensor_id = 42, ot_version = 3, ot_nbytes = 5000, ot_lease_id = 1, ot_slot_id = 0, ot_ok = True,
     ot_message = ''''\<rparr>"

lemma pinned_evict_run:
  "\<exists>m. exec (=) evict_call pinned_agent (evicted_trace r1 r2) (Returned pinned_ticket) (evicted_agent m)"
proof -
  have "map_option (\<lambda>(t, out, a). (t, out, agent_data a)) (play evict_call (evict_answers r1 r2) pinned_agent) =
      Some (evicted_trace r1 r2, Returned pinned_ticket, agent_data (evicted_agent (\<lambda>_. 0)))" by code_simp
  then obtain a where "play evict_call (evict_answers r1 r2) pinned_agent = Some (evicted_trace r1 r2, Returned pinned_ticket, a)"
    and "agent_data a = agent_data (evicted_agent (\<lambda>_. 0))" by auto
  then show ?thesis using play_exec agent_data_eq by metis
qed

definition read_submitted :: "u64 \<Rightarrow> MarkH2DSubmittedRequest" where
  "read_submitted l = \<lparr>hsq_rank_id = 7, hsq_rank_epoch = 1, hsq_lease_id = l, hsq_tensor_id = 42, hsq_version = 3, hsq_slot_id = 0,
     hsq_submit_seq = 1, hsq_timestamp_ns = 20\<rparr>"

definition read_complete :: "u64 \<Rightarrow> MarkH2DCompleteRequest" where
  "read_complete l = \<lparr>hcq_rank_id = 7, hcq_rank_epoch = 1, hcq_lease_id = l, hcq_tensor_id = 42, hcq_version = 3, hcq_slot_id = 0,
     hcq_keep_pinned = False, hcq_complete_seq = 1, hcq_timestamp_ns = 22\<rparr>"

definition restored_steps :: "u64 \<Rightarrow> MarkH2DSubmittedResponse \<Rightarrow> MarkH2DCompleteResponse \<Rightarrow> obs list" where
  "restored_steps l r3 r4 =
     [ORpc (RqRequestPrefetch (prefetch_request pinned_agent 42 3 5000)) (Inr (RsRequestPrefetch (pinned_ready l))),
      ORead (SlotState 0) (ucast (slot_state_code OFLD_SLOT_PINNED_VALID)),
      ORpc (RqMarkH2DSubmitted (read_submitted l)) (Inr (RsMarkH2DSubmitted r3)),
      OCuda (cudaMemcpyH2D 0x9000 0x7f0000000000 5000 5) cudaSuccess, OEvent cudaSuccess 78,
      OCuda (cudaEventRecord 78 5) cudaSuccess, OCuda (cudaEventSynchronize 78) cudaSuccess,
      ORpc (RqMarkH2DComplete (read_complete l)) (Inr (RsMarkH2DComplete r4)),
      OCuda (cudaEventDestroy 78) cudaSuccess]"

lemma pinned_restore_run:
  "\<exists>a'. exec (=) restore_call (evicted_agent m) (restored_steps l r3 r4) (Returned \<lparr>rr_ok = True, rr_message = ''''\<rparr>) a'"
proof -
  have "map_option (\<lambda>(t, out, s'). (t, out)) (play restore_call
     [ARpc (Inr (RsRequestPrefetch (pinned_ready l))), AClock 0, ARead (ucast (slot_state_code OFLD_SLOT_PINNED_VALID)),
      AClock 20, ARpc (Inr (RsMarkH2DSubmitted r3)), AClock 21, ACuda cudaSuccess, AEvent cudaSuccess 78, ACuda cudaSuccess,
      ACuda cudaSuccess, AClock 22, ARpc (Inr (RsMarkH2DComplete r4)), ACuda cudaSuccess, AClock 21] (evicted_agent m)) =
      Some (restored_steps l r3 r4, Returned \<lparr>rr_ok = True, rr_message = ''''\<rparr>)"
    by code_simp
  then show ?thesis by (elim play_ends) auto
qed

lemma pinned_offload:
  "\<exists>d. handle_request_offload (offload_request pinned_agent 5000 True pinned_meta) sample_registered = (Ret pinned_grant, d)"
  by (simp add: handle_request_offload_def offload_request_def pinned_agent_def sample_agent_def pinned_meta_def
      epoch_valid_def t_find_def sample_session_def alloc_at_once [OF sample_run] m_inc_def m_add_def
      Let_def slots_for_bytes_def run_ids_def list_small slot_state_def locked_def grant_offload_def session_pid_def
      reserve_run_def upd_run_def for_run_def put_lease_def t_put_def now_real_ns_def pinned_grant_def)

definition pinned_world :: world where
  "pinned_world = \<lparr>w_daemon = sample_registered, w_device = ucast, w_streams = (\<lambda>_. [])\<rparr>"

lemma pinned_facts:
  "daemon_ok sample_daemon sample_registered" "calm [(7, sample_session)] 42 3 sample_registered"
  "sized sample_daemon 5000" "gran sample_daemon \<noteq> 0" "session_of [(7, sample_session)] 7 1"
proof -
  obtain ts where "sys_reach sample_daemon (sample_registered, ts)" using sample_registered_reached by blast
  then show "daemon_ok sample_daemon sample_registered" by (rule reach_ok [OF sample_config_plannable init_sample])
qed (simp_all add: calm_def no_news_def sized_def session_of_def t_find_def sample_session_def)

lemma pinned_evict_served:
  "\<exists>r1 r2 w L. serves arena_view sample_daemon 42 pinned_world (evicted_trace r1 r2) w \<and> w_streams w = (\<lambda>_. []) \<and>
     ls_tensor_id L = 42 \<and> ls_version L = 3 \<and> ls_nbytes L = 5000 \<and> ls_base_slot L = 0 \<and> slot_addr 0 (w_daemon w) = (0, 0) \<and>
     leased sample_daemon [(7, sample_session)] L OFLD_SLOT_PINNED_VALID (w_daemon w) \<and>
     calm [(7, sample_session)] 42 3 (w_daemon w) \<and> t_find (d_locations (w_daemon w)) 42 = Some (resident L)"
proof -
  let ?S = "[(7, sample_session)]" and ?q = "offload_request pinned_agent 5000 True pinned_meta"
  have q: "roq_tensor_id ?q = 42" "roq_version ?q = 3" "roq_nbytes ?q = 5000" "roq_rank_id ?q = 7"
    by (simp_all add: offload_request_def pinned_agent_def pinned_meta_def)
  obtain d1 where off: "handle_request_offload ?q sample_registered = (Ret pinned_grant, d1)" using pinned_offload by blast
  then have run: "run_task [] (handle_request_offload ?q sample_registered) = Some (Ret pinned_grant, d1)" by simp
  obtain L where L: "leased sample_daemon ?S L OFLD_SLOT_RESERVED_D2H d1" "calm ?S 42 3 d1" "ls_tensor_id L = 42" "ls_version L = 3"
    "ls_owner_rank L = 7" "ls_nbytes L = 5000" "ls_lease_id L = 1" "ls_base_slot L = 0" "slot_addr 0 d1 = (0, 0)"
    using offload_step [OF run, of sample_daemon ?S] pinned_facts(1-4) unfolding q
    by (auto simp: pinned_grant_def windows_aside_def)
  have fits: "run_fits (ls_base_slot L) (ls_slot_count L) (d_slots d)" "0 < unat (ls_slot_count L)"
    if "leased sample_daemon ?S L st d" for st d
    using leased_run [OF that] L(6) pinned_facts(3,4) by simp_all
  have names: "submits ?S L mark_submitted" "completes ?S L mark_complete"
    using L pinned_facts(5) by (simp_all add: submits_def completes_def mark_submitted_def mark_complete_def)
  let ?d2 = "snd (handle_mark_d2h_submitted mark_submitted d1)"
  have d2: "leased sample_daemon ?S L OFLD_SLOT_D2H_IN_FLIGHT ?d2" "calm ?S 42 3 ?d2"
    using submitted_step [OF L(1,2) names(1) fits [OF L(1)]] by simp_all
  let ?c = "CopyOut 0x7f0000000000 0x500 5000"
  let ?w3 = "perform arena_view ?c (pinned_world\<lparr>w_daemon := ?d2\<rparr>)"
  have d3: "leased sample_daemon ?S L OFLD_SLOT_D2H_IN_FLIGHT (w_daemon ?w3)" "calm ?S 42 3 (w_daemon ?w3)"
    using d2 by (simp_all add: leased_mem)
  let ?d4 = "snd (handle_mark_d2h_complete mark_complete (w_daemon ?w3))" let ?w4 = "?w3\<lparr>w_daemon := ?d4\<rparr>"
  have d4: "leased sample_daemon ?S L OFLD_SLOT_PINNED_VALID ?d4" "calm ?S 42 3 ?d4" "t_find (d_locations ?d4) 42 = Some (resident L)"
    using completed_step [OF d3(1) _ names(2) fits [OF d3(1)]] d3(2) L(3,4) by simp_all
  have addr: "slot_addr 0 ?d4 = (0, 0)"
    using slot_addr_plan [OF plan_between, of sample_daemon d1 ?d4 0] d4(1) L(1,9) by (simp add: leased_def)
  have idle: "w_streams ?w4 = (\<lambda>_. [])" by (simp add: pinned_world_def)
  let ?r1 = "fst (handle_mark_d2h_submitted mark_submitted d1)" and ?r2 = "fst (handle_mark_d2h_complete mark_complete (w_daemon ?w3))"
  let ?t3 = "[ORpc (RqMarkD2HComplete mark_complete) (Inr (RsMarkD2HComplete ?r2)), OInvalidate 33,
    OCuda (cudaEventDestroy 77) cudaSuccess]"
  let ?t2 = "OCuda (cudaMemcpyD2H 0x7f0000000000 0x500 5000 5) cudaSuccess # OEvent cudaSuccess 77 #
    OCuda (cudaEventRecord 77 5) cudaSuccess # OCuda (cudaEventSynchronize 77) cudaSuccess # ?t3"
  have "answers sample_daemon 42 ?w4 (OInvalidate 33) (?w4\<lparr>w_device := w_device ?w4\<rparr>)" by (rule given_up)
  then have "serves arena_view sample_daemon 42 ?w4 [OInvalidate 33, OCuda (cudaEventDestroy 77) cudaSuccess] ?w4"
    using serves_Cons [OF _ serves_Cons [OF destroyed serves_Nil]] by simp
  then have s3: "serves arena_view sample_daemon 42 ?w3 ?t3 ?w4" by (rule rpc_serves [OF locked_requests(2)])
  have s2: "serves arena_view sample_daemon 42 (pinned_world\<lparr>w_daemon := ?d2\<rparr>) ?t2 ?w4"
    by (rule copy_serves [OF copy_out _ _ s3]) (simp_all add: pinned_world_def)
  have s1: "serves arena_view sample_daemon 42 (pinned_world\<lparr>w_daemon := d1\<rparr>)
      (ORpc (RqMarkD2HSubmitted mark_submitted) (Inr (RsMarkD2HSubmitted ?r1)) # ?t2) ?w4"
    by (rule rpc_serves_next [OF locked_requests(1) s2])
  have "handle_request (RqRequestOffload ?q) (w_daemon pinned_world) = (Ret (RsRequestOffload pinned_grant, []), d1)"
    using off by (simp add: reply_def bnd_def ret_def pinned_world_def)
  from rpc_serves [OF this serves_Cons [OF registered s1]]
  have "serves arena_view sample_daemon 42 pinned_world (evicted_trace ?r1 ?r2) ?w4" unfolding evicted_trace_def .
  moreover have "w_daemon ?w4 = ?d4" by simp
  ultimately show ?thesis using d4 idle L(3,4,6,8) addr
    by (intro exI [of _ ?r1] exI [of _ ?r2] exI [of _ ?w4] exI [of _ L] conjI) (simp_all only:)
qed

lemma pinned_restore_served:
  assumes idle: "w_streams w = (\<lambda>_. [])" and L: "ls_tensor_id L = 42" "ls_version L = 3" "ls_nbytes L = 5000" "ls_base_slot L = 0"
    and addr: "slot_addr 0 (w_daemon w) = (0, 0)" and held: "leased sample_daemon [(7, sample_session)] L OFLD_SLOT_PINNED_VALID (w_daemon w)"
    and calm: "calm [(7, sample_session)] 42 3 (w_daemon w)" and loc: "t_find (d_locations (w_daemon w)) 42 = Some (resident L)"
  shows "\<exists>l r3 r4 w'. serves arena_view sample_daemon 42 w (restored_steps l r3 r4) w'"
proof -
  let ?S = "[(7, sample_session)]" and ?q = "prefetch_request pinned_agent 42 3 5000" and ?d = "w_daemon w"
  let ?l = "d_next_lease_id ?d"
  have q: "pfq_rank_id ?q = 7" "pfq_rank_epoch ?q = 1" "pfq_tensor_id ?q = 42" "pfq_version ?q = 3"
    by (simp_all add: prefetch_request_def pinned_agent_def sample_agent_def)
  have ok: "daemon_ok sample_daemon ?d" "slot_state 0 ?d = OFLD_SLOT_PINNED_VALID" using held L(4) by (simp_all add: leased_def)
  obtain d1 where pre: "handle_request_prefetch ?q ?d = (Ret (prefetch_reply ''ok'' ?l 0 5000 OFLD_SLOT_PINNED_VALID True 3 d1), d1)"
    and d1: "leased sample_daemon ?S (reader ?q L ?d) OFLD_SLOT_PINNED_VALID d1"
    using prefetch_step [OF ok(1), of ?S L ?q] calm loc ok(2) pinned_facts(5) unfolding q L by auto
  have "slot_addr 0 d1 = (0, 0)"
    using slot_addr_plan [OF plan_between [OF ok(1)], of d1 0] d1 addr by (simp add: leased_def)
  then have reply: "prefetch_reply ''ok'' ?l 0 5000 OFLD_SLOT_PINNED_VALID True 3 d1 = pinned_ready ?l"
    by (simp add: prefetch_reply_def pinned_ready_def slot_addr_def Let_def unat_eq_0)
  have state: "slot_state 0 d1 = OFLD_SLOT_PINNED_VALID" using d1 L(4) by (simp add: leased_def reader_def prefetch_lease_def)
  let ?w1 = "w\<lparr>w_daemon := d1\<rparr>" let ?d2 = "snd (handle_mark_h2d_submitted (read_submitted ?l) d1)"
  let ?w3 = "perform arena_view (CopyIn 0x9000 0x7f0000000000 5000) (w\<lparr>w_daemon := ?d2\<rparr>)"
  let ?w4 = "?w3\<lparr>w_daemon := snd (handle_mark_h2d_complete (read_complete ?l) (w_daemon ?w3))\<rparr>"
  let ?r3 = "fst (handle_mark_h2d_submitted (read_submitted ?l) d1)" and ?r4 = "fst (handle_mark_h2d_complete (read_complete ?l) (w_daemon ?w3))"
  let ?t3 = "[ORpc (RqMarkH2DComplete (read_complete ?l)) (Inr (RsMarkH2DComplete ?r4)), OCuda (cudaEventDestroy 78) cudaSuccess]"
  let ?t2 = "OCuda (cudaMemcpyH2D 0x9000 0x7f0000000000 5000 5) cudaSuccess # OEvent cudaSuccess 78 #
    OCuda (cudaEventRecord 78 5) cudaSuccess # OCuda (cudaEventSynchronize 78) cudaSuccess # ?t3"
  have s3: "serves arena_view sample_daemon 42 ?w3 ?t3 ?w4"
    by (rule rpc_serves [OF locked_requests(4) serves_Cons [OF destroyed serves_Nil]])
  have s2: "serves arena_view sample_daemon 42 (w\<lparr>w_daemon := ?d2\<rparr>) ?t2 ?w4"
    by (rule copy_serves [OF copy_in _ _ s3]) (simp_all add: idle)
  have s1: "serves arena_view sample_daemon 42 ?w1
      (ORpc (RqMarkH2DSubmitted (read_submitted ?l)) (Inr (RsMarkH2DSubmitted ?r3)) # ?t2) ?w4"
    by (rule rpc_serves_next [OF locked_requests(3) s2])
  have "answers sample_daemon 42 ?w1 (ORead (SlotState 0) (ucast (slot_state_code OFLD_SLOT_PINNED_VALID))) ?w1"
    using slot_read [of sample_daemon 42 ?w1 0] state by simp
  note s0 = serves_Cons [OF this s1]
  have "handle_request (RqRequestPrefetch ?q) ?d = (Ret (RsRequestPrefetch (pinned_ready ?l), []), d1)"
    using pre reply by (simp add: reply_def bnd_def ret_def)
  from rpc_serves [OF this s0] have "serves arena_view sample_daemon 42 w (restored_steps ?l ?r3 ?r4) ?w4"
    unfolding restored_steps_def .
  then show ?thesis by blast
qed


end
