(* ===== verification/Spec2Isabelle.thy ===== *)
theory Spec2Isabelle
  imports Prelude Abi Protocol Protocol_V2 Completion_Ring Control_Layout Wire_Format Wire Wire_V2 Uds Messages Metrics Config Daemon_State Slots Daemon_Init Daemon_Ops Cold_Store Tasks Handlers Canonical Rollout Export Workers Dispatch Samples Invariants Handler_Invariants Safety Liveness Sessions Decimal Yaml Config_Load Actions Action_Runs Agent Agent_Runs Agent_Protocol Restore_Runs Action_Play Agent_Samples Completion_Reports Completion_Paths Identity Device_World Lease_Steps Round_Trip
begin

text \<open>
  StateSpectre moves tensors between GPU memory, pinned host memory and colder tiers. A daemon owns pinned
  arenas and hands out runs of slots under leases; an agent in every rank copies tensors into and out of the
  slots with CUDA and tells the daemon when a copy is done, over a socket or through a ring in shared memory.
  The daemon drains pinned tensors to pageable memory or NVMe, reads them back on demand, and keeps a store of
  canonical objects that are shared between ranks, sealed into model versions, exported and restored. The
  development models the C++ sources under \<^verbatim>\<open>src/src\<close> and \<^verbatim>\<open>src/abi\<close> at the widths of their integers.

  \<^bold>\<open>Foundations.\<close> \<open>Prelude\<close> has the integer types, the tables that stand for \<^verbatim>\<open>std::unordered_map\<close> and the shared
  lemmas. \<open>Abi\<close> and \<open>Control_Layout\<close> model \<^verbatim>\<open>abi/offload_abi.h\<close>, \<^verbatim>\<open>abi/offload_canonical_abi.hpp\<close> and
  \<^verbatim>\<open>common/control_layout.h\<close>: enumerations, slot entries and the layout of the control region, whose parts are
  shown to be aligned, disjoint and inside the region. \<open>Completion_Ring\<close> is \<^verbatim>\<open>common/completion_ring.h\<close>: push and
  pop refine a bounded queue across the wrap of the counters, and so does every interleaving of the loads and
  stores of one producer and one consumer. \<open>Metrics\<close> has the counters of \<^verbatim>\<open>common/metrics.cpp\<close>, \<open>Decimal\<close> the
  decimal notation of the standard library.

  \<^bold>\<open>Messages.\<close> \<open>Protocol\<close> and \<open>Protocol_V2\<close> have the records of \<^verbatim>\<open>common/protocol.h\<close> and \<^verbatim>\<open>protocol_v2.h\<close>.
  \<open>Wire_Format\<close>, \<open>Wire\<close> and \<open>Wire_V2\<close> model the codecs of \<^verbatim>\<open>common/wire.cpp\<close> and \<^verbatim>\<open>wire_v2.cpp\<close>, with the locale
  \<open>codec\<close> for what an encoder and a decoder owe each other. \<open>Messages\<close> collects all messages as two sum types
  and shows that every one decodes to itself and that no proper prefix of it decodes; \<open>Uds\<close> models the partial
  reads and writes of \<^verbatim>\<open>common/uds.cpp\<close> and shows that frames arrive whole.

  \<^bold>\<open>Configuration.\<close> \<open>Config\<close>, \<open>Yaml\<close> and \<open>Config_Load\<close> model \<^verbatim>\<open>daemon/config.cpp\<close>: the reader of the YAML subset, the
  conversions and the validation. A printed document is read as itself, numbers are read exactly, and what is
  returned has passed the validation, whose sum of window sizes may wrap.

  \<^bold>\<open>Daemon.\<close> \<open>Daemon_State\<close> is the state of \<^verbatim>\<open>daemon/daemon.h\<close> and \<^verbatim>\<open>canonical.h\<close>; \<open>Slots\<close>, \<open>Daemon_Init\<close>,
  \<open>Daemon_Ops\<close>, \<open>Cold_Store\<close>, \<open>Handlers\<close>, \<open>Workers\<close> and \<open>Dispatch\<close> model \<^verbatim>\<open>daemon/daemon.cpp\<close>: the slot plan and the allocator,
  construction, the steps the handlers share, drains to and readbacks from the cold tiers, the RPC handlers,
  one round of each background thread, and the way from a frame to the reply. \<open>Canonical\<close>, \<open>Rollout\<close> and \<open>Export\<close> model
  \<^verbatim>\<open>daemon/canonical.cpp\<close>, \<^verbatim>\<open>canonical_rollout.cpp\<close> and \<^verbatim>\<open>export_backend.cpp\<close>. Code that releases the mutex is a task
  (\<open>Tasks\<close>): it runs to the next release and goes on with the outcome of the system calls and the state as it then
  is. The relation \<open>sys_step\<close> interleaves connections, workers, sweeps, ranks that write into shared memory, and
  devices. Memory is \<open>d_mem\<close>, a byte for each arena and offset; files are byte lists.

  \<^bold>\<open>Theorems on the daemon.\<close> \<open>Slots\<close> shows that the allocator is sound and complete, \<open>Daemon_Init\<close> that the slot plan is
  well formed and when the rounding of the ring capacity ends. \<open>Invariants\<close> states the contract between an
  invariant and the statements of the handlers as the locale \<open>daemon_invariant\<close>; \<open>Handler_Invariants\<close> proves within
  it, once, that every handler, worker and sweep keeps such an invariant; \<open>Safety\<close> interprets it on the model
  (\<open>dk\<close>) and concludes for every reachable state that recorded runs lie inside their arena, that reference
  counts are exact and that a published version is sealed. \<open>Liveness\<close> bounds the windows without the mutex of a
  request, \<open>Sessions\<close> is about epochs and expiry, \<open>Completion_Paths\<close> shows that ring and batch have the same
  effect, \<open>Identity\<close> that the key text of a canonical object identifies it. \<open>Samples\<close> evaluates a small daemon.

  \<^bold>\<open>Agent.\<close> \<open>Actions\<close>, \<open>Action_Runs\<close> and \<open>Action_Play\<close> are the language in which \<open>Agent\<close> models \<^verbatim>\<open>agent/agent.cpp\<close> and
  \<^verbatim>\<open>rpc_client.cpp\<close>: an action returns, throws, or performs one call and goes on with the answer, and \<open>exec\<close> gives
  all its runs, with other threads of the agent acting on its state in between. \<open>Agent_Runs\<close>, \<open>Restore_Runs\<close>,
  \<open>Agent_Protocol\<close> and \<open>Completion_Reports\<close> show for every run that a device copy is given up only after it was copied
  and reported, that a restore copies only from slots read as ready, that holds are released, and that finished
  copies are reported once. Two theorems there state what the code does not guard against: a rejected
  completion, and a destination that is too small.

  \<^bold>\<open>Agent, daemon and device together.\<close> \<open>Device_World\<close> composes the three: CUDA performs the copies of a stream in
  order at some later time, and the daemon answers the agent's calls. \<open>Lease_Steps\<close> follows one tensor through the
  daemon's handlers, and \<open>Round_Trip\<close> shows that an eviction followed by a restore returns the tensor's bytes.

  \<^bold>\<open>Bounds.\<close> An allocation tries 65 times and forces a drain in between, as the loops of the source do; with the
  windows of each forced drain this gives the 132 windows of the liveness theorem. A sweep takes 256 entries
  from a ring, as the source does. Loops of the source that may not end (the rounding of the ring capacity, the
  agent's polling for a readback) return \<open>None\<close> or take fuel. Polling ends by the
  clock in the source; its fuel counts the polls, and the properties of the agent hold for every number of them,
  the round trip from one poll on.

  \<^bold>\<open>Not modelled.\<close> The Python bindings, \<^verbatim>\<open>offload_stat\<close>, \<^verbatim>\<open>main.cpp\<close>, the libfabric transport and the NUMA calls, which are
  glue or calls into other libraries; the trace file and log output; failures of \<^verbatim>\<open>mmap\<close> and \<^verbatim>\<open>memfd_create\<close> at
  start-up; the accept loop and the creation of threads. Outcomes of system calls and of CUDA are open
  and range over all possibilities.
\<close>

end
